(* ===== verification/Prelude.thy ===== *)
theory Prelude
  imports Main "HOL-Library.Word"
begin

text \<open>
  Shared vocabulary of the development: the Rust scalar types that occur in the sources, the
  conversions between them, the result of a fallible Rust computation, the part of the
  standard library's string handling the code relies on, and the generic list lemmas that the
  table proofs use.

  Rust strings are byte sequences; \<open>string\<close> (a \<open>char list\<close>, one \<open>char\<close> per byte) is used for
  them, and \<open>as_bytes\<close> is \<open>str::as_bytes\<close>.  \<open>u64\<close> is a 64-bit word.  \<open>i64\<close> occurs only as the
  type of SQLite integer columns, of two request fields, and of \<open>as i64\<close> casts; it is \<open>int\<close>,
  and \<open>as_i64\<close> is the two's complement reinterpretation of a \<open>u64\<close>.
\<close>

named_theorems exec \<open>equations for running one operation to completion\<close>
named_theorems frame \<open>operations that leave a component of the state unchanged\<close>

section \<open>Scalar types\<close>

type_synonym u8 = "8 word"
type_synonym u64 = "64 word"
type_synonym i64 = int
type_synonym bytes = "u8 list"

definition as_i64 :: "u64 \<Rightarrow> i64" where
  "as_i64 x = sint x"

definition in_i64 :: "i64 \<Rightarrow> bool" where
  "in_i64 i \<longleftrightarrow> - (2 ^ 63) \<le> i \<and> i < 2 ^ 63"

section \<open>Outcomes of a computation\<close>

text \<open>
  A Rust function of type \<open>Result<T, E>\<close> returns \<open>Ok\<close> or \<open>Err\<close>; in addition it may panic, which
  ends the task that runs it.
\<close>

datatype ('e, 'a) outcome = Ok 'a | Err 'e | Panic string

definition is_panic :: "('e, 'a) outcome \<Rightarrow> bool" where
  "is_panic r \<longleftrightarrow> (\<exists>m. r = Panic m)"

text \<open>
  Addition of two \<open>u64\<close>: with overflow checks (the debug profile) an overflow panics, without
  them (the release profile) it wraps.
\<close>

definition add_u64 :: "bool \<Rightarrow> u64 \<Rightarrow> u64 \<Rightarrow> ('e, u64) outcome" where
  "add_u64 checks a b =
     (if checks \<and> 2 ^ 64 \<le> unat a + unat b
      then Panic ''attempt to add with overflow'' else Ok (a + b))"

definition add_fits :: "bool \<Rightarrow> u64 \<Rightarrow> u64 \<Rightarrow> bool" where
  "add_fits checks a b \<longleftrightarrow> \<not> (checks \<and> 2 ^ 64 \<le> unat a + unat b)"

text \<open>\<open>Result::unwrap()\<close>, and \<open>expect(msg)\<close> on a result of which only the value matters\<close>

definition unwrap :: "'f + 'a \<Rightarrow> ('e, 'a) outcome" where
  "unwrap r = (case r of Inl _ \<Rightarrow> Panic ''called Result::unwrap() on an Err value'' | Inr x \<Rightarrow> Ok x)"

definition expect :: "string \<Rightarrow> 'a option \<Rightarrow> ('e, 'a) outcome" where
  "expect msg v = (case v of None \<Rightarrow> Panic msg | Some x \<Rightarrow> Ok x)"

text \<open>The question mark operator on an \<open>anyhow::Result\<close>, a sum with the error text on the left.\<close>

definition bindS :: "'e + 'a \<Rightarrow> ('a \<Rightarrow> 'e + 'b) \<Rightarrow> 'e + 'b" where
  "bindS r f = (case r of Inl e \<Rightarrow> Inl e | Inr x \<Rightarrow> f x)"

section \<open>Strings and bytes\<close>

definition as_bytes :: "string \<Rightarrow> bytes" where
  "as_bytes s = map of_char s"

definition utf8_cont :: "u8 \<Rightarrow> bool" where
  "utf8_cont b \<longleftrightarrow> 0x80 \<le> b \<and> b \<le> 0xBF"

definition utf8_second3 :: "u8 \<Rightarrow> u8 \<Rightarrow> bool" where
  "utf8_second3 b0 b1 \<longleftrightarrow>
     (if b0 = 0xE0 then 0xA0 \<le> b1 \<and> b1 \<le> 0xBF
      else if b0 = 0xED then 0x80 \<le> b1 \<and> b1 \<le> 0x9F
      else utf8_cont b1)"

definition utf8_second4 :: "u8 \<Rightarrow> u8 \<Rightarrow> bool" where
  "utf8_second4 b0 b1 \<longleftrightarrow>
     (if b0 = 0xF0 then 0x90 \<le> b1 \<and> b1 \<le> 0xBF
      else if b0 = 0xF4 then 0x80 \<le> b1 \<and> b1 \<le> 0x8F
      else utf8_cont b1)"

text \<open>The well-formed UTF-8 sequences, as \<open>std::str::from_utf8\<close> accepts them.\<close>

fun utf8_valid :: "bytes \<Rightarrow> bool" where
  "utf8_valid [] = True"
| "utf8_valid (b0 # bs) =
     (if b0 < 0x80 then utf8_valid bs
      else if 0xC2 \<le> b0 \<and> b0 \<le> 0xDF then
        (case bs of b1 # r \<Rightarrow> utf8_cont b1 \<and> utf8_valid r | _ \<Rightarrow> False)
      else if 0xE0 \<le> b0 \<and> b0 \<le> 0xEF then
        (case bs of b1 # b2 # r \<Rightarrow> utf8_second3 b0 b1 \<and> utf8_cont b2 \<and> utf8_valid r
         | _ \<Rightarrow> False)
      else if 0xF0 \<le> b0 \<and> b0 \<le> 0xF4 then
        (case bs of b1 # b2 # b3 # r \<Rightarrow>
           utf8_second4 b0 b1 \<and> utf8_cont b2 \<and> utf8_cont b3 \<and> utf8_valid r
         | _ \<Rightarrow> False)
      else False)"

definition from_utf8 :: "bytes \<Rightarrow> string option" where
  "from_utf8 bs = (if utf8_valid bs then Some (map (\<lambda>b. char_of (uint b)) bs) else None)"

definition starts_with :: "string \<Rightarrow> string \<Rightarrow> bool" where
  "starts_with s p \<longleftrightarrow> take (length p) s = p"

definition strip_prefix :: "string \<Rightarrow> string \<Rightarrow> string option" where
  "strip_prefix s p = (if starts_with s p then Some (drop (length p) s) else None)"

text \<open>
  The slice \<open>&s[n..]\<close> panics beyond the end of the string.  (It also panics inside a multi-byte
  character; the only use is after a prefix of ASCII characters, which ends at a character
  boundary.)
\<close>

definition str_from :: "nat \<Rightarrow> string \<Rightarrow> ('e, string) outcome" where
  "str_from n s = (if n \<le> length s then Ok (drop n s) else Panic ''byte index out of bounds'')"

section \<open>Lemmas\<close>

lemma outcome_cases_Ok [simp]: "is_panic (Ok x) = False" "is_panic (Err e) = False"
  "is_panic (Panic m) = True"
  by (auto simp: is_panic_def)

lemma as_i64_range [simp]: "in_i64 (as_i64 x)"
  using sint_ge [of x] sint_lt [of x] by (simp add: as_i64_def in_i64_def)

lemma as_i64_small: "unat x < 2 ^ 63 \<Longrightarrow> as_i64 x = int (unat x)"
proof -
  assume a: "unat x < 2 ^ 63"
  have "int (unat x) < int (2 ^ 63)" using a by (simp only: of_nat_less_iff)
  then have "uint x < 2 ^ 63" by simp
  moreover have "- (2 ^ 63) \<le> uint x" by (rule order_trans [OF _ uint_ge_0]) simp
  ultimately have "signed_take_bit 63 (uint x) = uint x"
    by (intro signed_take_bit_int_eq_self)
  then show ?thesis by (simp add: as_i64_def sint_uint)
qed

lemma as_i64_large: "2 ^ 63 \<le> unat x \<Longrightarrow> as_i64 x = int (unat x) - 2 ^ 64"
proof -
  assume a: "2 ^ 63 \<le> unat x"
  have "int (2 ^ 63) \<le> int (unat x)" using a by (simp only: of_nat_le_iff)
  then have l: "2 ^ 63 \<le> uint x" by simp
  have u: "uint x < 2 ^ 64" using uint_lt2p [of x] by simp
  have "(uint x + 2 ^ 63) mod 2 ^ 64 = ((uint x - 2 ^ 63) + 2 ^ 64) mod 2 ^ 64"
    by (simp add: add.commute)
  also have "\<dots> = (uint x - 2 ^ 63) mod 2 ^ 64" by (rule mod_add_self2)
  also have "\<dots> = uint x - 2 ^ 63" using l u by (intro mod_pos_pos_trivial) simp_all
  finally have "signed_take_bit 63 (uint x) = uint x - 2 ^ 64"
    by (simp add: signed_take_bit_eq_take_bit_shift take_bit_eq_mod)
  then show ?thesis by (simp add: as_i64_def sint_uint)
qed

lemma as_i64_less_iff_small:
  "unat x < 2 ^ 63 \<Longrightarrow> unat y < 2 ^ 63 \<Longrightarrow> as_i64 x < as_i64 y \<longleftrightarrow> x < y"
  by (simp add: as_i64_small word_less_def)

lemma bindS_simps [simp]: "bindS (Inl e) f = Inl e" "bindS (Inr x) f = f x"
  by (simp_all add: bindS_def)

lemma bindS_Inr_iff: "bindS r f = Inr y \<longleftrightarrow> (\<exists>x. r = Inr x \<and> f x = Inr y)"
  by (cases r) auto

lemma bindS_InrE:
  assumes "bindS r f = Inr y"
  obtains x where "r = Inr x" and "f x = Inr y"
  using assms by (cases r) auto

lemma add_u64_fits [simp]: "add_fits c a b \<Longrightarrow> add_u64 c a b = Ok (a + b)"
  by (simp add: add_u64_def add_fits_def)

lemma add_fits_small: "unat a + unat b < 2 ^ 64 \<Longrightarrow> add_fits c a b"
  by (simp add: add_fits_def)

lemma add_u64_unchecked [simp]: "add_u64 False a b = Ok (a + b)"
  by (simp add: add_u64_def)

lemma unat_add_exact: "unat a + unat b < 2 ^ 64 \<Longrightarrow> unat (a + b :: u64) = unat a + unat b"
  by (simp add: unat_word_ariths)

lemma add_u64_not_Err [simp]: "add_u64 c a b \<noteq> Err e"
  by (simp add: add_u64_def)

lemma unat_add_less: "unat a < 2 ^ 62 \<Longrightarrow> unat b < 2 ^ 62 \<Longrightarrow> unat (a + b :: u64) = unat a + unat b"
  by (rule unat_add_exact) simp

lemma as_i64_less_add:
  assumes "unat a < unat b + unat c" and "unat a < 2 ^ 62" and "unat b < 2 ^ 62" and "unat c < 2 ^ 62"
  shows "as_i64 a < as_i64 (b + c)"
proof -
  have "as_i64 a = int (unat a)" using assms(2) by (intro as_i64_small) simp
  moreover have "as_i64 (b + c) = int (unat b + unat c)"
    using assms(3,4) unat_add_less [of b c] by (subst as_i64_small) simp_all
  ultimately show ?thesis using assms(1) by (simp only: of_nat_less_iff)
qed

lemma add_u64_OkD: "add_u64 c a b = Ok r \<Longrightarrow> r = a + b"
  by (simp add: add_u64_def split: if_splits)

lemma as_bytes_Nil [simp]: "as_bytes [] = []"
  and as_bytes_append [simp]: "as_bytes (s @ t) = as_bytes s @ as_bytes t"
  and length_as_bytes [simp]: "length (as_bytes s) = length s"
  by (simp_all add: as_bytes_def)

lemma unat_of_char [simp]: "unat (of_char c :: u8) = of_char c"
proof -
  have "of_char c < (256::nat)" by simp
  moreover have "(of_char c :: u8) = of_nat (of_char c)" by (simp add: of_nat_of_char)
  ultimately show ?thesis by (simp add: unat_of_nat)
qed

lemma char_of_uint_of_char [simp]: "char_of (uint (of_char c :: u8)) = c"
proof -
  have "uint (of_char c :: u8) = of_char c" by (simp only: uint_nat unat_of_char of_nat_of_char)
  then show ?thesis by simp
qed

lemma of_char_word_inj: "(of_char c :: u8) = of_char d \<Longrightarrow> c = d"
  by (metis char_of_uint_of_char)

lemma chars_of_as_bytes [simp]: "map (\<lambda>b. char_of (uint b)) (as_bytes s) = s"
  by (simp add: as_bytes_def o_def)

lemma as_bytes_inj [simp]: "as_bytes s = as_bytes t \<longleftrightarrow> s = t"
proof -
  have "inj (of_char :: char \<Rightarrow> u8)" by (rule injI) (rule of_char_word_inj)
  then show ?thesis by (simp add: as_bytes_def)
qed

lemma of_char_of_uint [simp]: "(of_char (char_of (uint b) :: char) :: u8) = b"
proof -
  have "(of_char (char_of (uint b) :: char) :: int) = uint b"
    using uint_lt2p [of b] by (simp add: take_bit_int_eq_self)
  moreover have "(of_char (char_of (uint b) :: char) :: u8)
      = of_int (of_char (char_of (uint b) :: char))"
    by (simp only: of_int_of_char)
  ultimately show ?thesis by (simp only: word_of_int_uint)
qed

lemma from_utf8_bytes: "from_utf8 bs = Some s \<Longrightarrow> as_bytes s = bs"
  by (auto simp: from_utf8_def as_bytes_def o_def split: if_splits)

lemma utf8_valid_ascii: "\<forall>b \<in> set bs. b < 0x80 \<Longrightarrow> utf8_valid bs"
  by (induction bs) simp_all

lemma from_utf8_ascii:
  assumes "list_all (\<lambda>c. of_char c < (128 :: nat)) s"
  shows "from_utf8 (as_bytes s) = Some s"
proof -
  have "\<forall>b \<in> set (as_bytes s). b < 0x80"
    using assms by (auto simp: as_bytes_def list_all_iff word_less_nat_alt)
  then show ?thesis by (simp add: from_utf8_def utf8_valid_ascii)
qed

lemma strip_prefix_Some: "strip_prefix s p = Some r \<longleftrightarrow> s = p @ r"
proof
  assume "strip_prefix s p = Some r"
  then have "take (length p) s = p" and "r = drop (length p) s"
    by (auto simp: strip_prefix_def starts_with_def split: if_splits)
  then show "s = p @ r" by (metis append_take_drop_id)
qed (simp add: strip_prefix_def starts_with_def)

lemma unwrap_simps [simp]: "unwrap (Inl e) = Panic ''called Result::unwrap() on an Err value''"
  "unwrap (Inr x) = Ok x" "unwrap r = Ok y \<longleftrightarrow> r = Inr y" "unwrap r \<noteq> Err f"
  by (simp_all add: unwrap_def split: sum.splits)

lemma expect_simps [simp]: "expect m None = Panic m" "expect m (Some x) = Ok x"
  "expect m v = Ok y \<longleftrightarrow> v = Some y" "expect m v \<noteq> Err f"
  by (simp_all add: expect_def split: option.splits)

lemma starts_with_length: "starts_with s p \<Longrightarrow> length p \<le> length s"
  unfolding starts_with_def by (metis length_take min.cobounded1)

lemma str_from_prefix [simp]: "starts_with s ''Bearer '' \<Longrightarrow> str_from 7 s = Ok (drop 7 s)"
  using starts_with_length [of s "''Bearer ''"] by (simp add: str_from_def)

lemma starts_with_append [simp]: "starts_with (p @ r) p"
  by (simp add: starts_with_def)

end
