(* ===== verification/Async.thy ===== *)
theory Async
  imports Prelude
begin

text \<open>
  The execution model of an asynchronous Rust handler.  A handler is a \<open>prog\<close>: either it has
  finished with an outcome, or it performs one atomic action on the shared state (one SQL
  statement, one operation on a concurrent map, one clock read, one random draw, one call into
  the broker) and continues.  The same definition of a handler then has two readings:

  \<^item> \<open>run\<close> executes it alone, from a state to its outcome and the state it leaves;
  \<^item> \<open>sys_step\<close> interleaves the atomic actions of any number of handlers, as the runtime does.

  \<open>bindP\<close> is sequencing with Rust's question mark operator: an \<open>Err\<close> or a panic of the first
  part ends the whole.  \<open>rg\<close> is a small rely/guarantee logic: every atomic action of the
  handler stays within the guarantee \<open>G\<close>, provided the actions of all other handlers do, and
  assertions between two actions are stable under \<open>G\<close>.  The locale \<open>rg_system\<close> lifts it to
  invariants of every reachable state.
\<close>

section \<open>Programs\<close>

datatype (dead 's, 'e, 'a) prog =
    Done "('e, 'a) outcome"
  | Atomic "'s \<Rightarrow> ('s, 'e, 'a) prog \<times> 's"

primrec run :: "('s, 'e, 'a) prog \<Rightarrow> 's \<Rightarrow> ('e, 'a) outcome \<times> 's" where
  "run (Done r) = (\<lambda>w. (r, w))"
| "run (Atomic g) = (\<lambda>w. case map_prod run id (g w) of (k, w') \<Rightarrow> k w')"

primrec bindP :: "('s, 'e, 'a) prog \<Rightarrow> ('a \<Rightarrow> ('s, 'e, 'b) prog) \<Rightarrow> ('s, 'e, 'b) prog" where
  "bindP (Done r) = (\<lambda>f. case r of Ok x \<Rightarrow> f x | Err e \<Rightarrow> Done (Err e) | Panic m \<Rightarrow> Done (Panic m))"
| "bindP (Atomic g) = (\<lambda>f. Atomic (\<lambda>w. case map_prod bindP id (g w) of (k, w') \<Rightarrow> (k f, w')))"

text \<open>\<open>attempt m\<close> makes the error a value: \<open>match m { Ok(x) => ..., Err(e) => ... }\<close>.\<close>

primrec attempt :: "('s, 'e, 'a) prog \<Rightarrow> ('s, 'f, 'e + 'a) prog" where
  "attempt (Done r) =
     Done (case r of Ok x \<Rightarrow> Ok (Inr x) | Err e \<Rightarrow> Ok (Inl e) | Panic m \<Rightarrow> Panic m)"
| "attempt (Atomic g) = Atomic (\<lambda>w. map_prod attempt id (g w))"

definition okP :: "'a \<Rightarrow> ('s, 'e, 'a) prog" where
  "okP x = Done (Ok x)"

definition errP :: "'e \<Rightarrow> ('s, 'e, 'a) prog" where
  "errP e = Done (Err e)"

definition panicP :: "string \<Rightarrow> ('s, 'e, 'a) prog" where
  "panicP m = Done (Panic m)"

text \<open>One atomic action that yields an outcome.\<close>

definition act :: "('s \<Rightarrow> ('e, 'a) outcome \<times> 's) \<Rightarrow> ('s, 'e, 'a) prog" where
  "act f = Atomic (\<lambda>w. case f w of (r, w') \<Rightarrow> (Done r, w'))"

text \<open>\<open>opt.ok_or(e)?\<close>\<close>

definition ok_or :: "'e \<Rightarrow> 'a option \<Rightarrow> ('s, 'e, 'a) prog" where
  "ok_or e v = (case v of None \<Rightarrow> errP e | Some x \<Rightarrow> okP x)"

text \<open>\<open>for x in xs { f(x) }\<close>\<close>

primrec foreach :: "'x list \<Rightarrow> ('x \<Rightarrow> ('s, 'e, unit) prog) \<Rightarrow> ('s, 'e, unit) prog" where
  "foreach [] f = okP ()"
| "foreach (x # xs) f = bindP (f x) (\<lambda>_. foreach xs f)"

section \<open>Interleaving\<close>

text \<open>
  A configuration is the list of tasks the runtime holds and the shared state.  A step starts a
  task for one of the events of \<open>ev\<close>, or lets one task perform its next atomic action.
\<close>

type_synonym ('s, 'e, 'a) config = "('s, 'e, 'a) prog list \<times> 's"

inductive sys_step ::
  "('s, 'e, 'a) prog set \<Rightarrow> ('s, 'e, 'a) config \<Rightarrow> ('s, 'e, 'a) config \<Rightarrow> bool"
  for tasks :: "('s, 'e, 'a) prog set" where
  Spawn: "p \<in> tasks \<Longrightarrow> sys_step tasks (ts, w) (ts @ [p], w)"
| Exec: "i < length ts \<Longrightarrow> ts ! i = Atomic g \<Longrightarrow> g w = (p, w')
     \<Longrightarrow> sys_step tasks (ts, w) (ts[i := p], w')"

inductive reaches ::
  "('s, 'e, 'a) prog set \<Rightarrow> ('s, 'e, 'a) config \<Rightarrow> ('s, 'e, 'a) config \<Rightarrow> bool"
  for tasks :: "('s, 'e, 'a) prog set" where
  Refl: "reaches tasks c c"
| Step: "reaches tasks c d \<Longrightarrow> sys_step tasks d e \<Longrightarrow> reaches tasks c e"

section \<open>Rely/guarantee assertions\<close>

definition stable :: "('s \<Rightarrow> 's \<Rightarrow> bool) \<Rightarrow> ('s \<Rightarrow> bool) \<Rightarrow> bool" where
  "stable G P \<longleftrightarrow> (\<forall>w w'. P w \<longrightarrow> G w w' \<longrightarrow> P w')"

inductive rg :: "('s \<Rightarrow> 's \<Rightarrow> bool) \<Rightarrow> ('s \<Rightarrow> bool) \<Rightarrow> ('s, 'e, 'a) prog
    \<Rightarrow> (('e, 'a) outcome \<Rightarrow> 's \<Rightarrow> bool) \<Rightarrow> bool"
  for G :: "'s \<Rightarrow> 's \<Rightarrow> bool" where
  rg_Done: "\<forall>w. P w \<longrightarrow> Q r w \<Longrightarrow> rg G P (Done r) Q"
| rg_Atomic: "\<forall>w. P w \<longrightarrow> G w (snd (g w)) \<and>
     (\<exists>P'. stable G P' \<and> P' (snd (g w)) \<and> rg G P' (fst (g w)) Q)
   \<Longrightarrow> rg G P (Atomic g) Q"

inductive_cases rg_DoneE: "rg G P (Done r) Q"
inductive_cases rg_AtomicE: "rg G P (Atomic g) Q"

section \<open>Running alone\<close>

lemma run_Done [simp]: "run (Done r) w = (r, w)"
  by simp

lemma run_Atomic: "run (Atomic g) w = run (fst (g w)) (snd (g w))"
  by (simp add: case_prod_beta)

lemma run_okP [simp, exec]: "run (okP x) w = (Ok x, w)"
  and run_errP [simp, exec]: "run (errP e) w = (Err e, w)"
  and run_panicP [simp, exec]: "run (panicP m) w = (Panic m, w)"
  by (simp_all add: okP_def errP_def panicP_def)

lemma run_act [simp, exec]: "run (act f) w = f w"
  by (simp add: act_def case_prod_beta)

lemma prog_induct [case_names Done Atomic]:
  assumes "\<And>r. P (Done r)" and "\<And>g. (\<And>w. P (fst (g w))) \<Longrightarrow> P (Atomic g)"
  shows "P p"
proof (induction p)
  case (Atomic g)
  then show ?case by (intro assms(2)) (metis fsts.intros rangeI)
qed (rule assms(1))

lemma run_bindP [simp, exec]:
  "run (bindP m f) w = (case run m w of
     (Ok x, w') \<Rightarrow> run (f x) w' | (Err e, w') \<Rightarrow> (Err e, w') | (Panic s, w') \<Rightarrow> (Panic s, w'))"
  by (induction m arbitrary: w rule: prog_induct)
    (auto simp: case_prod_beta split: outcome.splits)

lemma run_attempt [simp, exec]:
  "run (attempt m) w = (case run m w of
     (Ok x, w') \<Rightarrow> (Ok (Inr x), w') | (Err e, w') \<Rightarrow> (Ok (Inl e), w')
   | (Panic s, w') \<Rightarrow> (Panic s, w'))"
  by (induction m arbitrary: w rule: prog_induct)
    (auto simp: case_prod_beta split: outcome.splits)

lemma run_ok_or [simp, exec]:
  "run (ok_or e v) w = (case v of None \<Rightarrow> (Err e, w) | Some x \<Rightarrow> (Ok x, w))"
  by (simp add: ok_or_def split: option.splits)

lemma bindP_okP [simp]: "bindP (okP x) f = f x"
  and bindP_errP [simp]: "bindP (errP e) f = errP e"
  and bindP_panicP [simp]: "bindP (panicP s) f = panicP s"
  by (simp_all add: okP_def errP_def panicP_def)

lemma bindP_assoc: "bindP (bindP m f) h = bindP m (\<lambda>x. bindP (f x) h)"
  by (induction m rule: prog_induct)
    (auto simp: case_prod_beta fun_eq_iff split: outcome.splits)

section \<open>Frames\<close>

text \<open>\<open>leaves f p\<close>: however the program ends, run alone it does not change the component \<open>f\<close>.\<close>

definition leaves :: "('s \<Rightarrow> 'x) \<Rightarrow> ('s, 'e, 'a) prog \<Rightarrow> bool" where
  "leaves f p \<longleftrightarrow> (\<forall>w. f (snd (run p w)) = f w)"

lemma leavesD: "leaves f p \<Longrightarrow> run p w = (r, w') \<Longrightarrow> f w' = f w"
  unfolding leaves_def by (metis snd_conv)

lemma leaves_Done [intro!, simp]: "leaves f (Done r)"
  and leaves_okP [intro!, simp]: "leaves f (okP x)"
  and leaves_errP [intro!, simp]: "leaves f (errP e)"
  and leaves_panicP [intro!, simp]: "leaves f (panicP m)"
  and leaves_ok_or [intro!, simp]: "leaves f (ok_or e v)"
  by (simp_all add: leaves_def split: option.splits)

lemma leaves_act: "(\<And>w r w'. g w = (r, w') \<Longrightarrow> f w' = f w) \<Longrightarrow> leaves f (act g)"
  unfolding leaves_def by (metis run_act surjective_pairing)

lemma leaves_bindP [intro]: "leaves f m \<Longrightarrow> (\<And>x. leaves f (k x)) \<Longrightarrow> leaves f (bindP m k)"
  by (auto simp: leaves_def split: prod.splits outcome.splits) (metis snd_conv)+

lemma run_bindP_leaves:
  assumes "run m w = (p, w1)" and "run (bindP m k) w = (r, w')"
  shows "(\<And>x. leaves f (k x)) \<Longrightarrow> f w' = f w1" and "p = Err e \<Longrightarrow> r = Err e \<and> w' = w1"
  using assms by (cases p; auto dest: leavesD)+

lemma leaves_attempt [intro]: "leaves f m \<Longrightarrow> leaves f (attempt m)"
  by (auto simp: leaves_def split: prod.splits outcome.splits) (metis snd_conv)+

lemma leaves_foreach [intro]: "(\<And>x. leaves f (k x)) \<Longrightarrow> leaves f (foreach xs k)"
  by (induction xs) auto

lemma leaves_outcome [intro]:
  "(\<And>x. r = Ok x \<Longrightarrow> leaves f (k x)) \<Longrightarrow>
   leaves f (case r of Ok x \<Rightarrow> k x | Err e \<Rightarrow> Done (Err e) | Panic m \<Rightarrow> Done (Panic m))"
  by (cases r) auto

section \<open>The rely/guarantee rules\<close>

lemma rg_weaken:
  assumes "rg G P p Q" and "\<And>w. P' w \<Longrightarrow> P w" and "\<And>r w. Q r w \<Longrightarrow> Q' r w"
  shows "rg G P' p Q'"
  using assms
proof (induction arbitrary: P' rule: rg.induct)
  case (rg_Done P Q r)
  then show ?case by (blast intro: rg.rg_Done)
next
  case (rg_Atomic P g Q)
  show ?case
  proof (rule rg.rg_Atomic, intro allI impI)
    fix w assume "P' w"
    with rg_Atomic show "G w (snd (g w)) \<and>
      (\<exists>P'. stable G P' \<and> P' (snd (g w)) \<and> rg G P' (fst (g w)) Q')"
      by blast
  qed
qed

lemma rg_pre: "rg G P p Q \<Longrightarrow> (\<And>w. P' w \<Longrightarrow> P w) \<Longrightarrow> rg G P' p Q"
  by (rule rg_weaken)

lemma rg_post: "rg G P p Q \<Longrightarrow> (\<And>r w. Q r w \<Longrightarrow> Q' r w) \<Longrightarrow> rg G P p Q'"
  by (rule rg_weaken)

lemma rg_bindP:
  assumes "rg G P m (\<lambda>r w. case r of Ok x \<Rightarrow> M x w | Err e \<Rightarrow> Q (Err e) w | Panic s \<Rightarrow> Q (Panic s) w)"
    (is "rg G P m ?Q") and "\<And>x. rg G (M x) (f x) Q"
  shows "rg G P (bindP m f) Q"
  using assms(1)
proof (induction P m ?Q rule: rg.induct)
  case (rg_Done P r)
  then show ?case
    by (cases r) (auto intro: rg_pre [OF assms(2)] rg.rg_Done)
next
  case (rg_Atomic P g)
  show ?case
    by (simp add: case_prod_beta, rule rg.rg_Atomic) (use rg_Atomic in auto)
qed

lemma rg_attempt:
  assumes "rg G P m (\<lambda>r w. case r of Ok x \<Rightarrow> Q (Ok (Inr x)) w | Err e \<Rightarrow> Q (Ok (Inl e)) w
      | Panic s \<Rightarrow> Q (Panic s) w)" (is "rg G P m ?Q")
  shows "rg G P (attempt m) Q"
  using assms
proof (induction P m ?Q rule: rg.induct)
  case (rg_Done P r)
  then show ?case by (cases r) (auto intro: rg.rg_Done)
next
  case (rg_Atomic P g)
  show ?case
    by (simp, rule rg.rg_Atomic) (use rg_Atomic in auto)
qed

lemma rg_okP [intro]: "(\<And>w. P w \<Longrightarrow> Q (Ok x) w) \<Longrightarrow> rg G P (okP x) Q"
  and rg_errP [intro]: "(\<And>w. P w \<Longrightarrow> Q (Err e) w) \<Longrightarrow> rg G P (errP e) Q"
  and rg_panicP [intro]: "(\<And>w. P w \<Longrightarrow> Q (Panic s) w) \<Longrightarrow> rg G P (panicP s) Q"
  by (auto simp: okP_def errP_def panicP_def intro: rg.rg_Done)

lemma rg_act:
  assumes "\<And>w r w'. P w \<Longrightarrow> f w = (r, w') \<Longrightarrow> G w w' \<and> Q r w'" and "\<And>r. stable G (Q r)"
  shows "rg G P (act f) Q"
  unfolding act_def
proof (rule rg.rg_Atomic, intro allI impI)
  fix w assume "P w"
  with assms show "G w (snd (case f w of (r, w') \<Rightarrow> (Done r, w'))) \<and>
      (\<exists>P'. stable G P' \<and> P' (snd (case f w of (r, w') \<Rightarrow> (Done r, w'))) \<and>
            rg G P' (fst (case f w of (r, w') \<Rightarrow> (Done r, w'))) Q)"
    by (cases "f w") (auto intro!: exI [of _ "Q (fst (f w))"] rg.rg_Done)
qed

lemma rg_ok_or:
  assumes "\<And>w x. v = Some x \<Longrightarrow> P w \<Longrightarrow> Q (Ok x) w" and "\<And>w. v = None \<Longrightarrow> P w \<Longrightarrow> Q (Err e) w"
  shows "rg G P (ok_or e v) Q"
  using assms by (cases v) (auto simp: ok_or_def)

lemma rg_foreach:
  assumes "\<And>x. rg G P (f x) (\<lambda>_. P)"
  shows "rg G P (foreach xs f) (\<lambda>_. P)"
proof (induction xs)
  case (Cons x xs)
  show ?case
    by (simp, rule rg_bindP [where M = "\<lambda>_. P"])
      (rule rg_post [OF assms], auto intro: Cons split: outcome.splits)
qed auto

section \<open>Programs that do not panic\<close>

text \<open>\<open>calm p\<close>: no interleaving makes the program end in a panic.\<close>

inductive calm :: "('s, 'e, 'a) prog \<Rightarrow> bool" where
  calm_Done: "\<not> is_panic r \<Longrightarrow> calm (Done r)"
| calm_Atomic: "\<forall>w. calm (fst (g w)) \<Longrightarrow> calm (Atomic g)"

inductive_simps calm_Done_iff [simp]: "calm (Done r)"
inductive_simps calm_Atomic_iff: "calm (Atomic g)"

lemma calm_okP [intro!, simp]: "calm (okP x)"
  and calm_errP [intro!, simp]: "calm (errP e)"
  and calm_ok_or [intro!, simp]: "calm (ok_or e v)"
  by (auto simp: okP_def errP_def ok_or_def intro: calm_Done split: option.splits)

lemma calm_act: "(\<And>w. \<not> is_panic (fst (f w))) \<Longrightarrow> calm (act f)"
  unfolding act_def by (rule calm_Atomic) (auto simp: case_prod_beta)

lemma calm_bindP [intro]:
  assumes "calm m" and "\<And>x. calm (f x)"
  shows "calm (bindP m f)"
  using assms(1)
proof (induction rule: calm.induct)
  case (calm_Done r)
  then show ?case by (cases r) (auto simp: assms(2))
next
  case (calm_Atomic g)
  then show ?case by (auto simp: calm_Atomic_iff case_prod_beta)
qed

lemma calm_attempt [intro]: "calm m \<Longrightarrow> calm (attempt m)"
proof (induction rule: calm.induct)
  case (calm_Done r)
  then show ?case by (cases r) auto
next
  case (calm_Atomic g)
  then show ?case by (auto simp: calm_Atomic_iff)
qed

lemma calm_foreach [intro]: "(\<And>x. calm (f x)) \<Longrightarrow> calm (foreach xs f)"
  by (induction xs) auto

lemma calm_reaches:
  assumes "reaches (tasks :: ('s, 'e, 'a) prog set) ([], w) c" and "\<And>p. p \<in> tasks \<Longrightarrow> calm p"
  shows "\<forall>p \<in> set (fst c). calm p"
  using assms(1)
proof (induction "([] :: ('s, 'e, 'a) prog list, w)" c rule: reaches.induct)
  case (Step d e)
  from Step(3) show ?case
  proof cases
    case (Spawn p ts w)
    with Step assms(2) show ?thesis by auto
  next
    case (Exec i ts g w p w')
    then have "calm (Atomic g)" using Step by (metis fst_conv nth_mem)
    with Exec have "calm p" by (metis calm_Atomic_iff fst_conv)
    with Exec Step show ?thesis using set_update_subset_insert [of ts i p] by auto
  qed
qed simp

lemma calm_run: "calm p \<Longrightarrow> \<not> is_panic (fst (run p w))"
  by (induction arbitrary: w rule: calm.induct) (auto simp: run_Atomic simp del: run.simps(2))

section \<open>Components no action touches\<close>

text \<open>
  \<open>steady f p\<close>: no atomic action of the program changes the component \<open>f\<close>.  Unlike \<open>leaves\<close>, it
  holds at every moment of an interleaving.
\<close>

inductive steady :: "('s \<Rightarrow> 'x) \<Rightarrow> ('s, 'e, 'a) prog \<Rightarrow> bool" for f :: "'s \<Rightarrow> 'x" where
  steady_Done: "steady f (Done r)"
| steady_Atomic: "\<forall>w. f (snd (g w)) = f w \<and> steady f (fst (g w)) \<Longrightarrow> steady f (Atomic g)"

inductive_simps steady_Atomic_iff: "steady f (Atomic g)"

lemma steady_final [intro!, simp]:
  "steady f (Done r)" "steady f (okP x)" "steady f (errP e)" "steady f (panicP m)" "steady f (ok_or e v)"
  by (auto simp: okP_def errP_def panicP_def ok_or_def intro: steady_Done split: option.splits)

lemma steady_act: "(\<And>w r w'. g w = (r, w') \<Longrightarrow> f w' = f w) \<Longrightarrow> steady f (act g)"
  unfolding act_def by (rule steady_Atomic) (metis (no_types, lifting) case_prod_beta fst_conv prod.collapse snd_conv steady_Done)

lemma steady_bindP [intro]:
  assumes "steady f m" and "\<And>x. steady f (k x)"
  shows "steady f (bindP m k)"
  using assms(1)
proof (induction rule: steady.induct)
  case (steady_Done r)
  then show ?case by (cases r) (auto simp: assms(2))
next
  case (steady_Atomic g)
  then show ?case by (auto simp: steady_Atomic_iff case_prod_beta)
qed

lemma steady_attempt [intro]: "steady f m \<Longrightarrow> steady f (attempt m)"
  by (induction rule: steady.induct) (auto simp: steady_Atomic_iff)

lemma steady_foreach [intro]: "(\<And>x. steady f (k x)) \<Longrightarrow> steady f (foreach xs k)"
  by (induction xs) auto

lemma steady_outcome [intro]:
  "(\<And>x. r = Ok x \<Longrightarrow> steady f (k x)) \<Longrightarrow>
   steady f (case r of Ok x \<Rightarrow> k x | Err e \<Rightarrow> Done (Err e) | Panic m \<Rightarrow> Done (Panic m))"
  by (cases r) auto

lemma steady_prod [intro]: "(\<And>a b. steady f (k a b)) \<Longrightarrow> steady f (case p of (a, b) \<Rightarrow> k a b)"
  by (cases p) simp

lemma steady_reaches:
  assumes "reaches tasks c d" and "\<And>p. p \<in> tasks \<Longrightarrow> steady f p" and "\<forall>p \<in> set (fst c). steady f p"
  shows "f (snd d) = f (snd c) \<and> (\<forall>p \<in> set (fst d). steady f p)"
  using assms(1,3)
proof (induction rule: reaches.induct)
  case (Step c d e)
  from Step(2) show ?case
  proof cases
    case (Spawn p ts w)
    with Step assms(2) show ?thesis by auto
  next
    case (Exec i ts g w p w')
    then have "steady f (Atomic g)" using Step by (metis fst_conv nth_mem)
    with Exec have "f w' = f w" "steady f p" by (metis steady_Atomic_iff fst_conv snd_conv)+
    with Exec Step show ?thesis using set_update_subset_insert [of ts i p] by auto
  qed
qed simp

section \<open>Bringing one task forward\<close>

text \<open>The runtime may run a task up to any point without switching.\<close>

lemma reaches_trans: "reaches tasks c d \<Longrightarrow> reaches tasks d e \<Longrightarrow> reaches tasks c e"
  by (rotate_tac, induction rule: reaches.induct) (auto intro: reaches.intros)

lemma reaches_prefix:
  assumes "run m w = (Ok x, w')" and "i < length ts"
  shows "reaches tasks (ts[i := bindP m f], w) (ts[i := f x], w')"
  using assms
proof (induction m arbitrary: w ts rule: prog_induct)
  case (Done r)
  then show ?case by (simp add: reaches.Refl)
next
  case (Atomic g)
  let ?ts = "ts[i := bindP (Atomic g) f]" and ?p = "bindP (fst (g w)) f"
  have "sys_step tasks (?ts, w) (?ts[i := ?p], snd (g w))"
    by (rule sys_step.Exec) (use Atomic in \<open>auto simp: case_prod_beta\<close>)
  then have "reaches tasks (?ts, w) (ts[i := ?p], snd (g w))"
    by (auto intro: reaches.intros)
  moreover have "reaches tasks (ts[i := ?p], snd (g w)) (ts[i := f x], w')"
    by (rule Atomic.IH) (use Atomic.prems in \<open>auto simp: run_Atomic simp del: run.simps(2)\<close>)
  ultimately show ?case by (rule reaches_trans)
qed

lemma reaches_finish:
  assumes "run m w = (Ok x, w')" and "i < length ts"
  shows "reaches tasks (ts[i := m], w) (ts[i := okP x], w')"
proof -
  have "bindP m okP = m"
    by (induction m rule: prog_induct)
      (auto simp: okP_def case_prod_beta fun_eq_iff split: outcome.splits)
  with reaches_prefix [OF assms, of tasks okP] show ?thesis by simp
qed

lemma reaches_spawn:
  assumes "reaches T c (ts, w)" and "p \<in> T"
  shows "reaches T c (ts @ [p], w)"
  by (rule reaches.Step [OF assms(1) sys_step.Spawn [OF assms(2)]])

text \<open>A whole task run at once, as the last of those present.\<close>

lemma reaches_task:
  assumes "p \<in> T" and "run p w = (Ok x, w')"
  shows "reaches T (ts, w) (ts @ [Done (Ok x)], w')"
proof -
  have "reaches T (ts @ [p], w) (ts @ [okP x], w')"
    using reaches_finish [OF assms(2), of "length ts" "ts @ [p]" T] by simp
  then show ?thesis
    using reaches_trans [OF reaches_spawn [OF reaches.Refl assms(1)]] by (simp add: okP_def)
qed

section \<open>Invariants of the interleaved system\<close>

text \<open>
  The contract between the runtime and the tasks: every task respects the guarantee from the
  invariant on.  Then the invariant holds in every reachable configuration, whatever the
  interleaving, and every step of the system is within the guarantee.
\<close>

locale rg_system =
  fixes tasks :: "('s, 'e, 'a) prog set"
    and I :: "'s \<Rightarrow> bool"
    and G :: "'s \<Rightarrow> 's \<Rightarrow> bool"
    and Q :: "('e, 'a) outcome \<Rightarrow> 's \<Rightarrow> bool"
  assumes I_stable: "stable G I"
    and G_refl: "G w w"
    and task_rg: "p \<in> tasks \<Longrightarrow> rg G I p Q"
begin

definition task_ok :: "'s \<Rightarrow> ('s, 'e, 'a) prog \<Rightarrow> bool" where
  "task_ok w p \<longleftrightarrow> (\<exists>P. stable G P \<and> P w \<and> rg G P p Q)"

lemma task_ok_stable: "task_ok w p \<Longrightarrow> G w w' \<Longrightarrow> task_ok w' p"
  unfolding task_ok_def stable_def by blast

lemma task_ok_step:
  assumes "task_ok w (Atomic g)" and "g w = (p, w')"
  shows "G w w' \<and> task_ok w' p"
  using assms unfolding task_ok_def by (auto elim!: rg_AtomicE) (metis fst_conv snd_conv)+

lemma step_ok:
  assumes "sys_step tasks (ts, w) (ts', w')" and "I w" and "\<forall>p \<in> set ts. task_ok w p"
  shows "G w w' \<and> I w' \<and> (\<forall>p \<in> set ts'. task_ok w' p)"
  using assms(1)
proof (cases rule: sys_step.cases)
  case (Spawn p)
  with assms task_rg I_stable G_refl show ?thesis unfolding task_ok_def by auto
next
  case (Exec i g p)
  then have "task_ok w (Atomic g)" using assms(3) by (metis nth_mem)
  with Exec have G: "G w w'" and p: "task_ok w' p" using task_ok_step by blast+
  from G assms(2) I_stable have "I w'" unfolding stable_def by blast
  moreover have "\<forall>q \<in> set ts'. task_ok w' q"
    using Exec p assms(3) G task_ok_stable set_update_subset_insert [of ts i p] by blast
  ultimately show ?thesis using G by blast
qed

lemma reaches_ok:
  assumes "reaches tasks ([], w) c" and "I w"
  shows "I (snd c) \<and> (\<forall>p \<in> set (fst c). task_ok (snd c) p)"
  using assms
proof (induction "([] :: ('s, 'e, 'a) prog list, w)" c rule: reaches.induct)
  case (Step d e)
  then show ?case using step_ok [of "fst d" "snd d" "fst e" "snd e"] by simp
qed simp

lemma invariant_reachable: "reaches tasks ([], w) (ts, w') \<Longrightarrow> I w \<Longrightarrow> I w'"
  using reaches_ok by fastforce

lemma guarantee_step:
  assumes "reaches tasks ([], w) (ts, w')" and "I w" and "sys_step tasks (ts, w') (ts'', w'')"
  shows "G w' w''"
  using assms reaches_ok step_ok by fastforce

lemma finished_result:
  assumes "reaches tasks ([], w) (ts, w')" and "I w" and "Done r \<in> set ts"
  shows "Q r w'"
proof -
  from assms reaches_ok have "task_ok w' (Done r)" by fastforce
  then show ?thesis unfolding task_ok_def by (auto elim: rg_DoneE)
qed

end

end
