(* ===== verification/Errors.thy ===== *)
theory Errors
  imports Async
begin

text \<open>
  \<open>src/error.rs\<close>: the error type of the application and its translation to an HTTP response.
  \<open>display\<close> is the \<open>Display\<close> implementation that \<open>thiserror\<close> derives from the \<open>#[error(...)]\<close>
  attributes; a wrapped \<open>sqlx::Error\<close> or \<open>anyhow::Error\<close> is represented by its text.
\<close>

datatype error =
    NotFound
  | Unauthorized
  | Forbidden
  | BadRequest string
  | Conflict string
  | Database string
  | Internal string

datatype status_code =
    OK | NO_CONTENT | NOT_FOUND | UNAUTHORIZED | FORBIDDEN | BAD_REQUEST | CONFLICT
  | INTERNAL_SERVER_ERROR

fun display :: "error \<Rightarrow> string" where
  "display NotFound = ''not found''"
| "display Unauthorized = ''unauthorized''"
| "display Forbidden = ''forbidden''"
| "display (BadRequest m) = ''bad request: '' @ m"
| "display (Conflict m) = ''conflict: '' @ m"
| "display (Database e) = ''database error: '' @ e"
| "display (Internal e) = ''internal error: '' @ e"

text \<open>The response body is the JSON object \<open>{"error": message}\<close>: its one member is kept as a pair.\<close>

type_synonym error_response = "status_code \<times> (string \<times> string)"

definition into_response :: "error \<Rightarrow> error_response" where
  "into_response e =
     (let (status, message) = (case e of
          NotFound \<Rightarrow> (NOT_FOUND, display e)
        | Unauthorized \<Rightarrow> (UNAUTHORIZED, display e)
        | Forbidden \<Rightarrow> (FORBIDDEN, display e)
        | BadRequest m \<Rightarrow> (BAD_REQUEST, m)
        | Conflict m \<Rightarrow> (CONFLICT, m)
        | Database _ \<Rightarrow> (INTERNAL_SERVER_ERROR, ''database error'')
        | Internal _ \<Rightarrow> (INTERNAL_SERVER_ERROR, ''internal error''))
      in (status, (''error'', message)))"

text \<open>An error that comes from inside the server, as opposed to one about the request.\<close>

definition server_fault :: "error \<Rightarrow> bool" where
  "server_fault e = (case e of Database _ \<Rightarrow> True | Internal _ \<Rightarrow> True | _ \<Rightarrow> False)"

lemma into_response_server_fault:
  "fst (into_response e) = INTERNAL_SERVER_ERROR \<longleftrightarrow> server_fault e"
  by (cases e) (simp_all add: into_response_def server_fault_def)

lemma into_response_never_success:
  "fst (into_response e) \<notin> {OK, NO_CONTENT}"
  by (cases e) (simp_all add: into_response_def)

section \<open>Properties\<close>

text \<open>Property C40. An error response is never a success, an error inside the server is exactly
  what is reported with status 500, and the text of such an error never reaches the client: the
  response to a database or internal error does not depend on it.\<close>

theorem into_response_hides_faults:
  "fst (into_response e) \<notin> {OK, NO_CONTENT} \<and>
   (fst (into_response e) = INTERNAL_SERVER_ERROR \<longleftrightarrow> server_fault e) \<and>
   into_response (Database d) = into_response (Database d') \<and>
   into_response (Internal d) = into_response (Internal d')"
  using into_response_never_success into_response_server_fault by (simp add: into_response_def)

end
