(* ===== verification/Externals.thy ===== *)
theory Externals
  imports Errors
begin

text \<open>
  Everything the program calls and does not contain.  The record \<open>ext\<close> collects the third-party
  functions (the HMAC, base64, JSON, JWT, Ed25519 and HTTP client crates) and the sources of
  nondeterminism (the clock, the random generator, UUIDs, database faults) as parameters; every
  definition that uses one takes the record as its argument \<open>E\<close>.  Where the library reports a
  failure that the program turns into a panic (\<open>expect\<close>, \<open>unwrap\<close>), or documents a panic of its
  own, the parameter can fail, and what its documentation promises is a law of the last section.

  The nondeterministic ones are oracles indexed by the number of earlier calls, which the record
  \<open>ambient\<close> counts; it is the root of the state records, so the fields after it (the \<open>more\<close>
  part) are the state proper.  What the theorems assume of a parameter is stated by the
  predicates of the last section.
\<close>

section \<open>Types of third-party values the program inspects\<close>

text \<open>\<open>serde_json::Value\<close>\<close>

datatype json =
    JNull | JBool bool | JNumber int | JString string | JArray "json list"
  | JObject "(string \<times> json) list"

text \<open>\<open>Value::get(key)\<close> and \<open>Value::as_bool()\<close>\<close>

fun json_get :: "string \<Rightarrow> json \<Rightarrow> json option" where
  "json_get k (JObject kvs) = map_of kvs k"
| "json_get k _ = None"

fun as_bool :: "json \<Rightarrow> bool option" where
  "as_bool (JBool b) = Some b"
| "as_bool _ = None"

text \<open>\<open>src/crypto.rs\<close>: the claims of a JWT, the payload type of the JWT functions below.\<close>

record claims =
  c_sub :: string
  c_dev :: string
  c_exp :: u64
  c_iat :: u64
  c_pub_topics :: "string list"
  c_sub_topics :: "string list"
  c_notify_topic :: string

text \<open>An HTTP header map, keyed by the lower-case name, with the first value of each name.\<close>

type_synonym header_map = "string \<rightharpoonup> bytes"

section \<open>The parameters\<close>

text \<open>
  \<open>overflow_checks\<close> is the build profile (does an integer overflow panic).  \<open>sys_time\<close> is a
  clock reading in seconds since the epoch, \<open>None\<close> if the clock stands before it.  \<open>sqlx_fault\<close>
  tells whether the statement fails for a reason outside the program.  \<open>ed25519_key\<close> is whether
  \<open>VerifyingKey::from_bytes\<close> accepts 32 bytes; \<open>ed25519_verify key message signature\<close> is
  \<open>Verifier::verify\<close>.  \<open>jwt_decode key now token\<close> is \<open>jsonwebtoken::decode\<close> at a clock reading.
  \<open>hmac_new key\<close> is \<open>Hmac<Sha256>::new_from_slice\<close>, \<open>None\<close> for an invalid key length and otherwise
  the function from messages to tags.  \<open>json_vec\<close> is \<open>serde_json::to_string\<close> on a list of strings.
  \<open>http_client\<close> tells whether \<open>reqwest::Client::new()\<close> can set up its TLS backend and resolver;
  \<open>uuid_fails\<close> and \<open>rng_fails\<close> tell whether the operating system's random source fails.
\<close>

record ext =
  overflow_checks :: bool
  sys_time :: "nat \<Rightarrow> u64 option"
  uuid_fails :: "nat \<Rightarrow> bool"
  uuid_v4 :: "nat \<Rightarrow> string"
  rng_fails :: "nat \<Rightarrow> bool"
  rand_byte :: "nat \<Rightarrow> nat \<Rightarrow> u8"
  sqlx_fault :: "nat \<Rightarrow> string option"
  hmac_new :: "bytes \<Rightarrow> (bytes \<Rightarrow> bytes) option"
  b64_enc :: "bytes \<Rightarrow> string"
  b64_dec :: "string \<Rightarrow> string + bytes"
  json_vec :: "string list \<Rightarrow> string + string"
  json_vec_parse :: "string \<Rightarrow> string list option"
  json_object :: "(string \<times> string) list \<Rightarrow> string"
  jwt_encode :: "bytes \<Rightarrow> claims \<Rightarrow> string + string"
  jwt_decode :: "bytes \<Rightarrow> u64 \<Rightarrow> string \<Rightarrow> claims option"
  ed25519_key :: "bytes \<Rightarrow> bool"
  ed25519_verify :: "bytes \<Rightarrow> bytes \<Rightarrow> bytes \<Rightarrow> bool"
  header_to_str :: "bytes \<Rightarrow> string option"
  http_client :: "nat \<Rightarrow> bool"
  http_post :: "nat \<Rightarrow> string \<Rightarrow> (string \<times> string) list \<Rightarrow> string + (string + json)"

record ambient =
  time_reads :: nat
  uuid_draws :: nat
  rng_draws :: nat
  sql_stmts :: nat
  http_posts :: nat

abbreviation tick_time :: "'z ambient_scheme \<Rightarrow> 'z ambient_scheme" where
  "tick_time w \<equiv> w\<lparr>time_reads := Suc (time_reads w)\<rparr>"

abbreviation tick_uuid :: "'z ambient_scheme \<Rightarrow> 'z ambient_scheme" where
  "tick_uuid w \<equiv> w\<lparr>uuid_draws := Suc (uuid_draws w)\<rparr>"

abbreviation tick_rng :: "'z ambient_scheme \<Rightarrow> 'z ambient_scheme" where
  "tick_rng w \<equiv> w\<lparr>rng_draws := Suc (rng_draws w)\<rparr>"

abbreviation tick_sql :: "'z ambient_scheme \<Rightarrow> 'z ambient_scheme" where
  "tick_sql w \<equiv> w\<lparr>sql_stmts := Suc (sql_stmts w)\<rparr>"

abbreviation tick_post :: "'z ambient_scheme \<Rightarrow> 'z ambient_scheme" where
  "tick_post w \<equiv> w\<lparr>http_posts := Suc (http_posts w)\<rparr>"

section \<open>Calls of the oracles\<close>

text \<open>\<open>SystemTime::now().duration_since(UNIX_EPOCH)\<close>\<close>

definition clock_read :: "ext \<Rightarrow> ('z ambient_scheme, 'e, u64 option) prog" where
  "clock_read E =
     act (\<lambda>w. (Ok (sys_time E (time_reads w)), tick_time w))"

text \<open>\<open>Uuid::new_v4().to_string()\<close>, which panics without random bytes\<close>

definition new_uuid :: "ext \<Rightarrow> ('z ambient_scheme, 'e, string) prog" where
  "new_uuid E =
     act (\<lambda>w. (if uuid_fails E (uuid_draws w) then Panic ''could not retrieve random bytes for uuid''
               else Ok (uuid_v4 E (uuid_draws w)), tick_uuid w))"

text \<open>\<open>let mut raw = vec![0u8; n]; rand::thread_rng().fill_bytes(&mut raw)\<close>\<close>

definition random_bytes :: "ext \<Rightarrow> nat \<Rightarrow> ('z ambient_scheme, 'e, bytes) prog" where
  "random_bytes E n =
     act (\<lambda>w. (if rng_fails E (rng_draws w) then Panic ''could not initialize thread_rng''
               else Ok (map (rand_byte E (rng_draws w)) [0..<n]), tick_rng w))"

text \<open>\<open>reqwest::Client::new()\<close>\<close>

definition new_client :: "ext \<Rightarrow> ('z ambient_scheme, 'e, unit) prog" where
  "new_client E = act (\<lambda>w. (if http_client E (http_posts w) then Ok () else Panic ''Client::new()'', w))"

text \<open>\<open>client.post(url).json(body).send()\<close> and \<open>resp.json()\<close>\<close>

definition post_json ::
  "ext \<Rightarrow> string \<Rightarrow> (string \<times> string) list \<Rightarrow> ('z ambient_scheme, 'e, string + (string + json)) prog"
where
  "post_json E url body =
     act (\<lambda>w. (Ok (http_post E (http_posts w) url body), tick_post w))"

section \<open>What is assumed of the parameters\<close>

text \<open>The decoder inverts the encoder.\<close>

definition b64_law :: "ext \<Rightarrow> bool" where
  "b64_law E \<longleftrightarrow> (\<forall>bs. b64_dec E (b64_enc E bs) = Inr bs)"

text \<open>A list of strings can be serialized, and parsing inverts that.\<close>

definition json_total :: "ext \<Rightarrow> bool" where
  "json_total E \<longleftrightarrow> (\<forall>ts. \<exists>s. json_vec E ts = Inr s)"

definition json_law :: "ext \<Rightarrow> bool" where
  "json_law E \<longleftrightarrow> (\<forall>ts s. json_vec E ts = Inr s \<longrightarrow> json_vec_parse E s = Some ts)"

text \<open>HMAC accepts keys of any length (RFC 2104).\<close>

definition hmac_law :: "ext \<Rightarrow> bool" where
  "hmac_law E \<longleftrightarrow> (\<forall>key. hmac_new E key \<noteq> None)"

text \<open>The HTTP client can always be set up.\<close>

definition client_ok :: "ext \<Rightarrow> bool" where
  "client_ok E \<longleftrightarrow> (\<forall>n. http_client E n)"

text \<open>The operating system delivers random bytes.\<close>

definition entropy_ok :: "ext \<Rightarrow> bool" where
  "entropy_ok E \<longleftrightarrow> (\<forall>n. \<not> uuid_fails E n \<and> \<not> rng_fails E n)"

text \<open>
  \<open>jsonwebtoken::Validation::new\<close> has a default leeway of 60 seconds: with \<open>validate_exp\<close> a
  token is refused when \<open>exp\<close> is more than the leeway in the past.
\<close>

definition jwt_live :: "u64 \<Rightarrow> claims \<Rightarrow> bool" where
  "jwt_live now c \<longleftrightarrow> unat now \<le> unat (c_exp c) + 60"

definition jwt_law :: "ext \<Rightarrow> bool" where
  "jwt_law E \<longleftrightarrow> (\<forall>k c t now. jwt_encode E k c = Inr t \<longrightarrow>
     jwt_decode E k now t = (if jwt_live now c then Some c else None))"

text \<open>
  The clock is after the epoch at every reading; no statement fails for an external reason and
  the random source works.
\<close>

definition clock_ok :: "ext \<Rightarrow> bool" where
  "clock_ok E \<longleftrightarrow> (\<forall>n. sys_time E n \<noteq> None)"

definition no_faults :: "ext \<Rightarrow> bool" where
  "no_faults E \<longleftrightarrow> (\<forall>n. sqlx_fault E n = None) \<and> entropy_ok E"

definition time_at :: "ext \<Rightarrow> nat \<Rightarrow> u64" where
  "time_at E n = the (sys_time E n)"

section \<open>Running the oracles\<close>

lemma sys_time_ok [simp]: "clock_ok E \<Longrightarrow> sys_time E n = Some (time_at E n)"
  by (auto simp: clock_ok_def time_at_def)

lemma sqlx_fault_none [simp]: "no_faults E \<Longrightarrow> sqlx_fault E n = None"
  by (simp add: no_faults_def)

lemma entropy_simps [simp]:
  "entropy_ok E \<Longrightarrow> uuid_fails E n = False" "entropy_ok E \<Longrightarrow> rng_fails E n = False"
  by (simp_all add: entropy_ok_def)

lemma no_faults_entropy [simp, intro]: "no_faults E \<Longrightarrow> entropy_ok E"
  by (simp add: no_faults_def)

lemma run_clock_read [exec]:
  "run (clock_read E) w = (Ok (sys_time E (time_reads w)), tick_time w)"
  by (simp add: clock_read_def)

lemma run_new_uuid [exec]:
  "run (new_uuid E) w =
     (if uuid_fails E (uuid_draws w) then Panic ''could not retrieve random bytes for uuid''
      else Ok (uuid_v4 E (uuid_draws w)), tick_uuid w)"
  by (simp add: new_uuid_def)

lemma run_random_bytes [exec]:
  "run (random_bytes E n) w =
     (if rng_fails E (rng_draws w) then Panic ''could not initialize thread_rng''
      else Ok (map (rand_byte E (rng_draws w)) [0..<n]), tick_rng w)"
  by (simp add: random_bytes_def)

lemma run_new_client [exec]:
  "run (new_client E) w = (if http_client E (http_posts w) then Ok () else Panic ''Client::new()'', w)"
  by (simp add: new_client_def)

lemma run_post_json [exec]:
  "run (post_json E url b) w =
     (Ok (http_post E (http_posts w) url b), tick_post w)"
  by (simp add: post_json_def)

text \<open>
  The state proper: everything but the counters of the oracles.  An operation that leaves it
  unchanged only consumed clock readings, random values or statement slots.
\<close>

abbreviation state_of :: "'z ambient_scheme \<Rightarrow> 'z" where
  "state_of \<equiv> ambient.more"

lemma leaves_oracles [frame]:
  "leaves state_of (clock_read E)" "leaves state_of (new_uuid E)"
  "leaves state_of (random_bytes E n)" "leaves state_of (post_json E url b)"
  "leaves state_of (new_client E)"
  by (simp_all add: clock_read_def new_uuid_def random_bytes_def post_json_def new_client_def leaves_def)

end
