(* ===== verification/Instance.thy ===== *)
theory Instance
  imports Externals
begin

text \<open>
  A concrete instance of the parameters, with which the theorems that assume laws of the
  third-party functions are applied to concrete inputs.  Base64 maps bytes to characters one to
  one, a JSON list of strings escapes every character, a token consists of the two timestamps
  and of the other claims with the key, a signature is the key followed by the message.  The
  clock stands at one moment; identifiers are numbered.
\<close>

definition ex_b64 :: "bytes \<Rightarrow> string" where
  "ex_b64 bs = map (\<lambda>b. char_of (uint b)) bs"

definition ex_json :: "string list \<Rightarrow> string" where
  "ex_json ts = concat (map (\<lambda>s. concat (map (\<lambda>c. [CHR ''c'', c]) s) @ [CHR '';'']) ts)"

fun ex_parse :: "string \<Rightarrow> string \<Rightarrow> string list option" where
  "ex_parse [] acc = (if acc = [] then Some [] else None)"
| "ex_parse (a # s) acc =
     (if a = CHR '';'' then map_option ((#) (rev acc)) (ex_parse s [])
      else case s of [] \<Rightarrow> None | c # s' \<Rightarrow> ex_parse s' (c # acc))"

definition ex_bits :: "u64 \<Rightarrow> string" where
  "ex_bits n = map (\<lambda>i. if bit n i then CHR ''1'' else CHR ''0'') [0..<64]"

definition ex_number :: "string \<Rightarrow> u64" where
  "ex_number s = horner_sum of_bool 2 (map (\<lambda>c. c = CHR ''1'') s)"

definition ex_jwt_encode :: "bytes \<Rightarrow> claims \<Rightarrow> string + string" where
  "ex_jwt_encode k c =
     Inr (ex_bits (c_exp c) @ ex_bits (c_iat c) @
          ex_json [ex_b64 k, c_sub c, c_dev c, ex_json (c_pub_topics c), ex_json (c_sub_topics c),
                   c_notify_topic c])"

definition ex_jwt_decode :: "bytes \<Rightarrow> u64 \<Rightarrow> string \<Rightarrow> claims option" where
  "ex_jwt_decode k now t =
     (case ex_parse (drop 128 t) [] of
        Some [key, sub, dev, ps, ss, n] \<Rightarrow>
          (case (ex_parse ps [], ex_parse ss []) of
             (Some pubs, Some subs) \<Rightarrow>
               let c = \<lparr>c_sub = sub, c_dev = dev, c_exp = ex_number (take 64 t),
                        c_iat = ex_number (take 64 (drop 64 t)), c_pub_topics = pubs,
                        c_sub_topics = subs, c_notify_topic = n\<rparr>
               in if key = ex_b64 k \<and> jwt_live now c then Some c else None
           | _ \<Rightarrow> None)
      | _ \<Rightarrow> None)"

definition ex_id :: "nat \<Rightarrow> string" where
  "ex_id n = replicate n CHR ''i''"

definition ex_ext :: ext where
  "ex_ext =
     \<lparr>overflow_checks = False, sys_time = (\<lambda>_. Some 1000), uuid_fails = (\<lambda>_. False),
      uuid_v4 = ex_id, rng_fails = (\<lambda>_. False), rand_byte = (\<lambda>_ _. 7), sqlx_fault = (\<lambda>_. None), hmac_new = (\<lambda>key. Some ((@) key)), b64_enc = ex_b64,
      b64_dec = (\<lambda>s. Inr (as_bytes s)), json_vec = (\<lambda>ts. Inr (ex_json ts)), json_vec_parse = (\<lambda>s. ex_parse s []),
      json_object = (\<lambda>kvs. ex_json (map snd kvs)), jwt_encode = ex_jwt_encode,
      jwt_decode = ex_jwt_decode, ed25519_key = (\<lambda>_. True),
      ed25519_verify = (\<lambda>key msg sig. sig = key @ msg),
      header_to_str = (\<lambda>bs. Some (map (\<lambda>b. char_of (uint b)) bs)),
      http_client = (\<lambda>_. True), http_post = (\<lambda>_ _ _. Inl ''unreachable'')\<rparr>"

section \<open>The instance satisfies the laws\<close>

lemma ex_ext_simps [simp]:
  "overflow_checks ex_ext = False" "sys_time ex_ext n = Some 1000" "uuid_v4 ex_ext = ex_id"
  "rand_byte ex_ext n i = 7" "sqlx_fault ex_ext n = None" "hmac_new ex_ext k = Some ((@) k)"
  "b64_enc ex_ext = ex_b64" "b64_dec ex_ext s = Inr (as_bytes s)" "json_vec ex_ext ts = Inr (ex_json ts)"
  "json_vec_parse ex_ext s = ex_parse s []" "json_object ex_ext kvs = ex_json (map snd kvs)"
  "jwt_encode ex_ext = ex_jwt_encode" "jwt_decode ex_ext = ex_jwt_decode"
  "ed25519_key ex_ext key = True" "ed25519_verify ex_ext key msg sig = (sig = key @ msg)"
  "header_to_str ex_ext bs = Some (map (\<lambda>b. char_of (uint b)) bs)"
  "http_post ex_ext n url b = Inl ''unreachable''" "\<not> uuid_fails ex_ext n" "\<not> rng_fails ex_ext n"
  "http_client ex_ext n"
  by (simp_all add: ex_ext_def)

lemma ex_parse_chars: "ex_parse (concat (map (\<lambda>c. [CHR ''c'', c]) s) @ t) acc = ex_parse t (rev s @ acc)"
  by (induction s arbitrary: acc) simp_all

lemma ex_parse_json [simp]: "ex_parse (ex_json ts) [] = Some ts"
  by (induction ts) (simp_all add: ex_json_def ex_parse_chars)

lemma ex_number_bits [simp]: "ex_number (ex_bits n) = n"
proof -
  have "horner_sum of_bool 2 (map (bit n) [0..<64]) = (take_bit 64 n :: u64)"
    by (rule horner_sum_bit_eq_take_bit)
  moreover have "take_bit 64 n = n" by (rule take_bit_length_eq [where 'a = 64, simplified])
  ultimately show ?thesis by (simp add: ex_number_def ex_bits_def o_def)
qed

lemma length_ex_bits [simp]: "length (ex_bits n) = 64"
  by (simp add: ex_bits_def)

lemma ex_laws [simp]:
  "b64_law ex_ext" "json_law ex_ext" "jwt_law ex_ext" "clock_ok ex_ext" "no_faults ex_ext"
  "hmac_law ex_ext" "json_total ex_ext" "client_ok ex_ext" "entropy_ok ex_ext"
proof -
  show "b64_law ex_ext" by (simp add: b64_law_def ex_b64_def as_bytes_def o_def)
  show "json_law ex_ext" by (simp add: json_law_def)
  show "jwt_law ex_ext"
    by (auto simp: jwt_law_def ex_jwt_encode_def ex_jwt_decode_def Let_def jwt_live_def)
  show "clock_ok ex_ext" "no_faults ex_ext" by (simp_all add: clock_ok_def no_faults_def entropy_ok_def)
  show "hmac_law ex_ext" "json_total ex_ext" "client_ok ex_ext" "entropy_ok ex_ext"
    by (simp_all add: hmac_law_def json_total_def client_ok_def entropy_ok_def)
qed

end
