(* ===== verification/Config.thy ===== *)
theory Config
  imports Instance
begin

text \<open>
  \<open>src/config.rs\<close>: the configuration structures, their deserialisation with the \<open>serde\<close>
  attributes of the source (defaults, renamings, optional sections), \<open>Config::load\<close> and
  \<open>Config::validate\<close>.

  The two sources that \<open>load\<close> adds to the builder are parameters: the file source maps a path
  to the settings of the file (none if it does not exist, an error if it does not parse), the
  environment source maps a prefix and a separator to the settings found in the environment.  A
  collection of settings is a map from dotted keys (\<open>jwt.ttl_seconds\<close>) to text; a later source
  overrides an earlier one.  \<open>parse_u64\<close> reads a number.
\<close>

record database_config =
  path :: string

record http_config =
  http_bind :: string

record mqtt_config =
  mqtt_bind :: string

record jwt_config =
  signing_key :: string
  ttl_seconds :: u64

definition default_jwt_ttl :: u64 where
  "default_jwt_ttl = 3600"

datatype registration_mode = Open | Closed | Policy

datatype policy_kind = Push | Hook

record registration_policy =
  policy_type :: policy_kind
  policy_hook_url :: "string option"

record registration_config =
  reg_mode :: registration_mode
  reg_policy :: "registration_policy option"

record suspension_config =
  susp_type :: policy_kind
  susp_hook_url :: "string option"

record admin_config =
  api_key :: string

record notifications_config =
  notify_secret :: string

record config =
  database :: database_config
  http :: http_config
  mqtt :: mqtt_config
  registration :: registration_config
  suspension :: suspension_config
  admin :: admin_config
  notifications :: notifications_config
  jwt :: jwt_config

type_synonym settings = "string \<rightharpoonup> string"

text \<open>\<open>#[serde(rename_all = "lowercase")]\<close>\<close>

definition parse_mode :: "string \<Rightarrow> string + registration_mode" where
  "parse_mode s =
     (if s = ''open'' then Inr Open else if s = ''closed'' then Inr Closed
      else if s = ''policy'' then Inr Policy else Inl (''unknown variant '' @ s))"

definition parse_kind :: "string \<Rightarrow> string + policy_kind" where
  "parse_kind s =
     (if s = ''push'' then Inr Push else if s = ''hook'' then Inr Hook
      else Inl (''unknown variant '' @ s))"

definition field :: "settings \<Rightarrow> string \<Rightarrow> string + string" where
  "field m k = (case m k of None \<Rightarrow> Inl (''missing field '' @ k) | Some v \<Rightarrow> Inr v)"

text \<open>
  \<open>Option<RegistrationPolicy>\<close>: present when one of its keys, or its own name (an empty table), is
  among the settings, and then \<open>type\<close> is required.
\<close>

definition policy_field :: "settings \<Rightarrow> string + registration_policy option" where
  "policy_field m =
     (if m ''registration.policy'' = None \<and> m ''registration.policy.type'' = None \<and>
         m ''registration.policy.hook_url'' = None
      then Inr None
      else bindS (field m ''registration.policy.type'') (\<lambda>t. bindS (parse_kind t) (\<lambda>k.
           Inr (Some \<lparr>policy_type = k, policy_hook_url = m ''registration.policy.hook_url''\<rparr>))))"

text \<open>\<open>#[serde(default = "default_jwt_ttl")]\<close>\<close>

definition ttl_field :: "(string \<Rightarrow> u64 option) \<Rightarrow> settings \<Rightarrow> string + u64" where
  "ttl_field parse_u64 m =
     (case m ''jwt.ttl_seconds'' of
        None \<Rightarrow> Inr default_jwt_ttl
      | Some v \<Rightarrow> (case parse_u64 v of None \<Rightarrow> Inl (''invalid type: '' @ v) | Some n \<Rightarrow> Inr n))"

text \<open>
  \<open>admin\<close> is a required section whose one field defaults to the empty string.  A section is
  present when one of its keys, or its own name (an empty table), is among the settings.
\<close>

definition admin_field :: "settings \<Rightarrow> string + admin_config" where
  "admin_field m =
     (case m ''admin.api_key'' of
        Some k \<Rightarrow> Inr \<lparr>api_key = k\<rparr>
      | None \<Rightarrow> if m ''admin'' = None then Inl ''missing field admin'' else Inr \<lparr>api_key = ''''\<rparr>)"

definition try_deserialize :: "(string \<Rightarrow> u64 option) \<Rightarrow> settings \<Rightarrow> string + config" where
  "try_deserialize parse_u64 m =
     bindS (field m ''database.path'') (\<lambda>dbp.
     bindS (field m ''http.bind'') (\<lambda>hb.
     bindS (field m ''mqtt.bind'') (\<lambda>mb.
     bindS (field m ''registration.mode'') (\<lambda>rm.
     bindS (parse_mode rm) (\<lambda>mode.
     bindS (policy_field m) (\<lambda>pol.
     bindS (field m ''suspension.type'') (\<lambda>st.
     bindS (parse_kind st) (\<lambda>sk.
     bindS (admin_field m) (\<lambda>adm.
     bindS (field m ''notifications.notify_secret'') (\<lambda>ns.
     bindS (field m ''jwt.signing_key'') (\<lambda>jk.
     bindS (ttl_field parse_u64 m) (\<lambda>ttl.
       Inr \<lparr>database = \<lparr>path = dbp\<rparr>, http = \<lparr>http_bind = hb\<rparr>, mqtt = \<lparr>mqtt_bind = mb\<rparr>,
            registration = \<lparr>reg_mode = mode, reg_policy = pol\<rparr>,
            suspension = \<lparr>susp_type = sk, susp_hook_url = m ''suspension.hook_url''\<rparr>,
            admin = adm, notifications = \<lparr>notify_secret = ns\<rparr>,
            jwt = \<lparr>signing_key = jk, ttl_seconds = ttl\<rparr>\<rparr>))))))))))))"

definition validate :: "config \<Rightarrow> string + unit" where
  "validate c =
     (if api_key (admin c) = ''''
      then Inl (''admin.api_key is not set.'' @ [CHR 0x0A] @
                ''Generate one with: openssl rand -hex 32'')
      else Inr ())"

definition load ::
  "(string \<Rightarrow> string + settings) \<Rightarrow> (string \<Rightarrow> string \<Rightarrow> settings) \<Rightarrow> (string \<Rightarrow> u64 option)
   \<Rightarrow> string \<Rightarrow> string + config" where
  "load file_source env_source parse_u64 p =
     bindS (file_source p) (\<lambda>file.
     bindS (Inr (file ++ env_source ''SMQTT'' ''__'')) (\<lambda>cfg.
     bindS (try_deserialize parse_u64 cfg) (\<lambda>me.
     bindS (validate me) (\<lambda>_. Inr me))))"

lemma load_validated: "load fs es pu p = Inr c \<Longrightarrow> validate c = Inr ()"
  by (auto simp: load_def elim!: bindS_InrE)

lemma validate_ok_iff: "validate c = Inr () \<longleftrightarrow> api_key (admin c) \<noteq> ''''"
  by (simp add: validate_def)

section \<open>The settings of a configuration\<close>

text \<open>The text of an enumeration value in the settings, and the fields read backwards.\<close>

fun mode_text :: "registration_mode \<Rightarrow> string" where
  "mode_text Open = ''open''"
| "mode_text Closed = ''closed''"
| "mode_text Policy = ''policy''"

fun kind_text :: "policy_kind \<Rightarrow> string" where
  "kind_text Push = ''push''"
| "kind_text Hook = ''hook''"

lemma parse_mode_iff: "parse_mode s = Inr x \<longleftrightarrow> s = mode_text x"
  by (cases x) (auto simp: parse_mode_def)

lemma parse_kind_iff: "parse_kind s = Inr x \<longleftrightarrow> s = kind_text x"
  by (cases x) (auto simp: parse_kind_def)

lemma field_iff: "field m k = Inr v \<longleftrightarrow> m k = Some v"
  by (simp add: field_def split: option.splits)

lemma policy_field_iff:
  "policy_field m = Inr po \<longleftrightarrow>
     (case po of
        None \<Rightarrow> m ''registration.policy'' = None \<and> m ''registration.policy.type'' = None \<and>
          m ''registration.policy.hook_url'' = None
      | Some pol \<Rightarrow> m ''registration.policy.type'' = Some (kind_text (policy_type pol)) \<and>
          m ''registration.policy.hook_url'' = policy_hook_url pol)"
proof (cases po)
  case (Some pol)
  then show ?thesis
    by (cases pol) (auto simp: policy_field_def bindS_Inr_iff field_iff parse_kind_iff)
qed (auto simp: policy_field_def bindS_Inr_iff)

lemma ttl_field_iff:
  "ttl_field pu m = Inr ttl \<longleftrightarrow>
     (case m ''jwt.ttl_seconds'' of None \<Rightarrow> ttl = 3600 | Some v \<Rightarrow> pu v = Some ttl)"
  by (auto simp: ttl_field_def default_jwt_ttl_def split: option.splits)

lemma admin_field_iff:
  "admin_field m = Inr adm \<longleftrightarrow>
     (case m ''admin.api_key'' of None \<Rightarrow> m ''admin'' \<noteq> None \<and> api_key adm = '''' | Some k \<Rightarrow> api_key adm = k)"
  by (cases adm) (auto simp: admin_field_def split: option.splits)

lemma try_deserialize_iff:
  "try_deserialize pu m = Inr c \<longleftrightarrow>
     m ''database.path'' = Some (path (database c)) \<and>
     m ''http.bind'' = Some (http_bind (http c)) \<and>
     m ''mqtt.bind'' = Some (mqtt_bind (mqtt c)) \<and>
     m ''registration.mode'' = Some (mode_text (reg_mode (registration c))) \<and>
     policy_field m = Inr (reg_policy (registration c)) \<and>
     m ''suspension.type'' = Some (kind_text (susp_type (suspension c))) \<and>
     m ''suspension.hook_url'' = susp_hook_url (suspension c) \<and>
     admin_field m = Inr (admin c) \<and>
     m ''notifications.notify_secret'' = Some (notify_secret (notifications c)) \<and>
     m ''jwt.signing_key'' = Some (signing_key (jwt c)) \<and>
     ttl_field pu m = Inr (ttl_seconds (jwt c))"
proof -
  obtain dbp hb mb mode pol sk su adm ns jk ttl where c:
    "c = \<lparr>database = \<lparr>path = dbp\<rparr>, http = \<lparr>http_bind = hb\<rparr>, mqtt = \<lparr>mqtt_bind = mb\<rparr>,
          registration = \<lparr>reg_mode = mode, reg_policy = pol\<rparr>,
          suspension = \<lparr>susp_type = sk, susp_hook_url = su\<rparr>, admin = adm,
          notifications = \<lparr>notify_secret = ns\<rparr>, jwt = \<lparr>signing_key = jk, ttl_seconds = ttl\<rparr>\<rparr>"
    by (metis (full_types) admin_config.cases config.cases database_config.cases http_config.cases
        jwt_config.cases mqtt_config.cases notifications_config.cases registration_config.cases
        suspension_config.cases unit.exhaust)
  show ?thesis
    unfolding c by (auto simp: try_deserialize_def bindS_Inr_iff field_iff parse_mode_iff parse_kind_iff)
qed

lemma deserialize_valid_iff:
  "try_deserialize pu m = Inr c \<and> api_key (admin c) \<noteq> [] \<longleftrightarrow>
     m ''database.path'' = Some (path (database c)) \<and>
     m ''http.bind'' = Some (http_bind (http c)) \<and>
     m ''mqtt.bind'' = Some (mqtt_bind (mqtt c)) \<and>
     m ''registration.mode'' = Some (mode_text (reg_mode (registration c))) \<and>
     (case reg_policy (registration c) of
        None \<Rightarrow> m ''registration.policy'' = None \<and> m ''registration.policy.type'' = None \<and>
          m ''registration.policy.hook_url'' = None
      | Some pol \<Rightarrow> m ''registration.policy.type'' = Some (kind_text (policy_type pol)) \<and>
          m ''registration.policy.hook_url'' = policy_hook_url pol) \<and>
     m ''suspension.type'' = Some (kind_text (susp_type (suspension c))) \<and>
     m ''suspension.hook_url'' = susp_hook_url (suspension c) \<and>
     m ''admin.api_key'' = Some (api_key (admin c)) \<and> api_key (admin c) \<noteq> [] \<and>
     m ''notifications.notify_secret'' = Some (notify_secret (notifications c)) \<and>
     m ''jwt.signing_key'' = Some (signing_key (jwt c)) \<and>
     (case m ''jwt.ttl_seconds'' of
        None \<Rightarrow> ttl_seconds (jwt c) = 3600
      | Some v \<Rightarrow> pu v = Some (ttl_seconds (jwt c)))"
proof -
  have "admin_field m = Inr (admin c) \<and> api_key (admin c) \<noteq> [] \<longleftrightarrow>
      m ''admin.api_key'' = Some (api_key (admin c)) \<and> api_key (admin c) \<noteq> []"
    by (auto simp: admin_field_iff split: option.splits)
  then show ?thesis unfolding try_deserialize_iff policy_field_iff ttl_field_iff by blast
qed

lemma load_iff_deserialize:
  "load file_source env_source parse_u64 p = Inr c \<longleftrightarrow>
     (\<exists>fl m. file_source p = Inr fl \<and>
       m = (\<lambda>k. case env_source ''SMQTT'' ''__'' k of Some v \<Rightarrow> Some v | None \<Rightarrow> fl k) \<and>
       try_deserialize parse_u64 m = Inr c \<and> api_key (admin c) \<noteq> [])"
proof -
  have "fl ++ env = (\<lambda>k. case env k of Some v \<Rightarrow> Some v | None \<Rightarrow> fl k)" for fl env :: settings
    by (auto simp: map_add_def split: option.splits)
  then show ?thesis by (auto simp: load_def bindS_Inr_iff validate_def split: if_splits)
qed

section \<open>Properties\<close>

definition ex_settings :: settings where
  "ex_settings =
     [''database.path'' \<mapsto> ''a.db'', ''http.bind'' \<mapsto> ''h'', ''mqtt.bind'' \<mapsto> ''m'',
      ''registration.mode'' \<mapsto> ''policy'', ''registration.policy.type'' \<mapsto> ''hook'',
      ''registration.policy.hook_url'' \<mapsto> ''u'', ''suspension.type'' \<mapsto> ''push'',
      ''notifications.notify_secret'' \<mapsto> ''s'', ''jwt.signing_key'' \<mapsto> ''k'']"

lemmas load_defs = load_def try_deserialize_def field_def parse_mode_def parse_kind_def
  policy_field_def admin_field_def ttl_field_def validate_def

text \<open>Property C29. \<open>Config::load\<close> returns a configuration exactly if the file source can be read and
  every field of the configuration is the one the merged settings give, where a value of the
  environment takes precedence over one of the file: the binds, the path and the two secrets are
  required and taken literally; the registration mode and the kinds of the policies are the
  lower-case names; the policy is absent exactly if its section is; the token lifetime is an
  hour or the number configured; and the administration key is not empty.\<close>

theorem load_exact:
  "load file_source env_source parse_u64 p = Inr c \<longleftrightarrow>
     (\<exists>fl m. file_source p = Inr fl \<and>
       m = (\<lambda>k. case env_source ''SMQTT'' ''__'' k of Some v \<Rightarrow> Some v | None \<Rightarrow> fl k) \<and>
       m ''database.path'' = Some (path (database c)) \<and>
       m ''http.bind'' = Some (http_bind (http c)) \<and>
       m ''mqtt.bind'' = Some (mqtt_bind (mqtt c)) \<and>
       m ''registration.mode'' = Some (mode_text (reg_mode (registration c))) \<and>
       (case reg_policy (registration c) of
          None \<Rightarrow> m ''registration.policy'' = None \<and> m ''registration.policy.type'' = None \<and>
            m ''registration.policy.hook_url'' = None
        | Some pol \<Rightarrow> m ''registration.policy.type'' = Some (kind_text (policy_type pol)) \<and>
            m ''registration.policy.hook_url'' = policy_hook_url pol) \<and>
       m ''suspension.type'' = Some (kind_text (susp_type (suspension c))) \<and>
       m ''suspension.hook_url'' = susp_hook_url (suspension c) \<and>
       m ''admin.api_key'' = Some (api_key (admin c)) \<and> api_key (admin c) \<noteq> [] \<and>
       m ''notifications.notify_secret'' = Some (notify_secret (notifications c)) \<and>
       m ''jwt.signing_key'' = Some (signing_key (jwt c)) \<and>
       (case m ''jwt.ttl_seconds'' of
          None \<Rightarrow> ttl_seconds (jwt c) = 3600
        | Some v \<Rightarrow> parse_u64 v = Some (ttl_seconds (jwt c))))"
  by (simp only: load_iff_deserialize deserialize_valid_iff)

theorem load_exact_witness:
  "load (\<lambda>_. Inr ex_settings) (\<lambda>_ _. [''admin.api_key'' \<mapsto> ''x'', ''http.bind'' \<mapsto> ''h2'', ''jwt.ttl_seconds'' \<mapsto> ''60''])
       (\<lambda>v. if v = ''60'' then Some 60 else None) ''p'' =
     Inr \<lparr>database = \<lparr>path = ''a.db''\<rparr>, http = \<lparr>http_bind = ''h2''\<rparr>, mqtt = \<lparr>mqtt_bind = ''m''\<rparr>,
       registration = \<lparr>reg_mode = Policy, reg_policy = Some \<lparr>policy_type = Hook, policy_hook_url = Some ''u''\<rparr>\<rparr>,
       suspension = \<lparr>susp_type = Push, susp_hook_url = None\<rparr>, admin = \<lparr>api_key = ''x''\<rparr>,
       notifications = \<lparr>notify_secret = ''s''\<rparr>, jwt = \<lparr>signing_key = ''k'', ttl_seconds = 60\<rparr>\<rparr>"
  by (simp add: load_exact ex_settings_def)

lemma load_deserializes:
  "load file_source env_source parse_u64 p = Inr c \<Longrightarrow> file_source p = Inr fl \<Longrightarrow>
     try_deserialize parse_u64 (fl ++ env_source ''SMQTT'' ''__'') = Inr c"
  by (auto simp: load_def elim!: bindS_InrE)

text \<open>Property C39. The signing key and the notification secret are required: if one of them is in
  neither source, loading fails.  The comments on these fields say that they are generated on
  the first run if not set; no code does so.\<close>

theorem secrets_not_generated:
  assumes "file_source p = Inr fl"
    and "k = ''jwt.signing_key'' \<or> k = ''notifications.notify_secret''"
    and "fl k = None" and "env_source ''SMQTT'' ''__'' k = None"
  shows "\<exists>e. load file_source env_source parse_u64 p = Inl e"
proof (rule ccontr)
  assume "\<nexists>e. load file_source env_source parse_u64 p = Inl e"
  then obtain c where "load file_source env_source parse_u64 p = Inr c"
    by (metis sum.exhaust)
  from load_deserializes [OF this assms(1)] assms(2-4) show False
    by (auto simp: try_deserialize_iff map_add_def)
qed

theorem secrets_not_generated_witness:
  "\<exists>e. load (\<lambda>_. Inr (ex_settings(''jwt.signing_key'' := None))) (\<lambda>_ _. [''admin.api_key'' \<mapsto> ''x''])
         (\<lambda>_. None) ''p'' = Inl e"
  by (rule secrets_not_generated [where k = "''jwt.signing_key''"
        and fl = "ex_settings(''jwt.signing_key'' := None)"]) simp_all

end
