(* ===== verification/Crypto.thy ===== *)
theory Crypto
  imports Instance
begin

text \<open>
  \<open>src/crypto.rs\<close>: issuing and verifying the JWTs, the derivation of a user's notification
  topic, the clock and the base64 helpers.  The claims record is in \<open>Externals\<close>, because the
  JWT functions, which are parameters, mention it.
\<close>

record jwt_keys =
  encoding :: bytes
  decoding :: bytes

definition from_base64 :: "ext \<Rightarrow> string \<Rightarrow> string + jwt_keys" where
  "from_base64 E b64 =
     (case b64_dec E b64 of
        Inl e \<Rightarrow> Inl e
      | Inr raw \<Rightarrow> Inr \<lparr>encoding = raw, decoding = raw\<rparr>)"

definition clock_panic :: string where
  "clock_panic = ''called Result::unwrap() on an Err value''"

definition unix_now :: "ext \<Rightarrow> ('z ambient_scheme, 'e, u64) prog" where
  "unix_now E = bindP (clock_read E) (\<lambda>t.
     case t of None \<Rightarrow> panicP clock_panic
             | Some secs \<Rightarrow> okP secs)"

definition issue ::
  "ext \<Rightarrow> jwt_keys \<Rightarrow> string \<Rightarrow> string \<Rightarrow> u64 \<Rightarrow> string list \<Rightarrow> string list \<Rightarrow> string
   \<Rightarrow> ('z ambient_scheme, error, string) prog" where
  "issue E keys user_id device_id ttl pub_topics sub_topics notify_topic =
     bindP (unix_now E) (\<lambda>now.
     bindP (Done (add_u64 (overflow_checks E) now ttl)) (\<lambda>exp.
       let cl = \<lparr>c_sub = user_id, c_dev = device_id, c_exp = exp, c_iat = now,
                 c_pub_topics = pub_topics, c_sub_topics = sub_topics,
                 c_notify_topic = notify_topic\<rparr>
       in case jwt_encode E (encoding keys) cl of
            Inl e \<Rightarrow> errP (Internal e)
          | Inr token \<Rightarrow> okP token))"

text \<open>
  \<open>JwtKeys::verify\<close>.  The decoder reads the clock for the expiry check; every failure of it
  becomes \<open>Unauthorized\<close>.
\<close>

definition jwt_verify :: "ext \<Rightarrow> jwt_keys \<Rightarrow> string \<Rightarrow> ('z ambient_scheme, error, claims) prog" where
  "jwt_verify E keys token =
     bindP (unix_now E) (\<lambda>now.
       ok_or Unauthorized (jwt_decode E (decoding keys) now token))"

definition notification_topic :: "ext \<Rightarrow> bytes \<Rightarrow> string \<Rightarrow> (error, string) outcome" where
  "notification_topic E secret user_id =
     (case expect ''HMAC accepts any key length'' (hmac_new E secret) of
        Ok mac \<Rightarrow> Ok (b64_enc E (mac (as_bytes (''notify:'' @ user_id))))
      | Err e \<Rightarrow> Err e
      | Panic m \<Rightarrow> Panic m)"

definition b64_encode :: "ext \<Rightarrow> bytes \<Rightarrow> string" where
  "b64_encode E data = b64_enc E data"

definition b64_decode :: "ext \<Rightarrow> string \<Rightarrow> (error, bytes) outcome" where
  "b64_decode E s =
     (case b64_dec E s of
        Inl e \<Rightarrow> Err (BadRequest (''invalid base64: '' @ e))
      | Inr bs \<Rightarrow> Ok bs)"

section \<open>Running\<close>

lemma run_unix_now [exec]:
  "run (unix_now E) w = (case sys_time E (time_reads w) of
      None \<Rightarrow> (Panic clock_panic, tick_time w)
    | Some t \<Rightarrow> (Ok t, tick_time w))"
  by (simp add: unix_now_def run_clock_read split: option.splits)

lemma run_jwt_verify [exec]:
  "run (jwt_verify E keys token) w = (case sys_time E (time_reads w) of
      None \<Rightarrow> (Panic clock_panic, tick_time w)
    | Some t \<Rightarrow> ((case jwt_decode E (decoding keys) t token of None \<Rightarrow> Err Unauthorized | Some c \<Rightarrow> Ok c),
                tick_time w))"
  by (auto simp: jwt_verify_def run_unix_now split: option.splits)

text \<open>What a successful \<open>issue\<close> returns.\<close>

lemma run_issue_Ok:
  assumes "run (issue E keys u d ttl ps ss n) w = (Ok token, w')"
  shows "w' = tick_time w"
    and "\<exists>now. sys_time E (time_reads w) = Some now \<and>
      jwt_encode E (encoding keys)
        \<lparr>c_sub = u, c_dev = d, c_exp = now + ttl, c_iat = now, c_pub_topics = ps,
         c_sub_topics = ss, c_notify_topic = n\<rparr> = Inr token"
  using assms
  by (auto simp: issue_def run_unix_now Let_def add_u64_def split: option.splits sum.splits if_splits)

lemma run_issue [exec]:
  "sys_time E (time_reads w) = Some now \<Longrightarrow> add_fits (overflow_checks E) now ttl \<Longrightarrow>
   run (issue E keys u d ttl ps ss n) w =
     ((case jwt_encode E (encoding keys)
        \<lparr>c_sub = u, c_dev = d, c_exp = now + ttl, c_iat = now, c_pub_topics = ps,
         c_sub_topics = ss, c_notify_topic = n\<rparr> of Inl e \<Rightarrow> Err (Internal e) | Inr t \<Rightarrow> Ok t),
      tick_time w)"
  by (auto simp: issue_def run_unix_now Let_def split: sum.splits)

lemma b64_decode_encode: "b64_law E \<Longrightarrow> b64_decode E (b64_encode E bs) = Ok bs"
  by (simp add: b64_law_def b64_decode_def b64_encode_def)

lemma b64_encode_inj: "b64_law E \<Longrightarrow> b64_encode E a = b64_encode E b \<longleftrightarrow> a = b"
  unfolding b64_law_def b64_encode_def by (metis sum.inject(2))

lemma b64_decode_not_Panic [simp]: "b64_decode E s \<noteq> Panic m"
  by (simp add: b64_decode_def split: sum.splits)

lemma leaves_unix_now [frame]: "leaves state_of (unix_now E)"
  unfolding unix_now_def by (intro leaves_bindP frame) (auto split: option.splits)

lemma leaves_jwt [frame]:
  "leaves state_of (jwt_verify E keys token)" "leaves state_of (issue E keys u d ttl ps ss n)"
  unfolding jwt_verify_def issue_def Let_def
  by (intro leaves_bindP frame leaves_ok_or leaves_Done; simp split: sum.splits)+

section \<open>Properties\<close>

text \<open>Property C25. A token that \<open>issue\<close> returned verifies, under the keys of the same signing
  secret, to exactly the claims it was issued with, until 60 seconds (the decoder's leeway)
  after its lifetime is over; afterwards it is refused as unauthorized.\<close>

theorem issue_verify_roundtrip:
  assumes "jwt_law E" and "from_base64 E secret = Inr keys"
    and "sys_time E (time_reads w) = Some t" and "unat t + unat ttl < 2 ^ 64"
    and "run (issue E keys u d ttl ps ss n) w = (Ok token, w1)"
    and "sys_time E (time_reads w2) = Some t'"
  shows "fst (run (jwt_verify E keys token) w2) =
     (if unat t' \<le> unat t + unat ttl + 60
      then Ok \<lparr>c_sub = u, c_dev = d, c_exp = t + ttl, c_iat = t, c_pub_topics = ps,
               c_sub_topics = ss, c_notify_topic = n\<rparr>
      else Err Unauthorized)"
proof -
  have k: "decoding keys = encoding keys"
    using assms(2) by (auto simp: from_base64_def split: sum.splits)
  let ?c = "\<lparr>c_sub = u, c_dev = d, c_exp = t + ttl, c_iat = t, c_pub_topics = ps,
             c_sub_topics = ss, c_notify_topic = n\<rparr>"
  from run_issue_Ok [OF assms(5)] assms(3)
  have "jwt_encode E (encoding keys) ?c = Inr token" by auto
  with assms(1) have "jwt_decode E (encoding keys) t' token = (if jwt_live t' ?c then Some ?c else None)"
    unfolding jwt_law_def by blast
  moreover have "jwt_live t' ?c \<longleftrightarrow> unat t' \<le> unat t + unat ttl + 60"
    by (simp add: jwt_live_def unat_add_exact [OF assms(4)])
  ultimately show ?thesis using assms(6) k by (simp add: run_jwt_verify)
qed

theorem issue_verify_roundtrip_witness:
  "\<exists>keys token w1. from_base64 ex_ext ''key'' = Inr keys \<and>
     run (issue ex_ext keys ''alice'' ''phone'' 3600 [''a''] [''b''] ''n'')
       \<lparr>time_reads = 0, uuid_draws = 0, rng_draws = 0, sql_stmts = 0, http_posts = 0\<rparr> = (Ok token, w1) \<and>
     fst (run (jwt_verify ex_ext keys token) w1) =
       Ok \<lparr>c_sub = ''alice'', c_dev = ''phone'', c_exp = 4600, c_iat = 1000, c_pub_topics = [''a''],
           c_sub_topics = [''b''], c_notify_topic = ''n''\<rparr>"
proof -
  let ?w = "\<lparr>time_reads = 0, uuid_draws = 0, rng_draws = 0, sql_stmts = 0, http_posts = 0\<rparr> :: ambient"
  obtain keys where k: "from_base64 ex_ext ''key'' = Inr keys"
    by (simp add: from_base64_def)
  have t: "sys_time ex_ext m = Some 1000" for m by simp
  obtain token w1 where i:
    "run (issue ex_ext keys ''alice'' ''phone'' 3600 [''a''] [''b''] ''n'') ?w = (Ok token, w1)"
    by (simp add: run_issue [OF t] add_fits_def ex_jwt_encode_def)
  from issue_verify_roundtrip [OF ex_laws(3) k t _ i t, of w1] k i show ?thesis by auto
qed

text \<open>The notification topics of two users coincide exactly when the HMACs of their
  tagged identifiers under the server's secret do: the encoding loses nothing and the tag keeps
  different identifiers different.\<close>

lemma notification_topic_eq_iff:
  assumes "b64_law E" and "hmac_new E secret = Some mac"
  shows "notification_topic E secret u = notification_topic E secret v \<longleftrightarrow>
     mac (as_bytes ''notify:'' @ as_bytes u) = mac (as_bytes ''notify:'' @ as_bytes v)"
  using b64_encode_inj [OF assms(1), unfolded b64_encode_def] assms(2)
  unfolding notification_topic_def as_bytes_append by simp

lemma notification_topic_not_Err [simp]: "notification_topic E secret u \<noteq> Err e"
  by (simp add: notification_topic_def split: outcome.splits)

text \<open>Whether the key is accepted does not depend on the user.\<close>

lemma notification_topic_Ok_any:
  "notification_topic E secret u = Ok t \<Longrightarrow> \<exists>t'. notification_topic E secret v = Ok t'"
  by (auto simp: notification_topic_def split: outcome.splits)

lemma notification_topic_total: "hmac_law E \<Longrightarrow> \<exists>t. notification_topic E secret u = Ok t"
  unfolding notification_topic_def hmac_law_def by (cases "hmac_new E secret") (auto dest: spec [of _ secret])

end
