(* ===== verification/Tables.thy ===== *)
theory Tables
  imports Prelude
begin

text \<open>
  The SQL statements the program uses, on a table given as the list of its rows in insertion
  order, and the abstract view of a table as a partial map from its primary key to the row.

  The locale \<open>keyed_table\<close> is the interface between a table and its users: a table is a
  component of a larger state, read by \<open>rows\<close> and rewritten by \<open>put\<close>, and has a primary key.
  Inside it, the statements are shown to refine the operations of the map; the database theory
  interprets it once for each table.
\<close>

definition insert_row :: "('r \<Rightarrow> 'k) \<Rightarrow> 'r \<Rightarrow> 'r list \<Rightarrow> string + 'r list" where
  "insert_row key r t =
     (if key r \<in> key ` set t then Inl ''UNIQUE constraint failed'' else Inr (t @ [r]))"

definition select_rows :: "('r \<Rightarrow> bool) \<Rightarrow> 'r list \<Rightarrow> 'r list" where
  "select_rows P t = filter P t"

definition select_one :: "('r \<Rightarrow> bool) \<Rightarrow> 'r list \<Rightarrow> 'r option" where
  "select_one P t = find P t"

definition update_rows :: "('r \<Rightarrow> bool) \<Rightarrow> ('r \<Rightarrow> 'r) \<Rightarrow> 'r list \<Rightarrow> 'r list" where
  "update_rows P f t = map (\<lambda>r. if P r then f r else r) t"

definition delete_rows :: "('r \<Rightarrow> bool) \<Rightarrow> 'r list \<Rightarrow> 'r list" where
  "delete_rows P t = filter (\<lambda>r. \<not> P r) t"

definition rows_affected :: "('r \<Rightarrow> bool) \<Rightarrow> 'r list \<Rightarrow> nat" where
  "rows_affected P t = length (filter P t)"

definition pk :: "('r \<Rightarrow> 'k) \<Rightarrow> 'r list \<Rightarrow> bool" where
  "pk key t \<longleftrightarrow> distinct (map key t)"

text \<open>The abstract view: the row with a given primary key.\<close>

definition row_map :: "('r \<Rightarrow> 'k) \<Rightarrow> 'r list \<Rightarrow> 'k \<rightharpoonup> 'r" where
  "row_map key t k = select_one (\<lambda>r. key r = k) t"

section \<open>Statements on row lists\<close>

lemma insert_row_Inr [simp]:
  "insert_row key r t = Inr t' \<longleftrightarrow> key r \<notin> key ` set t \<and> t' = t @ [r]"
  by (auto simp: insert_row_def)

lemma insert_row_fresh: "key r \<notin> key ` set t \<Longrightarrow> insert_row key r t = Inr (t @ [r])"
  by (simp add: insert_row_def)

lemma set_select_rows [simp]: "set (select_rows P t) = {r \<in> set t. P r}"
  by (auto simp: select_rows_def)

lemma set_update_rows: "set (update_rows P f t) = (\<lambda>r. if P r then f r else r) ` set t"
  by (auto simp: update_rows_def)

lemma set_delete_rows [simp]: "set (delete_rows P t) = {r \<in> set t. \<not> P r}"
  by (auto simp: delete_rows_def)

lemma rows_affected_0 [simp]: "rows_affected P t = 0 \<longleftrightarrow> (\<forall>r \<in> set t. \<not> P r)"
  by (simp add: rows_affected_def filter_empty_conv)

lemma select_one_None: "select_one P t = None \<longleftrightarrow> (\<forall>r \<in> set t. \<not> P r)"
  by (auto simp: select_one_def find_None_iff)

lemma None_select_one: "None = select_one P t \<longleftrightarrow> (\<forall>r \<in> set t. \<not> P r)"
  by (metis select_one_None)

lemma select_one_SomeD: "select_one P t = Some r \<Longrightarrow> r \<in> set t \<and> P r"
  by (metis find_Some_iff nth_mem select_one_def)

lemma select_one_append:
  "select_one P (t @ u) = (case select_one P t of None \<Rightarrow> select_one P u | Some r \<Rightarrow> Some r)"
  by (induction t) (auto simp: select_one_def)

lemma select_one_single [simp]: "select_one P [r] = (if P r then Some r else None)"
  by (simp add: select_one_def)

lemma update_rows_map:
  "(\<And>r. g (f r) = g r) \<Longrightarrow> map g (update_rows P f t) = map g t"
  by (simp add: update_rows_def)

lemma filter_update_rows:
  "(\<And>r. Q (f r) = Q r) \<Longrightarrow> filter Q (update_rows P f t) = update_rows P f (filter Q t)"
  by (induction t) (simp_all add: update_rows_def)

lemma update_rows_none: "\<forall>r \<in> set t. \<not> P r \<Longrightarrow> update_rows P f t = t"
  by (simp add: update_rows_def map_idI)

lemma delete_rows_none: "\<forall>r \<in> set t. \<not> P r \<Longrightarrow> delete_rows P t = t"
  by (simp add: delete_rows_def)

lemma rows_affected_delete: "length (delete_rows P t) + rows_affected P t = length t"
  by (induction t) (auto simp: delete_rows_def rows_affected_def)

lemma row_map_None: "row_map key t k = None \<longleftrightarrow> k \<notin> key ` set t"
  by (auto simp: row_map_def select_one_None)

lemma row_map_SomeD: "row_map key t k = Some r \<Longrightarrow> r \<in> set t \<and> key r = k"
  by (auto simp: row_map_def dest: select_one_SomeD)

lemma pk_inj: "pk key t \<Longrightarrow> r \<in> set t \<Longrightarrow> r' \<in> set t \<Longrightarrow> key r = key r' \<Longrightarrow> r = r'"
  by (auto simp: pk_def distinct_map dest: inj_onD)

lemma row_map_Some: "pk key t \<Longrightarrow> row_map key t k = Some r \<longleftrightarrow> r \<in> set t \<and> key r = k"
proof (intro iffI)
  assume p: "pk key t" and r: "r \<in> set t \<and> key r = k"
  then have "row_map key t k \<noteq> None" by (auto simp: row_map_None)
  then obtain r' where r': "row_map key t k = Some r'" by blast
  then have "r' \<in> set t \<and> key r' = k" by (rule row_map_SomeD)
  with p r r' show "row_map key t k = Some r" using pk_inj by fastforce
qed (rule row_map_SomeD)

lemma pk_Nil [simp]: "pk key []"
  by (simp add: pk_def)

lemma pk_insert [intro]: "pk key t \<Longrightarrow> key r \<notin> key ` set t \<Longrightarrow> pk key (t @ [r])"
  by (auto simp: pk_def)

lemma pk_delete [intro]: "pk key t \<Longrightarrow> pk key (delete_rows P t)"
  by (simp add: pk_def delete_rows_def distinct_map_filter)

lemma pk_update [intro]: "pk key t \<Longrightarrow> (\<And>r. key (f r) = key r) \<Longrightarrow> pk key (update_rows P f t)"
  by (simp add: pk_def update_rows_map)

lemma rows_affected_pk: "pk key t \<Longrightarrow> rows_affected (\<lambda>r. key r = k) t \<le> 1"
proof (induction t)
  case (Cons r t)
  then have p: "pk key t" and n: "key r \<notin> key ` set t" by (auto simp: pk_def)
  show ?case
  proof (cases "key r = k")
    case True
    with n have "\<forall>x \<in> set t. key x \<noteq> k" by (metis image_eqI)
    then have "rows_affected (\<lambda>r. key r = k) t = 0" by simp
    with True show ?thesis by (simp add: rows_affected_def)
  next
    case False
    with Cons.IH [OF p] show ?thesis by (simp add: rows_affected_def)
  qed
qed (simp add: rows_affected_def)

text \<open>How a statement changes the abstract view.\<close>

lemma row_map_insert:
  assumes "key r \<notin> key ` set t"
  shows "row_map key (t @ [r]) = (row_map key t)(key r \<mapsto> r)"
proof
  fix k
  from assms have "row_map key t (key r) = None" by (simp add: row_map_None)
  then show "row_map key (t @ [r]) k = ((row_map key t)(key r \<mapsto> r)) k"
    by (auto simp: row_map_def select_one_append select_one_None None_select_one
        split: option.splits dest: select_one_SomeD)
qed

lemma row_map_update:
  assumes "\<And>r. key (f r) = key r"
  shows "row_map key (update_rows (\<lambda>r. key r = k) f t) = (row_map key t)(k := map_option f (row_map key t k))"
proof
  fix j
  show "row_map key (update_rows (\<lambda>r. key r = k) f t) j =
      ((row_map key t)(k := map_option f (row_map key t k))) j"
    by (induction t) (auto simp: assms row_map_def select_one_def update_rows_def)
qed

lemma row_map_delete: "row_map key (delete_rows (\<lambda>r. key r = k) t) = (row_map key t)(k := None)"
proof
  fix j
  show "row_map key (delete_rows (\<lambda>r. key r = k) t) j = ((row_map key t)(k := None)) j"
    by (induction t) (auto simp: row_map_def select_one_def delete_rows_def)
qed

section \<open>Tables in a state\<close>

locale keyed_table =
  fixes rows :: "'s \<Rightarrow> 'r list"
    and put :: "'r list \<Rightarrow> 's \<Rightarrow> 's"
    and key :: "'r \<Rightarrow> 'k"
  assumes rows_put [simp]: "rows (put t s) = t"
begin

definition lookup :: "'s \<Rightarrow> 'k \<rightharpoonup> 'r" where
  "lookup s = row_map key (rows s)"

lemma lookup_insert:
  "insert_row key r (rows s) = Inr t \<Longrightarrow> lookup (put t s) = (lookup s)(key r \<mapsto> r)"
  by (auto simp: lookup_def row_map_insert)

lemma lookup_update:
  assumes "\<And>r. key (f r) = key r"
  shows "lookup (put (update_rows (\<lambda>r. key r = k) f (rows s)) s) = (lookup s)(k := map_option f (lookup s k))"
  using assms by (simp add: lookup_def row_map_update)

lemma lookup_delete: "lookup (put (delete_rows (\<lambda>r. key r = k) (rows s)) s) = (lookup s)(k := None)"
  by (simp add: lookup_def row_map_delete)

lemma insert_fails_iff: "(\<exists>e. insert_row key r (rows s) = Inl e) \<longleftrightarrow> lookup s (key r) \<noteq> None"
  by (auto simp: insert_row_def lookup_def row_map_None)

lemma affected_0_iff: "rows_affected (\<lambda>r. key r = k) (rows s) = 0 \<longleftrightarrow> lookup s k = None"
  by (auto simp: lookup_def row_map_None)

lemma affected_le_1: "pk key (rows s) \<Longrightarrow> rows_affected (\<lambda>r. key r = k) (rows s) \<le> 1"
  by (rule rows_affected_pk)

lemma pk_put_insert:
  "pk key (rows s) \<Longrightarrow> insert_row key r (rows s) = Inr t \<Longrightarrow> pk key (rows (put t s))"
  by auto

lemma pk_put_update:
  "pk key (rows s) \<Longrightarrow> (\<And>r. key (f r) = key r) \<Longrightarrow> pk key (rows (put (update_rows P f (rows s)) s))"
  by auto

lemma pk_put_delete: "pk key (rows s) \<Longrightarrow> pk key (rows (put (delete_rows P (rows s)) s))"
  by auto

end

end
