(* ===== verification/Database.thy ===== *)
theory Database
  imports Crypto Tables
begin

text \<open>
  \<open>src/db/mod.rs\<close> and the schema of \<open>src/db/migrations\<close>: the tables as lists of rows in
  insertion order, and one definition for each function of the module.

  A statement is one atomic action.  It may fail for an outside reason (\<open>sqlx_fault\<close>); an
  \<open>INSERT\<close> that violates the primary key or a foreign key fails too (SQLite enforces foreign
  keys on every connection that sqlx opens).  A failed statement changes nothing and yields
  \<open>Error::Database\<close>.
\<close>

section \<open>Schema\<close>

text \<open>\<open>001_initial.sql\<close> and \<open>002_tokens_valid_from.sql\<close>; the second adds a column to \<open>users\<close>.\<close>

record user_v1 =
  u_user_id :: string
  u_created_at :: i64
  u_suspended :: bool
  u_suspend_reason :: "string option"

record user = user_v1 +
  u_tokens_valid_from :: i64

definition migrate_002 :: "user_v1 \<Rightarrow> user" where
  "migrate_002 u = user_v1.extend u \<lparr>u_tokens_valid_from = 0\<rparr>"

record device =
  d_device_id :: string
  d_user_id :: string
  d_pubkey :: bytes
  d_registered_at :: i64

record relationship =
  r_relationship_id :: string
  r_user_id :: string
  r_peer_id :: string
  r_publish_topics :: string
  r_subscribe_topics :: string
  r_created_at :: i64

record pending_exchange =
  x_exchange_id :: string
  x_initiator_id :: string
  x_responder_id :: string
  x_initiator_pubkey :: bytes
  x_responder_pubkey :: "bytes option"
  x_created_at :: i64
  x_expires_at :: i64

record registration_token =
  t_token_id :: string
  t_token_hash :: bytes
  t_created_at :: i64
  t_expires_at :: i64
  t_max_uses :: i64
  t_uses :: i64

record pool = ambient +
  users :: "user list"
  devices :: "device list"
  relationships :: "relationship list"
  pending_exchanges :: "pending_exchange list"
  registration_tokens :: "registration_token list"

section \<open>Statements\<close>

text \<open>\<open>REFERENCES users(user_id)\<close>\<close>

definition user_exists :: "string \<Rightarrow> 'z pool_scheme \<Rightarrow> bool" where
  "user_exists uid w \<longleftrightarrow> uid \<in> u_user_id ` set (users w)"

definition references_user :: "string \<Rightarrow> 'z pool_scheme \<Rightarrow> string + 'a \<Rightarrow> string + 'a" where
  "references_user uid w r = (if user_exists uid w then r else Inl ''FOREIGN KEY constraint failed'')"

definition sql ::
  "ext \<Rightarrow> ('z pool_scheme \<Rightarrow> string + 'a \<times> 'z pool_scheme) \<Rightarrow> ('z pool_scheme, error, 'a) prog"
where
  "sql E stmt = act (\<lambda>w.
     let w1 = w\<lparr>sql_stmts := Suc (sql_stmts w)\<rparr> in
     case sqlx_fault E (sql_stmts w) of
       Some e \<Rightarrow> (Err (Database e), w1)
     | None \<Rightarrow> (case stmt w1 of Inl e \<Rightarrow> (Err (Database e), w1) | Inr (x, w2) \<Rightarrow> (Ok x, w2)))"

section \<open>Connecting\<close>

definition connect_url :: "string \<Rightarrow> string" where
  "connect_url p =
     (if p = '':memory:'' then ''sqlite::memory:'' else ''sqlite:'' @ p @ ''?mode=rwc'')"

text \<open>
  \<open>pool_connect\<close> opens a pool with a maximal number of connections and a URL, \<open>migrate\<close> runs
  the migrations on it; both are sqlx's.
\<close>

definition connect ::
  "(nat \<Rightarrow> string \<Rightarrow> string + 'p) \<Rightarrow> ('p \<Rightarrow> string + 'p) \<Rightarrow> string \<Rightarrow> string + 'p" where
  "connect pool_connect migrate p =
     bindS (pool_connect 5 (connect_url p)) (\<lambda>pool. bindS (migrate pool) (\<lambda>pool'. Inr pool'))"

section \<open>Users\<close>

definition create_user :: "ext \<Rightarrow> ('z pool_scheme, error, user) prog" where
  "create_user E =
     bindP (new_uuid E) (\<lambda>user_id.
     bindP (unix_now E) (\<lambda>secs.
       let now = as_i64 secs;
           row = \<lparr>u_user_id = user_id, u_created_at = now, u_suspended = False,
                  u_suspend_reason = None, u_tokens_valid_from = 0\<rparr>
       in bindP (sql E (\<lambda>w. bindS (insert_row u_user_id row (users w)) (\<lambda>t. Inr ((), w\<lparr>users := t\<rparr>))))
            (\<lambda>_. okP row)))"

definition get_user :: "ext \<Rightarrow> string \<Rightarrow> ('z pool_scheme, error, user) prog" where
  "get_user E user_id =
     bindP (sql E (\<lambda>w. Inr (select_one (\<lambda>u. u_user_id u = user_id) (users w), w))) (ok_or NotFound)"

definition invalidate_tokens :: "ext \<Rightarrow> string \<Rightarrow> ('z pool_scheme, error, unit) prog" where
  "invalidate_tokens E user_id =
     bindP (unix_now E) (\<lambda>secs.
       let now = as_i64 secs in
       sql E (\<lambda>w. Inr ((), w\<lparr>users := update_rows (\<lambda>u. u_user_id u = user_id)
                                   (\<lambda>u. u\<lparr>u_tokens_valid_from := now\<rparr>) (users w)\<rparr>)))"

definition set_suspended ::
  "ext \<Rightarrow> string \<Rightarrow> bool \<Rightarrow> string option \<Rightarrow> ('z pool_scheme, error, unit) prog" where
  "set_suspended E user_id suspended reason =
     bindP (sql E (\<lambda>w. Inr (rows_affected (\<lambda>u. u_user_id u = user_id) (users w),
              w\<lparr>users := update_rows (\<lambda>u. u_user_id u = user_id)
                 (\<lambda>u. u\<lparr>u_suspended := suspended, u_suspend_reason := reason\<rparr>) (users w)\<rparr>)))
       (\<lambda>rows. if rows = 0 then errP NotFound else okP ())"

section \<open>Devices\<close>

definition create_device ::
  "ext \<Rightarrow> string \<Rightarrow> bytes \<Rightarrow> ('z pool_scheme, error, device) prog" where
  "create_device E user_id pubkey =
     bindP (new_uuid E) (\<lambda>device_id.
     bindP (unix_now E) (\<lambda>secs.
       let now = as_i64 secs;
           row = \<lparr>d_device_id = device_id, d_user_id = user_id, d_pubkey = pubkey,
                  d_registered_at = now\<rparr>
       in bindP (sql E (\<lambda>w. references_user user_id w
                   (bindS (insert_row d_device_id row (devices w)) (\<lambda>t. Inr ((), w\<lparr>devices := t\<rparr>)))))
            (\<lambda>_. okP row)))"

definition get_device_by_user :: "ext \<Rightarrow> string \<Rightarrow> ('z pool_scheme, error, device list) prog" where
  "get_device_by_user E user_id =
     sql E (\<lambda>w. Inr (select_rows (\<lambda>d. d_user_id d = user_id) (devices w), w))"

section \<open>Relationships\<close>

definition create_relationship ::
  "ext \<Rightarrow> string \<Rightarrow> string \<Rightarrow> string list \<Rightarrow> string list
   \<Rightarrow> ('z pool_scheme, error, relationship) prog" where
  "create_relationship E user_id peer_id publish_topics subscribe_topics =
     bindP (new_uuid E) (\<lambda>relationship_id.
     bindP (unix_now E) (\<lambda>secs.
     let now = as_i64 secs in
     bindP (Done (unwrap (json_vec E publish_topics))) (\<lambda>pub_json.
     bindP (Done (unwrap (json_vec E subscribe_topics))) (\<lambda>sub_json.
       let row = \<lparr>r_relationship_id = relationship_id, r_user_id = user_id, r_peer_id = peer_id,
                  r_publish_topics = pub_json, r_subscribe_topics = sub_json, r_created_at = now\<rparr>
       in bindP (sql E (\<lambda>w. references_user user_id w
                   (bindS (insert_row r_relationship_id row (relationships w))
                      (\<lambda>t. Inr ((), w\<lparr>relationships := t\<rparr>)))))
            (\<lambda>_. okP row)))))"

definition list_relationships ::
  "ext \<Rightarrow> string \<Rightarrow> ('z pool_scheme, error, relationship list) prog" where
  "list_relationships E user_id =
     sql E (\<lambda>w. Inr (select_rows (\<lambda>r. r_user_id r = user_id) (relationships w), w))"

definition get_relationship ::
  "ext \<Rightarrow> string \<Rightarrow> string \<Rightarrow> ('z pool_scheme, error, relationship) prog" where
  "get_relationship E user_id relationship_id =
     bindP (sql E (\<lambda>w. Inr (select_one
              (\<lambda>r. r_relationship_id r = relationship_id \<and> r_user_id r = user_id)
              (relationships w), w)))
       (ok_or NotFound)"

definition delete_relationship ::
  "ext \<Rightarrow> string \<Rightarrow> string \<Rightarrow> ('z pool_scheme, error, unit) prog" where
  "delete_relationship E user_id relationship_id =
     bindP (sql E (\<lambda>w.
         let P = (\<lambda>r. r_relationship_id r = relationship_id \<and> r_user_id r = user_id)
         in Inr (rows_affected P (relationships w),
                 w\<lparr>relationships := delete_rows P (relationships w)\<rparr>)))
       (\<lambda>rows. if rows = 0 then errP NotFound else okP ())"

text \<open>\<open>serde_json::from_str(...).unwrap_or_default()\<close> on a stored JSON array of strings\<close>

definition topics_of_json :: "ext \<Rightarrow> string \<Rightarrow> string list" where
  "topics_of_json E s = (case json_vec_parse E s of None \<Rightarrow> [] | Some ts \<Rightarrow> ts)"

fun collect_topics ::
  "ext \<Rightarrow> relationship list \<Rightarrow> string list \<Rightarrow> string list \<Rightarrow> string list \<times> string list" where
  "collect_topics E [] pub_topics sub_topics = (pub_topics, sub_topics)"
| "collect_topics E (rel # rels) pub_topics sub_topics =
     (let p = topics_of_json E (r_publish_topics rel);
          s = topics_of_json E (r_subscribe_topics rel)
      in collect_topics E rels (pub_topics @ p) (sub_topics @ s))"

definition user_topics ::
  "ext \<Rightarrow> string \<Rightarrow> ('z pool_scheme, error, string list \<times> string list) prog" where
  "user_topics E user_id =
     bindP (list_relationships E user_id) (\<lambda>rels. okP (collect_topics E rels [] []))"

section \<open>Pending exchanges\<close>

definition EXCHANGE_TTL_SECS :: u64 where
  "EXCHANGE_TTL_SECS = 7 * 24 * 3600"

definition create_exchange ::
  "ext \<Rightarrow> string \<Rightarrow> string \<Rightarrow> bytes \<Rightarrow> ('z pool_scheme, error, pending_exchange) prog" where
  "create_exchange E initiator_id responder_id initiator_pubkey =
     bindP (new_uuid E) (\<lambda>exchange_id.
     bindP (unix_now E) (\<lambda>secs.
     let now = as_i64 secs in
     bindP (unix_now E) (\<lambda>secs2.
     bindP (Done (add_u64 (overflow_checks E) secs2 EXCHANGE_TTL_SECS)) (\<lambda>sum.
       let expires_at = as_i64 sum;
           row = \<lparr>x_exchange_id = exchange_id, x_initiator_id = initiator_id,
                  x_responder_id = responder_id, x_initiator_pubkey = initiator_pubkey,
                  x_responder_pubkey = None, x_created_at = now, x_expires_at = expires_at\<rparr>
       in bindP (sql E (\<lambda>w. references_user initiator_id w
                   (bindS (insert_row x_exchange_id row (pending_exchanges w))
                      (\<lambda>t. Inr ((), w\<lparr>pending_exchanges := t\<rparr>)))))
            (\<lambda>_. okP row)))))"

definition get_exchange :: "ext \<Rightarrow> string \<Rightarrow> ('z pool_scheme, error, pending_exchange) prog" where
  "get_exchange E exchange_id =
     bindP (sql E (\<lambda>w. Inr (select_one (\<lambda>x. x_exchange_id x = exchange_id) (pending_exchanges w), w)))
       (ok_or NotFound)"

definition set_responder_pubkey ::
  "ext \<Rightarrow> string \<Rightarrow> bytes \<Rightarrow> ('z pool_scheme, error, unit) prog" where
  "set_responder_pubkey E exchange_id responder_pubkey =
     bindP (sql E (\<lambda>w. Inr (rows_affected (\<lambda>x. x_exchange_id x = exchange_id) (pending_exchanges w),
              w\<lparr>pending_exchanges := update_rows (\<lambda>x. x_exchange_id x = exchange_id)
                 (\<lambda>x. x\<lparr>x_responder_pubkey := Some responder_pubkey\<rparr>) (pending_exchanges w)\<rparr>)))
       (\<lambda>rows. if rows = 0 then errP NotFound else okP ())"

definition delete_exchange :: "ext \<Rightarrow> string \<Rightarrow> ('z pool_scheme, error, unit) prog" where
  "delete_exchange E exchange_id =
     sql E (\<lambda>w. Inr ((), w\<lparr>pending_exchanges :=
       delete_rows (\<lambda>x. x_exchange_id x = exchange_id) (pending_exchanges w)\<rparr>))"

definition purge_expired_exchanges :: "ext \<Rightarrow> ('z pool_scheme, error, nat) prog" where
  "purge_expired_exchanges E =
     bindP (unix_now E) (\<lambda>secs.
       let now = as_i64 secs in
       sql E (\<lambda>w. Inr (rows_affected (\<lambda>x. x_expires_at x < now) (pending_exchanges w),
         w\<lparr>pending_exchanges := delete_rows (\<lambda>x. x_expires_at x < now) (pending_exchanges w)\<rparr>)))"

section \<open>Registration tokens\<close>

definition create_registration_token ::
  "ext \<Rightarrow> bytes \<Rightarrow> u64 \<Rightarrow> i64 \<Rightarrow> ('z pool_scheme, error, string) prog" where
  "create_registration_token E token_hash expires_in_secs max_uses =
     bindP (new_uuid E) (\<lambda>token_id.
     bindP (unix_now E) (\<lambda>secs.
     let now = as_i64 secs in
     bindP (unix_now E) (\<lambda>secs2.
     bindP (Done (add_u64 (overflow_checks E) secs2 expires_in_secs)) (\<lambda>sum.
       let expires_at = as_i64 sum;
           row = \<lparr>t_token_id = token_id, t_token_hash = token_hash, t_created_at = now,
                  t_expires_at = expires_at, t_max_uses = max_uses, t_uses = 0\<rparr>
       in bindP (sql E (\<lambda>w. bindS (insert_row t_token_id row (registration_tokens w))
                      (\<lambda>t. Inr ((), w\<lparr>registration_tokens := t\<rparr>))))
            (\<lambda>_. okP token_id)))))"

definition token_usable :: "bytes \<Rightarrow> i64 \<Rightarrow> registration_token \<Rightarrow> bool" where
  "token_usable token_hash now t \<longleftrightarrow>
     t_token_hash t = token_hash \<and> t_expires_at t > now \<and> t_uses t < t_max_uses t"

definition consume_registration_token :: "ext \<Rightarrow> bytes \<Rightarrow> ('z pool_scheme, error, unit) prog" where
  "consume_registration_token E token_hash =
     bindP (unix_now E) (\<lambda>secs.
     let now = as_i64 secs in
     bindP (sql E (\<lambda>w. Inr (rows_affected (token_usable token_hash now) (registration_tokens w),
              w\<lparr>registration_tokens := update_rows (token_usable token_hash now)
                 (\<lambda>t. t\<lparr>t_uses := t_uses t + 1\<rparr>) (registration_tokens w)\<rparr>)))
       (\<lambda>rows. if rows = 0 then errP Forbidden else okP ()))"

section \<open>The tables as maps\<close>

interpretation users_table: keyed_table users "\<lambda>t w. w\<lparr>users := t\<rparr>" u_user_id
  by unfold_locales simp

interpretation devices_table: keyed_table devices "\<lambda>t w. w\<lparr>devices := t\<rparr>" d_device_id
  by unfold_locales simp

interpretation relationships_table:
  keyed_table relationships "\<lambda>t w. w\<lparr>relationships := t\<rparr>" r_relationship_id
  by unfold_locales simp

interpretation exchanges_table:
  keyed_table pending_exchanges "\<lambda>t w. w\<lparr>pending_exchanges := t\<rparr>" x_exchange_id
  by unfold_locales simp

interpretation tokens_table:
  keyed_table registration_tokens "\<lambda>t w. w\<lparr>registration_tokens := t\<rparr>" t_token_id
  by unfold_locales simp

abbreviation find_user :: "'z pool_scheme \<Rightarrow> string \<rightharpoonup> user" where
  "find_user w \<equiv> row_map u_user_id (users w)"

abbreviation find_exchange :: "'z pool_scheme \<Rightarrow> string \<rightharpoonup> pending_exchange" where
  "find_exchange w \<equiv> row_map x_exchange_id (pending_exchanges w)"

abbreviation devices_of :: "'z pool_scheme \<Rightarrow> string \<Rightarrow> device list" where
  "devices_of w uid \<equiv> select_rows (\<lambda>d. d_user_id d = uid) (devices w)"

abbreviation relationships_of :: "'z pool_scheme \<Rightarrow> string \<Rightarrow> relationship list" where
  "relationships_of w uid \<equiv> select_rows (\<lambda>r. r_user_id r = uid) (relationships w)"

section \<open>Running the operations alone\<close>

lemma user_exists_find: "user_exists uid w \<longleftrightarrow> find_user w uid \<noteq> None"
  by (simp add: user_exists_def row_map_None)

lemma references_user_simps [simp]:
  "user_exists uid w \<Longrightarrow> references_user uid w r = r"
  "\<not> user_exists uid w \<Longrightarrow> references_user uid w r = Inl ''FOREIGN KEY constraint failed''"
  by (simp_all add: references_user_def)

lemma references_user_Inr [simp]:
  "references_user uid w r = Inr x \<longleftrightarrow> user_exists uid w \<and> r = Inr x"
  by (simp add: references_user_def)

lemma user_exists_frame [simp]:
  "user_exists uid (w\<lparr>time_reads := n\<rparr>) = user_exists uid w"
  "user_exists uid (w\<lparr>uuid_draws := n\<rparr>) = user_exists uid w"
  "user_exists uid (w\<lparr>rng_draws := n\<rparr>) = user_exists uid w"
  "user_exists uid (w\<lparr>sql_stmts := n\<rparr>) = user_exists uid w"
  "user_exists uid (w\<lparr>http_posts := n\<rparr>) = user_exists uid w"
  "user_exists uid (w\<lparr>devices := ds\<rparr>) = user_exists uid w"
  "user_exists uid (w\<lparr>relationships := rs\<rparr>) = user_exists uid w"
  "user_exists uid (w\<lparr>pending_exchanges := xs\<rparr>) = user_exists uid w"
  "user_exists uid (w\<lparr>registration_tokens := ts\<rparr>) = user_exists uid w"
  by (simp_all add: user_exists_def)

lemma run_sql [exec]:
  "run (sql E stmt) w =
     (case sqlx_fault E (sql_stmts w) of
        Some e \<Rightarrow> (Err (Database e), tick_sql w)
      | None \<Rightarrow> (case stmt (tick_sql w) of
          Inl e \<Rightarrow> (Err (Database e), tick_sql w) | Inr (x, w2) \<Rightarrow> (Ok x, w2)))"
  by (simp add: sql_def Let_def split: option.splits sum.splits)

lemma run_get_user [exec]:
  "run (get_user E uid) w =
     (case sqlx_fault E (sql_stmts w) of
        Some e \<Rightarrow> (Err (Database e), tick_sql w)
      | None \<Rightarrow> ((case find_user w uid of None \<Rightarrow> Err NotFound | Some u \<Rightarrow> Ok u), tick_sql w))"
  by (auto simp: get_user_def run_sql row_map_def split: option.splits)

lemma run_get_device_by_user [exec]:
  "run (get_device_by_user E uid) w =
     (case sqlx_fault E (sql_stmts w) of
        Some e \<Rightarrow> (Err (Database e), tick_sql w) | None \<Rightarrow> (Ok (devices_of w uid), tick_sql w))"
  by (simp add: get_device_by_user_def run_sql split: option.splits)

lemma run_list_relationships [exec]:
  "run (list_relationships E uid) w =
     (case sqlx_fault E (sql_stmts w) of
        Some e \<Rightarrow> (Err (Database e), tick_sql w)
      | None \<Rightarrow> (Ok (relationships_of w uid), tick_sql w))"
  by (simp add: list_relationships_def run_sql split: option.splits)

lemma run_get_exchange [exec]:
  "run (get_exchange E xid) w =
     (case sqlx_fault E (sql_stmts w) of
        Some e \<Rightarrow> (Err (Database e), tick_sql w)
      | None \<Rightarrow> ((case find_exchange w xid of None \<Rightarrow> Err NotFound | Some x \<Rightarrow> Ok x), tick_sql w))"
  by (auto simp: get_exchange_def run_sql row_map_def split: option.splits)

lemma run_get_relationship [exec]:
  "run (get_relationship E uid rid) w =
     (case sqlx_fault E (sql_stmts w) of
        Some e \<Rightarrow> (Err (Database e), tick_sql w)
      | None \<Rightarrow> ((case select_one (\<lambda>r. r_relationship_id r = rid \<and> r_user_id r = uid) (relationships w)
                  of None \<Rightarrow> Err NotFound | Some r \<Rightarrow> Ok r), tick_sql w))"
  by (auto simp: get_relationship_def run_sql split: option.splits)

lemma collect_topics_eq:
  "collect_topics E rels ps ss =
     (ps @ concat (map (topics_of_json E \<circ> r_publish_topics) rels),
      ss @ concat (map (topics_of_json E \<circ> r_subscribe_topics) rels))"
  by (induction rels arbitrary: ps ss) (simp_all add: Let_def)

lemma run_user_topics [exec]:
  "run (user_topics E uid) w =
     (case sqlx_fault E (sql_stmts w) of
        Some e \<Rightarrow> (Err (Database e), tick_sql w)
      | None \<Rightarrow> (Ok (concat (map (topics_of_json E \<circ> r_publish_topics) (relationships_of w uid)),
                   concat (map (topics_of_json E \<circ> r_subscribe_topics) (relationships_of w uid))),
                tick_sql w))"
  by (simp add: user_topics_def run_list_relationships collect_topics_eq split: option.splits)

lemma run_set_suspended [exec]:
  "run (set_suspended E uid b reason) w =
     (case sqlx_fault E (sql_stmts w) of
        Some e \<Rightarrow> (Err (Database e), tick_sql w)
      | None \<Rightarrow> ((if user_exists uid w then Ok () else Err NotFound),
          (tick_sql w)\<lparr>users := update_rows (\<lambda>u. u_user_id u = uid)
             (\<lambda>u. u\<lparr>u_suspended := b, u_suspend_reason := reason\<rparr>) (users w)\<rparr>))"
  by (auto simp: set_suspended_def run_sql user_exists_def split: option.splits)

lemma run_invalidate_tokens [exec]:
  "sys_time E (time_reads w) = Some t \<Longrightarrow> run (invalidate_tokens E uid) w =
     (case sqlx_fault E (sql_stmts w) of
        Some e \<Rightarrow> (Err (Database e), tick_sql (tick_time w))
      | None \<Rightarrow> (Ok (), (tick_sql (tick_time w))\<lparr>users := update_rows (\<lambda>u. u_user_id u = uid)
             (\<lambda>u. u\<lparr>u_tokens_valid_from := as_i64 t\<rparr>) (users w)\<rparr>))"
  by (simp add: invalidate_tokens_def exec Let_def split: option.splits)

lemma run_delete_exchange [exec]:
  "run (delete_exchange E xid) w =
     (case sqlx_fault E (sql_stmts w) of
        Some e \<Rightarrow> (Err (Database e), tick_sql w)
      | None \<Rightarrow> (Ok (), (tick_sql w)\<lparr>pending_exchanges :=
            delete_rows (\<lambda>x. x_exchange_id x = xid) (pending_exchanges w)\<rparr>))"
  by (simp add: delete_exchange_def run_sql split: option.splits)

lemma run_set_responder_pubkey [exec]:
  "run (set_responder_pubkey E xid key) w =
     (case sqlx_fault E (sql_stmts w) of
        Some e \<Rightarrow> (Err (Database e), tick_sql w)
      | None \<Rightarrow> ((if find_exchange w xid = None then Err NotFound else Ok ()),
          (tick_sql w)\<lparr>pending_exchanges := update_rows (\<lambda>x. x_exchange_id x = xid)
             (\<lambda>x. x\<lparr>x_responder_pubkey := Some key\<rparr>) (pending_exchanges w)\<rparr>))"
  by (auto simp: set_responder_pubkey_def run_sql row_map_None split: option.splits)

lemma run_purge_expired_exchanges [exec]:
  "sys_time E (time_reads w) = Some t \<Longrightarrow> run (purge_expired_exchanges E) w =
     (case sqlx_fault E (sql_stmts w) of
        Some e \<Rightarrow> (Err (Database e), tick_sql (tick_time w))
      | None \<Rightarrow> (Ok (rows_affected (\<lambda>x. x_expires_at x < as_i64 t) (pending_exchanges w)),
          (tick_sql (tick_time w))\<lparr>pending_exchanges :=
            delete_rows (\<lambda>x. x_expires_at x < as_i64 t) (pending_exchanges w)\<rparr>))"
  by (simp add: purge_expired_exchanges_def exec Let_def split: option.splits)

lemma run_consume_registration_token [exec]:
  "sys_time E (time_reads w) = Some t \<Longrightarrow> run (consume_registration_token E h) w =
     (case sqlx_fault E (sql_stmts w) of
        Some e \<Rightarrow> (Err (Database e), tick_sql (tick_time w))
      | None \<Rightarrow> ((if \<exists>r \<in> set (registration_tokens w). token_usable h (as_i64 t) r
                  then Ok () else Err Forbidden),
          (tick_sql (tick_time w))\<lparr>registration_tokens := update_rows (token_usable h (as_i64 t))
             (\<lambda>r. r\<lparr>t_uses := t_uses r + 1\<rparr>) (registration_tokens w)\<rparr>))"
  by (auto simp: consume_registration_token_def exec Let_def split: option.splits)

lemma run_delete_relationship [exec]:
  "run (delete_relationship E uid rid) w =
     (case sqlx_fault E (sql_stmts w) of
        Some e \<Rightarrow> (Err (Database e), tick_sql w)
      | None \<Rightarrow> ((if \<exists>r \<in> set (relationships w). r_relationship_id r = rid \<and> r_user_id r = uid
                  then Ok () else Err NotFound),
          (tick_sql w)\<lparr>relationships := delete_rows
             (\<lambda>r. r_relationship_id r = rid \<and> r_user_id r = uid) (relationships w)\<rparr>))"
  by (auto simp: delete_relationship_def run_sql Let_def split: option.splits)

lemma run_create_relationship_Ok:
  assumes "no_faults E" and "run (create_relationship E uid pid ps ss) w = (Ok rel, w')"
  shows "relationships w' = relationships w @ [rel]"
    and "r_user_id rel = uid \<and> r_peer_id rel = pid \<and> json_vec E ps = Inr (r_publish_topics rel) \<and>
      json_vec E ss = Inr (r_subscribe_topics rel)"
proof -
  obtain p s where "json_vec E ps = Inr p" "json_vec E ss = Inr s"
    using assms
    by (cases "json_vec E ps"; cases "json_vec E ss")
      (auto simp: create_relationship_def exec Let_def split: option.splits)
  with assms show "relationships w' = relationships w @ [rel]"
    and "r_user_id rel = uid \<and> r_peer_id rel = pid \<and> json_vec E ps = Inr (r_publish_topics rel) \<and>
      json_vec E ss = Inr (r_subscribe_topics rel)"
    by (auto simp: create_relationship_def exec Let_def references_user_def insert_row_def
        split: option.splits if_splits)
qed

section \<open>Frames\<close>

lemma leaves_sql:
  assumes "\<And>w x w'. stmt w = Inr (x, w') \<Longrightarrow> f w' = f w" and "\<And>w n. f (w\<lparr>sql_stmts := n\<rparr>) = f w"
  shows "leaves f (sql E stmt)"
  unfolding sql_def Let_def
  by (rule leaves_act) (auto simp: assms split: option.splits sum.splits)

lemma leaves_db_reads [frame]:
  "leaves state_of (get_user E uid)" "leaves state_of (get_device_by_user E uid)"
  "leaves state_of (list_relationships E uid)" "leaves state_of (user_topics E uid)"
  "leaves state_of (get_relationship E uid rid)" "leaves state_of (get_exchange E xid)"
  unfolding get_user_def get_device_by_user_def list_relationships_def user_topics_def
    get_relationship_def get_exchange_def
  by (intro leaves_bindP leaves_sql leaves_ok_or leaves_okP; auto)+

section \<open>Properties\<close>

text \<open>A number of attempts, one after the other, to use the registration token with a hash.\<close>

primrec consume_attempts ::
  "ext \<Rightarrow> bytes \<Rightarrow> nat \<Rightarrow> ('z pool_scheme, error, (error + unit) list) prog" where
  "consume_attempts E h 0 = okP []"
| "consume_attempts E h (Suc n) =
     bindP (attempt (consume_registration_token E h)) (\<lambda>r.
     bindP (consume_attempts E h n) (\<lambda>rs. okP (r # rs)))"

lemma token_usable_unique:
  assumes "filter (\<lambda>t. t_token_hash t = h) ts = [tok]"
  shows "(\<exists>r \<in> set ts. token_usable h now r) \<longleftrightarrow> token_usable h now tok"
proof -
  have "set (filter (\<lambda>t. t_token_hash t = h) ts) = {tok}" by (simp add: assms)
  then have "r \<in> set ts \<and> t_token_hash r = h \<longleftrightarrow> r = tok" for r by auto
  then show ?thesis unfolding token_usable_def by metis
qed

lemma run_consume_unique:
  assumes "no_faults E" and "clock_ok E"
    and "filter (\<lambda>t. t_token_hash t = h) (registration_tokens w) = [tok]"
    and "as_i64 (time_at E (time_reads w)) < t_expires_at tok"
  shows "\<exists>w'. run (consume_registration_token E h) w =
      (if t_uses tok < t_max_uses tok then Ok () else Err Forbidden, w') \<and>
      filter (\<lambda>t. t_token_hash t = h) (registration_tokens w') =
        [if t_uses tok < t_max_uses tok then tok\<lparr>t_uses := t_uses tok + 1\<rparr> else tok]"
proof -
  have "t_token_hash tok = h" using assms(3) by (metis (mono_tags) Cons_eq_filterD)
  then have u: "token_usable h (as_i64 (time_at E (time_reads w))) tok \<longleftrightarrow> t_uses tok < t_max_uses tok"
    using assms(4) by (simp add: token_usable_def)
  from assms(1,2) show ?thesis
    by (simp add: run_consume_registration_token token_usable_unique [OF assms(3)] u
        filter_update_rows assms(3)) (simp add: update_rows_def u)
qed

text \<open>Property C5. A registration token that has not expired admits exactly the remaining number
  of registrations: of any number of successive attempts the first ones succeed until the limit
  is reached, and all later ones are refused as forbidden.\<close>

theorem token_admits_exactly:
  assumes "no_faults E" and "clock_ok E"
    and "filter (\<lambda>t. t_token_hash t = h) (registration_tokens w) = [tok]"
    and "\<forall>n. as_i64 (time_at E n) < t_expires_at tok"
  shows "fst (run (consume_attempts E h n) w) =
     (let k = min n (nat (t_max_uses tok - t_uses tok))
      in Ok (replicate k (Inr ()) @ replicate (n - k) (Inl Forbidden)))"
  using assms(3,4)
proof (induction n arbitrary: w tok)
  case (Suc n)
  obtain w' where w': "run (consume_registration_token E h) w =
      (if t_uses tok < t_max_uses tok then Ok () else Err Forbidden, w')"
    and f: "filter (\<lambda>t. t_token_hash t = h) (registration_tokens w') =
        [if t_uses tok < t_max_uses tok then tok\<lparr>t_uses := t_uses tok + 1\<rparr> else tok]"
    using run_consume_unique [OF assms(1,2) Suc.prems(1)] Suc.prems(2) by blast
  show ?case
  proof (cases "t_uses tok < t_max_uses tok")
    case True
    then have "nat (t_max_uses tok - t_uses tok) = Suc (nat (t_max_uses tok - (t_uses tok + 1)))"
      by simp
    with True w' Suc.IH [OF f] Suc.prems(2) show ?thesis
      by (auto simp: Let_def split: prod.splits)
  next
    case False
    with w' Suc.IH [OF f] Suc.prems(2) show ?thesis
      by (auto simp: Let_def split: prod.splits)
  qed
qed simp

definition ex_token :: registration_token where
  "ex_token = \<lparr>t_token_id = ''t1'', t_token_hash = [9], t_created_at = 0, t_expires_at = 5000,
               t_max_uses = 2, t_uses = 0\<rparr>"

definition ex_pool :: pool where
  "ex_pool = \<lparr>time_reads = 0, uuid_draws = 0, rng_draws = 0, sql_stmts = 0, http_posts = 0,
     users = [\<lparr>u_user_id = ''alice'', u_created_at = 0, u_suspended = False,
               u_suspend_reason = None, u_tokens_valid_from = 0\<rparr>],
     devices = [], relationships = [],
     pending_exchanges = [\<lparr>x_exchange_id = ''x1'', x_initiator_id = ''alice'', x_responder_id = ''alice'',
        x_initiator_pubkey = [], x_responder_pubkey = None, x_created_at = 0, x_expires_at = 999\<rparr>],
     registration_tokens = [ex_token]\<rparr>"

lemma time_at_ex [simp]: "time_at ex_ext n = 1000"
  by (simp add: time_at_def)

lemma as_i64_numeral [simp]: "as_i64 1000 = 1000"
  by (simp add: as_i64_def)

theorem token_admits_exactly_witness:
  "fst (run (consume_attempts ex_ext [9] 3) ex_pool) = Ok [Inr (), Inr (), Inl Forbidden]"
  using token_admits_exactly [of ex_ext "[9]" ex_pool ex_token 3]
  by (simp add: ex_pool_def ex_token_def Let_def numeral_eq_Suc)

text \<open>Property C31. The purge deletes exactly the exchanges whose expiry is before the clock
  reading, reports their number, and touches no other table.\<close>

theorem purge_removes_exactly_expired:
  assumes "no_faults E" and "clock_ok E" and "run (purge_expired_exchanges E) w = (r, w')"
  shows "(\<forall>x. x \<in> set (pending_exchanges w') \<longleftrightarrow>
        x \<in> set (pending_exchanges w) \<and> as_i64 (time_at E (time_reads w)) \<le> x_expires_at x) \<and>
     r = Ok (length (pending_exchanges w) - length (pending_exchanges w')) \<and>
     users w' = users w \<and> devices w' = devices w \<and> relationships w' = relationships w \<and>
     registration_tokens w' = registration_tokens w"
proof -
  let ?P = "\<lambda>x. x_expires_at x < as_i64 (time_at E (time_reads w))"
  have w': "w' = (tick_sql (tick_time w))\<lparr>pending_exchanges := delete_rows ?P (pending_exchanges w)\<rparr>"
    and r: "r = Ok (rows_affected ?P (pending_exchanges w))"
    using assms by (simp_all add: run_purge_expired_exchanges)
  have "rows_affected ?P (pending_exchanges w) = length (pending_exchanges w) - length (pending_exchanges w')"
    using rows_affected_delete [of ?P "pending_exchanges w"] by (simp add: w')
  then show ?thesis by (auto simp: r w' not_less)
qed

theorem purge_removes_exactly_expired_witness:
  "pending_exchanges (snd (run (purge_expired_exchanges ex_ext) ex_pool)) = []"
proof -
  obtain r w' where p: "run (purge_expired_exchanges ex_ext) ex_pool = (r, w')" by fastforce
  from purge_removes_exactly_expired [OF ex_laws(5,4) p]
  have "x \<notin> set (pending_exchanges w')" for x by (auto simp: ex_pool_def)
  then show ?thesis using p by (metis last_in_set snd_conv)
qed

lemma run_create_user [exec]:
  assumes "no_faults E" and "clock_ok E" and "find_user w (uuid_v4 E (uuid_draws w)) = None"
  shows "run (create_user E) w =
     (let u = \<lparr>u_user_id = uuid_v4 E (uuid_draws w), u_created_at = as_i64 (time_at E (time_reads w)),
               u_suspended = False, u_suspend_reason = None, u_tokens_valid_from = 0\<rparr>
      in (Ok u, (tick_sql (tick_time (tick_uuid w)))\<lparr>users := users w @ [u]\<rparr>))"
  using assms by (simp add: create_user_def exec Let_def insert_row_fresh row_map_None)

lemma run_create_user_taken:
  assumes "no_faults E" and "clock_ok E" and "find_user w (uuid_v4 E (uuid_draws w)) \<noteq> None"
  shows "\<exists>e. run (create_user E) w = (Err (Database e), tick_sql (tick_time (tick_uuid w)))"
  using assms by (auto simp: create_user_def exec Let_def insert_row_def row_map_None)

text \<open>Property C26. The user statements, on the users seen as a map from identifiers to records.
  Looking up a user reads the map, and reports a missing entry as not found.  Creating a user adds
  the entry of its new identifier, not suspended, with the clock reading as creation time and no
  token invalidated; if the identifier is taken, it is a database error and the map is unchanged.
  Suspending or unsuspending is an update at that identifier, not found exactly if there is no
  entry.  Invalidating a user's tokens is the update that sets the earliest accepted issue time to
  the clock reading.\<close>

theorem user_statements_refine_map:
  assumes "no_faults E" and "clock_ok E"
    and "run (get_user E uid) w = (g, w0)" and "run (create_user E) w = (c, w1)"
    and "run (set_suspended E uid b reason) w = (r, w2)" and "run (invalidate_tokens E uid) w = (s, w3)"
  shows "g = (case find_user w uid of None \<Rightarrow> Err NotFound | Some u \<Rightarrow> Ok u) \<and> find_user w0 = find_user w \<and>
     (let new = uuid_v4 E (uuid_draws w);
          u = \<lparr>u_user_id = new, u_created_at = as_i64 (time_at E (time_reads w)), u_suspended = False,
               u_suspend_reason = None, u_tokens_valid_from = 0\<rparr>
      in if find_user w new = None
         then c = Ok u \<and> find_user w1 = (find_user w)(new \<mapsto> u)
         else (\<exists>e. c = Err (Database e)) \<and> find_user w1 = find_user w) \<and>
     r = (if find_user w uid = None then Err NotFound else Ok ()) \<and>
     find_user w2 = (find_user w)(uid :=
       map_option (\<lambda>u. u\<lparr>u_suspended := b, u_suspend_reason := reason\<rparr>) (find_user w uid)) \<and>
     s = Ok () \<and>
     find_user w3 = (find_user w)(uid :=
       map_option (\<lambda>u. u\<lparr>u_tokens_valid_from := as_i64 (time_at E (time_reads w))\<rparr>) (find_user w uid))"
proof -
  let ?new = "uuid_v4 E (uuid_draws w)"
  let ?f = "\<lambda>u. u\<lparr>u_suspended := b, u_suspend_reason := reason\<rparr>"
  let ?g = "\<lambda>u. u\<lparr>u_tokens_valid_from := as_i64 (time_at E (time_reads w))\<rparr>"
  have f: "u_user_id (?f u) = u_user_id u" and t: "u_user_id (?g u) = u_user_id u" for u by simp_all
  have "users w2 = update_rows (\<lambda>u. u_user_id u = uid) ?f (users w)"
    and "users w3 = update_rows (\<lambda>u. u_user_id u = uid) ?g (users w)"
    and "r = (if find_user w uid = None then Err NotFound else Ok ())" and "s = Ok ()"
    using assms by (auto simp: run_set_suspended run_invalidate_tokens user_exists_find)
  moreover have "g = (case find_user w uid of None \<Rightarrow> Err NotFound | Some u \<Rightarrow> Ok u)" "users w0 = users w"
    using assms(1,3) by (auto simp: run_get_user)
  moreover have "c = Ok u \<and> find_user w1 = (find_user w)(?new \<mapsto> u)"
    if "find_user w ?new = None"
      and "u = \<lparr>u_user_id = ?new, u_created_at = as_i64 (time_at E (time_reads w)), u_suspended = False,
               u_suspend_reason = None, u_tokens_valid_from = 0\<rparr>" for u
    using that assms(1,2,4) by (auto simp: run_create_user Let_def row_map_insert row_map_None)
  moreover have "(\<exists>e. c = Err (Database e)) \<and> users w1 = users w" if "find_user w ?new \<noteq> None"
    using run_create_user_taken [OF assms(1,2) that] assms(4) by auto
  ultimately show ?thesis
    using users_table.lookup_update [where s = w and k = uid, OF f]
      users_table.lookup_update [where s = w and k = uid, OF t]
    by (simp add: users_table.lookup_def Let_def)
qed

theorem user_statements_refine_map_witness:
  "map_option u_suspended (find_user (snd (run (set_suspended ex_ext ''alice'' True None) ex_pool)) ''alice'')
     = Some True \<and>
   map_option u_suspended (find_user (snd (run (create_user ex_ext) ex_pool)) []) = Some False"
proof -
  obtain g w0 c w1 where "run (get_user ex_ext ''alice'') ex_pool = (g, w0)"
    and "run (create_user ex_ext) ex_pool = (c, w1)" by fastforce
  moreover obtain r w2 s w3 where "run (set_suspended ex_ext ''alice'' True None) ex_pool = (r, w2)"
    and "run (invalidate_tokens ex_ext ''alice'') ex_pool = (s, w3)" by fastforce
  ultimately have p: "run (get_user ex_ext ''alice'') ex_pool = (g, w0)" "run (create_user ex_ext) ex_pool = (c, w1)"
    "run (set_suspended ex_ext ''alice'' True None) ex_pool = (r, w2)"
    "run (invalidate_tokens ex_ext ''alice'') ex_pool = (s, w3)" by blast+
  have "find_user ex_pool ''alice'' \<noteq> None" "find_user ex_pool [] = None" "uuid_v4 ex_ext (uuid_draws ex_pool) = []"
    by (simp_all add: ex_pool_def row_map_def select_one_def ex_id_def)
  with user_statements_refine_map [OF ex_laws(5,4) p] p show ?thesis by (auto simp: Let_def)
qed

lemma expiry_wraps:
  assumes "unat (t :: u64) < 2 ^ 63" and "2 ^ 63 \<le> unat t + unat s"
  shows "as_i64 (t + s) < int (unat t)"
proof (cases "unat t + unat s < 2 ^ 64")
  case True
  then have "unat (t + s) = unat t + unat s" by (rule unat_add_exact)
  with assms(2) have "as_i64 (t + s) = int (unat t + unat s) - 2 ^ 64" by (simp only: as_i64_large)
  moreover have "int (unat s) < 2 ^ 64" using uint_lt2p [of s] by simp
  ultimately show ?thesis by simp
next
  case False
  have s: "unat s < 2 ^ 64" using unsigned_less [of s] by simp
  have u: "unat (t + s) = unat t + unat s - 2 ^ 64"
    using False assms(1) s by (simp add: unat_word_ariths mod_if)
  then have "unat (t + s) < unat t" using False s by linarith
  moreover from this have "as_i64 (t + s) = int (unat (t + s))"
    using assms(1) by (intro as_i64_small) linarith
  ultimately show ?thesis by (simp only: of_nat_less_iff)
qed

text \<open>Property C33. A registration token is stored unused under the given hash, with a fresh
  identifier, and expires the requested number of seconds after the clock reading as long as the
  sum is below \<open>2^63\<close>.  Beyond that, a build with overflow checks panics when the sum leaves 64 bits,
  and otherwise the cast makes the expiry earlier than the moment of creation, so that the token
  can never be used.\<close>

theorem registration_token_lifetime:
  assumes "no_faults E" and "clock_ok E" and "t = time_at E (Suc (time_reads w))" and "unat t < 2 ^ 63"
    and "uuid_v4 E (uuid_draws w) \<notin> t_token_id ` set (registration_tokens w)"
    and "run (create_registration_token E h secs m) w = (r, w')"
  shows "if overflow_checks E \<and> 2 ^ 64 \<le> unat t + unat secs
     then is_panic r \<and> registration_tokens w' = registration_tokens w
     else \<exists>row. r = Ok (t_token_id row) \<and> registration_tokens w' = registration_tokens w @ [row] \<and>
            t_token_hash row = h \<and> t_uses row = 0 \<and> t_max_uses row = m \<and>
            (if unat t + unat secs < 2 ^ 63 then t_expires_at row = int (unat t + unat secs)
             else t_expires_at row < int (unat t))"
proof (cases "overflow_checks E \<and> 2 ^ 64 \<le> unat t + unat secs")
  case True
  then have "add_u64 (overflow_checks E) t secs = (Panic ''attempt to add with overflow'' :: (error, u64) outcome)"
    by (simp add: add_u64_def)
  with assms True show ?thesis
    by (auto simp: create_registration_token_def exec Let_def)
next
  case False
  then have f: "add_fits (overflow_checks E) t secs" by (simp add: add_fits_def)
  let ?row = "\<lparr>t_token_id = uuid_v4 E (uuid_draws w), t_token_hash = h,
      t_created_at = as_i64 (time_at E (time_reads w)), t_expires_at = as_i64 (t + secs),
      t_max_uses = m, t_uses = 0\<rparr>"
  have "r = Ok (t_token_id ?row) \<and> registration_tokens w' = registration_tokens w @ [?row]"
    using assms f by (auto simp: create_registration_token_def exec Let_def insert_row_fresh)
  moreover have "t_expires_at ?row = int (unat t + unat secs)" if "unat t + unat secs < 2 ^ 63"
    using that as_i64_small [of "t + secs"] unat_add_exact [of t secs] by simp
  moreover have "t_expires_at ?row < int (unat t)" if "\<not> unat t + unat secs < 2 ^ 63"
    using that expiry_wraps [OF assms(4)] by simp
  ultimately show ?thesis using False by (auto intro!: exI [of _ ?row])
qed

theorem registration_token_lifetime_witness:
  "\<exists>row. registration_tokens (snd (run (create_registration_token ex_ext [1] (2 ^ 63) 1) ex_pool)) =
      registration_tokens ex_pool @ [row] \<and> t_expires_at row < 1000"
proof -
  obtain r w' where p: "run (create_registration_token ex_ext [1] (2 ^ 63) 1) ex_pool = (r, w')"
    by fastforce
  have f: "uuid_v4 ex_ext (uuid_draws ex_pool) \<notin> t_token_id ` set (registration_tokens ex_pool)"
    by (simp add: ex_pool_def ex_token_def ex_id_def)
  have t: "(1000 :: u64) = time_at ex_ext (Suc (time_reads ex_pool))" by simp
  have u: "unat (1000 :: u64) < 2 ^ 63" by simp
  from registration_token_lifetime [OF ex_laws(5,4) t u f p] p show ?thesis by auto
qed

text \<open>Property C32. A successfully created relationship appears, after the topics the user already
  had and in the given order, in the topic lists that the next login puts into the user's token;
  the topics of other users do not change.\<close>

theorem relationship_grants_topics:
  assumes "no_faults E" and "json_law E"
    and "run (create_relationship E uid pid ps ss) w = (Ok rel, w1)"
    and "run (user_topics E uid) w = (Ok (ps0, ss0), w2)"
    and "run (user_topics E v) w = (Ok vs, w3)" and "v \<noteq> uid"
  shows "fst (run (user_topics E uid) w1) = Ok (ps0 @ ps, ss0 @ ss) \<and>
     fst (run (user_topics E v) w1) = Ok vs"
proof -
  note rel = run_create_relationship_Ok [OF assms(1,3)]
  from rel(2) assms(2) have "topics_of_json E (r_publish_topics rel) = ps"
    "topics_of_json E (r_subscribe_topics rel) = ss"
    by (auto simp: topics_of_json_def json_law_def)
  with rel assms show ?thesis by (auto simp: run_user_topics select_rows_def)
qed

theorem relationship_grants_topics_witness:
  "fst (run (bindP (create_relationship ex_ext ''alice'' ''bob'' [''p''] [''s''])
      (\<lambda>_. user_topics ex_ext ''alice'')) ex_pool) = Ok ([''p''], [''s''])"
proof -
  obtain rel w1 where c: "run (create_relationship ex_ext ''alice'' ''bob'' [''p''] [''s'']) ex_pool = (Ok rel, w1)"
    by (simp add: create_relationship_def exec Let_def ex_pool_def user_exists_def insert_row_def)
  obtain w2 where u: "run (user_topics ex_ext ''alice'') ex_pool = (Ok ([], []), w2)"
    by (simp add: run_user_topics ex_pool_def select_rows_def)
  obtain w3 where v: "run (user_topics ex_ext ''bob'') ex_pool = (Ok ([], []), w3)"
    by (simp add: run_user_topics ex_pool_def select_rows_def)
  from relationship_grants_topics [OF ex_laws(5,2) c u v] c show ?thesis by simp
qed

end
