(* ===== verification/State.thy ===== *)
theory State
  imports Config Database
begin

text \<open>
  \<open>src/state.rs\<close>: the shared application state.  Its immutable part (configuration, JWT keys,
  node id) is the record \<open>app_state\<close>; its mutable part is the record \<open>world\<close>, which extends the
  database with the two concurrent maps and with what has been handed to the embedded broker:
  the messages forwarded and the sessions ordered closed, in order.

  The operations of a \<open>DashMap\<close> are atomic actions on a component of the state.  The locale
  \<open>dash_map\<close> states what a component must satisfy to be used as one and proves the laws its
  clients rely on; it is interpreted for the challenges and for the sessions.
\<close>

section \<open>Values handed to the broker\<close>

datatype qos = AtMostOnce | AtLeastOnce | ExactlyOnce

text \<open>\<open>rmqtt::types::CodecPublish\<close>, with the id of the sender.\<close>

record codec_publish =
  p_from :: "u64 \<times> string"
  p_dup :: bool
  p_retain :: bool
  p_qos :: qos
  p_topic :: string
  p_packet_id :: "nat option"
  p_payload :: bytes
  p_properties :: "(string \<times> string) list option"

text \<open>\<open>shared.entry(id).kick(clean_start, clear_subscriptions, is_admin)\<close>\<close>

record kick_call =
  k_id :: "u64 \<times> string"
  k_clean_start :: bool
  k_clear_subscriptions :: bool
  k_is_admin :: bool

section \<open>The application state\<close>

record app_state =
  st_config :: config
  st_jwt_keys :: jwt_keys
  st_node_id :: u64

record world = pool +
  challenges :: "string \<rightharpoonup> bytes \<times> u64"
  sessions :: "string \<rightharpoonup> claims"
  forwarded :: "codec_publish list"
  kicked :: "kick_call list"

text \<open>\<open>AppState::new\<close>, from an opened pool.\<close>

definition new_state :: "pool \<Rightarrow> config \<Rightarrow> jwt_keys \<Rightarrow> app_state \<times> world" where
  "new_state db cfg keys =
     (\<lparr>st_config = cfg, st_jwt_keys = keys, st_node_id = 1\<rparr>,
      pool.extend db \<lparr>challenges = Map.empty, sessions = Map.empty, forwarded = [], kicked = []\<rparr>)"

definition empty_world :: world where
  "empty_world =
     \<lparr>time_reads = 0, uuid_draws = 0, rng_draws = 0, sql_stmts = 0, http_posts = 0,
      users = [], devices = [], relationships = [], pending_exchanges = [],
      registration_tokens = [], challenges = Map.empty, sessions = Map.empty, forwarded = [],
      kicked = []\<rparr>"

definition notify_topic :: "ext \<Rightarrow> app_state \<Rightarrow> string \<Rightarrow> (error, string) outcome" where
  "notify_topic E A user_id =
     (let secret = as_bytes (notify_secret (notifications (st_config A)))
      in notification_topic E secret user_id)"

lemma notify_topic_not_Err [simp]: "notify_topic E A u \<noteq> Err e"
  by (simp add: notify_topic_def Let_def)

lemma notify_topic_Ok_any: "notify_topic E A u = Ok t \<Longrightarrow> \<exists>t'. notify_topic E A v = Ok t'"
  unfolding notify_topic_def Let_def by (rule notification_topic_Ok_any)

lemma notify_topic_total: "hmac_law E \<Longrightarrow> \<exists>t. notify_topic E A u = Ok t"
  unfolding notify_topic_def Let_def by (rule notification_topic_total)

section \<open>Concurrent maps\<close>

definition dm_insert ::
  "('s \<Rightarrow> 'k \<rightharpoonup> 'v) \<Rightarrow> (('k \<rightharpoonup> 'v) \<Rightarrow> 's \<Rightarrow> 's) \<Rightarrow> 'k \<Rightarrow> 'v \<Rightarrow> ('s, 'e, unit) prog" where
  "dm_insert get put k v = act (\<lambda>w. (Ok (), put ((get w)(k \<mapsto> v)) w))"

definition dm_remove ::
  "('s \<Rightarrow> 'k \<rightharpoonup> 'v) \<Rightarrow> (('k \<rightharpoonup> 'v) \<Rightarrow> 's \<Rightarrow> 's) \<Rightarrow> 'k \<Rightarrow> ('s, 'e, 'v option) prog" where
  "dm_remove get put k = act (\<lambda>w. (Ok (get w k), put ((get w)(k := None)) w))"

definition dm_get :: "('s \<Rightarrow> 'k \<rightharpoonup> 'v) \<Rightarrow> 'k \<Rightarrow> ('s, 'e, 'v option) prog" where
  "dm_get get k = act (\<lambda>w. (Ok (get w k), w))"

abbreviation put_challenges :: "(string \<rightharpoonup> bytes \<times> u64) \<Rightarrow> world \<Rightarrow> world" where
  "put_challenges m w \<equiv> w\<lparr>challenges := m\<rparr>"

abbreviation put_sessions :: "(string \<rightharpoonup> claims) \<Rightarrow> world \<Rightarrow> world" where
  "put_sessions m w \<equiv> w\<lparr>sessions := m\<rparr>"

abbreviation challenges_insert :: "string \<Rightarrow> bytes \<times> u64 \<Rightarrow> (world, 'e, unit) prog" where
  "challenges_insert \<equiv> dm_insert challenges put_challenges"

abbreviation challenges_remove :: "string \<Rightarrow> (world, 'e, (bytes \<times> u64) option) prog" where
  "challenges_remove \<equiv> dm_remove challenges put_challenges"

abbreviation sessions_insert :: "string \<Rightarrow> claims \<Rightarrow> (world, 'e, unit) prog" where
  "sessions_insert \<equiv> dm_insert sessions put_sessions"

abbreviation sessions_remove :: "string \<Rightarrow> (world, 'e, claims option) prog" where
  "sessions_remove \<equiv> dm_remove sessions put_sessions"

abbreviation sessions_get :: "string \<Rightarrow> (world, 'e, claims option) prog" where
  "sessions_get \<equiv> dm_get sessions"

lemma run_dm_insert [exec]: "run (dm_insert get put k v) w = (Ok (), put ((get w)(k \<mapsto> v)) w)"
  and run_dm_remove [exec]: "run (dm_remove get put k) w = (Ok (get w k), put ((get w)(k := None)) w)"
  and run_dm_get [exec]: "run (dm_get get k) w = (Ok (get w k), w)"
  by (simp_all add: dm_insert_def dm_remove_def dm_get_def)

text \<open>The counters of the oracles do not show in the state proper.\<close>

lemma state_of_update [simp]:
  "state_of ((w :: world)\<lparr>time_reads := n, users := v_us\<rparr>) = state_of (w\<lparr>users := v_us\<rparr>)"
  "state_of ((w :: world)\<lparr>uuid_draws := n, users := v_us\<rparr>) = state_of (w\<lparr>users := v_us\<rparr>)"
  "state_of ((w :: world)\<lparr>rng_draws := n, users := v_us\<rparr>) = state_of (w\<lparr>users := v_us\<rparr>)"
  "state_of ((w :: world)\<lparr>sql_stmts := n, users := v_us\<rparr>) = state_of (w\<lparr>users := v_us\<rparr>)"
  "state_of ((w :: world)\<lparr>http_posts := n, users := v_us\<rparr>) = state_of (w\<lparr>users := v_us\<rparr>)"
  "state_of ((w :: world)\<lparr>time_reads := n, devices := v_de\<rparr>) = state_of (w\<lparr>devices := v_de\<rparr>)"
  "state_of ((w :: world)\<lparr>uuid_draws := n, devices := v_de\<rparr>) = state_of (w\<lparr>devices := v_de\<rparr>)"
  "state_of ((w :: world)\<lparr>rng_draws := n, devices := v_de\<rparr>) = state_of (w\<lparr>devices := v_de\<rparr>)"
  "state_of ((w :: world)\<lparr>sql_stmts := n, devices := v_de\<rparr>) = state_of (w\<lparr>devices := v_de\<rparr>)"
  "state_of ((w :: world)\<lparr>http_posts := n, devices := v_de\<rparr>) = state_of (w\<lparr>devices := v_de\<rparr>)"
  "state_of ((w :: world)\<lparr>time_reads := n, relationships := v_re\<rparr>) = state_of (w\<lparr>relationships := v_re\<rparr>)"
  "state_of ((w :: world)\<lparr>uuid_draws := n, relationships := v_re\<rparr>) = state_of (w\<lparr>relationships := v_re\<rparr>)"
  "state_of ((w :: world)\<lparr>rng_draws := n, relationships := v_re\<rparr>) = state_of (w\<lparr>relationships := v_re\<rparr>)"
  "state_of ((w :: world)\<lparr>sql_stmts := n, relationships := v_re\<rparr>) = state_of (w\<lparr>relationships := v_re\<rparr>)"
  "state_of ((w :: world)\<lparr>http_posts := n, relationships := v_re\<rparr>) = state_of (w\<lparr>relationships := v_re\<rparr>)"
  "state_of ((w :: world)\<lparr>time_reads := n, pending_exchanges := v_pe\<rparr>) = state_of (w\<lparr>pending_exchanges := v_pe\<rparr>)"
  "state_of ((w :: world)\<lparr>uuid_draws := n, pending_exchanges := v_pe\<rparr>) = state_of (w\<lparr>pending_exchanges := v_pe\<rparr>)"
  "state_of ((w :: world)\<lparr>rng_draws := n, pending_exchanges := v_pe\<rparr>) = state_of (w\<lparr>pending_exchanges := v_pe\<rparr>)"
  "state_of ((w :: world)\<lparr>sql_stmts := n, pending_exchanges := v_pe\<rparr>) = state_of (w\<lparr>pending_exchanges := v_pe\<rparr>)"
  "state_of ((w :: world)\<lparr>http_posts := n, pending_exchanges := v_pe\<rparr>) = state_of (w\<lparr>pending_exchanges := v_pe\<rparr>)"
  "state_of ((w :: world)\<lparr>time_reads := n, registration_tokens := v_rt\<rparr>) = state_of (w\<lparr>registration_tokens := v_rt\<rparr>)"
  "state_of ((w :: world)\<lparr>uuid_draws := n, registration_tokens := v_rt\<rparr>) = state_of (w\<lparr>registration_tokens := v_rt\<rparr>)"
  "state_of ((w :: world)\<lparr>rng_draws := n, registration_tokens := v_rt\<rparr>) = state_of (w\<lparr>registration_tokens := v_rt\<rparr>)"
  "state_of ((w :: world)\<lparr>sql_stmts := n, registration_tokens := v_rt\<rparr>) = state_of (w\<lparr>registration_tokens := v_rt\<rparr>)"
  "state_of ((w :: world)\<lparr>http_posts := n, registration_tokens := v_rt\<rparr>) = state_of (w\<lparr>registration_tokens := v_rt\<rparr>)"
  "state_of ((w :: world)\<lparr>time_reads := n, challenges := v_ch\<rparr>) = state_of (w\<lparr>challenges := v_ch\<rparr>)"
  "state_of ((w :: world)\<lparr>uuid_draws := n, challenges := v_ch\<rparr>) = state_of (w\<lparr>challenges := v_ch\<rparr>)"
  "state_of ((w :: world)\<lparr>rng_draws := n, challenges := v_ch\<rparr>) = state_of (w\<lparr>challenges := v_ch\<rparr>)"
  "state_of ((w :: world)\<lparr>sql_stmts := n, challenges := v_ch\<rparr>) = state_of (w\<lparr>challenges := v_ch\<rparr>)"
  "state_of ((w :: world)\<lparr>http_posts := n, challenges := v_ch\<rparr>) = state_of (w\<lparr>challenges := v_ch\<rparr>)"
  "state_of ((w :: world)\<lparr>time_reads := n, sessions := v_se\<rparr>) = state_of (w\<lparr>sessions := v_se\<rparr>)"
  "state_of ((w :: world)\<lparr>uuid_draws := n, sessions := v_se\<rparr>) = state_of (w\<lparr>sessions := v_se\<rparr>)"
  "state_of ((w :: world)\<lparr>rng_draws := n, sessions := v_se\<rparr>) = state_of (w\<lparr>sessions := v_se\<rparr>)"
  "state_of ((w :: world)\<lparr>sql_stmts := n, sessions := v_se\<rparr>) = state_of (w\<lparr>sessions := v_se\<rparr>)"
  "state_of ((w :: world)\<lparr>http_posts := n, sessions := v_se\<rparr>) = state_of (w\<lparr>sessions := v_se\<rparr>)"
  "state_of ((w :: world)\<lparr>time_reads := n, forwarded := v_fo\<rparr>) = state_of (w\<lparr>forwarded := v_fo\<rparr>)"
  "state_of ((w :: world)\<lparr>uuid_draws := n, forwarded := v_fo\<rparr>) = state_of (w\<lparr>forwarded := v_fo\<rparr>)"
  "state_of ((w :: world)\<lparr>rng_draws := n, forwarded := v_fo\<rparr>) = state_of (w\<lparr>forwarded := v_fo\<rparr>)"
  "state_of ((w :: world)\<lparr>sql_stmts := n, forwarded := v_fo\<rparr>) = state_of (w\<lparr>forwarded := v_fo\<rparr>)"
  "state_of ((w :: world)\<lparr>http_posts := n, forwarded := v_fo\<rparr>) = state_of (w\<lparr>forwarded := v_fo\<rparr>)"
  "state_of ((w :: world)\<lparr>time_reads := n, kicked := v_ki\<rparr>) = state_of (w\<lparr>kicked := v_ki\<rparr>)"
  "state_of ((w :: world)\<lparr>uuid_draws := n, kicked := v_ki\<rparr>) = state_of (w\<lparr>kicked := v_ki\<rparr>)"
  "state_of ((w :: world)\<lparr>rng_draws := n, kicked := v_ki\<rparr>) = state_of (w\<lparr>kicked := v_ki\<rparr>)"
  "state_of ((w :: world)\<lparr>sql_stmts := n, kicked := v_ki\<rparr>) = state_of (w\<lparr>kicked := v_ki\<rparr>)"
  "state_of ((w :: world)\<lparr>http_posts := n, kicked := v_ki\<rparr>) = state_of (w\<lparr>kicked := v_ki\<rparr>)"
  by (cases w; simp)+

locale dash_map =
  fixes get :: "'s \<Rightarrow> 'k \<rightharpoonup> 'v"
    and put :: "('k \<rightharpoonup> 'v) \<Rightarrow> 's \<Rightarrow> 's"
  assumes get_put [simp]: "get (put m s) = m"
    and put_put [simp]: "put m (put m' s) = put m s"
    and put_get [simp]: "put (get s) s = s"
begin

lemma get_after_insert:
  "get (snd (run (dm_insert get put k v) s)) j = (if j = k then Some v else get s j)"
  by (simp add: exec)

lemma get_after_remove:
  "get (snd (run (dm_remove get put k) s)) j = (if j = k then None else get s j)"
  by (simp add: exec)

text \<open>Of two successive removals of a key only the first finds a value.\<close>

lemma remove_once:
  "fst (run (bindP (dm_remove get put k) (\<lambda>_. dm_remove get put k)) s) = Ok None"
  by (simp add: exec)

lemma insert_remove:
  "run (bindP (dm_insert get put k v) (\<lambda>_. dm_remove get put k)) s
     = (Ok (Some v), put ((get s)(k := None)) s)"
  by (simp add: exec)

text \<open>A later insertion under the same key replaces the earlier value.\<close>

lemma insert_insert:
  "run (bindP (dm_insert get put k v) (\<lambda>_. dm_insert get put k v')) s
     = run (dm_insert get put k v') s"
  by (simp add: exec)

end

interpretation challenge_map: dash_map challenges put_challenges
  by unfold_locales simp_all

interpretation session_map: dash_map sessions put_sessions
  by unfold_locales simp_all

end
