(* ===== verification/Examples.thy ===== *)
theory Examples
  imports State
begin

text \<open>
  A concrete configuration and state: the configuration of the repository's own tests, one user
  with one device.  Together with \<open>Instance\<close> they are the inputs at which the theorems are
  applied.
\<close>

definition ex_config :: config where
  "ex_config =
     \<lparr>database = \<lparr>path = '':memory:''\<rparr>, http = \<lparr>http_bind = ''127.0.0.1:0''\<rparr>,
      mqtt = \<lparr>mqtt_bind = ''127.0.0.1:0''\<rparr>,
      registration = \<lparr>reg_mode = Open, reg_policy = None\<rparr>,
      suspension = \<lparr>susp_type = Push, susp_hook_url = None\<rparr>,
      admin = \<lparr>api_key = ''test-admin-key''\<rparr>,
      notifications = \<lparr>notify_secret = ''test-notify-secret''\<rparr>,
      jwt = \<lparr>signing_key = ''k'', ttl_seconds = 3600\<rparr>\<rparr>"

definition ex_app :: app_state where
  "ex_app =
     \<lparr>st_config = ex_config, st_jwt_keys = \<lparr>encoding = [1, 2], decoding = [1, 2]\<rparr>,
      st_node_id = 1\<rparr>"

definition ex_key :: bytes where
  "ex_key = replicate 32 5"

definition ex_user :: user where
  "ex_user = \<lparr>u_user_id = ''alice'', u_created_at = 900, u_suspended = False,
              u_suspend_reason = None, u_tokens_valid_from = 0\<rparr>"

definition ex_peer :: user where
  "ex_peer = \<lparr>u_user_id = ''bob'', u_created_at = 900, u_suspended = False,
              u_suspend_reason = None, u_tokens_valid_from = 0\<rparr>"

definition ex_device :: device where
  "ex_device = \<lparr>d_device_id = ''phone'', d_user_id = ''alice'', d_pubkey = ex_key,
                d_registered_at = 900\<rparr>"

definition ex_world :: world where
  "ex_world = empty_world\<lparr>users := [ex_user, ex_peer], devices := [ex_device]\<rparr>"

definition ex_claims :: claims where
  "ex_claims = \<lparr>c_sub = ''alice'', c_dev = ''phone'', c_exp = 4600, c_iat = 1000,
                c_pub_topics = [''up''], c_sub_topics = [''down''], c_notify_topic = ''n''\<rparr>"

definition ex_bearer :: string where
  "ex_bearer = ex_bits 4600 @ ex_bits 1000 @
     ex_json [ex_b64 [1, 2], ''alice'', ''phone'', ex_json [''up''], ex_json [''down''], ''n'']"

lemma ex_bearer_decodes:
  assumes "jwt_live t ex_claims"
  shows "jwt_decode ex_ext [1, 2] t ex_bearer = Some ex_claims"
proof -
  have "jwt_encode ex_ext [1, 2] ex_claims = Inr ex_bearer"
    by (simp add: ex_jwt_encode_def ex_claims_def ex_bearer_def)
  then have "jwt_decode ex_ext [1, 2] t ex_bearer =
      (if jwt_live t ex_claims then Some ex_claims else None)"
    using ex_laws(3) unfolding jwt_law_def by blast
  with assms show ?thesis by simp
qed

lemma ex_claims_live: "jwt_live 1000 ex_claims" "jwt_live 2000 ex_claims"
  by (simp_all add: jwt_live_def ex_claims_def)

text \<open>Tokens of the instance with ASCII contents are valid UTF-8.\<close>

definition ascii :: "string \<Rightarrow> bool" where
  "ascii s = list_all (\<lambda>c. of_char c < (128 :: nat)) s"

lemma ascii_simps [simp]:
  "ascii []" "ascii (c # s) \<longleftrightarrow> of_char c < (128 :: nat) \<and> ascii s"
  "ascii (s @ t) \<longleftrightarrow> ascii s \<and> ascii t" "ascii (ex_bits n)"
  by (auto simp: ascii_def ex_bits_def list_all_iff)

lemma ascii_ex_json [simp]: "ascii (ex_json ts) \<longleftrightarrow> list_all ascii ts"
proof -
  have "ascii (concat (map (\<lambda>c. [CHR ''c'', c]) s)) \<longleftrightarrow> ascii s" for s
    by (induction s) simp_all
  then show ?thesis by (induction ts) (simp_all add: ex_json_def)
qed

lemma ex_jwt_ascii:
  assumes "ex_jwt_encode [1, 2] c = Inr t"
    and "list_all ascii ([c_sub c, c_dev c, c_notify_topic c] @ c_pub_topics c @ c_sub_topics c)"
  shows "from_utf8 (as_bytes t) = Some t"
proof -
  have "ascii t" using assms by (auto simp: ex_jwt_encode_def ex_b64_def char_of_def)
  then show ?thesis unfolding ascii_def by (rule from_utf8_ascii)
qed

lemma ex_bearer_utf8: "from_utf8 (as_bytes ex_bearer) = Some ex_bearer"
  by (rule ex_jwt_ascii [of ex_claims])
    (simp_all add: ex_jwt_encode_def ex_claims_def ex_bearer_def)

lemma ex_notify_topic: "notify_topic ex_ext ex_app ''alice'' = Ok ''test-notify-secretnotify:alice''"
  using chars_of_as_bytes [of "''test-notify-secretnotify:alice''"]
  by (simp add: notify_topic_def notification_topic_def ex_app_def ex_config_def ex_b64_def as_bytes_def)

lemma ex_app_keys [simp]: "encoding (st_jwt_keys ex_app) = [1, 2]" "decoding (st_jwt_keys ex_app) = [1, 2]"
  by (simp_all add: ex_app_def)

lemma length_ex_key [simp]: "length ex_key = 32"
  by (simp add: ex_key_def)

lemmas ex_defs = ex_user_def ex_peer_def ex_device_def ex_world_def empty_world_def

end
