(* ===== verification/Broker.thy ===== *)
theory Broker
  imports Examples
begin

text \<open>
  \<open>src/broker/mod.rs\<close> and \<open>src/broker/auth_hook.rs\<close>: the hook that authenticates MQTT
  connections and checks subscriptions, the registration of that hook, publishing from the
  server, and disconnecting a user.  The broker itself (rmqtt) is not part of the program; what
  it passes to the hook is a \<open>Parameter\<close>, what it is told is recorded in the world.
\<close>

section \<open>The hook's interface\<close>

text \<open>
  Of the broker's hook parameters only those the program matches on have a constructor; every
  other kind of event (publishing among them) is \<open>OtherParameter\<close> with its name.
\<close>

record connect_info =
  ci_client_id :: string
  ci_password :: "bytes option"

record subscribe =
  s_topic_filter :: string
  s_qos :: qos

datatype parameter =
    ClientAuthenticate connect_info
  | ClientSubscribeCheckAcl string subscribe \<comment> \<open>the client id of the session\<close>
  | ClientDisconnected string string \<comment> \<open>the client id of the session, the reason\<close>
  | OtherParameter string

datatype auth_result = Allow bool "nat option" | NotAuthorized

datatype subscribe_acl_result = AclSuccess qos "nat option" | AclFailure string

datatype hook_result =
    AuthResult auth_result
  | SubscribeAclResult subscribe_acl_result
  | OtherHookResult string

type_synonym hook_return = "bool \<times> hook_result option"

section \<open>The authentication hook\<close>

definition deny :: hook_return where
  "deny = (False, Some (AuthResult NotAuthorized))"

definition authenticate ::
  "ext \<Rightarrow> app_state \<Rightarrow> connect_info \<Rightarrow> hook_result option \<Rightarrow> (world, error, hook_return) prog" where
  "authenticate E A info acc =
     (case ci_password info of
        None \<Rightarrow> okP deny
      | Some pw \<Rightarrow>
       (case from_utf8 pw of
          None \<Rightarrow> okP deny
        | Some token \<Rightarrow>
          bindP (attempt (jwt_verify E (st_jwt_keys A) token)) (\<lambda>r.
          case r of
            Inl _ \<Rightarrow> okP deny
          | Inr cl \<Rightarrow>
            if ci_client_id info \<noteq> c_dev cl then okP deny
            else
              bindP (attempt (get_user E (c_sub cl))) (\<lambda>u.
              case u of
                Inl _ \<Rightarrow> okP deny
              | Inr usr \<Rightarrow>
                if u_suspended usr then okP deny
                else if as_i64 (c_iat cl) < u_tokens_valid_from usr then okP deny
                else
                  bindP (sessions_insert (ci_client_id info) cl) (\<lambda>_.
                  okP (False, Some (AuthResult (Allow False None))))))))"

definition check_subscribe_acl ::
  "string \<Rightarrow> subscribe \<Rightarrow> hook_result option \<Rightarrow> (world, error, hook_return) prog" where
  "check_subscribe_acl client_id sub acc =
     bindP (sessions_get client_id) (\<lambda>s.
       let allowed = (case s of None \<Rightarrow> False
                      | Some cl \<Rightarrow> (\<exists>t \<in> set (c_sub_topics cl). t = s_topic_filter sub))
       in if allowed
          then okP (True, Some (SubscribeAclResult (AclSuccess (s_qos sub) None)))
          else okP (False, Some (SubscribeAclResult (AclFailure ''NotAuthorized''))))"

definition hook ::
  "ext \<Rightarrow> app_state \<Rightarrow> parameter \<Rightarrow> hook_result option \<Rightarrow> (world, error, hook_return) prog" where
  "hook E A param acc =
     (case param of
        ClientAuthenticate info \<Rightarrow> authenticate E A info acc
      | ClientSubscribeCheckAcl client_id sub \<Rightarrow> check_subscribe_acl client_id sub acc
      | ClientDisconnected client_id _ \<Rightarrow>
          bindP (sessions_remove client_id) (\<lambda>_. okP (True, acc))
      | _ \<Rightarrow> okP (True, acc))"

section \<open>Running the broker\<close>

datatype hook_type =
    TClientAuthenticate | TClientSubscribeCheckAcl | TClientDisconnected | TOther string

fun param_type :: "parameter \<Rightarrow> hook_type" where
  "param_type (ClientAuthenticate _) = TClientAuthenticate"
| "param_type (ClientSubscribeCheckAcl _ _) = TClientSubscribeCheckAcl"
| "param_type (ClientDisconnected _ _) = TClientDisconnected"
| "param_type (OtherParameter n) = TOther n"

text \<open>The hooks \<open>run\<close> registers, with their priorities.\<close>

definition registered_hooks :: "(hook_type \<times> nat) list" where
  "registered_hooks =
     [(TClientAuthenticate, 10), (TClientSubscribeCheckAcl, 10), (TClientDisconnected, 10)]"

record listener =
  l_name :: string
  l_laddr :: string
  l_allow_anonymous :: bool

text \<open>
  \<open>run\<close> up to the point where the server accepts connections: the registered hooks and the
  listener, for a bind address that parses (\<open>parse_addr\<close> is \<open>str::parse::<SocketAddr>\<close>, with the
  address in canonical text) and on which the listener can be opened (\<open>listen\<close> is \<open>bind()?.tcp()?\<close>).
  What follows, serving until the process ends, belongs to the broker.
\<close>

definition broker_run ::
  "(string \<Rightarrow> string + string) \<Rightarrow> (listener \<Rightarrow> string + unit) \<Rightarrow> string
   \<Rightarrow> string + ((hook_type \<times> nat) list \<times> listener)" where
  "broker_run parse_addr listen bind =
     bindS (parse_addr bind) (\<lambda>addr.
     let l = \<lparr>l_name = ''external/tcp'', l_laddr = addr, l_allow_anonymous = False\<rparr> in
     bindS (listen l) (\<lambda>_.
       Inr (registered_hooks, l)))"

text \<open>
  \<open>publish_system\<close>: delivery errors of \<open>shared.forwards\<close> are only logged, so the action always
  succeeds.
\<close>

definition publish_system :: "app_state \<Rightarrow> string \<Rightarrow> bytes \<Rightarrow> (world, 'e, unit) prog" where
  "publish_system A topic payload =
     (let msg = \<lparr>p_from = (st_node_id A, ''smqtt-system''), p_dup = False, p_retain = False,
                 p_qos = AtLeastOnce, p_topic = topic, p_packet_id = None, p_payload = payload,
          p_properties = None\<rparr>
      in act (\<lambda>w. (Ok (), w\<lparr>forwarded := forwarded w @ [msg]\<rparr>)))"

definition kick_device :: "app_state \<Rightarrow> string \<Rightarrow> (world, 'e, unit) prog" where
  "kick_device A device_id =
     act (\<lambda>w. (Ok (), w\<lparr>kicked := kicked w @
       [\<lparr>k_id = (st_node_id A, device_id), k_clean_start = False,
         k_clear_subscriptions = False, k_is_admin = True\<rparr>]\<rparr>))"

definition kick_user :: "ext \<Rightarrow> app_state \<Rightarrow> string \<Rightarrow> (world, error, unit) prog" where
  "kick_user E A user_id =
     bindP (attempt (invalidate_tokens E user_id)) (\<lambda>_.
     bindP (attempt (get_device_by_user E user_id)) (\<lambda>r.
       case r of
         Inl _ \<Rightarrow> okP ()
       | Inr ds \<Rightarrow> foreach ds (\<lambda>d. kick_device A (d_device_id d))))"

section \<open>Running\<close>

text \<open>What a token, presented at the current clock reading, entitles to.\<close>

definition admitted :: "ext \<Rightarrow> app_state \<Rightarrow> world \<Rightarrow> connect_info \<Rightarrow> claims option" where
  "admitted E A w info =
     Option.bind (Option.bind (ci_password info) from_utf8) (\<lambda>token.
     Option.bind (jwt_decode E (decoding (st_jwt_keys A)) (time_at E (time_reads w)) token) (\<lambda>cl.
     Option.bind (find_user w (c_sub cl)) (\<lambda>u.
       if ci_client_id info = c_dev cl \<and> \<not> u_suspended u \<and>
          u_tokens_valid_from u \<le> as_i64 (c_iat cl)
       then Some cl else None)))"

lemma admittedD:
  assumes "admitted E A w info = Some cl"
  shows "\<exists>pw token u. ci_password info = Some pw \<and> from_utf8 pw = Some token \<and>
     jwt_decode E (decoding (st_jwt_keys A)) (time_at E (time_reads w)) token = Some cl \<and>
     ci_client_id info = c_dev cl \<and> find_user w (c_sub cl) = Some u \<and> \<not> u_suspended u \<and>
     u_tokens_valid_from u \<le> as_i64 (c_iat cl)"
  using assms by (auto simp: admitted_def bind_eq_Some_conv split: if_splits)

lemma run_authenticate:
  assumes "no_faults E" and "clock_ok E" and "run (authenticate E A info acc) w = (r, w')"
  shows "r = Ok (case admitted E A w info of
             None \<Rightarrow> deny | Some _ \<Rightarrow> (False, Some (AuthResult (Allow False None))))"
    and "state_of w' = state_of (case admitted E A w info of
             None \<Rightarrow> w | Some cl \<Rightarrow> w\<lparr>sessions := (sessions w)(ci_client_id info \<mapsto> cl)\<rparr>)"
  using assms
  by (auto simp: authenticate_def admitted_def exec not_less split: option.splits sum.splits if_splits)

lemma run_check_subscribe_acl:
  "run (check_subscribe_acl cid sub acc) w =
     (Ok (if \<exists>cl. sessions w cid = Some cl \<and> s_topic_filter sub \<in> set (c_sub_topics cl)
          then (True, Some (SubscribeAclResult (AclSuccess (s_qos sub) None)))
          else (False, Some (SubscribeAclResult (AclFailure ''NotAuthorized'')))), w)"
  by (auto simp: check_subscribe_acl_def exec Let_def split: option.splits)

lemma run_kick_device [exec]:
  "run (kick_device A d) w = (Ok (), w\<lparr>kicked := kicked w @
      [\<lparr>k_id = (st_node_id A, d), k_clean_start = False, k_clear_subscriptions = False,
        k_is_admin = True\<rparr>]\<rparr>)"
  by (simp add: kick_device_def)

abbreviation kick_of :: "app_state \<Rightarrow> device \<Rightarrow> kick_call" where
  "kick_of A d \<equiv> \<lparr>k_id = (st_node_id A, d_device_id d), k_clean_start = False,
     k_clear_subscriptions = False, k_is_admin = True\<rparr>"

lemma run_kick_devices:
  "run (foreach ds (\<lambda>d. kick_device A (d_device_id d))) w =
     (Ok (), w\<lparr>kicked := kicked w @ map (kick_of A) ds\<rparr>)"
  by (induction ds arbitrary: w) (simp_all add: run_kick_device)

abbreviation revalidated :: "string \<Rightarrow> i64 \<Rightarrow> user list \<Rightarrow> user list" where
  "revalidated uid t us \<equiv> update_rows (\<lambda>u. u_user_id u = uid) (\<lambda>u. u\<lparr>u_tokens_valid_from := t\<rparr>) us"

lemma run_kick_user [exec]:
  assumes "no_faults E" and "clock_ok E"
  shows "run (kick_user E A uid) w =
     (Ok (), (tick_sql (tick_sql (tick_time w)))
        \<lparr>users := revalidated uid (as_i64 (time_at E (time_reads w))) (users w),
         kicked := kicked w @ map (kick_of A) (devices_of w uid)\<rparr>)"
  using assms by (simp add: kick_user_def exec run_kick_devices)

lemma find_user_revalidated:
  "row_map u_user_id (revalidated uid t us) =
     (row_map u_user_id us)
       (uid := map_option (\<lambda>u. u\<lparr>u_tokens_valid_from := t\<rparr>) (row_map u_user_id us uid))"
  by (simp add: row_map_update)

section \<open>Properties\<close>

text \<open>Property C3. The authentication hook admits a connection exactly when the password is UTF-8
  text that decodes to live claims, the client id is the device of the claims, the user exists
  and is not suspended, and the token was issued no earlier than the user's last kick.  When it
  admits, it records exactly the claims of the presented token as the session of that client; in
  every other case it denies and changes nothing, and it never fails.\<close>

theorem authenticate_admits_iff:
  assumes "no_faults E" and "clock_ok E" and "run (authenticate E A info acc) w = (r, w')"
  shows "(r = Ok (False, Some (AuthResult (Allow False None))) \<longleftrightarrow>
      (\<exists>pw token cl u. ci_password info = Some pw \<and> from_utf8 pw = Some token \<and>
         jwt_decode E (decoding (st_jwt_keys A)) (time_at E (time_reads w)) token = Some cl \<and>
         ci_client_id info = c_dev cl \<and> find_user w (c_sub cl) = Some u \<and> \<not> u_suspended u \<and>
         u_tokens_valid_from u \<le> as_i64 (c_iat cl))) \<and>
    (\<forall>pw token cl. ci_password info = Some pw \<longrightarrow> from_utf8 pw = Some token \<longrightarrow>
       jwt_decode E (decoding (st_jwt_keys A)) (time_at E (time_reads w)) token = Some cl \<longrightarrow>
       r = Ok (False, Some (AuthResult (Allow False None))) \<longrightarrow>
       state_of w' = state_of (w\<lparr>sessions := (sessions w)(ci_client_id info \<mapsto> cl)\<rparr>)) \<and>
    (r \<noteq> Ok (False, Some (AuthResult (Allow False None))) \<longrightarrow> r = Ok deny \<and> state_of w' = state_of w)"
proof (cases "admitted E A w info")
  case None
  then have r: "r = Ok deny" "state_of w' = state_of w" using run_authenticate [OF assms] by simp_all
  from None have "\<not> (\<exists>pw token cl u. ci_password info = Some pw \<and> from_utf8 pw = Some token \<and>
      jwt_decode E (decoding (st_jwt_keys A)) (time_at E (time_reads w)) token = Some cl \<and>
      ci_client_id info = c_dev cl \<and> find_user w (c_sub cl) = Some u \<and> \<not> u_suspended u \<and>
      u_tokens_valid_from u \<le> as_i64 (c_iat cl))"
    by (auto simp: admitted_def)
  with r show ?thesis by (auto simp: deny_def)
next
  case (Some cl)
  then show ?thesis using run_authenticate [OF assms]
    by (auto simp: admitted_def deny_def bind_eq_Some_conv split: if_splits)
qed

definition ex_connect :: connect_info where
  "ex_connect = \<lparr>ci_client_id = ''phone'', ci_password = Some (as_bytes ex_bearer)\<rparr>"

lemma find_user_ex [simp]:
  "find_user ex_world ''alice'' = Some ex_user" "find_user ex_world ''bob'' = Some ex_peer"
  by (simp_all add: ex_defs row_map_def select_one_def)

lemma admitted_ex: "admitted ex_ext ex_app ex_world ex_connect = Some ex_claims"
  by (simp add: admitted_def ex_connect_def ex_bearer_utf8 ex_app_def ex_bearer_decodes [simplified]
      ex_claims_live)
    (simp add: ex_claims_def ex_user_def)

theorem authenticate_admits_iff_witness:
  "fst (run (authenticate ex_ext ex_app ex_connect None) ex_world)
     = Ok (False, Some (AuthResult (Allow False None)))"
proof -
  obtain r w' where p: "run (authenticate ex_ext ex_app ex_connect None) ex_world = (r, w')"
    by fastforce
  have "r \<noteq> Ok deny" using run_authenticate(1) [OF ex_laws(5,4) p] admitted_ex
    by (simp add: deny_def)
  with authenticate_admits_iff [OF ex_laws(5,4) p] p show ?thesis by auto
qed

lemma sessions_state_of: "state_of w = state_of (w' :: world) \<Longrightarrow> sessions w = sessions w'"
  by (cases w; cases w') simp

text \<open>Property C11. Kicking a user orders the broker to close the session of each of the user's
  devices.  In every later state in which the user's record is as the kick left it and the user
  is not suspended, a live token of that user presented by its device is admitted exactly when it
  was issued in the second of the kick or later: older tokens are rejected, while a token issued
  earlier within the same second survives the kick.\<close>

theorem kick_user_rejects_stale:
  assumes "no_faults E" and "clock_ok E" and "run (kick_user E A uid) w = (r, w1)"
    and "find_user w2 uid = find_user w1 uid" and "find_user w uid = Some u" and "\<not> u_suspended u"
    and "run (authenticate E A info acc) w2 = (r2, w3)"
    and "ci_password info = Some pw" and "from_utf8 pw = Some token"
    and "jwt_decode E (decoding (st_jwt_keys A)) (time_at E (time_reads w2)) token = Some cl"
    and "c_sub cl = uid" and "c_dev cl = ci_client_id info"
  shows "r = Ok () \<and> kicked w1 = kicked w @ map (kick_of A) (devices_of w uid) \<and>
     r2 = Ok (if as_i64 (time_at E (time_reads w)) \<le> as_i64 (c_iat cl)
              then (False, Some (AuthResult (Allow False None))) else deny)"
proof -
  from assms(1-3) have w1: "r = Ok ()" "kicked w1 = kicked w @ map (kick_of A) (devices_of w uid)"
    "users w1 = revalidated uid (as_i64 (time_at E (time_reads w))) (users w)"
    by (auto simp: run_kick_user)
  then have "find_user w2 uid = Some (u\<lparr>u_tokens_valid_from := as_i64 (time_at E (time_reads w))\<rparr>)"
    using assms(4,5) by (simp add: find_user_revalidated)
  then have "admitted E A w2 info =
      (if as_i64 (time_at E (time_reads w)) \<le> as_i64 (c_iat cl) then Some cl else None)"
    using assms(6,8-12) by (simp add: admitted_def)
  with run_authenticate(1) [OF assms(1,2,7)] w1 show ?thesis by simp
qed

definition ex_late :: ext where
  "ex_late = ex_ext\<lparr>sys_time := (\<lambda>_. Some 2000)\<rparr>"

lemma ex_late_laws: "no_faults ex_late" "clock_ok ex_late" "time_at ex_late n = 2000"
  "jwt_decode ex_late = jwt_decode ex_ext"
  by (simp_all add: ex_late_def no_faults_def entropy_ok_def clock_ok_def time_at_def)

theorem kick_user_rejects_stale_witness:
  "\<exists>r w1 r2 w3. run (kick_user ex_late ex_app ''alice'') ex_world = (r, w1) \<and>
     run (authenticate ex_late ex_app ex_connect None) w1 = (r2, w3) \<and>
     length (kicked w1) = 1 \<and> r2 = Ok deny"
proof -
  obtain r w1 where p: "run (kick_user ex_late ex_app ''alice'') ex_world = (r, w1)"
    by fastforce
  obtain r2 w3 where q: "run (authenticate ex_late ex_app ex_connect None) w1 = (r2, w3)"
    by fastforce
  have "jwt_decode ex_late (decoding (st_jwt_keys ex_app)) (time_at ex_late n) ex_bearer = Some ex_claims" for n
    using ex_bearer_decodes [OF ex_claims_live(2)]
    by (simp add: ex_late_laws ex_app_def del: ex_ext_simps)
  note k = kick_user_rejects_stale [OF ex_late_laws(1,2) p refl find_user_ex(1) _ q _ ex_bearer_utf8 this]
  have "kicked w1 = kicked ex_world @ map (kick_of ex_app) (devices_of ex_world ''alice'') \<and> r2 = Ok deny"
    using k by (simp add: ex_user_def ex_connect_def ex_claims_def ex_late_laws as_i64_small)
  with p q show ?thesis by (simp add: ex_defs select_rows_def)
qed

text \<open>Property C38. Publishing is not restricted: the publish topics of tokens have no influence on
  what the hook answers or records.  If the publish topics are replaced by arbitrary others in
  every token that is decoded and in every session, then the answer of the hook to any event is
  the same, and the sessions afterwards are the same except for the replaced lists.  Events other
  than authentication, subscription check and disconnection are passed on unchanged to the next
  handler, and the broker does not register the hook for any of them.\<close>

theorem publishing_not_restricted:
  "(let swap = (\<lambda>cl. cl\<lparr>c_pub_topics := g cl\<rparr>);
        E' = E\<lparr>jwt_decode := (\<lambda>k t s. map_option swap (jwt_decode E k t s))\<rparr>;
        w' = w\<lparr>sessions := map_option swap \<circ> sessions w\<rparr>
    in fst (run (hook E' A param acc) w') = fst (run (hook E A param acc) w) \<and>
       sessions (snd (run (hook E' A param acc) w')) =
         map_option swap \<circ> sessions (snd (run (hook E A param acc) w))) \<and>
   run (hook E A (OtherParameter n) acc) w = (Ok (True, acc), w) \<and>
   TOther n \<notin> fst ` set registered_hooks"
proof -
  let ?s = "\<lambda>cl. cl\<lparr>c_pub_topics := g cl\<rparr>"
  let ?E = "E\<lparr>jwt_decode := (\<lambda>k t s. map_option ?s (jwt_decode E k t s))\<rparr>"
    and ?w = "w\<lparr>sessions := map_option ?s \<circ> sessions w\<rparr>"
  have "fst (run (hook ?E A param acc) ?w) = fst (run (hook E A param acc) w) \<and>
     sessions (snd (run (hook ?E A param acc) ?w)) =
       map_option ?s \<circ> sessions (snd (run (hook E A param acc) w))"
  proof (cases param)
    case (ClientAuthenticate info)
    then show ?thesis
      by (auto simp: hook_def authenticate_def exec fun_eq_iff split: option.splits)
  next
    case (ClientSubscribeCheckAcl cid sub)
    then show ?thesis
      by (cases "sessions w cid") (auto simp: hook_def run_check_subscribe_acl)
  qed (auto simp: hook_def exec fun_eq_iff)
  then show ?thesis by (simp add: hook_def registered_hooks_def Let_def)
qed

end
