(* ===== verification/Api_Extractors.thy ===== *)
theory Api_Extractors
  imports Broker
begin

text \<open>
  \<open>src/api/extractors.rs\<close> and the guard of \<open>src/api/admin.rs\<close>: the two ways an HTTP request is
  authenticated.  The locales at the end are the contract of an endpoint behind each guard: it
  runs the guard first and its body only with the identity the guard established.  The endpoint
  theories interpret them for every guarded handler.
\<close>

definition header_text :: "ext \<Rightarrow> header_map \<Rightarrow> string \<Rightarrow> string" where
  "header_text E headers name =
     (case headers name of
        None \<Rightarrow> ''''
      | Some v \<Rightarrow> (case header_to_str E v of None \<Rightarrow> '''' | Some s \<Rightarrow> s))"

text \<open>\<open>AuthUser::from_request_parts\<close>\<close>

definition auth_user :: "ext \<Rightarrow> app_state \<Rightarrow> header_map \<Rightarrow> (world, error, string) prog" where
  "auth_user E A headers =
     (let auth = header_text E headers ''authorization'' in
      if \<not> starts_with auth ''Bearer '' then errP Unauthorized
      else bindP (Done (str_from 7 auth)) (\<lambda>token.
           bindP (jwt_verify E (st_jwt_keys A) token) (\<lambda>cl. okP (c_sub cl))))"

definition require_admin_key :: "ext \<Rightarrow> header_map \<Rightarrow> string \<Rightarrow> (error, unit) outcome" where
  "require_admin_key E headers expected =
     (let provided = header_text E headers ''x-admin-key'' in
      if provided = expected then Ok () else Err Unauthorized)"

section \<open>Who a request comes from\<close>

text \<open>The claims of the bearer token of a request at the next clock reading.\<close>

definition caller :: "ext \<Rightarrow> app_state \<Rightarrow> header_map \<Rightarrow> world \<Rightarrow> claims option" where
  "caller E A headers w =
     (let auth = header_text E headers ''authorization'' in
      if starts_with auth ''Bearer ''
      then jwt_decode E (decoding (st_jwt_keys A)) (time_at E (time_reads w)) (drop 7 auth)
      else None)"

lemma run_auth_user [exec]:
  assumes "clock_ok E"
  shows "run (auth_user E A headers) w =
     (case caller E A headers w of
        None \<Rightarrow> (Err Unauthorized,
           if starts_with (header_text E headers ''authorization'') ''Bearer '' then tick_time w else w)
      | Some cl \<Rightarrow> (Ok (c_sub cl), tick_time w))"
  using assms by (simp add: auth_user_def caller_def Let_def exec split: option.splits)

lemma leaves_auth_user [frame]: "leaves state_of (auth_user E A headers)"
  unfolding auth_user_def Let_def
  by (auto intro!: leaves_bindP leaves_outcome frame simp del: str_from_prefix)

definition admin_ok :: "ext \<Rightarrow> app_state \<Rightarrow> header_map \<Rightarrow> bool" where
  "admin_ok E A headers \<longleftrightarrow> header_text E headers ''x-admin-key'' = api_key (admin (st_config A))"

lemma require_admin_key_eq:
  "require_admin_key E headers (api_key (admin (st_config A))) =
     (if admin_ok E A headers then Ok () else Err Unauthorized)"
  by (simp add: require_admin_key_def admin_ok_def Let_def)

section \<open>Contracts of guarded endpoints\<close>

locale jwt_guarded =
  fixes E :: ext and A :: app_state
    and handler :: "header_map \<Rightarrow> (world, error, 'a) prog"
    and body :: "string \<Rightarrow> (world, error, 'a) prog"
  assumes guarded: "handler headers = bindP (auth_user E A headers) body"
begin

lemma rejected:
  assumes "clock_ok E" and "caller E A headers w = None" and "run (handler headers) w = (r, w')"
  shows "r = Err Unauthorized \<and> state_of w' = state_of w"
  using assms by (auto simp: guarded run_auth_user)

lemma accepted:
  assumes "clock_ok E" and "caller E A headers w = Some cl"
  shows "run (handler headers) w = run (body (c_sub cl)) (tick_time w)"
  using assms by (simp add: guarded run_auth_user)

end

locale admin_guarded =
  fixes E :: ext and A :: app_state
    and handler :: "header_map \<Rightarrow> (world, error, 'a) prog"
    and body :: "unit \<Rightarrow> (world, error, 'a) prog"
  assumes guarded:
    "handler headers = bindP (Done (require_admin_key E headers (api_key (admin (st_config A))))) body"
begin

lemma rejected:
  assumes "\<not> admin_ok E A headers"
  shows "run (handler headers) w = (Err Unauthorized, w)"
  using assms by (simp add: guarded require_admin_key_eq)

lemma accepted:
  assumes "admin_ok E A headers"
  shows "handler headers = body ()"
  using assms by (simp add: guarded require_admin_key_eq)

end

section \<open>Concrete requests\<close>

definition ex_headers :: "claims \<Rightarrow> header_map" where
  "ex_headers cl = [''authorization'' \<mapsto>
     as_bytes (''Bearer '' @ (case ex_jwt_encode [1, 2] cl of Inr t \<Rightarrow> t | Inl e \<Rightarrow> e))]"

definition ex_peer_claims :: claims where
  "ex_peer_claims = \<lparr>c_sub = ''bob'', c_dev = ''tablet'', c_exp = 4600, c_iat = 1000,
                     c_pub_topics = [], c_sub_topics = [], c_notify_topic = ''m''\<rparr>"

definition ex_admin_headers :: header_map where
  "ex_admin_headers = [''x-admin-key'' \<mapsto> as_bytes ''test-admin-key'']"

lemma caller_ex:
  assumes "jwt_live 1000 cl"
  shows "caller ex_ext ex_app (ex_headers cl) w = Some cl"
proof -
  obtain t where t: "ex_jwt_encode [1, 2] cl = Inr t" by (simp add: ex_jwt_encode_def)
  moreover from t have "jwt_decode ex_ext [1, 2] 1000 t = Some cl"
    using ex_laws(3) t assms unfolding jwt_law_def by simp
  ultimately show ?thesis
    by (simp add: caller_def ex_headers_def header_text_def ex_app_def starts_with_def
        del: as_bytes_append)
qed

lemmas caller_ex_users = caller_ex [of ex_claims, OF ex_claims_live(1)]
  caller_ex [of ex_peer_claims, simplified jwt_live_def ex_peer_claims_def, simplified,
    folded ex_peer_claims_def]

lemma c_sub_ex [simp]: "c_sub ex_claims = ''alice''" "c_sub ex_peer_claims = ''bob''"
  by (simp_all add: ex_claims_def ex_peer_claims_def)

lemma admin_ok_ex [simp]: "admin_ok ex_ext ex_app ex_admin_headers"
  by (simp add: admin_ok_def ex_admin_headers_def header_text_def ex_app_def ex_config_def)

end
