(* ===== verification/Api_Register.thy ===== *)
theory Api_Register
  imports Api_Extractors
begin

text \<open>\<open>src/api/register.rs\<close>: registration of a user with its first device.\<close>

record register_request =
  rq_pubkey :: string
  rq_registration_token :: "string option"

record register_response =
  rs_user_id :: string
  rs_device_id :: string

definition register_token_hash :: "ext \<Rightarrow> string \<Rightarrow> (error, bytes) outcome" where
  "register_token_hash E token =
     (case expect ''HMAC accepts any key length'' (hmac_new E (as_bytes ''smqtt-token-hash'')) of
        Ok mac \<Rightarrow> Ok (mac (as_bytes token))
      | Err e \<Rightarrow> Err e
      | Panic m \<Rightarrow> Panic m)"

text \<open>
  \<open>validate_via_hook\<close>: a failure to send the request or to read the answer as JSON is an
  internal error; the registration is allowed only by a literal \<open>true\<close> under \<open>allowed\<close>.
\<close>

definition validate_via_hook :: "ext \<Rightarrow> string \<Rightarrow> string \<Rightarrow> (world, error, unit) prog" where
  "validate_via_hook E url pubkey =
     bindP (new_client E) (\<lambda>_.
     bindP (post_json E url [(''pubkey'', pubkey)]) (\<lambda>resp.
     case resp of
       Inl e \<Rightarrow> errP (Internal e)
     | Inr (Inl e) \<Rightarrow> errP (Internal e)
     | Inr (Inr body) \<Rightarrow>
         (case Option.bind (json_get ''allowed'' body) as_bool of
            Some True \<Rightarrow> okP ()
          | _ \<Rightarrow> errP Forbidden)))"

text \<open>Step 1 of \<open>register\<close>: the registration policy.\<close>

definition check_policy :: "ext \<Rightarrow> app_state \<Rightarrow> register_request \<Rightarrow> (world, error, unit) prog" where
  "check_policy E A req =
     (let reg = registration (st_config A) in
      case reg_mode reg of
        Closed \<Rightarrow> errP Forbidden
      | Policy \<Rightarrow>
          (case reg_policy reg of
             None \<Rightarrow> errP (Internal ''policy mode configured but no policy'')
           | Some policy \<Rightarrow>
              (case policy_type policy of
                 Push \<Rightarrow>
                   (case rq_registration_token req of
                      None \<Rightarrow> errP (BadRequest ''registration_token required'')
                    | Some token \<Rightarrow>
                        bindP (Done (register_token_hash E token)) (\<lambda>hash.
                        consume_registration_token E hash))
               | Hook \<Rightarrow>
                   (case policy_hook_url policy of
                      None \<Rightarrow> errP (Internal ''hook_url not configured'')
                    | Some url \<Rightarrow> validate_via_hook E url (rq_pubkey req))))
      | Open \<Rightarrow> okP ())"

text \<open>\<open>pubkey_bytes.try_into().unwrap()\<close> into an array of 32 bytes.\<close>

definition array32_unwrap :: "bytes \<Rightarrow> (error, bytes) outcome" where
  "array32_unwrap bs =
     (if length bs = 32 then Ok bs else Panic ''called Result::unwrap() on an Err value'')"

definition register :: "ext \<Rightarrow> app_state \<Rightarrow> register_request
    \<Rightarrow> (world, error, register_response) prog" where
  "register E A req =
     bindP (check_policy E A req) (\<lambda>_.
     bindP (Done (b64_decode E (rq_pubkey req))) (\<lambda>pubkey_bytes.
     if length pubkey_bytes \<noteq> 32
     then errP (BadRequest ''pubkey must be 32 bytes (Ed25519)'')
     else
       bindP (Done (array32_unwrap pubkey_bytes)) (\<lambda>key_array.
       if \<not> ed25519_key E key_array
       then errP (BadRequest ''invalid Ed25519 public key'')
       else
         bindP (create_user E) (\<lambda>usr.
         bindP (create_device E (u_user_id usr) key_array) (\<lambda>dev.
         okP \<lparr>rs_user_id = u_user_id usr, rs_device_id = d_device_id dev\<rparr>)))))"

section \<open>Running\<close>

text \<open>The policy check touches no table but the registration tokens.\<close>

lemma leaves_check_policy:
  assumes "\<And>w n. f (w\<lparr>time_reads := n\<rparr>) = f w" and "\<And>w n. f (w\<lparr>sql_stmts := n\<rparr>) = f w"
    and "\<And>w n. f (w\<lparr>http_posts := n\<rparr>) = f w" and "\<And>w t. f (w\<lparr>registration_tokens := t\<rparr>) = f w"
  shows "leaves f (check_policy E A req)"
proof -
  have "leaves f (unix_now E :: (world, error, u64) prog)"
    unfolding unix_now_def clock_read_def
    by (intro leaves_bindP leaves_act) (auto simp: assms split: option.splits)
  moreover have "leaves f (post_json E url b :: (world, error, string + (string + json)) prog)" for url b
    unfolding post_json_def by (intro leaves_act) (auto simp: assms)
  moreover have "leaves f (new_client E :: (world, error, unit) prog)"
    unfolding new_client_def by (intro leaves_act) auto
  ultimately show ?thesis
    unfolding check_policy_def consume_registration_token_def validate_via_hook_def Let_def
    by (auto intro!: leaves_bindP leaves_outcome leaves_sql simp: assms
        split: registration_mode.splits option.splits policy_kind.splits sum.splits bool.splits)
qed

lemma check_policy_frame:
  assumes "run (check_policy E A req) w = (r, w')"
  shows "users w' = users w" "devices w' = devices w" "relationships w' = relationships w"
    "pending_exchanges w' = pending_exchanges w" "challenges w' = challenges w"
    "sessions w' = sessions w" "uuid_draws w' = uuid_draws w"
  by (rule leavesD [OF leaves_check_policy assms]; simp)+

lemma run_create_device [exec]:
  assumes "no_faults E" and "clock_ok E" and "user_exists uid w"
    and "uuid_v4 E (uuid_draws w) \<notin> d_device_id ` set (devices w)"
  shows "run (create_device E uid key) w =
     (let d = \<lparr>d_device_id = uuid_v4 E (uuid_draws w), d_user_id = uid, d_pubkey = key,
               d_registered_at = as_i64 (time_at E (time_reads w))\<rparr>
      in (Ok d, (tick_sql (tick_time (tick_uuid w)))\<lparr>devices := devices w @ [d]\<rparr>))"
  using assms by (simp add: create_device_def exec Let_def insert_row_fresh)

lemma run_register_admitted:
  assumes "no_faults E" and "clock_ok E" and "run (check_policy E A req) w = (Ok (), w1)"
    and "find_user w (uuid_v4 E (uuid_draws w)) = None"
    and "uuid_v4 E (Suc (uuid_draws w)) \<notin> d_device_id ` set (devices w)"
    and "b64_decode E (rq_pubkey req) = Ok key" and "length key = 32" and "ed25519_key E key"
  shows "\<exists>v w'. run (register E A req) w = (Ok v, w')"
  using assms check_policy_frame [OF assms(3)]
  by (simp add: register_def array32_unwrap_def run_create_user run_create_device Let_def user_exists_def)

abbreviation push_mode :: "app_state \<Rightarrow> bool" where
  "push_mode A \<equiv> reg_mode (registration (st_config A)) = Policy \<and>
     (\<exists>p. reg_policy (registration (st_config A)) = Some p \<and> policy_type p = Push)"

lemma check_policy_push:
  "push_mode A \<Longrightarrow> rq_registration_token req = Some tok \<Longrightarrow> register_token_hash E tok = Ok h \<Longrightarrow>
   check_policy E A req = consume_registration_token E h"
  by (auto simp: check_policy_def)

section \<open>Properties\<close>

text \<open>Property C14. Once the registration policy admits a request, the registration succeeds exactly
  when the public key is the base64 of 32 bytes that are an Ed25519 key.  It then adds one user,
  not suspended, and one device of that user with that key, under the identifiers it returns;
  otherwise it is refused as a bad request and adds nothing.\<close>

theorem register_creates_account:
  assumes "no_faults E" and "clock_ok E" and "run (check_policy E A req) w = (Ok (), w1)"
    and "find_user w (uuid_v4 E (uuid_draws w)) = None"
    and "uuid_v4 E (Suc (uuid_draws w)) \<notin> d_device_id ` set (devices w)"
    and "run (register E A req) w = (r, w')"
  shows "if \<exists>key. b64_decode E (rq_pubkey req) = Ok key \<and> length key = 32 \<and> ed25519_key E key
     then \<exists>u d. r = Ok \<lparr>rs_user_id = u_user_id u, rs_device_id = d_device_id d\<rparr> \<and>
       users w' = users w @ [u] \<and> devices w' = devices w @ [d] \<and>
       find_user w (u_user_id u) = None \<and> \<not> u_suspended u \<and> u_tokens_valid_from u = 0 \<and>
       d_user_id d = u_user_id u \<and> b64_decode E (rq_pubkey req) = Ok (d_pubkey d)
     else \<exists>m. r = Err (BadRequest m) \<and> w' = w1"
proof -
  note fr = check_policy_frame [OF assms(3)]
  show ?thesis
  proof (cases "b64_decode E (rq_pubkey req)")
    case (Ok key)
    show ?thesis
    proof (cases "length key = 32 \<and> ed25519_key E key")
      case True
      with assms Ok fr show ?thesis
        by (auto simp: register_def array32_unwrap_def run_create_user run_create_device Let_def
            user_exists_def)
    next
      case False
      with assms Ok show ?thesis by (auto simp: register_def array32_unwrap_def split: if_splits)
    qed
  next
    case (Err e)
    with assms show ?thesis by (auto simp: register_def b64_decode_def split: sum.splits)
  qed simp
qed

definition ex_register :: register_request where
  "ex_register = \<lparr>rq_pubkey = ex_b64 ex_key, rq_registration_token = Some ''abc''\<rparr>"

lemma register_ex_policy: "run (check_policy ex_ext ex_app ex_register) ex_world = (Ok (), ex_world)"
  by (simp add: check_policy_def ex_app_def ex_config_def)

lemma register_ex_fresh:
  "find_user ex_world (uuid_v4 ex_ext (uuid_draws ex_world)) = None"
  "uuid_v4 ex_ext (Suc (uuid_draws ex_world)) \<notin> d_device_id ` set (devices ex_world)"
  by (simp_all add: ex_defs ex_id_def row_map_None)

lemma register_ex_key: "b64_decode ex_ext (rq_pubkey ex_register) = Ok ex_key"
  using b64_decode_encode [OF ex_laws(1)] by (simp add: b64_encode_def ex_register_def)

lemma register_ex: "\<exists>v w'. run (register ex_ext ex_app ex_register) ex_world = (Ok v, w')"
  using register_ex_policy register_ex_fresh register_ex_key
  by (simp add: register_def array32_unwrap_def run_create_user run_create_device Let_def user_exists_def)

theorem register_creates_account_witness:
  "\<exists>v w'. run (register ex_ext ex_app ex_register) ex_world = (Ok v, w') \<and>
     length (users w') = 3 \<and> length (devices w') = 2"
proof -
  obtain r w' where p: "run (register ex_ext ex_app ex_register) ex_world = (r, w')" by fastforce
  from register_creates_account [OF ex_laws(5,4) register_ex_policy register_ex_fresh p] p
    register_ex_key
  show ?thesis by (auto simp: ex_world_def)
qed

lemma leaves_tokens_create:
  "leaves registration_tokens (create_user E :: (world, error, user) prog)"
  "leaves registration_tokens (create_device E uid key :: (world, error, device) prog)"
proof -
  have "leaves registration_tokens (unix_now E :: (world, error, u64) prog)"
    "leaves registration_tokens (new_uuid E :: (world, error, string) prog)"
    unfolding unix_now_def clock_read_def new_uuid_def
    by (intro leaves_bindP leaves_act; auto split: option.splits)+
  then show "leaves registration_tokens (create_user E :: (world, error, user) prog)"
    "leaves registration_tokens (create_device E uid key :: (world, error, device) prog)"
    unfolding create_user_def create_device_def Let_def
    by (intro leaves_bindP leaves_sql leaves_okP;
        auto simp: references_user_def bindS_def split: if_splits sum.splits)+
qed

lemma register_tokens:
  assumes "run (check_policy E A req) w = (p, w1)" and "run (register E A req) w = (r, w')"
  shows "registration_tokens w' = registration_tokens w1"
    and "p = Err e \<Longrightarrow> r = Err e \<and> w' = w1"
  by (rule run_bindP_leaves [OF assms(1) assms(2) [unfolded register_def]],
      auto intro!: leaves_bindP leaves_outcome leaves_tokens_create)
    (use run_bindP_leaves(2) [OF assms(1) assms(2) [unfolded register_def]] in simp_all)

text \<open>Property C15. A registration succeeds only as the configured mode allows: never in closed mode;
  in policy mode with tokens only if the request carries a token whose hash is that of a stored
  token which is not expired and has uses left; in policy mode with a hook only if the hook
  answered with a JSON body in which \<open>allowed\<close> is true.\<close>

theorem register_gate:
  assumes "no_faults E" and "clock_ok E" and "run (register E A req) w = (Ok v, w')"
  shows "case reg_mode (registration (st_config A)) of
       Open \<Rightarrow> True
     | Closed \<Rightarrow> False
     | Policy \<Rightarrow> (\<exists>p. reg_policy (registration (st_config A)) = Some p \<and>
         (case policy_type p of
            Push \<Rightarrow> (\<exists>tok h t. rq_registration_token req = Some tok \<and> register_token_hash E tok = Ok h \<and>
              t \<in> set (registration_tokens w) \<and> token_usable h (as_i64 (time_at E (time_reads w))) t)
          | Hook \<Rightarrow> (\<exists>url b. policy_hook_url p = Some url \<and>
              http_post E (http_posts w) url [(''pubkey'', rq_pubkey req)] = Inr (Inr b) \<and>
              Option.bind (json_get ''allowed'' b) as_bool = Some True)))"
proof -
  obtain p w1 where c: "run (check_policy E A req) w = (p, w1)" by fastforce
  have "\<exists>u. p = Ok u" using assms(3) c by (cases p) (simp_all add: register_def)
  then show ?thesis using c assms(1,2)
    by (auto simp: check_policy_def validate_via_hook_def run_consume_registration_token
        exec Let_def split: registration_mode.splits option.splits policy_kind.splits sum.splits
        if_splits bool.splits outcome.splits)
qed

definition ex_invite_app :: app_state where
  "ex_invite_app = ex_app\<lparr>st_config := ex_config\<lparr>registration :=
     \<lparr>reg_mode = Policy, reg_policy = Some \<lparr>policy_type = Push, policy_hook_url = None\<rparr>\<rparr>\<rparr>\<rparr>"

definition ex_invited :: world where
  "ex_invited = ex_world\<lparr>registration_tokens :=
     [\<lparr>t_token_id = ''t'', t_token_hash = as_bytes ''smqtt-token-hashabc'', t_created_at = 0,
       t_expires_at = 5000, t_max_uses = 1, t_uses = 0\<rparr>]\<rparr>"

lemma ex_token_hash: "register_token_hash ex_ext ''abc'' = Ok (as_bytes ''smqtt-token-hashabc'')"
  by (simp add: register_token_hash_def flip: as_bytes_append)

lemma ex_invited_policy: "\<exists>w1. run (check_policy ex_ext ex_invite_app ex_register) ex_invited = (Ok (), w1)"
proof -
  have "check_policy ex_ext ex_invite_app ex_register =
      consume_registration_token ex_ext (as_bytes ''smqtt-token-hashabc'')"
    by (rule check_policy_push [OF _ _ ex_token_hash]) (simp_all add: ex_invite_app_def ex_register_def)
  then show ?thesis by (simp add: run_consume_registration_token ex_invited_def token_usable_def)
qed

theorem register_gate_witness:
  "\<exists>v w' t. run (register ex_ext ex_invite_app ex_register) ex_invited = (Ok v, w') \<and>
     t \<in> set (registration_tokens ex_invited) \<and> token_usable (as_bytes ''smqtt-token-hashabc'') 1000 t"
proof -
  obtain w1 where c: "run (check_policy ex_ext ex_invite_app ex_register) ex_invited = (Ok (), w1)"
    using ex_invited_policy by blast
  have f: "find_user ex_invited (uuid_v4 ex_ext (uuid_draws ex_invited)) = None"
    "uuid_v4 ex_ext (Suc (uuid_draws ex_invited)) \<notin> d_device_id ` set (devices ex_invited)"
    using register_ex_fresh by (simp_all add: ex_invited_def)
  obtain v w' where p: "run (register ex_ext ex_invite_app ex_register) ex_invited = (Ok v, w')"
    using run_register_admitted [OF ex_laws(5,4) c f register_ex_key] by auto
  from register_gate [OF ex_laws(5,4) p] p ex_token_hash show ?thesis
    by (simp add: ex_invite_app_def ex_register_def)
qed

text \<open>Property C34. In policy mode with tokens the token is charged first: every stored token that
  matches the presented one and is usable loses one use whatever follows, also when the request
  is then refused for its public key; if none is usable, the answer is forbidden and nothing
  changes.\<close>

theorem register_charges_token:
  assumes "no_faults E" and "clock_ok E" and "reg_mode (registration (st_config A)) = Policy"
    and "reg_policy (registration (st_config A)) = Some p" and "policy_type p = Push"
    and "rq_registration_token req = Some tok" and "register_token_hash E tok = Ok h"
    and "run (register E A req) w = (r, w')"
  shows "registration_tokens w' =
      update_rows (token_usable h (as_i64 (time_at E (time_reads w))))
        (\<lambda>t. t\<lparr>t_uses := t_uses t + 1\<rparr>) (registration_tokens w) \<and>
    ((\<forall>t \<in> set (registration_tokens w).
        \<not> token_usable h (as_i64 (time_at E (time_reads w))) t) \<longrightarrow>
      r = Err Forbidden \<and> registration_tokens w' = registration_tokens w \<and> users w' = users w)"
proof -
  obtain q w1 where c: "run (check_policy E A req) w = (q, w1)" by fastforce
  have e: "check_policy E A req = consume_registration_token E h"
    using assms(3-7) by (simp add: check_policy_def)
  note t = register_tokens [OF c assms(8)] and fr = check_policy_frame [OF c]
  show ?thesis
    using c t fr assms(1,2) unfolding e
    by (auto simp: run_consume_registration_token update_rows_none split: if_splits)
qed

theorem register_charges_token_witness:
  "map t_uses (registration_tokens (snd (run (register ex_ext ex_invite_app (ex_register\<lparr>rq_pubkey := ''bad''\<rparr>)) ex_invited)))
     = [1]"
proof -
  let ?rq = "ex_register\<lparr>rq_pubkey := ''bad''\<rparr>"
  obtain r w' where p: "run (register ex_ext ex_invite_app ?rq) ex_invited = (r, w')" by fastforce
  from register_charges_token [OF ex_laws(5,4) _ _ _ _ ex_token_hash p] p show ?thesis
    by (simp add: ex_invite_app_def ex_register_def ex_invited_def update_rows_def token_usable_def)
qed

end
