(* ===== verification/Api_Auth.thy ===== *)
theory Api_Auth
  imports Api_Extractors
begin

text \<open>\<open>src/api/auth.rs\<close>: the challenge-response login that ends in a JWT.\<close>

definition CHALLENGE_TTL_SECS :: u64 where
  "CHALLENGE_TTL_SECS = 60"

definition challenge :: "ext \<Rightarrow> string \<Rightarrow> (world, error, string) prog" where
  "challenge E q_user_id =
     bindP (get_user E q_user_id) (\<lambda>_.
     bindP (random_bytes E 32) (\<lambda>nonce.
     bindP (unix_now E) (\<lambda>now.
     bindP (Done (add_u64 (overflow_checks E) now CHALLENGE_TTL_SECS)) (\<lambda>expires_at.
     bindP (challenges_insert q_user_id (nonce, expires_at)) (\<lambda>_.
     okP (b64_encode E nonce))))))"

record verify_request =
  v_user_id :: string
  v_device_id :: string
  v_signature :: string

text \<open>\<open>try_into()\<close> of a byte vector into an array, with the given error on a wrong length.\<close>

definition to_array :: "nat \<Rightarrow> error \<Rightarrow> bytes \<Rightarrow> (error, bytes) outcome" where
  "to_array n e bs = (if length bs = n then Ok bs else Err e)"

text \<open>
  Step 3 of \<open>verify\<close>: the user's devices are searched for the requested one, its key and the
  signature are brought into shape, and the signature is checked against the nonce.
\<close>

definition check_signature ::
  "ext \<Rightarrow> device list \<Rightarrow> verify_request \<Rightarrow> bytes \<Rightarrow> (error, unit) outcome" where
  "check_signature E ds req nonce =
     (case find (\<lambda>d. d_device_id d = v_device_id req) ds of
        None \<Rightarrow> Err Unauthorized
      | Some dev \<Rightarrow>
       (case to_array 32 (Internal ''invalid pubkey in db'') (d_pubkey dev) of
          Ok key_array \<Rightarrow>
           (if \<not> ed25519_key E key_array then Err (Internal ''invalid pubkey in db'')
            else case b64_decode E (v_signature req) of
              Ok sig_bytes \<Rightarrow>
               (case to_array 64 (BadRequest ''signature must be 64 bytes'') sig_bytes of
                  Ok sig_array \<Rightarrow>
                    if ed25519_verify E key_array nonce sig_array then Ok () else Err Unauthorized
                | Err e \<Rightarrow> Err e | Panic m \<Rightarrow> Panic m)
            | Err e \<Rightarrow> Err e | Panic m \<Rightarrow> Panic m)
        | Err e \<Rightarrow> Err e | Panic m \<Rightarrow> Panic m))"

definition verify :: "ext \<Rightarrow> app_state \<Rightarrow> verify_request \<Rightarrow> (world, error, string) prog" where
  "verify E A req =
     bindP (challenges_remove (v_user_id req)) (\<lambda>popped.
     bindP (ok_or Unauthorized popped) (\<lambda>(nonce, expires_at).
     bindP (unix_now E) (\<lambda>now.
     if now > expires_at then errP Unauthorized
     else
       bindP (get_user E (v_user_id req)) (\<lambda>usr.
       if u_suspended usr then errP Forbidden
       else
         bindP (get_device_by_user E (v_user_id req)) (\<lambda>ds.
         bindP (Done (check_signature E ds req nonce)) (\<lambda>_.
         bindP (user_topics E (v_user_id req)) (\<lambda>(pub_topics, sub_topics).
         bindP (Done (notify_topic E A (v_user_id req))) (\<lambda>ntopic.
         issue E (st_jwt_keys A) (v_user_id req) (v_device_id req)
           (ttl_seconds (jwt (st_config A))) pub_topics (sub_topics @ [ntopic]) ntopic))))))))"

section \<open>Running\<close>

lemma check_signature_Ok:
  "check_signature E ds req nonce = Ok u \<longleftrightarrow>
     (\<exists>d sig. find (\<lambda>d. d_device_id d = v_device_id req) ds = Some d \<and> length (d_pubkey d) = 32 \<and>
        ed25519_key E (d_pubkey d) \<and> b64_decode E (v_signature req) = Ok sig \<and> length sig = 64 \<and>
        ed25519_verify E (d_pubkey d) nonce sig)"
  by (auto simp: check_signature_def to_array_def split: option.splits outcome.splits)

lemma check_signature_not_Panic [simp]: "check_signature E ds req nonce \<noteq> Panic m"
  by (simp add: check_signature_def to_array_def split: option.splits outcome.splits)

lemma find_filter_pk:
  assumes "pk key rows"
  shows "find (\<lambda>r. key r = k) (select_rows P rows) = Some r \<longleftrightarrow> r \<in> set rows \<and> P r \<and> key r = k"
  using assms by (induction rows) (auto simp: pk_def select_rows_def)

text \<open>The claims \<open>verify\<close> issues to a device at a clock reading, with the user's notification topic.\<close>

definition login_claims ::
  "ext \<Rightarrow> app_state \<Rightarrow> world \<Rightarrow> string \<Rightarrow> string \<Rightarrow> string \<Rightarrow> u64 \<Rightarrow> claims" where
  "login_claims E A w uid dev ntopic now =
     \<lparr>c_sub = uid, c_dev = dev, c_exp = now + ttl_seconds (jwt (st_config A)), c_iat = now,
      c_pub_topics = concat (map (topics_of_json E \<circ> r_publish_topics) (relationships_of w uid)),
      c_sub_topics = concat (map (topics_of_json E \<circ> r_subscribe_topics) (relationships_of w uid)) @
        [ntopic],
      c_notify_topic = ntopic\<rparr>"

lemma leaves_verify_tail:
  "leaves state_of (bindP (ok_or Unauthorized popped) (\<lambda>(nonce, expires_at).
     bindP (unix_now E) (\<lambda>now.
     if now > expires_at then errP Unauthorized
     else
       bindP (get_user E uid) (\<lambda>usr.
       if u_suspended usr then errP Forbidden
       else
         bindP (get_device_by_user E uid) (\<lambda>ds.
         bindP (Done (check_signature E ds req nonce)) (\<lambda>_.
         bindP (user_topics E uid) (\<lambda>(pub_topics, sub_topics).
         bindP (Done topic) (\<lambda>n.
         issue E keys uid dev ttl pub_topics (sub_topics @ [n]) n))))))))"
  by (auto intro!: leaves_bindP leaves_outcome frame leaves_db_reads split: prod.splits)

lemma verify_state:
  "state_of (snd (run (verify E A req) w)) =
     state_of (w\<lparr>challenges := (challenges w)(v_user_id req := None)\<rparr>)"
  unfolding verify_def
  by (subst run_bindP) (simp only: run_dm_remove prod.case outcome.case
      leaves_verify_tail [unfolded leaves_def, rule_format])

lemma verify_Ok:
  assumes "no_faults E" and "clock_ok E" and "pk d_device_id (devices w)"
    and "add_fits (overflow_checks E) (time_at E (Suc (time_reads w))) (ttl_seconds (jwt (st_config A)))"
    and "run (verify E A req) w = (r, w')"
  shows "r = Ok token \<longleftrightarrow>
     (\<exists>nonce expires u d sig ntopic.
        challenges w (v_user_id req) = Some (nonce, expires) \<and> time_at E (time_reads w) \<le> expires \<and>
        find_user w (v_user_id req) = Some u \<and> \<not> u_suspended u \<and>
        d \<in> set (devices w) \<and> d_user_id d = v_user_id req \<and> d_device_id d = v_device_id req \<and>
        length (d_pubkey d) = 32 \<and> ed25519_key E (d_pubkey d) \<and>
        b64_decode E (v_signature req) = Ok sig \<and> length sig = 64 \<and>
        ed25519_verify E (d_pubkey d) nonce sig \<and> notify_topic E A (v_user_id req) = Ok ntopic \<and>
        jwt_encode E (encoding (st_jwt_keys A))
          (login_claims E A w (v_user_id req) (v_device_id req) ntopic (time_at E (Suc (time_reads w)))) = Inr token)"
proof (cases "challenges w (v_user_id req)")
  case None
  with assms show ?thesis by (auto simp: verify_def exec)
next
  case (Some c)
  obtain nonce expires where c: "c = (nonce, expires)" by fastforce
  let ?cs = "check_signature E (devices_of w (v_user_id req)) req nonce"
  have "r = Ok token \<longleftrightarrow> time_at E (time_reads w) \<le> expires \<and>
      (\<exists>u. find_user w (v_user_id req) = Some u \<and> \<not> u_suspended u) \<and> ?cs = Ok () \<and>
      (\<exists>ntopic. notify_topic E A (v_user_id req) = Ok ntopic \<and>
        jwt_encode E (encoding (st_jwt_keys A))
          (login_claims E A w (v_user_id req) (v_device_id req) ntopic (time_at E (Suc (time_reads w)))) = Inr token)"
    using assms(1,2,4,5) Some c
    by (cases ?cs; cases "notify_topic E A (v_user_id req)")
      (auto simp: verify_def exec Let_def not_less login_claims_def split: option.splits if_splits sum.splits)
  then show ?thesis
    using Some c assms(3) by (simp add: check_signature_Ok find_filter_pk) blast
qed

lemma run_challenge:
  assumes "no_faults E" and "clock_ok E" and "find_user w uid = Some u"
    and "add_fits (overflow_checks E) (time_at E (time_reads w)) CHALLENGE_TTL_SECS"
  shows "run (challenge E uid) w =
     (let nonce = map (rand_byte E (rng_draws w)) [0..<32] in
      (Ok (b64_encode E nonce),
       (tick_time (tick_rng (tick_sql w)))\<lparr>challenges := (challenges w)
          (uid \<mapsto> (nonce, time_at E (time_reads w) + CHALLENGE_TTL_SECS))\<rparr>))"
  using assms by (simp add: challenge_def exec Let_def)

lemma verify_suspended:
  assumes "no_faults E" and "clock_ok E" and "find_user w (v_user_id req) = Some u" and "u_suspended u"
  shows "fst (run (verify E A req) w) =
     Err (if \<exists>n e. challenges w (v_user_id req) = Some (n, e) \<and> time_at E (time_reads w) \<le> e
          then Forbidden else Unauthorized)"
  using assms by (cases "challenges w (v_user_id req)") (auto simp: verify_def exec)

section \<open>Properties\<close>

text \<open>Property C4. A login succeeds exactly when the user has a pending challenge that has not
  expired, exists and is not suspended, and the request names one of the user's devices and
  carries the base64 of a 64-byte signature of the challenge's nonce that is valid under that
  device's key.  The token then encodes the user, the device, the time, the topics granted by the
  user's relationships and the user's notification topic.\<close>

theorem verify_ok_iff:
  assumes "no_faults E" and "clock_ok E" and "pk d_device_id (devices w)"
    and "add_fits (overflow_checks E) (time_at E (Suc (time_reads w))) (ttl_seconds (jwt (st_config A)))"
    and "run (verify E A req) w = (r, w')"
  shows "r = Ok token \<longleftrightarrow>
     (\<exists>nonce expires u d sig ntopic.
        challenges w (v_user_id req) = Some (nonce, expires) \<and> time_at E (time_reads w) \<le> expires \<and>
        find_user w (v_user_id req) = Some u \<and> \<not> u_suspended u \<and>
        d \<in> set (devices w) \<and> d_user_id d = v_user_id req \<and> d_device_id d = v_device_id req \<and>
        length (d_pubkey d) = 32 \<and> ed25519_key E (d_pubkey d) \<and>
        b64_decode E (v_signature req) = Ok sig \<and> length sig = 64 \<and>
        ed25519_verify E (d_pubkey d) nonce sig \<and> notify_topic E A (v_user_id req) = Ok ntopic \<and>
        jwt_encode E (encoding (st_jwt_keys A))
          (login_claims E A w (v_user_id req) (v_device_id req) ntopic (time_at E (Suc (time_reads w)))) = Inr token)"
  using assms by (rule verify_Ok)

text \<open>Property C7. A challenge is used at most once: whatever a login attempt ends with, errors and
  panics included, it removes the user's pending challenge and changes nothing else, and a
  further attempt for the same user without a new challenge is refused as unauthorized.\<close>

theorem verify_consumes_challenge:
  "state_of (snd (run (verify E A req) w)) =
     state_of (w\<lparr>challenges := (challenges w)(v_user_id req := None)\<rparr>) \<and>
   fst (run (verify E A (req2\<lparr>v_user_id := v_user_id req\<rparr>)) (snd (run (verify E A req) w)))
     = Err Unauthorized"
proof -
  let ?w = "snd (run (verify E A req) w)"
  have "challenges ?w (v_user_id req) = None"
    using verify_state [of E A req w] by (cases w; cases ?w) simp
  then have "fst (run (verify E A (req2\<lparr>v_user_id := v_user_id req\<rparr>)) ?w) = Err Unauthorized"
    by (simp add: verify_def exec del: run_bindP) (simp add: exec)
  with verify_state show ?thesis by blast
qed

definition ex_challenged :: world where
  "ex_challenged = ex_world\<lparr>challenges := [''alice'' \<mapsto> (replicate 32 9, 1060)]\<rparr>"

definition ex_verify :: verify_request where
  "ex_verify = \<lparr>v_user_id = ''alice'', v_device_id = ''phone'',
                v_signature = ex_b64 (ex_key @ replicate 32 9)\<rparr>"

theorem verify_ok_iff_witness:
  "\<exists>token w'. run (verify ex_ext ex_app ex_verify) ex_challenged = (Ok token, w')"
proof -
  obtain r w' where p: "run (verify ex_ext ex_app ex_verify) ex_challenged = (r, w')" by fastforce
  have pk: "pk d_device_id (devices ex_challenged)"
    by (simp add: ex_challenged_def ex_defs pk_def)
  have fits: "add_fits (overflow_checks ex_ext) (time_at ex_ext (Suc (time_reads ex_challenged)))
      (ttl_seconds (jwt (st_config ex_app)))"
    by (simp add: add_fits_def)
  have sig: "b64_decode ex_ext (v_signature ex_verify) = Ok (ex_key @ replicate 32 9)"
    using b64_decode_encode [OF ex_laws(1)] by (simp add: b64_encode_def ex_verify_def)
  show ?thesis
    using verify_ok_iff [OF ex_laws(5,4) pk fits p] p sig
    by (simp add: ex_challenged_def ex_verify_def ex_jwt_encode_def ex_notify_topic)
      (simp add: ex_defs ex_key_def)
qed

end
