(* ===== verification/Api_Exchange.thy ===== *)
theory Api_Exchange
  imports Api_Extractors
begin

text \<open>\<open>src/api/exchange.rs\<close>: the server-mediated exchange of ephemeral public keys.\<close>

record initiate_request =
  i_peer_id :: string
  i_ephemeral_pubkey :: string

record exchange_response =
  e_exchange_id :: string
  e_initiator_id :: string
  e_responder_id :: string
  e_initiator_pubkey :: string
  e_responder_pubkey :: "string option"

text \<open>The payload of a notification: \<open>{"type": ..., "exchange_id": ...}\<close> as text.\<close>

definition notification :: "ext \<Rightarrow> string \<Rightarrow> string \<Rightarrow> bytes" where
  "notification E kind exchange_id =
     as_bytes (json_object E [(''type'', kind), (''exchange_id'', exchange_id)])"

definition initiate_body ::
  "ext \<Rightarrow> app_state \<Rightarrow> initiate_request \<Rightarrow> string \<Rightarrow> (world, error, string) prog" where
  "initiate_body E A req user_id =
     bindP (get_user E (i_peer_id req)) (\<lambda>_.
     bindP (Done (b64_decode E (i_ephemeral_pubkey req))) (\<lambda>pubkey.
     if length pubkey \<noteq> 32
     then errP (BadRequest ''ephemeral_pubkey must be 32 bytes (X25519)'')
     else
       bindP (create_exchange E user_id (i_peer_id req) pubkey) (\<lambda>exchange.
       bindP (Done (notify_topic E A (i_peer_id req))) (\<lambda>topic.
       bindP (publish_system A topic
                (notification E ''pending_exchange'' (x_exchange_id exchange))) (\<lambda>_.
       okP (x_exchange_id exchange))))))"

definition initiate ::
  "ext \<Rightarrow> app_state \<Rightarrow> header_map \<Rightarrow> initiate_request \<Rightarrow> (world, error, string) prog" where
  "initiate E A headers req = bindP (auth_user E A headers) (initiate_body E A req)"

definition exchange_get_body ::
  "ext \<Rightarrow> string \<Rightarrow> string \<Rightarrow> (world, error, exchange_response) prog" where
  "exchange_get_body E exchange_id user_id =
     bindP (get_exchange E exchange_id) (\<lambda>ex.
     if x_initiator_id ex \<noteq> user_id \<and> x_responder_id ex \<noteq> user_id then errP Forbidden
     else
       let complete = (x_responder_pubkey ex \<noteq> None);
           is_initiator = (x_initiator_id ex = user_id);
           responder_pubkey = map_option (b64_encode E) (x_responder_pubkey ex);
           resp = \<lparr>e_exchange_id = exchange_id, e_initiator_id = x_initiator_id ex,
                   e_responder_id = x_responder_id ex,
                   e_initiator_pubkey = b64_encode E (x_initiator_pubkey ex),
                   e_responder_pubkey = responder_pubkey\<rparr>
       in if complete \<and> is_initiator
          then bindP (attempt (delete_exchange E exchange_id)) (\<lambda>_. okP resp)
          else okP resp)"

definition exchange_get ::
  "ext \<Rightarrow> app_state \<Rightarrow> header_map \<Rightarrow> string \<Rightarrow> (world, error, exchange_response) prog" where
  "exchange_get E A headers exchange_id =
     bindP (auth_user E A headers) (exchange_get_body E exchange_id)"

definition respond_body ::
  "ext \<Rightarrow> app_state \<Rightarrow> string \<Rightarrow> string \<Rightarrow> string \<Rightarrow> (world, error, exchange_response) prog" where
  "respond_body E A exchange_id ephemeral_pubkey user_id =
     bindP (get_exchange E exchange_id) (\<lambda>ex.
     if x_responder_id ex \<noteq> user_id then errP Forbidden
     else if x_responder_pubkey ex \<noteq> None
     then errP (Conflict ''exchange already has a response'')
     else
       bindP (Done (b64_decode E ephemeral_pubkey)) (\<lambda>pubkey.
       if length pubkey \<noteq> 32
       then errP (BadRequest ''ephemeral_pubkey must be 32 bytes (X25519)'')
       else
         bindP (set_responder_pubkey E exchange_id pubkey) (\<lambda>_.
         bindP (Done (notify_topic E A (x_initiator_id ex))) (\<lambda>topic.
         bindP (publish_system A topic
                  (notification E ''exchange_complete'' exchange_id)) (\<lambda>_.
         okP \<lparr>e_exchange_id = exchange_id, e_initiator_id = x_initiator_id ex,
              e_responder_id = x_responder_id ex,
              e_initiator_pubkey = b64_encode E (x_initiator_pubkey ex),
              e_responder_pubkey = Some (b64_encode E pubkey)\<rparr>)))))"

definition respond ::
  "ext \<Rightarrow> app_state \<Rightarrow> header_map \<Rightarrow> string \<Rightarrow> string \<Rightarrow> (world, error, exchange_response) prog" where
  "respond E A headers exchange_id ephemeral_pubkey =
     bindP (auth_user E A headers) (respond_body E A exchange_id ephemeral_pubkey)"

section \<open>The guards\<close>

interpretation initiate_endpoint:
  jwt_guarded E A "\<lambda>h. initiate E A h req" "initiate_body E A req" for E A req
  by unfold_locales (simp add: initiate_def)

interpretation exchange_get_endpoint:
  jwt_guarded E A "\<lambda>h. exchange_get E A h xid" "exchange_get_body E xid" for E A xid
  by unfold_locales (simp add: exchange_get_def)

interpretation respond_endpoint:
  jwt_guarded E A "\<lambda>h. respond E A h xid key" "respond_body E A xid key" for E A xid key
  by unfold_locales (simp add: respond_def)

section \<open>Running\<close>

lemma run_publish_system [exec]:
  "run (publish_system A topic payload) w =
     (Ok (), w\<lparr>forwarded := forwarded w @
        [\<lparr>p_from = (st_node_id A, ''smqtt-system''), p_dup = False, p_retain = False,
          p_qos = AtLeastOnce, p_topic = topic, p_packet_id = None, p_payload = payload,
          p_properties = None\<rparr>]\<rparr>)"
  by (simp add: publish_system_def Let_def)

text \<open>The row that \<open>create_exchange\<close> inserts in a state.\<close>

definition new_exchange :: "ext \<Rightarrow> world \<Rightarrow> string \<Rightarrow> string \<Rightarrow> bytes \<Rightarrow> pending_exchange" where
  "new_exchange E w iid rid key =
     \<lparr>x_exchange_id = uuid_v4 E (uuid_draws w), x_initiator_id = iid, x_responder_id = rid,
      x_initiator_pubkey = key, x_responder_pubkey = None,
      x_created_at = as_i64 (time_at E (time_reads w)),
      x_expires_at = as_i64 (time_at E (Suc (time_reads w)) + EXCHANGE_TTL_SECS)\<rparr>"

lemma run_create_exchange [exec]:
  assumes "no_faults E" and "clock_ok E" and "user_exists iid w"
    and "find_exchange w (uuid_v4 E (uuid_draws w)) = None"
    and "add_fits (overflow_checks E) (time_at E (Suc (time_reads w))) EXCHANGE_TTL_SECS"
  shows "run (create_exchange E iid rid key) w =
     (Ok (new_exchange E w iid rid key),
      (tick_sql (tick_time (tick_time (tick_uuid w))))
        \<lparr>pending_exchanges := pending_exchanges w @ [new_exchange E w iid rid key]\<rparr>)"
  using assms
  by (simp add: create_exchange_def exec Let_def insert_row_fresh row_map_None new_exchange_def)

text \<open>The answer both parties get for an exchange.\<close>

definition exchange_view :: "ext \<Rightarrow> pending_exchange \<Rightarrow> exchange_response" where
  "exchange_view E x =
     \<lparr>e_exchange_id = x_exchange_id x, e_initiator_id = x_initiator_id x,
      e_responder_id = x_responder_id x, e_initiator_pubkey = b64_encode E (x_initiator_pubkey x),
      e_responder_pubkey = map_option (b64_encode E) (x_responder_pubkey x)\<rparr>"

lemma run_exchange_get_body:
  assumes "no_faults E"
  shows "run (exchange_get_body E xid uid) w =
     (case find_exchange w xid of
        None \<Rightarrow> (Err NotFound, tick_sql w)
      | Some x \<Rightarrow>
          if uid \<notin> {x_initiator_id x, x_responder_id x} then (Err Forbidden, tick_sql w)
          else (Ok (exchange_view E x),
            if x_responder_pubkey x \<noteq> None \<and> uid = x_initiator_id x
            then (tick_sql (tick_sql w))
              \<lparr>pending_exchanges := delete_rows (\<lambda>x. x_exchange_id x = xid) (pending_exchanges w)\<rparr>
            else tick_sql w))"
proof (cases "find_exchange w xid")
  case (Some x)
  then have "x_exchange_id x = xid" using row_map_SomeD by fastforce
  with Some assms show ?thesis
    by (cases "uid = x_initiator_id x"; cases "uid = x_responder_id x")
      (auto simp: exchange_get_body_def exec Let_def exchange_view_def)
qed (use assms in \<open>simp add: exchange_get_body_def exec\<close>)

lemma run_respond_body:
  assumes "no_faults E"
  shows "run (respond_body E A xid key uid) w =
     (case find_exchange w xid of
        None \<Rightarrow> (Err NotFound, tick_sql w)
      | Some x \<Rightarrow>
          if uid \<noteq> x_responder_id x then (Err Forbidden, tick_sql w)
          else if x_responder_pubkey x \<noteq> None
          then (Err (Conflict ''exchange already has a response''), tick_sql w)
          else case b64_decode E key of
            Ok k \<Rightarrow>
              if length k \<noteq> 32
              then (Err (BadRequest ''ephemeral_pubkey must be 32 bytes (X25519)''), tick_sql w)
              else let w1 = (tick_sql (tick_sql w))\<lparr>pending_exchanges := update_rows
                     (\<lambda>x. x_exchange_id x = xid) (\<lambda>x. x\<lparr>x_responder_pubkey := Some k\<rparr>) (pending_exchanges w)\<rparr>
                in (case notify_topic E A (x_initiator_id x) of
                  Ok topic \<Rightarrow> (Ok (exchange_view E (x\<lparr>x_responder_pubkey := Some k\<rparr>)),
                    snd (run (publish_system A topic
                      (notification E ''exchange_complete'' xid) :: (world, error, unit) prog) w1))
                | Err e \<Rightarrow> (Err e, w1) | Panic m \<Rightarrow> (Panic m, w1))
          | Err e \<Rightarrow> (Err e, tick_sql w) | Panic m \<Rightarrow> (Panic m, tick_sql w))"
proof (cases "find_exchange w xid")
  case (Some x)
  then have "x_exchange_id x = xid" using row_map_SomeD by fastforce
  with Some assms show ?thesis
    by (cases "uid = x_responder_id x"; cases "b64_decode E key"; cases "notify_topic E A (x_initiator_id x)")
      (auto simp: respond_body_def exec exchange_view_def Let_def)
qed (use assms in \<open>simp add: respond_body_def exec\<close>)

section \<open>Properties\<close>

text \<open>Property C19. Fetching an exchange: an unknown id is reported as not found; a caller that is
  neither initiator nor responder is forbidden; a party gets both parties and the keys present.
  The exchange is deleted exactly when the initiator fetches it complete; in every other case the
  state is unchanged.\<close>

theorem exchange_get_exact:
  assumes "no_faults E" and "clock_ok E" and "caller E A h w = Some cl"
    and "run (exchange_get E A h xid) w = (r, w')"
  shows "(case find_exchange w xid of
        None \<Rightarrow> r = Err NotFound \<and> state_of w' = state_of w
      | Some x \<Rightarrow>
          if c_sub cl \<notin> {x_initiator_id x, x_responder_id x}
          then r = Err Forbidden \<and> state_of w' = state_of w
          else r = Ok (exchange_view E x) \<and>
            (if x_responder_pubkey x \<noteq> None \<and> c_sub cl = x_initiator_id x
             then find_exchange w' = (find_exchange w)(xid := None) \<and>
               state_of w' = state_of (w\<lparr>pending_exchanges := pending_exchanges w'\<rparr>)
             else state_of w' = state_of w))"
proof -
  from assms(4) have r: "run (exchange_get_body E xid (c_sub cl)) (tick_time w) = (r, w')"
    by (simp add: exchange_get_endpoint.accepted [OF assms(2,3)])
  show ?thesis
  proof (cases "find_exchange w xid")
    case (Some x)
    with r show ?thesis
      by (auto simp: run_exchange_get_body [OF assms(1)] row_map_delete split: if_splits)
  qed (use r in \<open>auto simp: run_exchange_get_body [OF assms(1)]\<close>)
qed

theorem exchange_get_exact_witness:
  "\<exists>r w'. run (exchange_get ex_ext ex_app (ex_headers ex_claims) ''x'') ex_world = (r, w') \<and>
     r = Err NotFound \<and> state_of w' = state_of ex_world"
proof -
  obtain r w' where p: "run (exchange_get ex_ext ex_app (ex_headers ex_claims) ''x'') ex_world = (r, w')"
    by fastforce
  have "find_exchange ex_world ''x'' = None" by (simp add: ex_defs row_map_None)
  with exchange_get_exact [OF ex_laws(5,4) caller_ex_users(1) p] p show ?thesis by auto
qed

text \<open>Property C20. Answering an exchange: an unknown id is reported as not found; a caller who is
  not the responder is forbidden; an exchange that has an answer already is a conflict; a key that
  is not the base64 of 32 bytes is a bad request; none of these changes the state.  In every
  other case it succeeds: the key is stored in that exchange and in no other, the answer shows
  both keys, exactly one message is sent, to the notification topic of the initiator, and
  nothing else changes.\<close>

theorem respond_exact:
  assumes "no_faults E" and "clock_ok E" and "hmac_law E" and "caller E A h w = Some cl"
    and "run (respond E A h xid key) w = (r, w')"
  shows "(case find_exchange w xid of
       None \<Rightarrow> r = Err NotFound \<and> state_of w' = state_of w
     | Some x \<Rightarrow>
         if c_sub cl \<noteq> x_responder_id x then r = Err Forbidden \<and> state_of w' = state_of w
         else if x_responder_pubkey x \<noteq> None
         then r = Err (Conflict ''exchange already has a response'') \<and> state_of w' = state_of w
         else (case b64_decode E key of
             Err e \<Rightarrow> r = Err e \<and> (\<exists>m. e = BadRequest m) \<and> state_of w' = state_of w
           | Panic m \<Rightarrow> False
           | Ok k \<Rightarrow>
               if length k \<noteq> 32
               then r = Err (BadRequest ''ephemeral_pubkey must be 32 bytes (X25519)'') \<and>
                 state_of w' = state_of w
               else r = Ok (exchange_view E (x\<lparr>x_responder_pubkey := Some k\<rparr>)) \<and>
                 find_exchange w' = (find_exchange w)(xid \<mapsto> x\<lparr>x_responder_pubkey := Some k\<rparr>) \<and>
                 (\<exists>m. forwarded w' = forwarded w @ [m] \<and>
                    notify_topic E A (x_initiator_id x) = Ok (p_topic m) \<and>
                    p_payload m = notification E ''exchange_complete'' xid) \<and>
                 state_of w' = state_of (w\<lparr>pending_exchanges := pending_exchanges w', forwarded := forwarded w'\<rparr>)))"
proof -
  from assms(5) have r: "run (respond_body E A xid key (c_sub cl)) (tick_time w) = (r, w')"
    by (simp add: respond_endpoint.accepted [OF assms(2,4)])
  show ?thesis
  proof (cases "find_exchange w xid")
    case (Some x)
    obtain t where t: "notify_topic E A (x_initiator_id x) = Ok t"
      using notify_topic_total [OF assms(3)] by blast
    have b: "b64_decode E key = Err e \<Longrightarrow> \<exists>m. e = BadRequest m" for e
      by (auto simp: b64_decode_def split: sum.splits)
    show ?thesis
    proof (cases "c_sub cl = x_responder_id x \<and> x_responder_pubkey x = None")
      case True
      with Some r t show ?thesis
        by (cases w; cases "b64_decode E key")
          (auto simp: run_respond_body [OF assms(1)] run_publish_system row_map_update Let_def b
            split: if_splits)
    qed (use Some r in \<open>auto simp: run_respond_body [OF assms(1)] split: if_splits\<close>)
  qed (use r in \<open>auto simp: run_respond_body [OF assms(1)]\<close>)
qed

definition ex_exchange :: pending_exchange where
  "ex_exchange = \<lparr>x_exchange_id = ''x'', x_initiator_id = ''bob'', x_responder_id = ''alice'',
     x_initiator_pubkey = ex_key, x_responder_pubkey = None, x_created_at = 900, x_expires_at = 700000\<rparr>"

definition ex_exchanging :: world where
  "ex_exchanging = ex_world\<lparr>pending_exchanges := [ex_exchange]\<rparr>"

lemma find_exchange_ex [simp]: "find_exchange ex_exchanging ''x'' = Some ex_exchange"
  by (simp add: ex_exchanging_def row_map_def ex_exchange_def)

lemma ex_b64_key [simp]: "b64_decode ex_ext (ex_b64 ex_key) = Ok ex_key"
  using b64_decode_encode [OF ex_laws(1)] by (simp add: b64_encode_def)

theorem respond_exact_witness:
  "\<exists>v w'. run (respond ex_ext ex_app (ex_headers ex_claims) ''x'' (ex_b64 ex_key)) ex_exchanging = (Ok v, w') \<and>
     find_exchange w' ''x'' = Some (ex_exchange\<lparr>x_responder_pubkey := Some ex_key\<rparr>) \<and>
     length (forwarded w') = 1"
proof -
  obtain r w' where p:
    "run (respond ex_ext ex_app (ex_headers ex_claims) ''x'' (ex_b64 ex_key)) ex_exchanging = (r, w')"
    by fastforce
  have "x_responder_id ex_exchange = ''alice''" "x_responder_pubkey ex_exchange = None" "forwarded ex_exchanging = []"
    by (simp_all add: ex_exchange_def ex_exchanging_def ex_defs)
  with respond_exact [OF ex_laws(5,4,6) caller_ex_users(1) p] p show ?thesis by auto
qed

lemma run_create_exchange_Ok:
  assumes "no_faults E" and "clock_ok E" and "run (create_exchange E iid rid key) w = (Ok x, w')"
  shows "user_exists iid w" and "x_exchange_id x \<notin> x_exchange_id ` set (pending_exchanges w)"
    and "x_initiator_id x = iid \<and> x_responder_id x = rid \<and> x_initiator_pubkey x = key \<and>
      x_responder_pubkey x = None"
    and "pending_exchanges w' = pending_exchanges w @ [x] \<and> forwarded w' = forwarded w"
  using assms
  by (auto simp: create_exchange_def exec Let_def add_u64_def references_user_def insert_row_def
      split: if_splits)

lemma run_initiate_body:
  assumes "no_faults E" and "clock_ok E"
    and "run (initiate_body E A req uid) w = (Ok xid, w')"
  shows "\<exists>k x m. user_exists (i_peer_id req) w \<and> user_exists uid w \<and>
     b64_decode E (i_ephemeral_pubkey req) = Ok k \<and> length k = 32 \<and> find_exchange w xid = None \<and>
     x_exchange_id x = xid \<and> x_initiator_id x = uid \<and> x_responder_id x = i_peer_id req \<and>
     x_initiator_pubkey x = k \<and> x_responder_pubkey x = None \<and>
     find_exchange w' = (find_exchange w)(xid \<mapsto> x) \<and>
     forwarded w' = forwarded w @ [m] \<and>
     notify_topic E A (i_peer_id req) = Ok (p_topic m) \<and>
     p_payload m = notification E ''pending_exchange'' xid"
proof -
  from assms obtain k x w1 t where k: "user_exists (i_peer_id req) w"
      "b64_decode E (i_ephemeral_pubkey req) = Ok k" "length k = 32"
    and c: "run (create_exchange E uid (i_peer_id req) k) (tick_sql w) = (Ok x, w1)"
    and t: "notify_topic E A (i_peer_id req) = Ok t"
    and p: "run (publish_system A t
        (notification E ''pending_exchange'' (x_exchange_id x)) :: (world, error, unit) prog) w1 = (Ok (), w')"
      "xid = x_exchange_id x"
    by (auto simp: initiate_body_def run_get_user user_exists_find run_publish_system
        split: option.splits outcome.splits if_splits prod.splits)
  from run_create_exchange_Ok [OF assms(1,2) c] k p t show ?thesis
    by (auto simp: run_publish_system row_map_insert row_map_None)
qed

text \<open>Property C9. The key exchange delivers: after the initiator started an exchange, the peer
  answers it with its own 32-byte key and sees the initiator's key; the initiator then fetches
  the exchange and sees the key the peer sent.  Each party was notified once, on its own topic,
  and after that fetch the exchange with both keys is gone from the database.\<close>

theorem exchange_protocol:
  assumes "no_faults E" and "clock_ok E" and "b64_law E"
    and "caller E A h1 w = Some cl1" and "run (initiate E A h1 req) w = (Ok xid, w1)"
    and "caller E A h2 w1 = Some cl2" and "c_sub cl2 = i_peer_id req" and "length key2 = 32"
    and "run (respond E A h2 xid (b64_encode E key2)) w1 = (r2, w2)"
    and "caller E A h3 w2 = Some cl3" and "c_sub cl3 = c_sub cl1"
    and "run (exchange_get E A h3 xid) w2 = (r3, w3)"
  shows "\<exists>key1 v. b64_decode E (i_ephemeral_pubkey req) = Ok key1 \<and> length key1 = 32 \<and>
     r2 = Ok v \<and> r3 = Ok v \<and> e_initiator_id v = c_sub cl1 \<and> e_responder_id v = i_peer_id req \<and>
     e_initiator_pubkey v = b64_encode E key1 \<and> e_responder_pubkey v = Some (b64_encode E key2) \<and>
     find_exchange w3 xid = None \<and>
     (\<exists>t1 t2. notify_topic E A (i_peer_id req) = Ok t1 \<and> notify_topic E A (c_sub cl1) = Ok t2 \<and>
        map p_topic (forwarded w3) = map p_topic (forwarded w) @ [t1, t2])"
proof -
  have "run (initiate_body E A req (c_sub cl1)) (tick_time w) = (Ok xid, w1)"
    using assms(5) by (simp add: initiate_endpoint.accepted [OF assms(2,4)])
  from run_initiate_body [OF assms(1,2) this] obtain k x m where
    k: "b64_decode E (i_ephemeral_pubkey req) = Ok k" "length k = 32"
    and x: "x_exchange_id x = xid" "x_initiator_id x = c_sub cl1" "x_responder_id x = i_peer_id req"
      "x_initiator_pubkey x = k" "x_responder_pubkey x = None" "find_exchange w1 xid = Some x"
    and m: "forwarded w1 = forwarded w @ [m]" "notify_topic E A (i_peer_id req) = Ok (p_topic m)"
    by auto
  from m(2) obtain t where t: "notify_topic E A (c_sub cl1) = Ok t" using notify_topic_Ok_any by blast
  let ?x = "x\<lparr>x_responder_pubkey := Some key2\<rparr>"
  have "run (respond_body E A xid (b64_encode E key2) (c_sub cl2)) (tick_time w1) = (r2, w2)"
    using assms(9) by (simp add: respond_endpoint.accepted [OF assms(2,6)])
  then have r2: "r2 = Ok (exchange_view E ?x)" "find_exchange w2 xid = Some ?x"
    "map p_topic (forwarded w2) = map p_topic (forwarded w1) @ [t]"
    using x t assms(7,8)
    by (auto simp: run_respond_body [OF assms(1)] b64_decode_encode [OF assms(3)] run_publish_system
        row_map_update Let_def)
  moreover have "run (exchange_get_body E xid (c_sub cl3)) (tick_time w2) = (r3, w3)"
    using assms(12) by (simp add: exchange_get_endpoint.accepted [OF assms(2,10)])
  then have "r3 = Ok (exchange_view E ?x)" "find_exchange w3 xid = None" "forwarded w3 = forwarded w2"
    using x r2(2) assms(11) by (auto simp: run_exchange_get_body [OF assms(1)] row_map_delete)
  ultimately show ?thesis using k x m t by (simp add: exchange_view_def)
qed

theorem exchange_protocol_witness:
  "\<exists>xid w1 w2 w3 v.
     run (initiate ex_ext ex_app (ex_headers ex_claims)
        \<lparr>i_peer_id = ''bob'', i_ephemeral_pubkey = ex_b64 ex_key\<rparr>) ex_world = (Ok xid, w1) \<and>
     run (respond ex_ext ex_app (ex_headers ex_peer_claims) xid (b64_encode ex_ext (replicate 32 6))) w1 = (Ok v, w2) \<and>
     run (exchange_get ex_ext ex_app (ex_headers ex_claims) xid) w2 = (Ok v, w3)"
proof -
  let ?rq = "\<lparr>i_peer_id = ''bob'', i_ephemeral_pubkey = ex_b64 ex_key\<rparr>"
  have "user_exists ''alice'' ex_world" "pending_exchanges ex_world = []"
    by (simp_all add: user_exists_find) (simp add: ex_defs)
  moreover obtain t where "notify_topic ex_ext ex_app ''bob'' = Ok t"
    using notify_topic_total [OF ex_laws(6)] by blast
  ultimately obtain xid w1 where i: "run (initiate ex_ext ex_app (ex_headers ex_claims) ?rq) ex_world = (Ok xid, w1)"
    by (simp add: initiate_endpoint.accepted [OF ex_laws(4) caller_ex_users(1)] initiate_body_def exec
        row_map_None add_fits_def)
  obtain r2 w2 where s:
    "run (respond ex_ext ex_app (ex_headers ex_peer_claims) xid (b64_encode ex_ext (replicate 32 6))) w1 = (r2, w2)"
    by fastforce
  obtain r3 w3 where g: "run (exchange_get ex_ext ex_app (ex_headers ex_claims) xid) w2 = (r3, w3)"
    by fastforce
  from exchange_protocol [OF ex_laws(5,4,1) caller_ex_users(1) i caller_ex_users(2) _ _ s
      caller_ex_users(1) refl g] i s g
  show ?thesis by auto
qed

lemma run_initiate_body_cases:
  assumes "no_faults E" and "clock_ok E" and "find_exchange w (uuid_v4 E (uuid_draws w)) = None"
    and "add_fits (overflow_checks E) (time_at E (Suc (time_reads w))) EXCHANGE_TTL_SECS"
    and "notify_topic E A (i_peer_id req) = Ok topic"
  shows "run (initiate_body E A req uid) w =
     (if find_user w (i_peer_id req) = None then (Err NotFound, tick_sql w)
      else case b64_decode E (i_ephemeral_pubkey req) of
        Err e \<Rightarrow> (Err e, tick_sql w)
      | Panic m \<Rightarrow> (Panic m, tick_sql w)
      | Ok k \<Rightarrow>
          if length k \<noteq> 32
          then (Err (BadRequest ''ephemeral_pubkey must be 32 bytes (X25519)''), tick_sql w)
          else if find_user w uid = None
          then (Err (Database ''FOREIGN KEY constraint failed''),
                tick_sql (tick_sql (tick_time (tick_time (tick_uuid w)))))
          else let x = new_exchange E w uid (i_peer_id req) k in
            (Ok (x_exchange_id x),
             snd (run (publish_system A topic (notification E ''pending_exchange'' (x_exchange_id x)) :: (world, error, unit) prog)
               ((tick_sql (tick_sql (tick_time (tick_time (tick_uuid w)))))
                  \<lparr>pending_exchanges := pending_exchanges w @ [x]\<rparr>))))"
proof (cases "find_user w (i_peer_id req)")
  case (Some p)
  show ?thesis
  proof (cases "b64_decode E (i_ephemeral_pubkey req)")
    case (Ok k)
    show ?thesis
    proof (cases "user_exists uid w")
      case True
      then obtain u where "find_user w uid = Some u" by (auto simp: user_exists_find)
      with True Some Ok assms show ?thesis
        by (simp add: initiate_body_def run_get_user run_create_exchange run_publish_system Let_def new_exchange_def)
    next
      case False
      then have "find_user w uid = None" by (simp add: user_exists_find)
      with False Some Ok assms show ?thesis
        by (simp add: initiate_body_def run_get_user create_exchange_def exec Let_def)
    qed
  qed (use Some assms in \<open>simp_all add: initiate_body_def run_get_user\<close>)
qed (use assms in \<open>simp add: initiate_body_def run_get_user\<close>)

text \<open>Property C21. Starting an exchange: an unknown peer is reported as not found; a key that is not
  the base64 of 32 bytes is a bad request; a caller whose account does not exist is refused by the
  database; none of these changes the state.  In every other case it succeeds: it adds one
  exchange under a new id, from the caller to the peer, with the given key, without an answer,
  expiring seven days after the clock reading, and sends exactly one message, to the notification
  topic of the peer; nothing else changes.\<close>

theorem initiate_exact:
  assumes "no_faults E" and "clock_ok E" and "hmac_law E" and "caller E A h w = Some cl"
    and "find_exchange w (uuid_v4 E (uuid_draws w)) = None"
    and "t1 = time_at E (Suc (time_reads w))" and "t2 = time_at E (Suc (Suc (time_reads w)))"
    and "unat t2 < 2 ^ 62" and "run (initiate E A h req) w = (r, w')"
  shows "if find_user w (i_peer_id req) = None then r = Err NotFound \<and> state_of w' = state_of w
     else (case b64_decode E (i_ephemeral_pubkey req) of
         Err e \<Rightarrow> r = Err e \<and> (\<exists>m. e = BadRequest m) \<and> state_of w' = state_of w
       | Panic m \<Rightarrow> False
       | Ok k \<Rightarrow>
           if length k \<noteq> 32
           then r = Err (BadRequest ''ephemeral_pubkey must be 32 bytes (X25519)'') \<and> state_of w' = state_of w
           else if find_user w (c_sub cl) = None
           then (\<exists>e. r = Err (Database e)) \<and> state_of w' = state_of w
           else \<exists>x m. r = Ok (x_exchange_id x) \<and> find_exchange w (x_exchange_id x) = None \<and>
             x_initiator_id x = c_sub cl \<and> x_responder_id x = i_peer_id req \<and>
             x_initiator_pubkey x = k \<and> x_responder_pubkey x = None \<and> x_created_at x = as_i64 t1 \<and>
             x_expires_at x = int (unat t2) + 7 * 24 * 3600 \<and>
             find_exchange w' = (find_exchange w)(x_exchange_id x \<mapsto> x) \<and>
             forwarded w' = forwarded w @ [m] \<and> notify_topic E A (i_peer_id req) = Ok (p_topic m) \<and>
             p_payload m = notification E ''pending_exchange'' (x_exchange_id x) \<and>
             state_of w' = state_of (w\<lparr>pending_exchanges := pending_exchanges w @ [x], forwarded := forwarded w'\<rparr>))"
proof -
  obtain topic where t: "notify_topic E A (i_peer_id req) = Ok topic"
    using notify_topic_total [OF assms(3)] by blast
  have ttl: "unat EXCHANGE_TTL_SECS = 604800" by (simp add: EXCHANGE_TTL_SECS_def)
  then have fits: "add_fits (overflow_checks E) (time_at E (Suc (time_reads (tick_time w)))) EXCHANGE_TTL_SECS"
    using assms(7,8) by (intro add_fits_small) simp
  have s: "unat (t2 + EXCHANGE_TTL_SECS) = unat t2 + 604800"
    using assms(8) ttl by (subst unat_add_less) simp_all
  with assms(8) have ex: "as_i64 (t2 + EXCHANGE_TTL_SECS) = int (unat t2) + 7 * 24 * 3600"
    by (subst as_i64_small) simp_all
  have b: "b64_decode E key = Err e \<Longrightarrow> \<exists>m. e = BadRequest m" for key e
    by (auto simp: b64_decode_def split: sum.splits)
  have f: "find_exchange (tick_time w) (uuid_v4 E (uuid_draws (tick_time w))) = None" using assms(5) by simp
  from assms(9) have "run (initiate_body E A req (c_sub cl)) (tick_time w) = (r, w')"
    by (simp add: initiate_endpoint.accepted [OF assms(2,4)])
  note r = this [unfolded run_initiate_body_cases [OF assms(1,2) f fits t]]
  show ?thesis
  proof (cases "find_user w (i_peer_id req) = None \<or> (\<forall>k. b64_decode E (i_ephemeral_pubkey req) = Ok k \<longrightarrow>
      length k \<noteq> 32 \<or> find_user w (c_sub cl) = None)")
    case True
    with r show ?thesis
      by (cases "b64_decode E (i_ephemeral_pubkey req)") (auto simp: b split: if_splits)
  next
    case False
    then obtain k where k: "b64_decode E (i_ephemeral_pubkey req) = Ok k" "length k = 32"
      "find_user w (i_peer_id req) \<noteq> None" "find_user w (c_sub cl) \<noteq> None" by blast
    let ?x = "new_exchange E (tick_time w) (c_sub cl) (i_peer_id req) k"
    have x: "x_exchange_id ?x = uuid_v4 E (uuid_draws w)" "x_initiator_id ?x = c_sub cl"
      "x_responder_id ?x = i_peer_id req" "x_initiator_pubkey ?x = k" "x_responder_pubkey ?x = None"
      "x_created_at ?x = as_i64 t1" "x_expires_at ?x = int (unat t2) + 7 * 24 * 3600"
      using ex assms(6,7) by (simp_all add: new_exchange_def)
    obtain m where m: "forwarded w' = forwarded w @ [m]" "p_topic m = topic"
        "p_payload m = notification E ''pending_exchange'' (x_exchange_id ?x)"
      and w': "r = Ok (x_exchange_id ?x)" "pending_exchanges w' = pending_exchanges w @ [?x]"
        "state_of w' = state_of (w\<lparr>pending_exchanges := pending_exchanges w @ [?x], forwarded := forwarded w'\<rparr>)"
      using r k by (cases w) (auto simp: Let_def run_publish_system)
    moreover have "find_exchange w' = (find_exchange w)(x_exchange_id ?x \<mapsto> ?x)"
      using w'(2) assms(5) x(1) by (simp add: row_map_insert row_map_None)
    ultimately have "r = Ok (x_exchange_id ?x) \<and> find_exchange w (x_exchange_id ?x) = None \<and>
        x_initiator_id ?x = c_sub cl \<and> x_responder_id ?x = i_peer_id req \<and> x_initiator_pubkey ?x = k \<and>
        x_responder_pubkey ?x = None \<and> x_created_at ?x = as_i64 t1 \<and>
        x_expires_at ?x = int (unat t2) + 7 * 24 * 3600 \<and>
        find_exchange w' = (find_exchange w)(x_exchange_id ?x \<mapsto> ?x) \<and> forwarded w' = forwarded w @ [m] \<and>
        notify_topic E A (i_peer_id req) = Ok (p_topic m) \<and>
        p_payload m = notification E ''pending_exchange'' (x_exchange_id ?x) \<and>
        state_of w' = state_of (w\<lparr>pending_exchanges := pending_exchanges w @ [?x], forwarded := forwarded w'\<rparr>)"
      using x t assms(5) by simp
    then show ?thesis using k by (simp only: outcome.case if_False not_not simp_thms) blast
  qed
qed

theorem initiate_exact_witness:
  "\<exists>xid w'. run (initiate ex_ext ex_app (ex_headers ex_claims)
        \<lparr>i_peer_id = ''bob'', i_ephemeral_pubkey = ex_b64 ex_key\<rparr>) ex_world = (Ok xid, w') \<and>
     find_exchange w' xid \<noteq> None \<and> length (forwarded w') = 1"
proof -
  let ?rq = "\<lparr>i_peer_id = ''bob'', i_ephemeral_pubkey = ex_b64 ex_key\<rparr>"
  obtain r w' where p: "run (initiate ex_ext ex_app (ex_headers ex_claims) ?rq) ex_world = (r, w')" by fastforce
  have f: "find_exchange ex_world (uuid_v4 ex_ext (uuid_draws ex_world)) = None" "forwarded ex_world = []"
    by (simp_all add: ex_defs row_map_None)
  from initiate_exact [OF ex_laws(5,4,6) caller_ex_users(1) f(1) refl refl _ p] f(2) p
  show ?thesis by auto
qed

end
