(* ===== verification/Api_Relationships.thy ===== *)
theory Api_Relationships
  imports Api_Extractors
begin

text \<open>\<open>src/api/relationships.rs\<close>: creating, listing and revoking relationships.\<close>

record create_request =
  cr_peer_id :: string
  cr_publish_topics :: "string list"
  cr_subscribe_topics :: "string list"

record relationship_response =
  rr_relationship_id :: string
  rr_user_id :: string
  rr_peer_id :: string
  rr_publish_topics :: "string list"
  rr_subscribe_topics :: "string list"
  rr_created_at :: i64

definition create_body ::
  "ext \<Rightarrow> create_request \<Rightarrow> string \<Rightarrow> (world, error, relationship_response) prog" where
  "create_body E req user_id =
     bindP (create_relationship E user_id (cr_peer_id req) (cr_publish_topics req)
              (cr_subscribe_topics req)) (\<lambda>rel.
     okP \<lparr>rr_relationship_id = r_relationship_id rel, rr_user_id = r_user_id rel,
          rr_peer_id = r_peer_id rel, rr_publish_topics = cr_publish_topics req,
          rr_subscribe_topics = cr_subscribe_topics req, rr_created_at = r_created_at rel\<rparr>)"

definition create ::
  "ext \<Rightarrow> app_state \<Rightarrow> header_map \<Rightarrow> create_request
   \<Rightarrow> (world, error, relationship_response) prog" where
  "create E A headers req = bindP (auth_user E A headers) (create_body E req)"

definition to_response :: "ext \<Rightarrow> relationship \<Rightarrow> relationship_response" where
  "to_response E r =
     \<lparr>rr_relationship_id = r_relationship_id r, rr_user_id = r_user_id r, rr_peer_id = r_peer_id r,
      rr_publish_topics = topics_of_json E (r_publish_topics r),
      rr_subscribe_topics = topics_of_json E (r_subscribe_topics r),
      rr_created_at = r_created_at r\<rparr>"

definition list_body :: "ext \<Rightarrow> string \<Rightarrow> (world, error, relationship_response list) prog" where
  "list_body E user_id =
     bindP (list_relationships E user_id) (\<lambda>rels. okP (map (to_response E) rels))"

definition list_handler ::
  "ext \<Rightarrow> app_state \<Rightarrow> header_map \<Rightarrow> (world, error, relationship_response list) prog" where
  "list_handler E A headers = bindP (auth_user E A headers) (list_body E)"

definition revoke_body :: "ext \<Rightarrow> app_state \<Rightarrow> string \<Rightarrow> string \<Rightarrow> (world, error, unit) prog" where
  "revoke_body E A relationship_id user_id =
     bindP (get_relationship E user_id relationship_id) (\<lambda>rel.
     bindP (delete_relationship E user_id relationship_id) (\<lambda>_.
     bindP (kick_user E A user_id) (\<lambda>_.
     bindP (kick_user E A (r_peer_id rel)) (\<lambda>_.
     okP ()))))"

definition revoke ::
  "ext \<Rightarrow> app_state \<Rightarrow> header_map \<Rightarrow> string \<Rightarrow> (world, error, unit) prog" where
  "revoke E A headers relationship_id =
     bindP (auth_user E A headers) (revoke_body E A relationship_id)"

section \<open>The guards\<close>

interpretation create_endpoint: jwt_guarded E A "\<lambda>h. create E A h req" "create_body E req" for E A req
  by unfold_locales (simp add: create_def)

interpretation list_endpoint: jwt_guarded E A "list_handler E A" "list_body E" for E A
  by unfold_locales (simp add: list_handler_def)

interpretation revoke_endpoint: jwt_guarded E A "\<lambda>h. revoke E A h rid" "revoke_body E A rid" for E A rid
  by unfold_locales (simp add: revoke_def)

section \<open>Running\<close>

lemma topics_of_json_vec: "json_law E \<Longrightarrow> json_vec E ts = Inr s \<Longrightarrow> topics_of_json E s = ts"
  by (simp add: topics_of_json_def json_law_def)

lemma run_list_body:
  "no_faults E \<Longrightarrow> run (list_body E uid) w = (Ok (map (to_response E) (relationships_of w uid)), tick_sql w)"
  by (simp add: list_body_def exec)

lemma run_revoke_body:
  assumes "no_faults E" and "clock_ok E"
  shows "run (revoke_body E A rid uid) w =
     (case select_one (\<lambda>r. r_relationship_id r = rid \<and> r_user_id r = uid) (relationships w) of
        None \<Rightarrow> (Err NotFound, tick_sql w)
      | Some rel \<Rightarrow>
          (Ok (), snd (run (bindP (kick_user E A uid) (\<lambda>_. kick_user E A (r_peer_id rel)))
             ((tick_sql (tick_sql w))\<lparr>relationships := delete_rows
                (\<lambda>r. r_relationship_id r = rid \<and> r_user_id r = uid) (relationships w)\<rparr>))))"
proof (cases "select_one (\<lambda>r. r_relationship_id r = rid \<and> r_user_id r = uid) (relationships w)")
  case (Some rel)
  then have "\<exists>r \<in> set (relationships w). r_relationship_id r = rid \<and> r_user_id r = uid"
    by (auto dest: select_one_SomeD)
  with Some assms show ?thesis
    by (simp add: revoke_body_def run_get_relationship run_delete_relationship run_kick_user)
qed (use assms in \<open>simp add: revoke_body_def run_get_relationship\<close>)

lemma kick_both:
  assumes "no_faults E" and "clock_ok E"
    and "w' = snd (run (bindP (kick_user E A a) (\<lambda>_. kick_user E A b)) w)"
  shows "users w' = revalidated b (as_i64 (time_at E (Suc (time_reads w))))
      (revalidated a (as_i64 (time_at E (time_reads w))) (users w))"
    and "kicked w' = kicked w @ map (kick_of A) (devices_of w a) @ map (kick_of A) (devices_of w b)"
    and "relationships w' = relationships w"
  unfolding assms(3) by (simp_all add: run_kick_user [OF assms(1,2)])

section \<open>Properties\<close>

text \<open>Property C23. Creating a relationship adds it at the end of the caller's list: a following
  listing by the same user returns the former entries and then the created one, with exactly the
  peer and the topics of the request, as in the answer of the creation.\<close>

theorem create_list_roundtrip:
  assumes "no_faults E" and "clock_ok E" and "json_law E"
    and "caller E A h w = Some cl" and "run (create E A h req) w = (Ok v, w1)"
    and "caller E A h' w1 = Some cl'" and "c_sub cl' = c_sub cl"
    and "run (list_handler E A h') w1 = (r, w2)"
  shows "r = Ok (map (to_response E) (relationships_of w (c_sub cl)) @ [v]) \<and>
     rr_user_id v = c_sub cl \<and> rr_peer_id v = cr_peer_id req \<and>
     rr_publish_topics v = cr_publish_topics req \<and> rr_subscribe_topics v = cr_subscribe_topics req"
proof -
  from assms(5) obtain rel where
    c: "run (create_relationship E (c_sub cl) (cr_peer_id req) (cr_publish_topics req)
        (cr_subscribe_topics req)) (tick_time w) = (Ok rel, w1)"
    and v: "v = \<lparr>rr_relationship_id = r_relationship_id rel, rr_user_id = r_user_id rel,
        rr_peer_id = r_peer_id rel, rr_publish_topics = cr_publish_topics req,
        rr_subscribe_topics = cr_subscribe_topics req, rr_created_at = r_created_at rel\<rparr>"
    by (auto simp: create_endpoint.accepted [OF assms(2,4)] create_body_def
        split: outcome.splits prod.splits)
  note rel = run_create_relationship_Ok [OF assms(1) c]
  from rel(2) have j: "topics_of_json E (r_publish_topics rel) = cr_publish_topics req"
    "topics_of_json E (r_subscribe_topics rel) = cr_subscribe_topics req"
    using topics_of_json_vec [OF assms(3)] by blast+
  then have "v = to_response E rel" by (simp add: v to_response_def)
  moreover from assms(8) have "r = Ok (map (to_response E) (relationships_of w1 (c_sub cl)))"
    by (auto simp: list_endpoint.accepted [OF assms(2,6)] run_list_body [OF assms(1)] assms(7))
  ultimately show ?thesis using rel j by (simp add: select_rows_def to_response_def)
qed

theorem create_list_roundtrip_witness:
  "\<exists>v w1 w2. run (create ex_ext ex_app (ex_headers ex_claims)
       \<lparr>cr_peer_id = ''bob'', cr_publish_topics = [''t''], cr_subscribe_topics = [''#'']\<rparr>) ex_world = (Ok v, w1) \<and>
     run (list_handler ex_ext ex_app (ex_headers ex_claims)) w1 = (Ok [v], w2)"
proof -
  let ?rq = "\<lparr>cr_peer_id = ''bob'', cr_publish_topics = [''t''], cr_subscribe_topics = [''#'']\<rparr>"
  have "user_exists ''alice'' ex_world" and r: "relationships ex_world = []"
    by (simp_all add: user_exists_find) (simp add: ex_defs)
  then obtain v w1 where c: "run (create ex_ext ex_app (ex_headers ex_claims) ?rq) ex_world = (Ok v, w1)"
    by (simp add: create_endpoint.accepted [OF ex_laws(4) caller_ex_users(1)] create_body_def
        create_relationship_def exec Let_def insert_row_def)
  obtain r w2 where l: "run (list_handler ex_ext ex_app (ex_headers ex_claims)) w1 = (r, w2)" by fastforce
  from create_list_roundtrip [OF ex_laws(5,4,2) caller_ex_users(1) c caller_ex_users(1) refl l] c l r
  show ?thesis by (auto simp: select_rows_def)
qed

text \<open>Property C22. Revoking succeeds exactly for a relationship of the caller.  It removes that
  relationship and no other, invalidates the tokens issued before to the caller and to the peer,
  and orders the sessions of all devices of both closed.  For any other id it reports not found
  and changes nothing.\<close>

theorem revoke_exact:
  assumes "no_faults E" and "clock_ok E" and "pk r_relationship_id (relationships w)"
    and "caller E A h w = Some cl" and "run (revoke E A h rid) w = (r, w')"
  shows "(case row_map r_relationship_id (relationships w) rid of
       Some rel \<Rightarrow>
         if r_user_id rel = c_sub cl
         then r = Ok () \<and>
           row_map r_relationship_id (relationships w') =
             (row_map r_relationship_id (relationships w))(rid := None) \<and>
           kicked w' = kicked w @ map (kick_of A) (devices_of w (c_sub cl)) @
             map (kick_of A) (devices_of w (r_peer_id rel)) \<and>
           (\<forall>u. find_user w' (c_sub cl) = Some u \<longrightarrow>
              u_tokens_valid_from u \<in> {as_i64 (time_at E (Suc (time_reads w))), as_i64 (time_at E (Suc (Suc (time_reads w))))}) \<and>
           (\<forall>u. find_user w' (r_peer_id rel) = Some u \<longrightarrow>
              u_tokens_valid_from u = as_i64 (time_at E (Suc (Suc (time_reads w)))))
         else r = Err NotFound \<and> state_of w' = state_of w
     | None \<Rightarrow> r = Err NotFound \<and> state_of w' = state_of w)"
proof -
  let ?P = "\<lambda>r. r_relationship_id r = rid \<and> r_user_id r = c_sub cl"
  from assms(5) have r: "run (revoke_body E A rid (c_sub cl)) (tick_time w) = (r, w')"
    by (simp add: revoke_endpoint.accepted [OF assms(2,4)])
  show ?thesis
  proof (cases "row_map r_relationship_id (relationships w) rid")
    case None
    then have "select_one ?P (relationships w) = None" by (auto simp: row_map_None select_one_None)
    with None r show ?thesis by (auto simp: run_revoke_body [OF assms(1,2)])
  next
    case (Some rel)
    then have rel: "rel \<in> set (relationships w)" "r_relationship_id rel = rid"
      using row_map_SomeD by fastforce+
    then have u: "x = rel" if "x \<in> set (relationships w)" "r_relationship_id x = rid" for x
      using that assms(3) pk_inj by metis
    show ?thesis
    proof (cases "r_user_id rel = c_sub cl")
      case True
      have "select_one ?P (relationships w) = Some rel"
      proof (cases "select_one ?P (relationships w)")
        case None
        with rel True show ?thesis by (auto simp: select_one_None)
      next
        case (Some y)
        then show ?thesis using select_one_SomeD [OF Some] u by simp
      qed
      moreover have "delete_rows ?P (relationships w) = delete_rows (\<lambda>r. r_relationship_id r = rid) (relationships w)"
        unfolding delete_rows_def using True u by (intro filter_cong) auto
      ultimately have "r = Ok ()" and w': "w' = snd (run (bindP (kick_user E A (c_sub cl)) (\<lambda>_. kick_user E A (r_peer_id rel)))
          ((tick_sql (tick_sql (tick_time w)))\<lparr>relationships :=
             delete_rows (\<lambda>r. r_relationship_id r = rid) (relationships w)\<rparr>))"
        using r by (simp_all add: run_revoke_body [OF assms(1,2)] del: run_bindP)
      then show ?thesis using True Some kick_both [OF assms(1,2) w']
        by (auto simp: row_map_delete find_user_revalidated split: if_splits)
    next
      case False
      with u have "select_one ?P (relationships w) = None" by (auto simp: select_one_None)
      with False Some r show ?thesis by (auto simp: run_revoke_body [OF assms(1,2)])
    qed
  qed
qed

definition ex_related :: world where
  "ex_related = ex_world\<lparr>relationships :=
     [\<lparr>r_relationship_id = ''r'', r_user_id = ''alice'', r_peer_id = ''bob'',
       r_publish_topics = '''', r_subscribe_topics = '''', r_created_at = 900\<rparr>]\<rparr>"

theorem revoke_exact_witness:
  "\<exists>w'. run (revoke ex_ext ex_app (ex_headers ex_claims) ''r'') ex_related = (Ok (), w') \<and>
     row_map r_relationship_id (relationships w') ''r'' = None"
proof -
  obtain r w' where p: "run (revoke ex_ext ex_app (ex_headers ex_claims) ''r'') ex_related = (r, w')"
    by fastforce
  have k: "pk r_relationship_id (relationships ex_related)" by (simp add: ex_related_def pk_def)
  moreover obtain rel where "row_map r_relationship_id (relationships ex_related) ''r'' = Some rel"
    and "r_user_id rel = ''alice''"
    by (simp add: ex_related_def row_map_def)
  ultimately show ?thesis using revoke_exact [OF ex_laws(5,4) k caller_ex_users(1) p] p by simp
qed

end
