(* ===== verification/Api_Admin.thy ===== *)
theory Api_Admin
  imports Api_Extractors
begin

text \<open>\<open>src/api/admin.rs\<close>: the endpoints behind the administration key.\<close>

text \<open>\<open>CreateTokenRequest\<close> before the defaults of its \<open>serde\<close> attributes are filled in.\<close>

record create_token_request =
  ct_expires_in :: "u64 option"
  ct_max_uses :: "i64 option"

definition default_expires_in :: u64 where
  "default_expires_in = 3600"

definition default_max_uses :: i64 where
  "default_max_uses = 1"

definition expires_in :: "create_token_request \<Rightarrow> u64" where
  "expires_in req = (case ct_expires_in req of None \<Rightarrow> default_expires_in | Some n \<Rightarrow> n)"

definition max_uses :: "create_token_request \<Rightarrow> i64" where
  "max_uses req = (case ct_max_uses req of None \<Rightarrow> default_max_uses | Some n \<Rightarrow> n)"

definition admin_token_hash :: "ext \<Rightarrow> string \<Rightarrow> (error, bytes) outcome" where
  "admin_token_hash E token =
     (case expect ''HMAC accepts any key length'' (hmac_new E (as_bytes ''smqtt-token-hash'')) of
        Ok mac \<Rightarrow> Ok (mac (as_bytes token))
      | Err e \<Rightarrow> Err e
      | Panic m \<Rightarrow> Panic m)"

definition create_token_body ::
  "ext \<Rightarrow> create_token_request \<Rightarrow> unit \<Rightarrow> (world, error, string) prog" where
  "create_token_body E req u =
     bindP (random_bytes E 32) (\<lambda>raw.
     let token = b64_encode E raw in
     bindP (Done (admin_token_hash E token)) (\<lambda>hash.
     bindP (create_registration_token E hash (expires_in req) (max_uses req)) (\<lambda>_.
     okP token)))"

definition admin_create_token ::
  "ext \<Rightarrow> app_state \<Rightarrow> header_map \<Rightarrow> create_token_request \<Rightarrow> (world, error, string) prog" where
  "admin_create_token E A headers req =
     bindP (Done (require_admin_key E headers (api_key (admin (st_config A)))))
       (create_token_body E req)"

definition suspend_body ::
  "ext \<Rightarrow> app_state \<Rightarrow> string \<Rightarrow> string option \<Rightarrow> unit \<Rightarrow> (world, error, status_code) prog" where
  "suspend_body E A user_id reason u =
     bindP (set_suspended E user_id True reason) (\<lambda>_.
     bindP (kick_user E A user_id) (\<lambda>_.
     okP NO_CONTENT))"

definition suspend_user ::
  "ext \<Rightarrow> app_state \<Rightarrow> header_map \<Rightarrow> string \<Rightarrow> string option \<Rightarrow> (world, error, status_code) prog"
where
  "suspend_user E A headers user_id reason =
     bindP (Done (require_admin_key E headers (api_key (admin (st_config A)))))
       (suspend_body E A user_id reason)"

definition unsuspend_body :: "ext \<Rightarrow> string \<Rightarrow> unit \<Rightarrow> (world, error, status_code) prog" where
  "unsuspend_body E user_id u =
     bindP (set_suspended E user_id False None) (\<lambda>_. okP NO_CONTENT)"

definition unsuspend_user ::
  "ext \<Rightarrow> app_state \<Rightarrow> header_map \<Rightarrow> string \<Rightarrow> (world, error, status_code) prog" where
  "unsuspend_user E A headers user_id =
     bindP (Done (require_admin_key E headers (api_key (admin (st_config A)))))
       (unsuspend_body E user_id)"

section \<open>The guards\<close>

interpretation create_token_endpoint:
  admin_guarded E A "\<lambda>h. admin_create_token E A h req" "create_token_body E req" for E A req
  by unfold_locales (simp add: admin_create_token_def)

interpretation suspend_endpoint:
  admin_guarded E A "\<lambda>h. suspend_user E A h uid reason" "suspend_body E A uid reason"
  for E A uid reason
  by unfold_locales (simp add: suspend_user_def)

interpretation unsuspend_endpoint:
  admin_guarded E A "\<lambda>h. unsuspend_user E A h uid" "unsuspend_body E uid" for E A uid
  by unfold_locales (simp add: unsuspend_user_def)

section \<open>Running\<close>

lemma run_suspend_body:
  assumes "no_faults E" and "clock_ok E" and "user_exists uid w"
  shows "run (suspend_body E A uid reason ()) w =
     (Ok NO_CONTENT, (tick_sql (tick_sql (tick_sql (tick_time w))))
        \<lparr>users := revalidated uid (as_i64 (time_at E (time_reads w)))
           (update_rows (\<lambda>u. u_user_id u = uid)
              (\<lambda>u. u\<lparr>u_suspended := True, u_suspend_reason := reason\<rparr>) (users w)),
         kicked := kicked w @ map (kick_of A) (devices_of w uid)\<rparr>)"
  using assms by (simp add: suspend_body_def run_set_suspended run_kick_user)

lemma run_unsuspend_body:
  assumes "no_faults E" and "user_exists uid w"
  shows "run (unsuspend_body E uid ()) w =
     (Ok NO_CONTENT, (tick_sql w)\<lparr>users := update_rows (\<lambda>u. u_user_id u = uid)
        (\<lambda>u. u\<lparr>u_suspended := False, u_suspend_reason := None\<rparr>) (users w)\<rparr>)"
  using assms by (simp add: unsuspend_body_def run_set_suspended)

lemma suspend_unknown:
  assumes "no_faults E" and "\<not> user_exists uid w"
  shows "run (suspend_body E A uid reason ()) w = (Err NotFound, tick_sql w)"
    and "run (unsuspend_body E uid ()) w = (Err NotFound, tick_sql w)"
proof -
  have "\<forall>u \<in> set (users w). u_user_id u \<noteq> uid" using assms(2) by (auto simp: user_exists_def)
  then have "update_rows (\<lambda>u. u_user_id u = uid) f (users w) = users w" for f
    by (rule update_rows_none)
  with assms show "run (suspend_body E A uid reason ()) w = (Err NotFound, tick_sql w)"
    and "run (unsuspend_body E uid ()) w = (Err NotFound, tick_sql w)"
    by (simp_all add: suspend_body_def unsuspend_body_def run_set_suspended)
qed

lemma run_create_registration_token:
  assumes "no_faults E" and "clock_ok E"
    and "run (create_registration_token E h secs m) (w :: world) = (Ok tid, w')"
  shows "\<exists>row. registration_tokens w' = registration_tokens w @ [row] \<and> t_token_hash row = h \<and>
     t_uses row = 0 \<and> t_max_uses row = m \<and>
     t_expires_at row = as_i64 (time_at E (Suc (time_reads w)) + secs)"
    and "users w' = users w" "devices w' = devices w" "time_reads w' = Suc (Suc (time_reads w))"
  using assms
  by (auto simp: create_registration_token_def exec Let_def add_u64_def insert_row_def split: if_splits)

section \<open>Properties\<close>

text \<open>Property C24. Suspending a user marks exactly that user as suspended with the given reason,
  invalidates the tokens issued to the user so far and orders the sessions of all the user's
  devices closed; lifting the suspension afterwards restores the record except that the tokens
  stay invalidated.  Both report not found for an unknown user, and change nothing then.\<close>

theorem suspend_then_unsuspend:
  assumes "no_faults E" and "clock_ok E" and "admin_ok E A h" and "admin_ok E A h'"
    and "run (suspend_user E A h uid reason) w = (r1, w1)"
    and "run (unsuspend_user E A h' uid) w1 = (r2, w2)"
  shows "case find_user w uid of
       None \<Rightarrow> r1 = Err NotFound \<and> r2 = Err NotFound \<and> state_of w2 = state_of w
     | Some u \<Rightarrow>
         let now = as_i64 (time_at E (time_reads w)) in
         r1 = Ok NO_CONTENT \<and> r2 = Ok NO_CONTENT \<and>
         find_user w1 = (find_user w)(uid \<mapsto> u\<lparr>u_suspended := True, u_suspend_reason := reason,
            u_tokens_valid_from := now\<rparr>) \<and>
         kicked w1 = kicked w @ map (kick_of A) (devices_of w uid) \<and>
         find_user w2 = (find_user w)(uid \<mapsto> u\<lparr>u_suspended := False, u_suspend_reason := None,
            u_tokens_valid_from := now\<rparr>)"
proof (cases "user_exists uid w")
  case True
  then obtain u where u: "find_user w uid = Some u" by (auto simp: user_exists_find)
  from assms(5) have 1: "run (suspend_body E A uid reason ()) w = (r1, w1)"
    by (simp add: suspend_endpoint.accepted [OF assms(3)])
  with run_suspend_body [OF assms(1,2) True] have r1: "r1 = Ok NO_CONTENT"
    and k: "kicked w1 = kicked w @ map (kick_of A) (devices_of w uid)"
    and f: "find_user w1 = (find_user w)(uid \<mapsto> u\<lparr>u_suspended := True, u_suspend_reason := reason,
        u_tokens_valid_from := as_i64 (time_at E (time_reads w))\<rparr>)"
    using u by (auto simp: row_map_update)
  from f have "user_exists uid w1" by (simp add: user_exists_find)
  with assms(6) have "run (unsuspend_body E uid ()) w1 = (r2, w2)" "user_exists uid w1"
    by (simp_all add: unsuspend_endpoint.accepted [OF assms(4)])
  with run_unsuspend_body [OF assms(1)] f r1 k u show ?thesis by (auto simp: row_map_update)
next
  case False
  with assms(5) have "r1 = Err NotFound" and w1: "w1 = tick_sql w"
    by (auto simp: suspend_endpoint.accepted [OF assms(3)] suspend_unknown [OF assms(1)])
  moreover have "\<not> user_exists uid w1" using False by (simp add: w1)
  then have "r2 = Err NotFound" "w2 = tick_sql w1" using assms(6)
    by (auto simp: unsuspend_endpoint.accepted [OF assms(4)] suspend_unknown [OF assms(1)])
  ultimately show ?thesis using False by (simp add: user_exists_find)
qed

theorem suspend_then_unsuspend_witness:
  "\<exists>w1 w2. run (suspend_user ex_ext ex_app ex_admin_headers ''alice'' (Some ''spam'')) ex_world = (Ok NO_CONTENT, w1) \<and>
     run (unsuspend_user ex_ext ex_app ex_admin_headers ''alice'') w1 = (Ok NO_CONTENT, w2)"
proof -
  obtain r1 w1 where p: "run (suspend_user ex_ext ex_app ex_admin_headers ''alice'' (Some ''spam'')) ex_world = (r1, w1)"
    by fastforce
  obtain r2 w2 where q: "run (unsuspend_user ex_ext ex_app ex_admin_headers ''alice'') w1 = (r2, w2)"
    by fastforce
  from suspend_then_unsuspend [OF ex_laws(5,4) admin_ok_ex admin_ok_ex p q] p q
  show ?thesis by (simp add: Let_def)
qed

end
