(* ===== verification/Api_Router.thy ===== *)
theory Api_Router
  imports Api_Register Api_Auth Api_Exchange Api_Relationships Api_Admin
begin

text \<open>
  \<open>src/api/mod.rs\<close>: the route table, and the dispatch of a request that matched a route to its
  handler.  Matching a path against a pattern is axum's; a request arrives here as the endpoint
  it matched, with what the extractors take from it (headers, path and query parameters, the
  deserialised body).
\<close>

datatype http_method = GET | POST | DELETE

datatype endpoint =
    EpRegister | EpChallenge | EpVerify | EpInitiate | EpExchangeGet | EpRespond
  | EpCreate | EpList | EpRevoke | EpCreateToken | EpSuspend | EpUnsuspend

definition routes :: "(string \<times> http_method \<times> endpoint) list" where
  "routes =
    [(''/register'', POST, EpRegister),
     (''/auth/challenge'', GET, EpChallenge),
     (''/auth/verify'', POST, EpVerify),
     (''/exchange'', POST, EpInitiate),
     (''/exchange/:exchange_id'', GET, EpExchangeGet),
     (''/exchange/:exchange_id/respond'', POST, EpRespond),
     (''/relationships'', POST, EpCreate),
     (''/relationships'', GET, EpList),
     (''/relationships/:id'', DELETE, EpRevoke),
     (''/admin/registration-tokens'', POST, EpCreateToken),
     (''/admin/users/:user_id/suspend'', POST, EpSuspend),
     (''/admin/users/:user_id/unsuspend'', POST, EpUnsuspend)]"

datatype request =
    Register register_request
  | Challenge string
  | Verify verify_request
  | Initiate header_map initiate_request
  | ExchangeGet header_map string
  | Respond header_map string string
  | Create header_map create_request
  | ListRelationships header_map
  | Revoke header_map string
  | CreateToken header_map create_token_request
  | Suspend header_map string "string option"
  | Unsuspend header_map string

fun request_endpoint :: "request \<Rightarrow> endpoint" where
  "request_endpoint (Register _) = EpRegister"
| "request_endpoint (Challenge _) = EpChallenge"
| "request_endpoint (Verify _) = EpVerify"
| "request_endpoint (Initiate _ _) = EpInitiate"
| "request_endpoint (ExchangeGet _ _) = EpExchangeGet"
| "request_endpoint (Respond _ _ _) = EpRespond"
| "request_endpoint (Create _ _) = EpCreate"
| "request_endpoint (ListRelationships _) = EpList"
| "request_endpoint (Revoke _ _) = EpRevoke"
| "request_endpoint (CreateToken _ _) = EpCreateToken"
| "request_endpoint (Suspend _ _ _) = EpSuspend"
| "request_endpoint (Unsuspend _ _) = EpUnsuspend"

datatype response =
    RegisterResp register_response
  | NonceResp string
  | TokenResp string
  | ExchangeIdResp string
  | ExchangeResp exchange_response
  | RelationshipResp relationship_response
  | RelationshipsResp "relationship_response list"
  | UnitResp
  | StatusResp status_code

definition mapP :: "('a \<Rightarrow> 'b) \<Rightarrow> ('s, 'e, 'a) prog \<Rightarrow> ('s, 'e, 'b) prog" where
  "mapP f m = bindP m (\<lambda>x. okP (f x))"

fun route :: "ext \<Rightarrow> app_state \<Rightarrow> request \<Rightarrow> (world, error, response) prog" where
  "route E A (Register req) = mapP RegisterResp (register E A req)"
| "route E A (Challenge uid) = mapP NonceResp (challenge E uid)"
| "route E A (Verify req) = mapP TokenResp (verify E A req)"
| "route E A (Initiate h req) = mapP ExchangeIdResp (initiate E A h req)"
| "route E A (ExchangeGet h xid) = mapP ExchangeResp (exchange_get E A h xid)"
| "route E A (Respond h xid key) = mapP ExchangeResp (respond E A h xid key)"
| "route E A (Create h req) = mapP RelationshipResp (create E A h req)"
| "route E A (ListRelationships h) = mapP RelationshipsResp (list_handler E A h)"
| "route E A (Revoke h rid) = mapP (\<lambda>_. UnitResp) (revoke E A h rid)"
| "route E A (CreateToken h req) = mapP TokenResp (admin_create_token E A h req)"
| "route E A (Suspend h uid reason) = mapP StatusResp (suspend_user E A h uid reason)"
| "route E A (Unsuspend h uid) = mapP StatusResp (unsuspend_user E A h uid)"

text \<open>The status line of a finished request; a panic drops the connection.\<close>

fun status_of :: "(error, response) outcome \<Rightarrow> status_code option" where
  "status_of (Ok (StatusResp s)) = Some s"
| "status_of (Ok _) = Some OK"
| "status_of (Err e) = Some (fst (into_response e))"
| "status_of (Panic _) = None"

lemma run_mapP [exec]:
  "run (mapP f m) w = (case run m w of
     (Ok x, w') \<Rightarrow> (Ok (f x), w') | (Err e, w') \<Rightarrow> (Err e, w') | (Panic s, w') \<Rightarrow> (Panic s, w'))"
  by (simp add: mapP_def split: outcome.splits prod.splits)

section \<open>Guards of the whole interface\<close>

text \<open>The headers of the requests behind the two guards.\<close>

fun jwt_headers :: "request \<Rightarrow> header_map option" where
  "jwt_headers (Initiate h _) = Some h"
| "jwt_headers (ExchangeGet h _) = Some h"
| "jwt_headers (Respond h _ _) = Some h"
| "jwt_headers (Create h _) = Some h"
| "jwt_headers (ListRelationships h) = Some h"
| "jwt_headers (Revoke h _) = Some h"
| "jwt_headers _ = None"

fun admin_headers :: "request \<Rightarrow> header_map option" where
  "admin_headers (CreateToken h _) = Some h"
| "admin_headers (Suspend h _ _) = Some h"
| "admin_headers (Unsuspend h _) = Some h"
| "admin_headers _ = None"

lemma mapP_rejected:
  assumes "\<And>r w'. run m w = (r, w') \<Longrightarrow> r = Err e \<and> P w'" and "run (mapP f m) w = (r, w')"
  shows "r = Err e \<and> P w'"
  using assms by (cases "run m w") (auto simp: run_mapP)

text \<open>Property C10. Every request to a user endpoint without a bearer token that decodes, and every
  request to an administration endpoint without the configured key, is answered with status 401
  and changes nothing.\<close>

theorem unauthenticated_rejected:
  assumes "clock_ok E" and "run (route E A req) w = (r, w')"
    and "(\<exists>h. jwt_headers req = Some h \<and> caller E A h w = None) \<or>
         (\<exists>h. admin_headers req = Some h \<and> \<not> admin_ok E A h)"
  shows "status_of r = Some UNAUTHORIZED \<and> r = Err Unauthorized \<and> state_of w' = state_of w"
proof -
  note js = initiate_endpoint.rejected exchange_get_endpoint.rejected respond_endpoint.rejected
    create_endpoint.rejected list_endpoint.rejected revoke_endpoint.rejected
  have "r = Err Unauthorized \<and> state_of w' = state_of w"
  proof (cases "jwt_headers req")
    case (Some h)
    then have c: "caller E A h w = None" using assms(3) by (cases req) auto
    show ?thesis
      using Some assms(2) by (cases req) (auto elim!: mapP_rejected [rotated] dest: js [OF assms(1) c])
  next
    case None
    then obtain h where "admin_headers req = Some h" "\<not> admin_ok E A h" using assms(3) by auto
    then show ?thesis
      using assms(2)
      by (cases req) (auto simp: run_mapP create_token_endpoint.rejected suspend_endpoint.rejected
          unsuspend_endpoint.rejected)
  qed
  then show ?thesis by (simp add: into_response_def)
qed

theorem unauthenticated_rejected_witness:
  "\<exists>w'. run (route ex_ext ex_app (Revoke Map.empty ''r'')) ex_world = (Err Unauthorized, w')"
proof -
  obtain r w' where p: "run (route ex_ext ex_app (Revoke Map.empty ''r'')) ex_world = (r, w')"
    by fastforce
  have "caller ex_ext ex_app Map.empty ex_world = None"
    by (simp add: caller_def header_text_def starts_with_def)
  with unauthenticated_rejected [OF ex_laws(4) p] p show ?thesis by simp
qed

end
