(* ===== verification/Main_Program.thy ===== *)
theory Main_Program
  imports Api_Router
begin

text \<open>
  \<open>src/main.rs\<close>: the command line, the start of the server, and the periodic purge of expired
  key exchanges.
\<close>

section \<open>Command line\<close>

text \<open>
  The loop of \<open>parse_args\<close> over the arguments after the program name, with the two variables it
  sets; \<open>None\<close> is the exit after printing the help text.
\<close>

fun parse_loop ::
  "string list \<Rightarrow> string option \<Rightarrow> string option \<Rightarrow> (string option \<times> string option) option" where
  "parse_loop [] cfg_path env_path = Some (cfg_path, env_path)"
| "parse_loop (arg # args) cfg_path env_path =
     (if arg = ''--help'' \<or> arg = ''-h'' then None
      else if arg = ''--env'' then
        (case args of [] \<Rightarrow> Some (cfg_path, None) | v # rest \<Rightarrow> parse_loop rest cfg_path (Some v))
      else case strip_prefix arg ''--env='' of
        Some val \<Rightarrow> parse_loop args cfg_path (Some val)
      | None \<Rightarrow>
          if cfg_path = None then parse_loop args (Some arg) env_path
          else parse_loop args cfg_path env_path)"

text \<open>\<open>config_var\<close> is the value of \<open>SMQTT_CONFIG\<close> in the environment.\<close>

definition parse_args ::
  "string option \<Rightarrow> string list \<Rightarrow> (string \<times> string option) option" where
  "parse_args config_var args =
     (case parse_loop args None None of
        None \<Rightarrow> None
      | Some (cfg_path, env_path) \<Rightarrow>
          Some (case cfg_path of
                  Some p \<Rightarrow> p
                | None \<Rightarrow> (case config_var of Some p \<Rightarrow> p | None \<Rightarrow> ''smqtt.toml''),
                env_path))"

section \<open>Start\<close>

text \<open>
  The environment of \<open>main\<close>: what it calls besides the code modelled in the other theories.
  \<open>dotenv\<close> loads a file into the environment (an error text, or the new environment source),
  \<open>mqtt_listen\<close> opens the broker's listener and \<open>tcp_bind\<close> is \<open>TcpListener::bind\<close>.
\<close>

record startup =
  su_config_var :: "string option"
  su_env :: "string \<Rightarrow> string \<Rightarrow> settings"
  su_dotenv :: "string \<Rightarrow> string + (string \<Rightarrow> string \<Rightarrow> settings)"
  su_file :: "string \<Rightarrow> string + settings"
  su_parse_u64 :: "string \<Rightarrow> u64 option"
  su_pool_connect :: "nat \<Rightarrow> string \<Rightarrow> string + pool"
  su_migrate :: "pool \<Rightarrow> string + pool"
  su_parse_addr :: "string \<Rightarrow> string + string"
  su_mqtt_listen :: "listener \<Rightarrow> string + unit"
  su_tcp_bind :: "string \<Rightarrow> string + unit"

record server =
  sv_app :: app_state
  sv_world :: world
  sv_http_addr :: string
  sv_broker :: "string + ((hook_type \<times> nat) list \<times> listener)"
  sv_purge_interval :: nat

datatype started = HelpExit | Running server

definition load_env :: "startup \<Rightarrow> string option \<Rightarrow> string + (string \<Rightarrow> string \<Rightarrow> settings)" where
  "load_env S env_path =
     (case env_path of
        None \<Rightarrow> Inr (su_env S)
      | Some p \<Rightarrow>
         (case su_dotenv S p of
            Inl e \<Rightarrow> Inl (''failed to load env file '' @ p @ '': '' @ e)
          | Inr env \<Rightarrow> Inr env))"

text \<open>
  \<open>main\<close> up to the point where it serves requests; \<open>Running\<close> is the server at that moment.  The
  last statement, \<open>axum::serve\<close>, runs until the process ends.  The broker is a task of its own:
  its error is logged and does not stop the server.
\<close>

definition main :: "ext \<Rightarrow> startup \<Rightarrow> string list \<Rightarrow> string + started" where
  "main E S args =
     (case parse_args (su_config_var S) args of
        None \<Rightarrow> Inr HelpExit
      | Some (cfg_path, env_path) \<Rightarrow>
         bindS (load_env S env_path) (\<lambda>env.
         bindS (load (su_file S) env (su_parse_u64 S) cfg_path) (\<lambda>cfg.
         bindS (connect (su_pool_connect S) (su_migrate S) (path (database cfg))) (\<lambda>db.
         bindS (from_base64 E (signing_key (jwt cfg))) (\<lambda>keys.
         let (app, w) = new_state db cfg keys;
             http_addr = http_bind (http cfg);
             mqtt_addr = mqtt_bind (mqtt cfg)
         in bindS (su_parse_addr S http_addr) (\<lambda>addr.
            bindS (su_tcp_bind S addr) (\<lambda>_.
            Inr (Running \<lparr>sv_app = app, sv_world = w, sv_http_addr = addr,
                          sv_broker = broker_run (su_parse_addr S) (su_mqtt_listen S) mqtt_addr,
                          sv_purge_interval = 3600\<rparr>))))))))"

section \<open>The purge task\<close>

text \<open>One tick of the loop: the result of the purge is only logged.\<close>

definition purge_tick :: "ext \<Rightarrow> (world, error, unit) prog" where
  "purge_tick E = bindP (attempt (purge_expired_exchanges E)) (\<lambda>_. okP ())"

text \<open>The loop, cut after \<open>n\<close> ticks.\<close>

primrec purge_loop :: "ext \<Rightarrow> nat \<Rightarrow> (world, error, unit) prog" where
  "purge_loop E 0 = okP ()"
| "purge_loop E (Suc n) = bindP (purge_tick E) (\<lambda>_. purge_loop E n)"

section \<open>The command line, declaratively\<close>

text \<open>
  The reference for \<open>parse_args\<close>: the arguments are first read as a list of items, then the help
  flag decides, the first positional argument is the configuration path and the last \<open>--env\<close>
  option, in either spelling, is the environment file.
\<close>

datatype cli_item = HelpFlag | EnvOption "string option" | Positional string

fun cli_items :: "string list \<Rightarrow> cli_item list" where
  "cli_items [] = []"
| "cli_items (arg # args) =
     (if arg = ''--help'' \<or> arg = ''-h'' then HelpFlag # cli_items args
      else if arg = ''--env'' then
        (case args of [] \<Rightarrow> [EnvOption None] | v # rest \<Rightarrow> EnvOption (Some v) # cli_items rest)
      else if starts_with arg ''--env='' then EnvOption (Some (drop 6 arg)) # cli_items args
      else Positional arg # cli_items args)"

definition positionals :: "cli_item list \<Rightarrow> string list" where
  "positionals its = concat (map (\<lambda>i. case i of Positional p \<Rightarrow> [p] | _ \<Rightarrow> []) its)"

definition env_options :: "cli_item list \<Rightarrow> string option list" where
  "env_options its = concat (map (\<lambda>i. case i of EnvOption e \<Rightarrow> [e] | _ \<Rightarrow> []) its)"

lemma cli_items_simps [simp]:
  "positionals [] = []" "positionals (HelpFlag # its) = positionals its"
  "positionals (EnvOption e # its) = positionals its"
  "positionals (Positional p # its) = p # positionals its"
  "env_options [] = []" "env_options (HelpFlag # its) = env_options its"
  "env_options (EnvOption e # its) = e # env_options its"
  "env_options (Positional p # its) = env_options its"
  by (simp_all add: positionals_def env_options_def)

lemma parse_loop_items:
  "parse_loop args c e =
     (if HelpFlag \<in> set (cli_items args) then None
      else Some (case c of Some p \<Rightarrow> Some p
                 | None \<Rightarrow> (case positionals (cli_items args) of [] \<Rightarrow> None | p # _ \<Rightarrow> Some p),
                 last (e # env_options (cli_items args))))"
proof (induction args c e rule: parse_loop.induct)
  case (2 arg args c e)
  consider "arg = ''--help'' \<or> arg = ''-h''" | "arg \<noteq> ''--help'' \<and> arg \<noteq> ''-h''" "arg = ''--env''"
    | v where "arg \<noteq> ''--help'' \<and> arg \<noteq> ''-h''" "arg \<noteq> ''--env''" "strip_prefix arg ''--env='' = Some v"
    | "arg \<noteq> ''--help'' \<and> arg \<noteq> ''-h''" "arg \<noteq> ''--env''" "strip_prefix arg ''--env='' = None"
    by (cases "strip_prefix arg ''--env=''") auto
  then show ?case
  proof cases
    case 1
    then show ?thesis by (auto simp del: parse_loop.simps simp: parse_loop.simps(2))
  next
    case 2
    then show ?thesis
      using "2.IH"(1) by (cases args; cases c) simp_all
  next
    case 3
    then have "starts_with arg ''--env=''" "drop 6 arg = v"
      by (auto simp: strip_prefix_def numeral_eq_Suc split: if_splits)
    with 3 "2.IH"(4) [OF _ 3(2,3)] show ?thesis by (cases c) simp_all
  next
    case 4
    then have "\<not> starts_with arg ''--env=''" by (auto simp: strip_prefix_def split: if_splits)
    with 4 "2.IH"(2,3) [OF _ 4(2,3)] show ?thesis by (cases c) simp_all
  qed
qed (simp split: option.splits)

text \<open>Property C27. The one-pass argument loop computes what the declarative reading of the command
  line says: help if a help flag occurs as an argument of its own, otherwise the first positional
  argument as configuration path, before the environment variable and the default, and the last
  environment file option.\<close>

theorem parse_args_reference:
  "parse_args config_var args =
     (let its = cli_items args in
      if HelpFlag \<in> set its then None
      else Some (hd (positionals its @ (case config_var of None \<Rightarrow> [] | Some p \<Rightarrow> [p]) @ [''smqtt.toml'']),
                 last (None # env_options its)))"
  by (auto simp: parse_args_def parse_loop_items Let_def split: option.splits list.splits)

text \<open>Property C28. A server that starts runs with a non-empty administration key and with tokens
  issued and verified under the configured signing key, its maps are empty, its broker (if the
  MQTT listener could be opened) refuses anonymous clients and calls the hook for authentication,
  subscription checks and disconnections, and a request without an administration key header
  does not pass the administration guard.\<close>

theorem main_secure_start:
  assumes "main E S args = Inr (Running sv)"
  shows "api_key (admin (st_config (sv_app sv))) \<noteq> '''' \<and>
     b64_dec E (signing_key (jwt (st_config (sv_app sv)))) = Inr (encoding (st_jwt_keys (sv_app sv))) \<and>
     decoding (st_jwt_keys (sv_app sv)) = encoding (st_jwt_keys (sv_app sv)) \<and>
     challenges (sv_world sv) = Map.empty \<and> sessions (sv_world sv) = Map.empty \<and>
     (\<forall>hooks l. sv_broker sv = Inr (hooks, l) \<longrightarrow> \<not> l_allow_anonymous l \<and>
        fst ` set hooks = {TClientAuthenticate, TClientSubscribeCheckAcl, TClientDisconnected}) \<and>
     (\<forall>h. h ''x-admin-key'' = None \<longrightarrow> \<not> admin_ok E (sv_app sv) h)"
  using assms
  by (auto simp: main_def load_def validate_ok_iff from_base64_def new_state_def broker_run_def
      registered_hooks_def admin_ok_def header_text_def Let_def pool.defs
      elim!: bindS_InrE split: option.splits sum.splits prod.splits)

definition ex_startup :: startup where
  "ex_startup =
     \<lparr>su_config_var = None, su_env = (\<lambda>_ _. [''admin.api_key'' \<mapsto> ''x'']), su_dotenv = (\<lambda>_. Inl ''none''),
      su_file = (\<lambda>_. Inr ex_settings), su_parse_u64 = (\<lambda>_. None), su_pool_connect = (\<lambda>_ _. Inr ex_pool),
      su_migrate = Inr, su_parse_addr = Inr, su_mqtt_listen = (\<lambda>_. Inr ()), su_tcp_bind = (\<lambda>_. Inr ())\<rparr>"

theorem main_secure_start_witness:
  "\<exists>sv. main ex_ext ex_startup [''a.toml''] = Inr (Running sv) \<and>
     api_key (admin (st_config (sv_app sv))) \<noteq> ''''"
proof -
  obtain c where c: "load (\<lambda>_. Inr ex_settings) (\<lambda>_ _. [''admin.api_key'' \<mapsto> ''x'']) (\<lambda>_. None) ''a.toml'' = Inr c"
    by (simp add: load_defs ex_settings_def)
  have "parse_args None [''a.toml''] = Some (''a.toml'', None)"
    by (simp add: parse_args_def strip_prefix_def starts_with_def)
  with c obtain sv where m: "main ex_ext ex_startup [''a.toml''] = Inr (Running sv)"
    by (simp add: main_def ex_startup_def load_env_def connect_def from_base64_def new_state_def Let_def)
  from main_secure_start [OF m] m show ?thesis by blast
qed

section \<open>The purge task, running\<close>

lemma run_purge_tick:
  assumes "clock_ok E"
  shows "run (purge_tick E) w =
     (Ok (), (tick_sql (tick_time w))\<lparr>pending_exchanges :=
        (if sqlx_fault E (sql_stmts w) = None
         then delete_rows (\<lambda>x. x_expires_at x < as_i64 (time_at E (time_reads w))) (pending_exchanges w)
         else pending_exchanges w)\<rparr>)"
  using assms by (cases w) (auto simp: purge_tick_def run_purge_expired_exchanges split: option.splits)

text \<open>Property C30. The purge task never stops: with a clock past the epoch, any number of ticks run
  through whatever statements fail; exchanges are only ever removed, and after a tick whose
  statement succeeded no exchange that had expired by then is left.\<close>

theorem purge_loop_robust:
  assumes "clock_ok E" and "run (purge_loop E n) w = (r, w')"
  shows "r = Ok () \<and> set (pending_exchanges w') \<subseteq> set (pending_exchanges w) \<and>
     (\<forall>i < n. sqlx_fault E (sql_stmts w + i) = None \<longrightarrow>
        (\<forall>x \<in> set (pending_exchanges w'). as_i64 (time_at E (time_reads w + i)) \<le> x_expires_at x))"
  using assms(2)
proof (induction n arbitrary: w)
  case (Suc n)
  let ?v = "snd (run (purge_tick E) w)"
  have v: "time_reads ?v = Suc (time_reads w)" "sql_stmts ?v = Suc (sql_stmts w)"
    "set (pending_exchanges ?v) \<subseteq> set (pending_exchanges w)"
    "sqlx_fault E (sql_stmts w) = None \<Longrightarrow>
      \<forall>x \<in> set (pending_exchanges ?v). as_i64 (time_at E (time_reads w)) \<le> x_expires_at x"
    by (auto simp: run_purge_tick [OF assms(1)])
  have "run (purge_loop E n) ?v = (r, w')" using Suc.prems by (simp add: run_purge_tick [OF assms(1)])
  note IH = Suc.IH [OF this]
  have "as_i64 (time_at E (time_reads w + i)) \<le> x_expires_at x"
    if "i < Suc n" "sqlx_fault E (sql_stmts w + i) = None" "x \<in> set (pending_exchanges w')" for i x
    using that IH v by (cases i) auto
  with IH v(3) show ?case by blast
qed simp

theorem purge_loop_robust_witness:
  "\<exists>w'. run (purge_loop ex_ext 3) (empty_world\<lparr>pending_exchanges := pending_exchanges ex_pool\<rparr>) = (Ok (), w') \<and>
     pending_exchanges w' = []"
proof -
  let ?w = "empty_world\<lparr>pending_exchanges := pending_exchanges ex_pool\<rparr>"
  obtain r w' where p: "run (purge_loop ex_ext 3) ?w = (r, w')" by fastforce
  note R = purge_loop_robust [OF ex_laws(4) p]
  have "x \<notin> set (pending_exchanges w')" for x
  proof
    assume x: "x \<in> set (pending_exchanges w')"
    with R have "x \<in> set (pending_exchanges ex_pool)" by auto
    moreover from R x have "as_i64 (time_at ex_ext (time_reads ?w + 0)) \<le> x_expires_at x" by force
    ultimately show False by (simp add: ex_pool_def)
  qed
  then have "pending_exchanges w' = []" by (meson last_in_set)
  with R p show ?thesis by blast
qed

end
