(* ===== verification/Invariant.thy ===== *)
theory Invariant
  imports Examples
begin

text \<open>
  The invariant of the shared state and the guarantee every atomic action gives to all others.

  \<open>world_inv\<close> is what the code relies on without checking it: primary keys are unique, rows refer
  to existing users, stored keys have the length their use needs and are valid Ed25519 points,
  stored topic lists are well-formed JSON, a registration token was not used more often than
  allowed, a session belongs to the device named in its claims, a challenge has a full nonce.
  \<open>guar\<close> adds what no action ever undoes: users and devices stay, an exchange keeps its parties
  and the initiator's key, a token keeps its limits and its use count never falls.

  \<open>keeps E F p Q\<close> says that a handler \<open>p\<close>, started under the invariant and a stable fact \<open>F\<close>,
  stays within the guarantee at each action and, when it returns \<open>Ok x\<close>, leaves \<open>Q x\<close> true.
\<close>

section \<open>Well-formed states\<close>

definition device_ok :: "ext \<Rightarrow> world \<Rightarrow> device \<Rightarrow> bool" where
  "device_ok E w d \<longleftrightarrow>
     user_exists (d_user_id d) w \<and> length (d_pubkey d) = 32 \<and> ed25519_key E (d_pubkey d)"

definition relationship_ok :: "ext \<Rightarrow> world \<Rightarrow> relationship \<Rightarrow> bool" where
  "relationship_ok E w r \<longleftrightarrow>
     user_exists (r_user_id r) w \<and> Inr (r_publish_topics r) \<in> range (json_vec E) \<and>
     Inr (r_subscribe_topics r) \<in> range (json_vec E)"

definition exchange_ok :: "world \<Rightarrow> pending_exchange \<Rightarrow> bool" where
  "exchange_ok w x \<longleftrightarrow>
     user_exists (x_initiator_id x) w \<and> user_exists (x_responder_id x) w \<and>
     length (x_initiator_pubkey x) = 32 \<and>
     (case x_responder_pubkey x of None \<Rightarrow> True | Some k \<Rightarrow> length k = 32)"

definition token_ok :: "registration_token \<Rightarrow> bool" where
  "token_ok t \<longleftrightarrow> 0 \<le> t_uses t \<and> (t_uses t = 0 \<or> t_uses t \<le> t_max_uses t)"

definition session_ok :: "world \<Rightarrow> string \<Rightarrow> claims \<Rightarrow> bool" where
  "session_ok w cid cl \<longleftrightarrow> c_dev cl = cid \<and> user_exists (c_sub cl) w"

definition challenge_ok :: "world \<Rightarrow> string \<Rightarrow> bytes \<times> u64 \<Rightarrow> bool" where
  "challenge_ok w uid c \<longleftrightarrow> user_exists uid w \<and> length (fst c) = 32"

definition keys_unique :: "world \<Rightarrow> bool" where
  "keys_unique w \<longleftrightarrow>
     pk u_user_id (users w) \<and> pk d_device_id (devices w) \<and>
     pk r_relationship_id (relationships w) \<and> pk x_exchange_id (pending_exchanges w) \<and>
     pk t_token_id (registration_tokens w)"

definition world_inv :: "ext \<Rightarrow> world \<Rightarrow> bool" where
  "world_inv E w \<longleftrightarrow>
     keys_unique w \<and>
     (\<forall>d \<in> set (devices w). device_ok E w d) \<and>
     (\<forall>r \<in> set (relationships w). relationship_ok E w r) \<and>
     (\<forall>x \<in> set (pending_exchanges w). exchange_ok w x) \<and>
     (\<forall>t \<in> set (registration_tokens w). token_ok t) \<and>
     (\<forall>cid cl. sessions w cid = Some cl \<longrightarrow> session_ok w cid cl) \<and>
     (\<forall>uid c. challenges w uid = Some c \<longrightarrow> challenge_ok w uid c)"

section \<open>The guarantee\<close>

definition same_exchange :: "pending_exchange \<Rightarrow> pending_exchange \<Rightarrow> bool" where
  "same_exchange x x' \<longleftrightarrow>
     x_initiator_id x' = x_initiator_id x \<and> x_responder_id x' = x_responder_id x \<and>
     x_initiator_pubkey x' = x_initiator_pubkey x \<and> x_expires_at x' = x_expires_at x"

definition token_grows :: "registration_token \<Rightarrow> registration_token \<Rightarrow> bool" where
  "token_grows t t' \<longleftrightarrow>
     t_token_id t' = t_token_id t \<and> t_token_hash t' = t_token_hash t \<and>
     t_expires_at t' = t_expires_at t \<and> t_max_uses t' = t_max_uses t \<and> t_uses t \<le> t_uses t'"

definition exchanges_kept :: "world \<Rightarrow> world \<Rightarrow> bool" where
  "exchanges_kept w w' \<longleftrightarrow>
     (\<forall>x \<in> set (pending_exchanges w). \<forall>x' \<in> set (pending_exchanges w').
        x_exchange_id x' = x_exchange_id x \<longrightarrow> same_exchange x x')"

definition tokens_kept :: "world \<Rightarrow> world \<Rightarrow> bool" where
  "tokens_kept w w' \<longleftrightarrow>
     (\<forall>t \<in> set (registration_tokens w). \<exists>t' \<in> set (registration_tokens w'). token_grows t t')"

definition guar :: "ext \<Rightarrow> world \<Rightarrow> world \<Rightarrow> bool" where
  "guar E w w' \<longleftrightarrow>
     (world_inv E w \<longrightarrow> world_inv E w' \<and> exchanges_kept w w') \<and>
     (\<forall>uid. user_exists uid w \<longrightarrow> user_exists uid w') \<and>
     set (devices w) \<subseteq> set (devices w') \<and>
     tokens_kept w w'"

definition inv_with :: "ext \<Rightarrow> (world \<Rightarrow> bool) \<Rightarrow> world \<Rightarrow> bool" where
  "inv_with E F w \<longleftrightarrow> world_inv E w \<and> F w"

definition keeps :: "ext \<Rightarrow> (world \<Rightarrow> bool) \<Rightarrow> (world, 'e, 'a) prog \<Rightarrow> ('a \<Rightarrow> world \<Rightarrow> bool) \<Rightarrow> bool" where
  "keeps E F p Q \<longleftrightarrow>
     (stable (guar E) F \<longrightarrow>
       rg (guar E) (inv_with E F) p (\<lambda>r w. inv_with E F w \<and> (\<forall>x. r = Ok x \<longrightarrow> Q x w)))"

section \<open>Preservation by the elementary updates\<close>

lemma user_exists_frame_world [simp]:
  "user_exists uid (w\<lparr>challenges := c\<rparr>) = user_exists uid w"
  "user_exists uid (w\<lparr>sessions := s\<rparr>) = user_exists uid w"
  "user_exists uid (w\<lparr>forwarded := fs\<rparr>) = user_exists uid w"
  "user_exists uid (w\<lparr>kicked := ks\<rparr>) = user_exists uid w"
  by (simp_all add: user_exists_def)

lemma token_grows_refl [simp]: "token_grows t t"
  by (simp add: token_grows_def)

lemma same_exchange_refl [simp]: "same_exchange x x"
  by (simp add: same_exchange_def)

lemmas row_ok_defs = device_ok_def relationship_ok_def exchange_ok_def session_ok_def
  challenge_ok_def

lemma world_inv_ambient [simp]:
  "world_inv E (w\<lparr>time_reads := n\<rparr>) = world_inv E w"
  "world_inv E (w\<lparr>uuid_draws := n\<rparr>) = world_inv E w"
  "world_inv E (w\<lparr>rng_draws := n\<rparr>) = world_inv E w"
  "world_inv E (w\<lparr>sql_stmts := n\<rparr>) = world_inv E w"
  "world_inv E (w\<lparr>http_posts := n\<rparr>) = world_inv E w"
  "world_inv E (w\<lparr>forwarded := fs\<rparr>) = world_inv E w"
  "world_inv E (w\<lparr>kicked := ks\<rparr>) = world_inv E w"
  by (simp_all add: world_inv_def keys_unique_def row_ok_defs)

text \<open>More users never hurt: the row predicates are monotone in the set of users.\<close>

lemma row_ok_mono:
  assumes "\<And>uid. user_exists uid w \<Longrightarrow> user_exists uid w'"
  shows "device_ok E w d \<Longrightarrow> device_ok E w' d"
    and "relationship_ok E w r \<Longrightarrow> relationship_ok E w' r"
    and "exchange_ok w x \<Longrightarrow> exchange_ok w' x"
    and "session_ok w cid cl \<Longrightarrow> session_ok w' cid cl"
    and "challenge_ok w uid c \<Longrightarrow> challenge_ok w' uid c"
  using assms by (auto simp: row_ok_defs)

lemma user_exists_insert:
  "user_exists uid (w\<lparr>users := users w @ [u]\<rparr>) \<longleftrightarrow> uid = u_user_id u \<or> user_exists uid w"
  by (auto simp: user_exists_def)

lemma user_exists_update:
  assumes "\<And>u. u_user_id (f u) = u_user_id u"
  shows "user_exists uid (w\<lparr>users := update_rows P f (users w)\<rparr>) = user_exists uid w"
proof -
  have "map u_user_id (update_rows P f (users w)) = map u_user_id (users w)"
    by (rule update_rows_map) (rule assms)
  then have "set (map u_user_id (update_rows P f (users w))) = set (map u_user_id (users w))"
    by (rule arg_cong)
  then show ?thesis by (simp add: user_exists_def)
qed

lemma exchange_unique:
  assumes "world_inv E w" and "x \<in> set (pending_exchanges w)" and "x' \<in> set (pending_exchanges w)"
    and "x_exchange_id x' = x_exchange_id x"
  shows "x' = x"
  using assms pk_inj [of x_exchange_id "pending_exchanges w" x' x]
  by (simp add: world_inv_def keys_unique_def)

lemma exchanges_kept_same:
  "world_inv E w \<Longrightarrow> set (pending_exchanges w') \<subseteq> set (pending_exchanges w) \<Longrightarrow> exchanges_kept w w'"
  unfolding exchanges_kept_def using exchange_unique [of E w] same_exchange_refl by (metis subsetD)

lemma tokens_kept_more:
  "set (registration_tokens w) \<subseteq> set (registration_tokens w') \<Longrightarrow> tokens_kept w w'"
  unfolding tokens_kept_def using token_grows_refl by (metis subsetD)

lemma guarI:
  assumes "world_inv E w \<Longrightarrow> world_inv E w'" and "\<And>uid. user_exists uid w \<Longrightarrow> user_exists uid w'"
    and "set (devices w) \<subseteq> set (devices w')" and "world_inv E w \<Longrightarrow> exchanges_kept w w'"
    and "tokens_kept w w'"
  shows "guar E w w'"
  using assms by (simp add: guar_def)

text \<open>An update that leaves the exchanges, devices, tokens and users as they are.\<close>

lemma guar_frame:
  assumes "world_inv E w \<Longrightarrow> world_inv E w'" and "\<And>uid. user_exists uid w \<Longrightarrow> user_exists uid w'"
    and "devices w' = devices w" and "pending_exchanges w' = pending_exchanges w"
    and "registration_tokens w' = registration_tokens w"
  shows "guar E w w'"
  using assms by (intro guarI exchanges_kept_same tokens_kept_more) simp_all

lemma guar_refl [simp, intro]: "guar E w w"
  by (rule guar_frame) simp_all

lemma guar_ambient [simp]:
  "guar E w (w\<lparr>time_reads := n\<rparr>)" "guar E w (w\<lparr>uuid_draws := n\<rparr>)"
  "guar E w (w\<lparr>rng_draws := n\<rparr>)" "guar E w (w\<lparr>sql_stmts := n\<rparr>)"
  "guar E w (w\<lparr>http_posts := n\<rparr>)" "guar E w (w\<lparr>forwarded := fs\<rparr>)"
  "guar E w (w\<lparr>kicked := ks\<rparr>)"
  by (rule guar_frame; simp)+

lemma guar_tick_sql [simp]: "guar E (w\<lparr>sql_stmts := n\<rparr>) w' = guar E w w'"
  by (simp add: guar_def exchanges_kept_def tokens_kept_def)

lemma row_ok_frame [simp]:
  "device_ok E (w\<lparr>devices := ds\<rparr>) d = device_ok E w d"
  "relationship_ok E (w\<lparr>devices := ds\<rparr>) r = relationship_ok E w r"
  "exchange_ok (w\<lparr>devices := ds\<rparr>) x = exchange_ok w x"
  "session_ok (w\<lparr>devices := ds\<rparr>) cid cl = session_ok w cid cl"
  "challenge_ok (w\<lparr>devices := ds\<rparr>) uid c = challenge_ok w uid c"
  "device_ok E (w\<lparr>relationships := rs\<rparr>) d = device_ok E w d"
  "relationship_ok E (w\<lparr>relationships := rs\<rparr>) r = relationship_ok E w r"
  "exchange_ok (w\<lparr>relationships := rs\<rparr>) x = exchange_ok w x"
  "session_ok (w\<lparr>relationships := rs\<rparr>) cid cl = session_ok w cid cl"
  "challenge_ok (w\<lparr>relationships := rs\<rparr>) uid c = challenge_ok w uid c"
  "device_ok E (w\<lparr>pending_exchanges := xs\<rparr>) d = device_ok E w d"
  "relationship_ok E (w\<lparr>pending_exchanges := xs\<rparr>) r = relationship_ok E w r"
  "exchange_ok (w\<lparr>pending_exchanges := xs\<rparr>) x = exchange_ok w x"
  "session_ok (w\<lparr>pending_exchanges := xs\<rparr>) cid cl = session_ok w cid cl"
  "challenge_ok (w\<lparr>pending_exchanges := xs\<rparr>) uid c = challenge_ok w uid c"
  "device_ok E (w\<lparr>registration_tokens := ts\<rparr>) d = device_ok E w d"
  "relationship_ok E (w\<lparr>registration_tokens := ts\<rparr>) r = relationship_ok E w r"
  "exchange_ok (w\<lparr>registration_tokens := ts\<rparr>) x = exchange_ok w x"
  "session_ok (w\<lparr>registration_tokens := ts\<rparr>) cid cl = session_ok w cid cl"
  "challenge_ok (w\<lparr>registration_tokens := ts\<rparr>) uid c = challenge_ok w uid c"
  "device_ok E (w\<lparr>challenges := cs\<rparr>) d = device_ok E w d"
  "relationship_ok E (w\<lparr>challenges := cs\<rparr>) r = relationship_ok E w r"
  "exchange_ok (w\<lparr>challenges := cs\<rparr>) x = exchange_ok w x"
  "session_ok (w\<lparr>challenges := cs\<rparr>) cid cl = session_ok w cid cl"
  "challenge_ok (w\<lparr>challenges := cs\<rparr>) uid c = challenge_ok w uid c"
  "device_ok E (w\<lparr>sessions := ss\<rparr>) d = device_ok E w d"
  "relationship_ok E (w\<lparr>sessions := ss\<rparr>) r = relationship_ok E w r"
  "exchange_ok (w\<lparr>sessions := ss\<rparr>) x = exchange_ok w x"
  "session_ok (w\<lparr>sessions := ss\<rparr>) cid cl = session_ok w cid cl"
  "challenge_ok (w\<lparr>sessions := ss\<rparr>) uid c = challenge_ok w uid c"
  by (simp_all add: row_ok_defs)

lemma guar_users:
  assumes m: "\<And>uid. user_exists uid w \<Longrightarrow> user_exists uid (w\<lparr>users := us\<rparr>)" and p: "pk u_user_id us"
  shows "guar E w (w\<lparr>users := us\<rparr>)"
proof (rule guar_frame)
  assume "world_inv E w"
  then show "world_inv E (w\<lparr>users := us\<rparr>)"
    using p row_ok_mono [where w = w and w' = "w\<lparr>users := us\<rparr>", OF m]
    by (simp add: world_inv_def keys_unique_def)
qed (simp_all add: m)

lemma guar_users_insert:
  "pk u_user_id (users w) \<Longrightarrow> u_user_id u \<notin> u_user_id ` set (users w)
    \<Longrightarrow> guar E w (w\<lparr>users := users w @ [u]\<rparr>)"
  by (rule guar_users) (auto simp: user_exists_insert)

lemma guar_users_update:
  assumes "pk u_user_id (users w)" and "\<And>u. u_user_id (f u) = u_user_id u"
  shows "guar E w (w\<lparr>users := update_rows P f (users w)\<rparr>)"
  using assms by (intro guar_users) (auto simp: user_exists_update)

lemma guar_devices_insert:
  assumes "d_device_id d \<notin> d_device_id ` set (devices w)" and "device_ok E w d"
  shows "guar E w (w\<lparr>devices := devices w @ [d]\<rparr>)"
  using assms
  by (intro guarI exchanges_kept_same tokens_kept_more) (auto simp: world_inv_def keys_unique_def)

lemma guar_relationships_insert:
  assumes "r_relationship_id r \<notin> r_relationship_id ` set (relationships w)" and "relationship_ok E w r"
  shows "guar E w (w\<lparr>relationships := relationships w @ [r]\<rparr>)"
  using assms by (intro guar_frame) (auto simp: world_inv_def keys_unique_def)

lemma guar_relationships_delete:
  "guar E w (w\<lparr>relationships := delete_rows P (relationships w)\<rparr>)"
  by (intro guar_frame) (auto simp: world_inv_def keys_unique_def)

lemma guar_exchanges_insert:
  assumes "x_exchange_id x \<notin> x_exchange_id ` set (pending_exchanges w)" and "exchange_ok w x"
  shows "guar E w (w\<lparr>pending_exchanges := pending_exchanges w @ [x]\<rparr>)"
proof (rule guarI)
  assume i: "world_inv E w"
  with assms show "world_inv E (w\<lparr>pending_exchanges := pending_exchanges w @ [x]\<rparr>)"
    by (auto simp: world_inv_def keys_unique_def)
  from i assms(1) exchange_unique [OF i] show
    "exchanges_kept w (w\<lparr>pending_exchanges := pending_exchanges w @ [x]\<rparr>)"
    by (auto simp: exchanges_kept_def) (metis same_exchange_refl)
qed (auto intro: tokens_kept_more)

lemma guar_exchanges_delete:
  "guar E w (w\<lparr>pending_exchanges := delete_rows P (pending_exchanges w)\<rparr>)"
  by (intro guarI exchanges_kept_same tokens_kept_more) (auto simp: world_inv_def keys_unique_def)

lemma guar_exchanges_respond:
  assumes "length key = 32"
  shows "guar E w (w\<lparr>pending_exchanges := update_rows P
            (\<lambda>x. x\<lparr>x_responder_pubkey := Some key\<rparr>) (pending_exchanges w)\<rparr>)"
proof (rule guarI)
  let ?f = "\<lambda>x. x\<lparr>x_responder_pubkey := Some key\<rparr>"
  assume i: "world_inv E w"
  have "exchange_ok w x \<Longrightarrow> exchange_ok w (?f x)" for x using assms by (simp add: exchange_ok_def)
  with i show "world_inv E (w\<lparr>pending_exchanges := update_rows P ?f (pending_exchanges w)\<rparr>)"
    by (auto simp: world_inv_def keys_unique_def set_update_rows)
  have "same_exchange x (?f x)" for x by (simp add: same_exchange_def)
  with exchange_unique [OF i] show
    "exchanges_kept w (w\<lparr>pending_exchanges := update_rows P ?f (pending_exchanges w)\<rparr>)"
    by (auto simp: exchanges_kept_def set_update_rows) (metis same_exchange_refl)+
qed (auto intro: tokens_kept_more)

lemma guar_tokens_insert:
  assumes "t_token_id t \<notin> t_token_id ` set (registration_tokens w)" and "token_ok t"
  shows "guar E w (w\<lparr>registration_tokens := registration_tokens w @ [t]\<rparr>)"
  using assms
  by (intro guarI exchanges_kept_same tokens_kept_more) (auto simp: world_inv_def keys_unique_def)

lemma guar_tokens_consume:
  "guar E w (w\<lparr>registration_tokens := update_rows (token_usable h now)
            (\<lambda>t. t\<lparr>t_uses := t_uses t + 1\<rparr>) (registration_tokens w)\<rparr>)"
proof (rule guarI)
  let ?f = "\<lambda>t. t\<lparr>t_uses := t_uses t + 1\<rparr>"
  have "token_ok t \<Longrightarrow> token_usable h now t \<Longrightarrow> token_ok (?f t)" for t
    by (auto simp: token_ok_def token_usable_def)
  then show "world_inv E w \<Longrightarrow>
      world_inv E (w\<lparr>registration_tokens := update_rows (token_usable h now) ?f (registration_tokens w)\<rparr>)"
    by (auto simp: world_inv_def keys_unique_def set_update_rows)
  show "tokens_kept w (w\<lparr>registration_tokens := update_rows (token_usable h now) ?f (registration_tokens w)\<rparr>)"
    unfolding tokens_kept_def
  proof
    fix t assume "t \<in> set (registration_tokens w)"
    then show "\<exists>t' \<in> set (registration_tokens (w\<lparr>registration_tokens :=
        update_rows (token_usable h now) ?f (registration_tokens w)\<rparr>)). token_grows t t'"
      by (intro bexI [of _ "if token_usable h now t then ?f t else t"])
        (auto simp: set_update_rows token_grows_def)
  qed
qed (auto intro: exchanges_kept_same)

lemma guar_challenges:
  assumes "\<And>uid c. m uid = Some c \<Longrightarrow> challenges w uid = Some c \<or> challenge_ok w uid c"
  shows "guar E w (w\<lparr>challenges := m\<rparr>)"
proof (rule guar_frame)
  assume "world_inv E w"
  with assms show "world_inv E (w\<lparr>challenges := m\<rparr>)"
    unfolding world_inv_def keys_unique_def by simp blast
qed simp_all

lemma guar_sessions:
  assumes "\<And>cid cl. m cid = Some cl \<Longrightarrow> sessions w cid = Some cl \<or> session_ok w cid cl"
  shows "guar E w (w\<lparr>sessions := m\<rparr>)"
proof (rule guar_frame)
  assume "world_inv E w"
  with assms show "world_inv E (w\<lparr>sessions := m\<rparr>)"
    unfolding world_inv_def keys_unique_def by simp blast
qed simp_all

section \<open>Rules for handlers\<close>

lemma rg_False: "rg G (\<lambda>w. False) p Q"
  by (cases p) (auto intro: rg.intros)

lemma stable_const [simp, intro]: "stable G (\<lambda>w. b)"
  by (simp add: stable_def)

lemma stable_conj [intro]: "stable G P \<Longrightarrow> stable G Q \<Longrightarrow> stable G (\<lambda>w. P w \<and> Q w)"
  unfolding stable_def by blast

lemma stable_user_exists [simp, intro]: "stable (guar E) (user_exists uid)"
  by (auto simp: stable_def guar_def)

lemma stable_world_inv [simp, intro]: "stable (guar E) (world_inv E)"
  by (auto simp: stable_def guar_def)

lemma stable_inv_with [intro]: "stable (guar E) F \<Longrightarrow> stable (guar E) (inv_with E F)"
  using stable_world_inv [of E] unfolding inv_with_def stable_def by blast

lemma stable_result [intro]:
  "stable G P \<Longrightarrow> (\<And>x. stable G (Q x)) \<Longrightarrow> stable G (\<lambda>w. P w \<and> (\<forall>x. r = Ok x \<longrightarrow> Q x w))"
  unfolding stable_def by blast

lemma keeps_okP: "(\<And>w. world_inv E w \<Longrightarrow> F w \<Longrightarrow> Q x w) \<Longrightarrow> keeps E F (okP x) Q"
  and keeps_errP: "keeps E F (errP e) Q"
  and keeps_panicP: "keeps E F (panicP m) Q"
  by (auto simp: keeps_def inv_with_def)

lemma keeps_Done: "(\<And>w x. r = Ok x \<Longrightarrow> world_inv E w \<Longrightarrow> F w \<Longrightarrow> Q x w) \<Longrightarrow> keeps E F (Done r) Q"
  by (auto simp: keeps_def inv_with_def intro: rg.rg_Done)

lemma keeps_ok_or: "(\<And>w x. v = Some x \<Longrightarrow> world_inv E w \<Longrightarrow> F w \<Longrightarrow> Q x w) \<Longrightarrow> keeps E F (ok_or e v) Q"
  by (auto simp: ok_or_def intro: keeps_okP keeps_errP split: option.splits)

lemma keeps_act:
  assumes "\<And>w r w'. world_inv E w \<Longrightarrow> F w \<Longrightarrow> f w = (r, w') \<Longrightarrow> guar E w w' \<and> (\<forall>x. r = Ok x \<longrightarrow> Q x w')"
    and "\<And>x. stable (guar E) (Q x)"
  shows "keeps E F (act f) Q"
  unfolding keeps_def
proof (intro impI rg_act)
  fix w r w' assume "stable (guar E) F" and "inv_with E F w" and "f w = (r, w')"
  with assms(1) show "guar E w w' \<and> inv_with E F w' \<and> (\<forall>x. r = Ok x \<longrightarrow> Q x w')"
    by (auto simp: inv_with_def guar_def stable_def)
qed (use assms(2) in \<open>blast intro: stable_result stable_inv_with\<close>)

lemma keeps_weaken: "keeps E F p Q \<Longrightarrow> (\<And>x w. Q x w \<Longrightarrow> Q' x w) \<Longrightarrow> keeps E F p Q'"
  unfolding keeps_def by (blast intro: rg_post)

lemma keeps_True: "keeps E F p Q \<Longrightarrow> keeps E F p (\<lambda>_ _. True)"
  by (erule keeps_weaken) simp

lemma keeps_bind:
  assumes "keeps E F m M" and "\<And>x. stable (guar E) (M x)"
    and "\<And>x. keeps E (\<lambda>w. F w \<and> M x w) (f x) Q"
  shows "keeps E F (bindP m f) Q"
  unfolding keeps_def
proof (intro impI, rule rg_bindP)
  assume F: "stable (guar E) F"
  with assms(1) show "rg (guar E) (inv_with E F) m
      (\<lambda>r w. case r of Ok x \<Rightarrow> inv_with E (\<lambda>w. F w \<and> M x w) w
         | Err e \<Rightarrow> inv_with E F w \<and> (\<forall>x. Err e = Ok x \<longrightarrow> Q x w)
         | Panic s \<Rightarrow> inv_with E F w \<and> (\<forall>x. Panic s = Ok x \<longrightarrow> Q x w))"
    unfolding keeps_def
    by (elim impE) (auto elim!: rg_post simp: inv_with_def split: outcome.splits)
  fix x
  have "stable (guar E) (\<lambda>w. F w \<and> M x w)" using F assms(2) by (rule stable_conj)
  with assms(3) [of x] show "rg (guar E) (inv_with E (\<lambda>w. F w \<and> M x w)) (f x)
      (\<lambda>r w. inv_with E F w \<and> (\<forall>x. r = Ok x \<longrightarrow> Q x w))"
    unfolding keeps_def by (elim impE) (auto elim!: rg_post simp: inv_with_def)
qed

lemma keeps_seq:
  assumes "keeps E F m (\<lambda>_ _. True)" and "\<And>x. keeps E F (f x) Q"
  shows "keeps E F (bindP m f) Q"
  using assms by (intro keeps_bind [where M = "\<lambda>_ _. True"]) simp_all

lemma keeps_outcome:
  assumes "\<And>x. r = Ok x \<Longrightarrow> keeps E F (f x) Q"
  shows "keeps E F (case r of Ok x \<Rightarrow> f x | Err e \<Rightarrow> Done (Err e) | Panic m \<Rightarrow> Done (Panic m)) Q"
  using assms by (cases r) (auto intro: keeps_Done)

lemma keeps_pure: "(b \<Longrightarrow> keeps E F p Q) \<Longrightarrow> keeps E (\<lambda>w. F w \<and> b) p Q"
  by (cases b) (auto simp: keeps_def inv_with_def intro: rg_pre [OF rg_False])

lemma keeps_attempt:
  assumes "keeps E F m M"
  shows "keeps E F (attempt m) (\<lambda>r w. case r of Inl _ \<Rightarrow> True | Inr x \<Rightarrow> M x w)"
  using assms unfolding keeps_def
  by (intro impI rg_attempt, elim impE) (auto elim!: rg_post split: outcome.splits)

lemma keeps_foreach:
  assumes "\<And>x. keeps E F (f x) (\<lambda>_ _. True)"
  shows "keeps E F (foreach xs f) (\<lambda>_ _. True)"
  by (induction xs) (auto intro: keeps_okP keeps_seq assms)

section \<open>The elementary actions\<close>

lemma keeps_clock_read: "keeps E F (clock_read E) (\<lambda>_ _. True)"
  and keeps_new_uuid: "keeps E F (new_uuid E) (\<lambda>_ _. True)"
  and keeps_random_bytes: "keeps E F (random_bytes E n) (\<lambda>bs _. length bs = n)"
  and keeps_post_json: "keeps E F (post_json E url b) (\<lambda>_ _. True)"
  and keeps_new_client: "keeps E F (new_client E) (\<lambda>_ _. True)"
  unfolding clock_read_def new_uuid_def random_bytes_def post_json_def new_client_def
  by (rule keeps_act; auto split: if_splits)+

lemma keeps_unix_now: "keeps E F (unix_now E) (\<lambda>_ _. True)"
  unfolding unix_now_def
  by (rule keeps_seq [OF keeps_clock_read]) (auto intro: keeps_okP keeps_panicP split: option.splits)

lemma keeps_sql:
  assumes "\<And>w x w'. world_inv E w \<Longrightarrow> F w \<Longrightarrow> stmt w = Inr (x, w') \<Longrightarrow> guar E w w' \<and> Q x w'"
    and "\<And>x. stable (guar E) (Q x)"
  shows "keeps E F (sql E stmt) Q"
proof -
  have "keeps E F (sql E stmt) Q" if F: "stable (guar E) F"
    unfolding sql_def
  proof (rule keeps_act [OF _ assms(2)])
    fix w r w'
    assume w: "world_inv E w" "F w"
      and r: "(let w1 = tick_sql w in case sqlx_fault E (sql_stmts w) of
           Some e \<Rightarrow> (Err (Database e), w1)
         | None \<Rightarrow> (case stmt w1 of Inl e \<Rightarrow> (Err (Database e), w1) | Inr (x, w2) \<Rightarrow> (Ok x, w2))) = (r, w')"
    have "guar E w (tick_sql w)" by (rule guar_ambient)
    with F w have "F (tick_sql w)" unfolding stable_def by blast
    with w r assms(1) [of "tick_sql w"] show "guar E w w' \<and> (\<forall>x. r = Ok x \<longrightarrow> Q x w')"
      by (auto simp: Let_def split: option.splits sum.splits)
  qed
  then show ?thesis by (simp add: keeps_def)
qed

end
