(* ===== verification/System.thy ===== *)
theory System
  imports Main_Program Invariant
begin

text \<open>
  The whole server as an interleaved system: its tasks are the HTTP handlers for any request,
  the broker hook for any event, and the purge ticks.  Every task is shown to respect the
  guarantee of \<open>Invariant\<close>, operation by operation; the interpretation of \<open>rg_system\<close> then gives
  the invariant in every reachable state, whatever the interleaving of the atomic actions.
\<close>

datatype task_result = HttpDone response | HookDone hook_return | PurgeDone

definition tasks :: "ext \<Rightarrow> app_state \<Rightarrow> (world, error, task_result) prog set" where
  "tasks E A =
     {mapP HttpDone (route E A req) | req. True} \<union>
     {mapP HookDone (hook E A param acc) | param acc. True} \<union>
     {mapP (\<lambda>_. PurgeDone) (purge_tick E)}"

section \<open>Database operations keep the invariant\<close>

lemma world_invD:
  assumes "world_inv E w"
  shows "pk u_user_id (users w)" and "pk x_exchange_id (pending_exchanges w)"
    and "\<And>d. d \<in> set (devices w) \<Longrightarrow> device_ok E w d"
    and "\<And>r. r \<in> set (relationships w) \<Longrightarrow> relationship_ok E w r"
    and "\<And>x. x \<in> set (pending_exchanges w) \<Longrightarrow> exchange_ok w x"
    and "\<And>t. t \<in> set (registration_tokens w) \<Longrightarrow> token_ok t"
    and "\<And>cid cl. sessions w cid = Some cl \<Longrightarrow> session_ok w cid cl"
  using assms by (auto simp: world_inv_def keys_unique_def)

lemma keeps_get_user: "keeps E F (get_user E uid) (\<lambda>_. user_exists uid)"
  unfolding get_user_def
  by (rule keeps_bind [where M = "\<lambda>v w. v \<noteq> None \<longrightarrow> user_exists uid w"])
    (auto intro!: keeps_sql keeps_ok_or simp: user_exists_def stable_def guar_def
      dest!: select_one_SomeD)

lemma keeps_create_user: "keeps E F (create_user E) (\<lambda>u. user_exists (u_user_id u))"
  unfolding create_user_def Let_def
  apply (rule keeps_seq [OF keeps_new_uuid], rule keeps_seq [OF keeps_unix_now])
  subgoal for uid secs
    by (rule keeps_bind [where M = "\<lambda>_. user_exists uid"])
      (auto intro!: keeps_sql keeps_okP guar_users_insert
        simp: bindS_Inr_iff user_exists_insert dest: world_invD(1))
  done

lemma keeps_invalidate_tokens: "keeps E F (invalidate_tokens E uid) (\<lambda>_ _. True)"
  unfolding invalidate_tokens_def Let_def
  by (rule keeps_seq [OF keeps_unix_now])
    (auto intro!: keeps_sql guar_users_update dest: world_invD(1))

lemma keeps_set_suspended: "keeps E F (set_suspended E uid b reason) (\<lambda>_ _. True)"
  unfolding set_suspended_def
  by (rule keeps_seq)
    (auto intro!: keeps_sql keeps_okP keeps_errP guar_users_update dest: world_invD(1))

lemma keeps_create_device:
  assumes "length key = 32" and "ed25519_key E key"
  shows "keeps E F (create_device E uid key) (\<lambda>_ _. True)"
  unfolding create_device_def Let_def
  by (intro keeps_seq [OF keeps_new_uuid] keeps_seq [OF keeps_unix_now] keeps_seq keeps_sql)
    (auto intro!: keeps_okP guar_devices_insert simp: bindS_Inr_iff device_ok_def assms)

lemma keeps_get_device_by_user:
  "keeps E F (get_device_by_user E uid)
     (\<lambda>ds _. \<forall>d \<in> set ds. length (d_pubkey d) = 32 \<and> ed25519_key E (d_pubkey d))"
  unfolding get_device_by_user_def
  by (rule keeps_sql) (auto dest: world_invD(3) simp: device_ok_def)

lemma keeps_create_relationship: "keeps E F (create_relationship E uid pid ps ss) (\<lambda>_ _. True)"
proof -
  have ins: "keeps E F (bindP (sql E (\<lambda>w. references_user uid w (bindS (insert_row r_relationship_id row (relationships w))
      (\<lambda>t. Inr ((), w\<lparr>relationships := t\<rparr>))))) (\<lambda>_. okP row)) (\<lambda>_ _. True)"
    if "Inr (r_publish_topics row) \<in> range (json_vec E)" "Inr (r_subscribe_topics row) \<in> range (json_vec E)"
      "r_user_id row = uid" for row F
    using that
    by (intro keeps_seq keeps_sql)
      (auto intro!: keeps_okP guar_relationships_insert simp: bindS_Inr_iff relationship_ok_def)
  have j: "json_vec E ts = Inr s \<Longrightarrow> Inr s \<in> range (json_vec E)" for ts s by (metis rangeI)
  show ?thesis
    unfolding create_relationship_def Let_def
    by (intro keeps_seq [OF keeps_new_uuid] keeps_seq [OF keeps_unix_now],
        cases "json_vec E ps"; cases "json_vec E ss") (auto intro!: keeps_Done ins dest: j)
qed

lemma keeps_list_relationships: "keeps E F (list_relationships E uid) (\<lambda>_ _. True)"
  unfolding list_relationships_def by (rule keeps_sql) auto

lemma keeps_user_topics: "keeps E F (user_topics E uid) (\<lambda>_ _. True)"
  unfolding user_topics_def by (intro keeps_seq [OF keeps_list_relationships] keeps_okP) simp

lemma keeps_get_relationship: "keeps E F (get_relationship E uid rid) (\<lambda>_ _. True)"
  unfolding get_relationship_def by (rule keeps_seq) (auto intro!: keeps_sql keeps_ok_or)

lemma keeps_delete_relationship: "keeps E F (delete_relationship E uid rid) (\<lambda>_ _. True)"
  unfolding delete_relationship_def Let_def
  by (rule keeps_seq)
    (auto intro!: keeps_sql keeps_okP keeps_errP guar_relationships_delete)

lemma keeps_create_exchange:
  assumes "length key = 32" and "\<And>w. F w \<Longrightarrow> user_exists rid w"
  shows "keeps E F (create_exchange E iid rid key) (\<lambda>_ _. True)"
  unfolding create_exchange_def Let_def
  by (intro keeps_seq [OF keeps_new_uuid] keeps_seq [OF keeps_unix_now] keeps_seq keeps_sql
      keeps_Done)
    (auto intro!: keeps_okP guar_exchanges_insert simp: bindS_Inr_iff exchange_ok_def assms)

lemma keeps_get_exchange: "keeps E F (get_exchange E xid) (\<lambda>_ _. True)"
  unfolding get_exchange_def by (rule keeps_seq) (auto intro!: keeps_sql keeps_ok_or)

lemma keeps_set_responder_pubkey:
  "length key = 32 \<Longrightarrow> keeps E F (set_responder_pubkey E xid key) (\<lambda>_ _. True)"
  unfolding set_responder_pubkey_def
  by (rule keeps_seq)
    (auto intro!: keeps_sql keeps_okP keeps_errP guar_exchanges_respond)

lemma keeps_delete_exchange: "keeps E F (delete_exchange E xid) (\<lambda>_ _. True)"
  unfolding delete_exchange_def by (rule keeps_sql) (auto intro: guar_exchanges_delete)

lemma keeps_purge_expired_exchanges: "keeps E F (purge_expired_exchanges E) (\<lambda>_ _. True)"
  unfolding purge_expired_exchanges_def Let_def
  by (intro keeps_seq [OF keeps_unix_now] keeps_sql) (auto intro: guar_exchanges_delete)

lemma keeps_create_registration_token:
  "keeps E F (create_registration_token E h ttl n) (\<lambda>_ _. True)"
  unfolding create_registration_token_def Let_def
  by (intro keeps_seq [OF keeps_new_uuid] keeps_seq [OF keeps_unix_now] keeps_seq keeps_sql
      keeps_Done)
    (auto intro!: keeps_okP guar_tokens_insert simp: bindS_Inr_iff token_ok_def)

lemma keeps_consume_registration_token:
  "keeps E F (consume_registration_token E h) (\<lambda>_ _. True)"
  unfolding consume_registration_token_def Let_def
  by (intro keeps_seq [OF keeps_unix_now] keeps_seq keeps_sql)
    (auto intro: guar_tokens_consume keeps_okP keeps_errP)

lemmas keeps_db =
  keeps_invalidate_tokens keeps_set_suspended keeps_create_relationship keeps_list_relationships
  keeps_user_topics keeps_get_relationship keeps_delete_relationship keeps_get_exchange
  keeps_delete_exchange keeps_purge_expired_exchanges keeps_create_registration_token
  keeps_consume_registration_token

section \<open>The handlers keep the invariant\<close>

lemma keeps_jwt_verify: "keeps E F (jwt_verify E keys token) (\<lambda>_ _. True)"
  unfolding jwt_verify_def by (intro keeps_seq [OF keeps_unix_now] keeps_ok_or) simp

lemma keeps_issue: "keeps E F (issue E keys u d ttl ps ss n) (\<lambda>_ _. True)"
  unfolding issue_def Let_def
  by (intro keeps_seq [OF keeps_unix_now] keeps_seq keeps_Done)
    (auto intro: keeps_okP keeps_errP split: sum.splits)

lemma keeps_publish_system: "keeps E F (publish_system A topic payload) (\<lambda>_ _. True)"
  unfolding publish_system_def Let_def by (rule keeps_act) auto

lemma keeps_kick_user: "keeps E F (kick_user E A uid) (\<lambda>_ _. True)"
  unfolding kick_user_def
  apply (rule keeps_seq [OF keeps_True [OF keeps_attempt [OF keeps_invalidate_tokens]]])
  apply (rule keeps_seq [OF keeps_True [OF keeps_attempt [OF keeps_get_device_by_user]]])
  by (auto intro!: keeps_okP keeps_foreach keeps_act simp: kick_device_def split: sum.splits)

lemma keeps_auth_user: "keeps E F (auth_user E A h) (\<lambda>_ _. True)"
  unfolding auth_user_def Let_def
  by (auto intro!: keeps_errP keeps_okP keeps_outcome keeps_seq [OF keeps_jwt_verify]
      simp del: str_from_prefix)

lemma keeps_check_policy: "keeps E F (check_policy E A req) (\<lambda>_ _. True)"
  unfolding check_policy_def validate_via_hook_def Let_def
  by (auto intro!: keeps_errP keeps_okP keeps_consume_registration_token keeps_outcome
      keeps_seq [OF keeps_new_client] keeps_seq [OF keeps_post_json]
      split: registration_mode.splits option.splits policy_kind.splits sum.splits bool.splits)

lemma keeps_register: "keeps E F (register E A req) (\<lambda>_ _. True)"
  unfolding register_def
  apply (rule keeps_seq [OF keeps_check_policy], rule keeps_seq [OF keeps_Done], simp)
  subgoal for u pubkey
    by (cases "length pubkey = 32"; cases "ed25519_key E pubkey")
      (auto intro!: keeps_errP keeps_okP keeps_seq [OF keeps_True [OF keeps_create_user]]
        keeps_seq [OF keeps_create_device] simp: array32_unwrap_def)
  done

lemma keeps_challenge: "keeps E F (challenge E uid) (\<lambda>_ _. True)"
  unfolding challenge_def dm_insert_def
  apply (rule keeps_bind [OF keeps_get_user], simp)
  apply (rule keeps_bind [OF keeps_random_bytes], simp, rule keeps_pure)
  apply (rule keeps_seq [OF keeps_unix_now], rule keeps_seq [OF keeps_Done], simp)
  by (intro keeps_seq keeps_act keeps_okP)
    (auto intro!: guar_challenges simp: challenge_ok_def split: if_splits)

lemma keeps_verify: "keeps E F (verify E A req) (\<lambda>_ _. True)"
proof -
  have rm: "keeps E F (challenges_remove uid) (\<lambda>_ _. True)" for F uid
    unfolding dm_remove_def
    by (rule keeps_act) (auto intro!: guar_challenges split: if_splits)
  show ?thesis
    unfolding verify_def Let_def
    by (intro keeps_seq [OF rm] keeps_seq [OF keeps_ok_or])
      (auto intro!: keeps_seq [OF keeps_unix_now] keeps_errP
        keeps_seq [OF keeps_True [OF keeps_get_user]]
        keeps_seq [OF keeps_True [OF keeps_get_device_by_user]] keeps_outcome
        keeps_seq [OF keeps_user_topics] keeps_issue)
qed

lemma keeps_initiate: "keeps E F (initiate E A h req) (\<lambda>_ _. True)"
  unfolding initiate_def initiate_body_def
  apply (rule keeps_seq [OF keeps_auth_user])
  apply (rule keeps_bind [OF keeps_get_user], simp, rule keeps_seq [OF keeps_Done], simp)
  by (auto intro!: keeps_errP keeps_okP keeps_outcome keeps_seq [OF keeps_create_exchange]
      keeps_seq [OF keeps_publish_system])

lemma keeps_exchange_get: "keeps E F (exchange_get E A h xid) (\<lambda>_ _. True)"
  unfolding exchange_get_def exchange_get_body_def Let_def
  by (intro keeps_seq [OF keeps_auth_user] keeps_seq [OF keeps_get_exchange])
    (auto intro!: keeps_errP keeps_okP
      keeps_seq [OF keeps_True [OF keeps_attempt [OF keeps_delete_exchange]]])

lemma keeps_respond: "keeps E F (respond E A h xid key) (\<lambda>_ _. True)"
  unfolding respond_def respond_body_def
  by (intro keeps_seq [OF keeps_auth_user] keeps_seq [OF keeps_get_exchange])
    (auto intro!: keeps_errP keeps_okP keeps_outcome
      keeps_seq [OF keeps_set_responder_pubkey] keeps_seq [OF keeps_publish_system])

lemma keeps_relationships:
  "keeps E F (create E A h creq) (\<lambda>_ _. True)"
  "keeps E F (list_handler E A h) (\<lambda>_ _. True)"
  "keeps E F (revoke E A h rid) (\<lambda>_ _. True)"
  unfolding create_def create_body_def list_handler_def list_body_def revoke_def revoke_body_def
  by (intro keeps_seq [OF keeps_auth_user] keeps_seq [OF keeps_db(3)] keeps_seq [OF keeps_db(4)]
      keeps_seq [OF keeps_db(6)] keeps_seq [OF keeps_db(7)] keeps_seq [OF keeps_kick_user]
      keeps_okP; simp)+

lemma keeps_admin:
  "keeps E F (admin_create_token E A h treq) (\<lambda>_ _. True)"
  "keeps E F (suspend_user E A h uid reason) (\<lambda>_ _. True)"
  "keeps E F (unsuspend_user E A h uid) (\<lambda>_ _. True)"
  unfolding admin_create_token_def create_token_body_def suspend_user_def suspend_body_def
    unsuspend_user_def unsuspend_body_def Let_def
  by (intro keeps_seq [OF keeps_Done] keeps_seq [OF keeps_True [OF keeps_random_bytes]]
      keeps_seq [OF keeps_create_registration_token] keeps_seq [OF keeps_set_suspended]
      keeps_seq [OF keeps_kick_user] keeps_okP; simp)+

lemma keeps_authenticate: "keeps E F (authenticate E A info acc) (\<lambda>_ _. True)"
proof -
  have ins: "keeps E (\<lambda>w. F w \<and> user_exists (c_sub cl) w) (sessions_insert (c_dev cl) cl) (\<lambda>_ _. True)"
    for F and cl
    unfolding dm_insert_def
    by (rule keeps_act) (auto intro!: guar_sessions simp: session_ok_def split: if_splits)
  have usr: "keeps E F (bindP (attempt (get_user E (c_sub cl))) f) (\<lambda>_ _. True)"
    if "\<And>e. keeps E F (f (Inl e)) (\<lambda>_ _. True)"
      and "\<And>u. keeps E (\<lambda>w. F w \<and> user_exists (c_sub cl) w) (f (Inr u)) (\<lambda>_ _. True)" for F cl and f
    by (rule keeps_bind [OF keeps_attempt [OF keeps_get_user]]; rename_tac r; case_tac r) (simp_all add: that)
  show ?thesis
    unfolding authenticate_def
    by (auto intro!: keeps_okP keeps_seq [OF keeps_True [OF keeps_attempt [OF keeps_jwt_verify]]]
        usr keeps_seq [OF ins] split: option.splits sum.splits)
qed

lemma keeps_hook: "keeps E F (hook E A param acc) (\<lambda>_ _. True)"
proof -
  have rm: "keeps E F (sessions_remove cid) (\<lambda>_ _. True)" for F cid
    unfolding dm_remove_def by (rule keeps_act) (auto intro!: guar_sessions split: if_splits)
  have get: "keeps E F (sessions_get cid) (\<lambda>_ _. True)" for F cid
    unfolding dm_get_def by (rule keeps_act) auto
  show ?thesis
    unfolding hook_def check_subscribe_acl_def Let_def
    by (auto intro!: keeps_authenticate keeps_okP keeps_seq [OF rm] keeps_seq [OF get]
        split: parameter.splits)
qed

lemma keeps_mapP: "keeps E F m (\<lambda>_ _. True) \<Longrightarrow> keeps E F (mapP f m) (\<lambda>_ _. True)"
  unfolding mapP_def by (erule keeps_seq) (auto intro: keeps_okP)

lemma keeps_route: "keeps E F (route E A req) (\<lambda>_ _. True)"
  by (cases req)
    (simp_all add: keeps_mapP keeps_register keeps_challenge keeps_verify keeps_initiate
      keeps_exchange_get keeps_respond keeps_relationships keeps_admin)

lemma keeps_purge_tick: "keeps E F (purge_tick E) (\<lambda>_ _. True)"
  unfolding purge_tick_def
  by (rule keeps_seq [OF keeps_True [OF keeps_attempt [OF keeps_purge_expired_exchanges]]])
    (auto intro: keeps_okP)

lemma keeps_tasks: "p \<in> tasks E A \<Longrightarrow> keeps E F p (\<lambda>_ _. True)"
  by (auto simp: tasks_def intro!: keeps_mapP keeps_route keeps_hook keeps_purge_tick)

section \<open>The system\<close>

interpretation server: rg_system "tasks E A" "world_inv E" "guar E" "\<lambda>_ _. True"
  for E A
proof
  fix p :: "(world, error, task_result) prog" assume "p \<in> tasks E A"
  then have "keeps E (\<lambda>_. True) p (\<lambda>_ _. True)" by (rule keeps_tasks)
  then have "rg (guar E) (inv_with E (\<lambda>_. True)) p
      (\<lambda>r w. inv_with E (\<lambda>_. True) w \<and> (\<forall>x. r = Ok x \<longrightarrow> True))"
    by (simp add: keeps_def)
  then show "rg (guar E) (world_inv E) p (\<lambda>_ _. True)"
    by (rule rg_weaken) (simp_all add: inv_with_def)
qed simp_all

lemma empty_world_inv: "world_inv E empty_world"
  by (simp add: world_inv_def keys_unique_def empty_world_def)

section \<open>Properties of every interleaving\<close>

text \<open>Property C1. Starting from a well-formed state, every state the server can reach is
  well-formed, for any requests, broker events and purge ticks and any interleaving of their
  atomic actions: primary keys are unique, every row refers to an existing user, device keys
  are valid 32-byte Ed25519 keys, exchange keys have 32 bytes, stored topic lists are JSON,
  sessions belong to the device in their claims, and no registration token was used too often.\<close>

theorem reachable_world_inv:
  assumes "reaches (tasks E A) ([], w) (ts, w')" and "world_inv E w"
  shows "world_inv E w'"
  using assms by (rule server.invariant_reachable)

lemma ex_world_inv: "world_inv ex_ext ex_world"
  by (simp add: world_inv_def keys_unique_def pk_def device_ok_def user_exists_def ex_defs)

theorem reachable_world_inv_witness:
  "\<exists>v w'. reaches (tasks ex_ext ex_app) ([], ex_world) ([Done (Ok (HttpDone (RegisterResp v)))], w') \<and>
     world_inv ex_ext w'"
proof -
  obtain v w' where "run (register ex_ext ex_app ex_register) ex_world = (Ok v, w')"
    using register_ex by blast
  then have p: "run (mapP HttpDone (route ex_ext ex_app (Register ex_register))) ex_world =
      (Ok (HttpDone (RegisterResp v)), w')"
    by (simp add: run_mapP)
  have "mapP HttpDone (route ex_ext ex_app (Register ex_register)) \<in> tasks ex_ext ex_app"
    unfolding tasks_def by blast
  note r = reaches_task [OF this p, of "[]"]
  from reachable_world_inv [OF r ex_world_inv] r show ?thesis by auto
qed

section \<open>No task panics\<close>

text \<open>
  The panics the code can run into: a clock before the epoch, an addition that overflows in a build
  with overflow checks, the unwrapped conversion of a public key and the slice of the bearer token,
  which are guarded, and the failures of libraries that are documented not to occur (an HMAC key
  that is refused, a list of strings that cannot be serialized) or to panic (no random bytes, an
  HTTP client that cannot be set up).
\<close>

definition panic_free :: "ext \<Rightarrow> bool" where
  "panic_free E \<longleftrightarrow> clock_ok E \<and> \<not> overflow_checks E \<and> entropy_ok E \<and> hmac_law E \<and> json_total E \<and>
     client_ok E"

lemma panic_freeD:
  assumes "panic_free E"
  shows "clock_ok E" "\<not> overflow_checks E" "entropy_ok E" "hmac_law E" "json_total E" "client_ok E"
  using assms by (simp_all add: panic_free_def)

lemma calm_unix_now: "panic_free E \<Longrightarrow> calm (unix_now E)"
  unfolding unix_now_def clock_read_def act_def by (simp add: calm_Atomic_iff panic_freeD)

lemma calm_panics:
  assumes "panic_free E"
  shows "calm (new_uuid E)" "calm (random_bytes E n)" "calm (new_client E)"
  unfolding new_uuid_def random_bytes_def new_client_def
  by (rule calm_act; use panic_freeD [OF assms] in \<open>simp add: client_ok_def\<close>)+

lemma calm_oracles:
  "calm (post_json E url b)" "calm (sql E stmt)"
  "calm (dm_insert g p k v)" "calm (dm_remove g p k)" "calm (dm_get g k)"
  "calm (publish_system A t pl)" "calm (kick_device A d)"
  unfolding post_json_def sql_def dm_insert_def dm_remove_def dm_get_def
    publish_system_def kick_device_def Let_def
  by (auto intro!: calm_act split: option.splits sum.splits)

lemma not_panic_laws:
  assumes "panic_free E"
  shows "\<not> is_panic (notify_topic E A uid)" "\<not> is_panic (register_token_hash E tok)"
    "\<not> is_panic (admin_token_hash E tok)" "\<not> is_panic (unwrap (json_vec E ts))"
proof -
  obtain t where "notify_topic E A uid = Ok t" using notify_topic_total panic_freeD(4) [OF assms] by blast
  then show "\<not> is_panic (notify_topic E A uid)" by simp
  obtain mac where "hmac_new E (as_bytes ''smqtt-token-hash'') = Some mac"
    using panic_freeD(4) [OF assms] unfolding hmac_law_def by blast
  then show "\<not> is_panic (register_token_hash E tok)" "\<not> is_panic (admin_token_hash E tok)"
    by (simp_all add: register_token_hash_def admin_token_hash_def)
  obtain s where "json_vec E ts = Inr s" using panic_freeD(5) [OF assms] unfolding json_total_def by blast
  then show "\<not> is_panic (unwrap (json_vec E ts))" by simp
qed

lemma calm_prod [intro]: "(\<And>a b. calm (f a b)) \<Longrightarrow> calm (case p of (a, b) \<Rightarrow> f a b)"
  by (cases p) simp

lemma calm_bind_outcome:
  "\<not> is_panic r \<Longrightarrow> (\<And>x. r = Ok x \<Longrightarrow> calm (f x)) \<Longrightarrow> calm (case r of Ok x \<Rightarrow> f x | Err e \<Rightarrow> Done (Err e) | Panic m \<Rightarrow> Done (Panic m))"
  by (cases r) auto

lemma is_panic_simps [simp]: "\<not> is_panic (b64_decode E s)" "\<not> is_panic (check_signature E ds req n)"
  "\<not> is_panic (require_admin_key E h k)" "\<not> is_panic (add_u64 False a b)"
  by (auto simp: is_panic_def b64_decode_def require_admin_key_def Let_def split: sum.splits)

lemmas calm_rules = calm_bindP calm_attempt calm_foreach calm_prod calm_bind_outcome calm_okP calm_errP calm_ok_or
  calm_unix_now calm_panics calm_oracles not_panic_laws

lemma calm_db:
  assumes "panic_free E"
  shows "calm (create_user E)" "calm (get_user E uid)" "calm (invalidate_tokens E uid)"
    "calm (set_suspended E uid b reason)" "calm (create_device E uid key)" "calm (get_device_by_user E uid)"
    "calm (create_relationship E uid pid ps ss)" "calm (list_relationships E uid)"
    "calm (get_relationship E uid rid)" "calm (delete_relationship E uid rid)" "calm (user_topics E uid)"
    "calm (create_exchange E iid rid key)" "calm (get_exchange E xid)"
    "calm (set_responder_pubkey E xid key)" "calm (delete_exchange E xid)"
    "calm (purge_expired_exchanges E)" "calm (create_registration_token E h n m)"
    "calm (consume_registration_token E h)"
  using panic_freeD(2) [OF assms]
  unfolding create_user_def get_user_def invalidate_tokens_def set_suspended_def create_device_def
    get_device_by_user_def create_relationship_def list_relationships_def get_relationship_def
    delete_relationship_def user_topics_def create_exchange_def get_exchange_def
    set_responder_pubkey_def delete_exchange_def purge_expired_exchanges_def
    create_registration_token_def consume_registration_token_def Let_def
  by (auto intro!: calm_rules assms)

lemma calm_jwt:
  assumes "panic_free E"
  shows "calm (jwt_verify E keys token)" "calm (issue E keys u d ttl ps ss n)"
    "calm (auth_user E A h)" "calm (kick_user E A uid)"
  using panic_freeD(2) [OF assms] unfolding jwt_verify_def issue_def auth_user_def kick_user_def Let_def
  by (auto intro!: calm_rules calm_db assms split: sum.splits)

lemma calm_public:
  assumes "panic_free E"
  shows "calm (register E A req)" "calm (challenge E uid)" "calm (verify E A vreq)"
  using panic_freeD(2) [OF assms]
  unfolding register_def check_policy_def validate_via_hook_def array32_unwrap_def
    challenge_def verify_def Let_def
  by (auto intro!: calm_rules calm_db calm_jwt assms
      split: registration_mode.splits option.splits policy_kind.splits sum.splits bool.splits)

lemma calm_guarded:
  assumes "panic_free E"
  shows "calm (initiate E A h ireq)" "calm (exchange_get E A h xid)" "calm (respond E A h xid key)"
    "calm (create E A h creq)" "calm (list_handler E A h)" "calm (revoke E A h rid)"
    "calm (admin_create_token E A h treq)" "calm (suspend_user E A h uid reason)"
    "calm (unsuspend_user E A h uid)"
  using panic_freeD(2) [OF assms]
  unfolding initiate_def initiate_body_def exchange_get_def exchange_get_body_def respond_def
    respond_body_def create_def create_body_def list_handler_def list_body_def revoke_def
    revoke_body_def admin_create_token_def create_token_body_def suspend_user_def suspend_body_def
    unsuspend_user_def unsuspend_body_def Let_def
  by (auto intro!: calm_rules calm_db calm_jwt assms)

lemma calm_hook:
  assumes "panic_free E"
  shows "calm (hook E A param acc)"
  using panic_freeD(2) [OF assms] unfolding hook_def authenticate_def check_subscribe_acl_def Let_def
  by (auto intro!: calm_rules calm_db calm_jwt assms
      split: parameter.splits option.splits sum.splits)

lemma calm_tasks:
  assumes "panic_free E" and "p \<in> tasks E A"
  shows "calm p"
proof -
  have m: "calm (mapP f q)" if "calm q" for f and q :: "(world, error, 'x) prog"
    unfolding mapP_def by (intro calm_bindP that calm_okP)
  have "calm (route E A req)" for req
    by (cases req) (simp_all add: m calm_public [OF assms(1)] calm_guarded [OF assms(1)])
  moreover have "calm (purge_tick E)"
    unfolding purge_tick_def by (intro calm_bindP calm_attempt calm_db assms calm_okP)
  ultimately show ?thesis
    using assms(2) by (auto simp: tasks_def intro!: m calm_hook [OF assms(1)])
qed

text \<open>Property C13. No request, broker event or purge tick ever ends in a panic, whatever the
  interleaving, the requests and the database statements that fail, provided that the build has
  no overflow checks (the release profile), the clock is past the epoch, the operating system
  delivers random bytes, the HTTP client can be set up, and two libraries keep what they
  document: HMAC accepts a key of any length and a list of strings can be serialized to JSON.
  The public key conversion, the bearer token slice and all other expressions that could panic
  are shown not to.\<close>

theorem no_task_panics:
  assumes "clock_ok E" and "\<not> overflow_checks E" and "entropy_ok E" and "client_ok E"
    and "hmac_law E" and "json_total E"
    and "reaches (tasks E A) ([], w) (ts, w')" and "Done r \<in> set ts"
  shows "\<not> is_panic r"
proof -
  have "panic_free E" using assms(1-6) by (simp add: panic_free_def)
  then have "\<forall>p \<in> set (fst (ts, w')). calm p"
    using calm_reaches [OF assms(7)] calm_tasks by blast
  with assms(8) show ?thesis by auto
qed

theorem no_task_panics_witness:
  "\<exists>w'. reaches (tasks ex_ext ex_app) ([], ex_world) ([Done (Ok PurgeDone)], w') \<and>
     \<not> is_panic (Ok PurgeDone :: (error, task_result) outcome)"
proof -
  let ?p = "mapP (\<lambda>_. PurgeDone) (purge_tick ex_ext)"
  have "?p \<in> tasks ex_ext ex_app" by (simp add: tasks_def)
  then have s: "reaches (tasks ex_ext ex_app) ([], ex_world) ([] @ [?p], ex_world)"
    by (rule reaches_spawn [OF reaches.Refl])
  obtain w' where "run ?p ex_world = (Ok PurgeDone, w')" by (simp add: purge_tick_def exec)
  from reaches_finish [OF this, of 0 "[?p]"]
  have "reaches (tasks ex_ext ex_app) ([?p], ex_world) ([Done (Ok PurgeDone)], w')"
    by (simp add: okP_def)
  with s have r: "reaches (tasks ex_ext ex_app) ([], ex_world) ([Done (Ok PurgeDone)], w')"
    by (auto intro: reaches_trans)
  with no_task_panics [OF ex_laws(4) _ ex_laws(9,8,6,7) r] show ?thesis by auto
qed

section \<open>What no step undoes\<close>

text \<open>Property C12. No step of the running server removes a user or a device or changes a device, none
  changes the parties, the initiator's key or the expiry of an exchange that stays, and a
  registration token keeps its hash and its limits while its use count only grows and never
  exceeds the allowed number of uses.\<close>

theorem step_guarantee:
  assumes "reaches (tasks E A) ([], w0) (ts, w)" and "world_inv E w0"
    and "sys_step (tasks E A) (ts, w) (ts', w')"
  shows "set (devices w) \<subseteq> set (devices w') \<and>
     (\<forall>uid. find_user w uid \<noteq> None \<longrightarrow> find_user w' uid \<noteq> None) \<and>
     (\<forall>xid x x'. find_exchange w xid = Some x \<longrightarrow> find_exchange w' xid = Some x' \<longrightarrow> same_exchange x x') \<and>
     (\<forall>t \<in> set (registration_tokens w). \<exists>t' \<in> set (registration_tokens w').
        token_grows t t' \<and> (t_uses t' = 0 \<or> t_uses t' \<le> t_max_uses t))"
proof -
  have inv: "world_inv E w" by (rule server.invariant_reachable [OF assms(1,2)])
  have g: "guar E w w'" by (rule server.guarantee_step [OF assms])
  then have inv': "world_inv E w'" and "exchanges_kept w w'" and tk: "tokens_kept w w'"
    and "set (devices w) \<subseteq> set (devices w')" "\<forall>uid. user_exists uid w \<longrightarrow> user_exists uid w'"
    using inv by (auto simp: guar_def)
  moreover have "\<exists>t' \<in> set (registration_tokens w').
      token_grows t t' \<and> (t_uses t' = 0 \<or> t_uses t' \<le> t_max_uses t)"
    if t: "t \<in> set (registration_tokens w)" for t
  proof -
    obtain t' where "t' \<in> set (registration_tokens w')" "token_grows t t'"
      using tk t unfolding tokens_kept_def by blast
    moreover then have "token_ok t'" using world_invD(6) [OF inv'] by blast
    ultimately show ?thesis by (auto simp: token_grows_def token_ok_def)
  qed
  moreover have "same_exchange x x'"
    if "find_exchange w xid = Some x" "find_exchange w' xid = Some x'" for xid x x'
    using that [THEN row_map_SomeD] calculation(2) unfolding exchanges_kept_def by metis
  ultimately show ?thesis unfolding user_exists_find by blast
qed

definition ex_connected :: world where
  "ex_connected = ex_world\<lparr>sessions := [''phone'' \<mapsto> ex_claims]\<rparr>"

lemma ex_connected_inv: "world_inv ex_ext ex_connected"
  using ex_world_inv
  by (simp add: world_inv_def keys_unique_def ex_connected_def session_ok_def user_exists_find ex_claims_def)

theorem step_guarantee_witness:
  "\<exists>ts p w'. reaches (tasks ex_ext ex_app) ([], ex_connected) (ts, ex_connected) \<and>
     sys_step (tasks ex_ext ex_app) (ts, ex_connected) ([p], w') \<and>
     sessions w' = Map.empty \<and> set (devices ex_connected) \<subseteq> set (devices w')"
proof -
  let ?p = "mapP HookDone (hook ex_ext ex_app (ClientDisconnected ''phone'' ''bye'') None)"
  have "?p \<in> tasks ex_ext ex_app" unfolding tasks_def by blast
  then have r: "reaches (tasks ex_ext ex_app) ([], ex_connected) ([] @ [?p], ex_connected)"
    by (rule reaches_spawn [OF reaches.Refl])
  obtain g where g: "?p = Atomic g" "snd (g ex_connected) = ex_connected\<lparr>sessions := (sessions ex_connected)(''phone'' := None)\<rparr>"
    by (simp add: hook_def mapP_def dm_remove_def act_def)
  have s: "sys_step (tasks ex_ext ex_app) ([] @ [?p], ex_connected)
      (([] @ [?p])[0 := fst (g ex_connected)], snd (g ex_connected))"
    by (rule sys_step.Exec [where g = g]) (simp_all add: g(1))
  from step_guarantee [OF r ex_connected_inv s] have "set (devices ex_connected) \<subseteq> set (devices (snd (g ex_connected)))"
    by blast
  moreover have "sessions (snd (g ex_connected)) = Map.empty" unfolding g(2) by (simp add: ex_connected_def)
  ultimately show ?thesis using r s by auto
qed

section \<open>Stored keys\<close>

lemma check_signature_no_internal:
  assumes "\<forall>d \<in> set ds. length (d_pubkey d) = 32 \<and> ed25519_key E (d_pubkey d)"
  shows "check_signature E ds req nonce \<noteq> Err (Internal m)"
  using assms
  by (auto simp: check_signature_def to_array_def b64_decode_def find_Some_iff
      split: option.splits outcome.splits sum.splits dest!: nth_mem)

text \<open>Property C18. The internal error for an invalid stored key is unreachable: from a well-formed
  start, in every state of every interleaving, a login ends in no internal error, as long as the
  JWT library encodes the claims.\<close>

theorem login_keys_valid:
  assumes "reaches (tasks E A) ([], w0) (ts, w)" and "world_inv E w0"
    and "\<And>c. \<exists>t. jwt_encode E (encoding (st_jwt_keys A)) c = Inr t"
    and "run (verify E A req) w = (r, w')"
  shows "r \<noteq> Err (Internal m)"
proof -
  have inv: "world_inv E w" by (rule server.invariant_reachable [OF assms(1,2)])
  then have k: "check_signature E (devices_of w uid) req nonce \<noteq> Err (Internal m)" for uid nonce
    using world_invD(3) by (intro check_signature_no_internal) (auto simp: device_ok_def)
  have i: "q \<noteq> Err (Internal m)" if "run (issue E (st_jwt_keys A) a b ttl ps ss n) v = (q, v')" for a b ttl ps ss n v v' q
    using that assms(3) by (auto simp: issue_def run_unix_now Let_def add_u64_def
        split: option.splits if_splits sum.splits) (metis sum.distinct(1))+
  show ?thesis
    using assms(4) k
    by (auto simp: verify_def exec Let_def dest!: i split: option.splits if_splits outcome.splits prod.splits)
qed

lemma ex_challenged_inv: "world_inv ex_ext ex_challenged"
  by (simp add: world_inv_def keys_unique_def pk_def device_ok_def challenge_ok_def user_exists_def
      ex_challenged_def ex_defs)

theorem login_keys_valid_witness:
  "fst (run (verify ex_ext ex_app ex_verify) ex_challenged) \<noteq> Err (Internal ''invalid pubkey in db'')"
proof -
  obtain r w' where p: "run (verify ex_ext ex_app ex_verify) ex_challenged = (r, w')" by fastforce
  have "\<exists>t. jwt_encode ex_ext (encoding (st_jwt_keys ex_app)) c = Inr t" for c
    by (simp add: ex_jwt_encode_def)
  from login_keys_valid [OF reaches.Refl ex_challenged_inv this p] p show ?thesis by simp
qed

end
