(* ===== verification/Races.thy ===== *)
theory Races
  imports System
begin

text \<open>
  Interleavings in which a check and the action it protects are separated by another handler.
  Each is exhibited as a reachable configuration of the whole system: \<open>reaches_prefix\<close> brings a
  task to the point between its check and its action, the other task runs to its end, and
  \<open>reaches_finish\<close> lets the first complete.
\<close>

section \<open>A race between two answers\<close>

definition respond_rest ::
  "ext \<Rightarrow> app_state \<Rightarrow> string \<Rightarrow> string \<Rightarrow> string \<Rightarrow> pending_exchange \<Rightarrow> (world, error, exchange_response) prog" where
  "respond_rest E A xid key uid = (\<lambda>ex.
      if x_responder_id ex \<noteq> uid then errP Forbidden
      else if x_responder_pubkey ex \<noteq> None
      then errP (Conflict ''exchange already has a response'')
      else
        bindP (Done (b64_decode E key)) (\<lambda>pubkey.
        if length pubkey \<noteq> 32
        then errP (BadRequest ''ephemeral_pubkey must be 32 bytes (X25519)'')
        else
          bindP (set_responder_pubkey E xid pubkey) (\<lambda>_.
          bindP (Done (notify_topic E A (x_initiator_id ex))) (\<lambda>topic.
          bindP (publish_system A topic
                   (notification E ''exchange_complete'' xid)) (\<lambda>_.
          okP \<lparr>e_exchange_id = xid, e_initiator_id = x_initiator_id ex,
               e_responder_id = x_responder_id ex,
               e_initiator_pubkey = b64_encode E (x_initiator_pubkey ex),
               e_responder_pubkey = Some (b64_encode E pubkey)\<rparr>)))))"

lemma respond_task:
  "mapP HttpDone (route E A (Respond h xid key)) =
     bindP (auth_user E A h) (\<lambda>uid.
     bindP (get_exchange E xid) (\<lambda>ex.
     bindP (respond_rest E A xid key uid ex) (\<lambda>v. okP (HttpDone (ExchangeResp v)))))"
proof -
  have "respond_body E A xid key uid = bindP (get_exchange E xid) (respond_rest E A xid key uid)" for uid
    unfolding respond_body_def respond_rest_def ..
  then show ?thesis by (simp add: mapP_def respond_def bindP_assoc)
qed

lemma run_respond_rest:
  assumes "no_faults E" and "b64_law E" and "find_exchange w xid \<noteq> None"
    and "x_exchange_id x = xid" and "x_responder_id x = uid" and "x_responder_pubkey x = None"
    and "length k = 32" and "hmac_law E"
  shows "\<exists>w'. run (bindP (respond_rest E A xid (b64_encode E k) uid x) (\<lambda>v. okP (HttpDone (ExchangeResp v)))) w =
      (Ok (HttpDone (ExchangeResp (exchange_view E (x\<lparr>x_responder_pubkey := Some k\<rparr>)))), w') \<and>
    find_exchange w' = (find_exchange w)(xid := map_option (\<lambda>x. x\<lparr>x_responder_pubkey := Some k\<rparr>) (find_exchange w xid))"
  using assms notify_topic_total [OF assms(8), of A "x_initiator_id x"]
  by (auto simp: respond_rest_def b64_decode_encode run_set_responder_pubkey run_publish_system row_map_update
      exchange_view_def)

lemma reaches_both:
  assumes "\<And>w. caller E A h w = Some cl" and "no_faults E" and "clock_ok E" and "find_exchange w xid = Some x"
    and "i < length ts"
  shows "reaches T (ts[i := mapP HttpDone (route E A (Respond h xid key))], w)
     (ts[i := bindP (respond_rest E A xid key (c_sub cl) x) (\<lambda>v. okP (HttpDone (ExchangeResp v)))],
      tick_sql (tick_time w))"
proof -
  have "run (auth_user E A h) w = (Ok (c_sub cl), tick_time w)"
    using assms(1,3) by (simp add: run_auth_user)
  note a = reaches_prefix [OF this assms(5)]
  have "run (get_exchange E xid) (tick_time w) = (Ok x, tick_sql (tick_time w))"
    using assms(2,4) by (simp add: run_get_exchange)
  note b = reaches_prefix [OF this assms(5)]
  show ?thesis unfolding respond_task by (rule reaches_trans [OF a b])
qed

text \<open>Property C35. The check that an exchange has no answer yet and the statement that stores one are
  separate: two concurrent answers of the responder can both succeed.  Each is told that its own
  key was recorded; the stored key is that of the later one.\<close>

theorem double_respond_race:
  assumes "no_faults E" and "clock_ok E" and "b64_law E"
    and "\<And>w. caller E A h1 w = Some cl1" and "\<And>w. caller E A h2 w = Some cl2"
    and "find_exchange w xid = Some x" and "x_responder_pubkey x = None"
    and "x_responder_id x = c_sub cl1" and "x_responder_id x = c_sub cl2"
    and "length k1 = 32" and "length k2 = 32" and "hmac_law E"
  shows "\<exists>w'. reaches (tasks E A) ([], w)
       ([Done (Ok (HttpDone (ExchangeResp (exchange_view E (x\<lparr>x_responder_pubkey := Some k1\<rparr>))))),
         Done (Ok (HttpDone (ExchangeResp (exchange_view E (x\<lparr>x_responder_pubkey := Some k2\<rparr>)))))], w') \<and>
     find_exchange w' xid = Some (x\<lparr>x_responder_pubkey := Some k2\<rparr>)"
proof -
  let ?t = "\<lambda>h k. mapP HttpDone (route E A (Respond h xid (b64_encode E k)))"
  let ?r = "\<lambda>cl k. bindP (respond_rest E A xid (b64_encode E k) (c_sub cl) x) (\<lambda>v. okP (HttpDone (ExchangeResp v)))"
  let ?d = "\<lambda>k. okP (HttpDone (ExchangeResp (exchange_view E (x\<lparr>x_responder_pubkey := Some k\<rparr>))))"
  let ?w1 = "tick_sql (tick_time w)" and ?w2 = "tick_sql (tick_time (tick_sql (tick_time w)))"
  have x: "x_exchange_id x = xid" using assms(6) row_map_SomeD by fastforce
  have t: "?t h k \<in> tasks E A" for h k unfolding tasks_def by blast
  have "reaches (tasks E A) ([], w) (([] @ [?t h1 k1]) @ [?t h2 k2], w)"
    by (intro reaches_spawn reaches.Refl t)
  then have "reaches (tasks E A) ([], w) ([?t h1 k1, ?t h2 k2], w)" by simp
  moreover have "reaches (tasks E A) ([?t h1 k1, ?t h2 k2], w) ([?r cl1 k1, ?t h2 k2], ?w1)"
    using reaches_both [OF assms(4,1,2,6), of 0 "[?t h1 k1, ?t h2 k2]" "tasks E A" "b64_encode E k1"] by simp
  moreover have "reaches (tasks E A) ([?r cl1 k1, ?t h2 k2], ?w1) ([?r cl1 k1, ?r cl2 k2], ?w2)"
    using reaches_both [OF assms(5,1,2), of ?w1 xid x 1 "[?r cl1 k1, ?t h2 k2]" "tasks E A" "b64_encode E k2"]
      assms(6) by simp
  moreover obtain w3 where w3: "run (?r cl1 k1) ?w2 = (Ok (HttpDone (ExchangeResp (exchange_view E (x\<lparr>x_responder_pubkey := Some k1\<rparr>)))), w3)"
    "find_exchange w3 xid = Some (x\<lparr>x_responder_pubkey := Some k1\<rparr>)"
    using run_respond_rest [OF assms(1,3) _ x assms(8,7,10,12), of ?w2 A] assms(6) by auto
  moreover have "reaches (tasks E A) ([?r cl1 k1, ?r cl2 k2], ?w2) ([?d k1, ?r cl2 k2], w3)"
    using reaches_finish [OF w3(1), of 0 "[?r cl1 k1, ?r cl2 k2]" "tasks E A"] by simp
  moreover obtain w4 where w4: "run (?r cl2 k2) w3 = (Ok (HttpDone (ExchangeResp (exchange_view E (x\<lparr>x_responder_pubkey := Some k2\<rparr>)))), w4)"
    "find_exchange w4 xid = Some (x\<lparr>x_responder_pubkey := Some k2\<rparr>)"
    using run_respond_rest [OF assms(1,3) _ x assms(9,7,11,12), of w3 A] w3(2) by auto
  moreover have "reaches (tasks E A) ([?d k1, ?r cl2 k2], w3) ([?d k1, ?d k2], w4)"
    using reaches_finish [OF w4(1), of 1 "[?d k1, ?r cl2 k2]" "tasks E A"] by simp
  ultimately have "reaches (tasks E A) ([], w) ([?d k1, ?d k2], w4)"
    by (blast intro: reaches_trans)
  with w4(2) show ?thesis by (auto simp: okP_def)
qed

theorem double_respond_race_witness:
  "\<exists>w' r1 r2. reaches (tasks ex_ext ex_app) ([], ex_exchanging) ([Done (Ok r1), Done (Ok r2)], w') \<and>
     find_exchange w' ''x'' = Some (ex_exchange\<lparr>x_responder_pubkey := Some (replicate 32 2)\<rparr>)"
proof -
  have "x_responder_pubkey ex_exchange = None" "x_responder_id ex_exchange = c_sub ex_claims"
    by (simp_all add: ex_exchange_def)
  from double_respond_race [OF ex_laws(5,4,1) caller_ex_users(1) caller_ex_users(1) find_exchange_ex this(1,2,2),
      of "replicate 32 1" "replicate 32 2"] ex_laws(6)
  show ?thesis by auto
qed

section \<open>Admission races with suspension\<close>

lemma authenticate_task:
  assumes "no_faults E" and "clock_ok E" and "admitted E A w info = Some cl" and "i < length ts"
  shows "reaches T (ts[i := mapP HookDone (hook E A (ClientAuthenticate info) acc)], w)
     (ts[i := bindP (sessions_insert (ci_client_id info) cl)
         (\<lambda>_. okP (HookDone (False, Some (AuthResult (Allow False None)))))], tick_sql (tick_time w))"
proof -
  from admittedD [OF assms(3)] obtain pw token u where
    p: "ci_password info = Some pw" "from_utf8 pw = Some token"
    and d: "jwt_decode E (decoding (st_jwt_keys A)) (time_at E (time_reads w)) token = Some cl"
    and c: "ci_client_id info = c_dev cl" and u: "find_user w (c_sub cl) = Some u" "\<not> u_suspended u"
      "u_tokens_valid_from u \<le> as_i64 (c_iat cl)"
    by blast
  have j: "run (attempt (jwt_verify E (st_jwt_keys A) token)) w = (Ok (Inr cl), tick_time w)"
    using assms(2) d by (simp add: run_jwt_verify)
  have g: "run (attempt (get_user E (c_sub cl))) (tick_time w) = (Ok (Inr u), tick_sql (tick_time w))"
    using assms(1) u(1) by (simp add: run_get_user)
  define k :: "error + user \<Rightarrow> (world, error, hook_return) prog" where "k = (\<lambda>r. case r of
      Inl _ \<Rightarrow> okP deny
    | Inr usr \<Rightarrow>
        if u_suspended usr then okP deny
        else if as_i64 (c_iat cl) < u_tokens_valid_from usr then okP deny
        else bindP (sessions_insert (ci_client_id info) cl)
               (\<lambda>_. okP (False, Some (AuthResult (Allow False None)))))"
  define k0 :: "error + claims \<Rightarrow> (world, error, hook_return) prog" where "k0 = (\<lambda>r. case r of
      Inl _ \<Rightarrow> okP deny
    | Inr cl \<Rightarrow>
        if ci_client_id info \<noteq> c_dev cl then okP deny
        else bindP (attempt (get_user E (c_sub cl))) (\<lambda>u. case u of
            Inl _ \<Rightarrow> okP deny
          | Inr usr \<Rightarrow>
              if u_suspended usr then okP deny
              else if as_i64 (c_iat cl) < u_tokens_valid_from usr then okP deny
              else bindP (sessions_insert (ci_client_id info) cl)
                     (\<lambda>_. okP (False, Some (AuthResult (Allow False None))))))"
  have "mapP HookDone (hook E A (ClientAuthenticate info) acc) =
      bindP (attempt (jwt_verify E (st_jwt_keys A) token)) (\<lambda>r. bindP (k0 r) (\<lambda>x. okP (HookDone x)))"
    by (simp add: hook_def authenticate_def mapP_def bindP_assoc p k0_def)
  moreover have "bindP (k0 (Inr cl)) (\<lambda>x. okP (HookDone x)) =
      bindP (attempt (get_user E (c_sub cl))) (\<lambda>r. bindP (k r) (\<lambda>x. okP (HookDone x)))"
    by (simp add: k0_def k_def c bindP_assoc)
  moreover have "bindP (k (Inr u)) (\<lambda>x. okP (HookDone x)) = bindP (sessions_insert (ci_client_id info) cl)
      (\<lambda>_. okP (HookDone (False, Some (AuthResult (Allow False None)))))"
    using u by (simp add: k_def bindP_assoc)
  ultimately show ?thesis
    using reaches_trans [OF reaches_prefix [OF j assms(4), of T "\<lambda>r. bindP (k0 r) (\<lambda>x. okP (HookDone x))"]]
      reaches_prefix [OF g assms(4), of T "\<lambda>r. bindP (k r) (\<lambda>x. okP (HookDone x))"]
    by simp
qed

text \<open>Property C36. The hook reads the user's record and records the session in separate actions: a
  suspension that completes in between, with its kick, does not prevent the admission.  There is
  an interleaving in which the suspension has been answered, the user is suspended and has no
  new session, and the hook then still admits the connection, records its session, and no kick
  follows.\<close>

theorem suspension_race:
  assumes "no_faults E" and "clock_ok E" and "admitted E A w info = Some cl" and "admin_ok E A h"
  shows "\<exists>p w1 w2. let done = Done (Ok (HttpDone (StatusResp NO_CONTENT))) in
     reaches (tasks E A) ([], w) ([p, done], w1) \<and> sessions w1 = sessions w \<and>
     (\<exists>u. find_user w1 (c_sub cl) = Some u \<and> u_suspended u) \<and>
     reaches (tasks E A) ([p, done], w1)
       ([Done (Ok (HookDone (False, Some (AuthResult (Allow False None))))), done], w2) \<and>
     sessions w2 (ci_client_id info) = Some cl \<and> users w2 = users w1 \<and> kicked w2 = kicked w1"
proof -
  let ?t1 = "mapP HookDone (hook E A (ClientAuthenticate info) None)"
  let ?t2 = "mapP HttpDone (route E A (Suspend h (c_sub cl) None))"
  let ?p = "bindP (sessions_insert (ci_client_id info) cl)
      (\<lambda>_. okP (HookDone (False, Some (AuthResult (Allow False None)))))"
  let ?d = "Done (Ok (HttpDone (StatusResp NO_CONTENT)))"
  let ?v = "tick_sql (tick_time w)"
  obtain u where u: "find_user w (c_sub cl) = Some u" using admittedD [OF assms(3)] by blast
  have "?t1 \<in> tasks E A" "?t2 \<in> tasks E A" unfolding tasks_def by blast+
  then have "reaches (tasks E A) ([], w) (([] @ [?t1]) @ [?t2], w)" by (intro reaches_spawn reaches.Refl)
  moreover have "reaches (tasks E A) ([?t1, ?t2], w) ([?p, ?t2], ?v)"
    using authenticate_task [OF assms(1-3), of 0 "[?t1, ?t2]"] by simp
  ultimately have a: "reaches (tasks E A) ([], w) ([?p, ?t2], ?v)" using reaches_trans by fastforce
  have e: "user_exists (c_sub cl) ?v" using u by (simp add: user_exists_find)
  obtain w1 where s: "run ?t2 ?v = (Ok (HttpDone (StatusResp NO_CONTENT)), w1)"
    and w1: "w1 = snd (run (suspend_body E A (c_sub cl) None ()) ?v)"
    using run_suspend_body [OF assms(1,2) e]
    by (simp add: run_mapP suspend_endpoint.accepted [OF assms(4)])
  have "reaches (tasks E A) ([?p, ?t2], ?v) ([?p, ?d], w1)"
    using reaches_finish [OF s, of 1 "[?p, ?t2]"] by (simp add: okP_def)
  with a have r1: "reaches (tasks E A) ([], w) ([?p, ?d], w1)" by (rule reaches_trans)
  have w1': "sessions w1 = sessions w" "\<exists>u. find_user w1 (c_sub cl) = Some u \<and> u_suspended u"
    using u unfolding w1 run_suspend_body [OF assms(1,2) e] by (simp_all add: row_map_update)
  let ?w2 = "w1\<lparr>sessions := (sessions w1)(ci_client_id info \<mapsto> cl)\<rparr>"
  have "run ?p w1 = (Ok (HookDone (False, Some (AuthResult (Allow False None)))), ?w2)" by (simp add: exec)
  from reaches_finish [OF this, of 0 "[?p, ?d]"]
  have "reaches (tasks E A) ([?p, ?d], w1)
      ([Done (Ok (HookDone (False, Some (AuthResult (Allow False None))))), ?d], ?w2)"
    by (simp add: okP_def)
  with r1 w1' show ?thesis unfolding Let_def
    by (intro exI [of _ ?p] exI [of _ w1] exI [of _ ?w2]) simp
qed

theorem suspension_race_witness:
  "\<exists>ts w2. reaches (tasks ex_ext ex_app) ([], ex_world) (ts, w2) \<and>
     (\<exists>u. find_user w2 ''alice'' = Some u \<and> u_suspended u) \<and> sessions w2 ''phone'' = Some ex_claims"
proof -
  obtain p w1 w2 where "reaches (tasks ex_ext ex_app) ([], ex_world) ([p, Done (Ok (HttpDone (StatusResp NO_CONTENT)))], w1)"
    and "reaches (tasks ex_ext ex_app) ([p, Done (Ok (HttpDone (StatusResp NO_CONTENT)))], w1)
      ([Done (Ok (HookDone (False, Some (AuthResult (Allow False None))))), Done (Ok (HttpDone (StatusResp NO_CONTENT)))], w2)"
    and "\<exists>u. find_user w1 (c_sub ex_claims) = Some u \<and> u_suspended u" "users w2 = users w1"
      "sessions w2 (ci_client_id ex_connect) = Some ex_claims"
    using suspension_race [OF ex_laws(5,4) admitted_ex admin_ok_ex] unfolding Let_def by blast
  then show ?thesis using reaches_trans by (fastforce simp: ex_connect_def)
qed

section \<open>Login races with revocation\<close>

text \<open>The part of \<open>verify\<close> before the clock is read for the token.\<close>

definition verify_prefix :: "ext \<Rightarrow> verify_request \<Rightarrow> (world, error, string list \<times> string list) prog" where
  "verify_prefix E req =
     bindP (challenges_remove (v_user_id req)) (\<lambda>popped.
     bindP (ok_or Unauthorized popped) (\<lambda>(nonce, expires_at).
     bindP (unix_now E) (\<lambda>now.
     if now > expires_at then errP Unauthorized
     else
       bindP (get_user E (v_user_id req)) (\<lambda>usr.
       if u_suspended usr then errP Forbidden
       else
         bindP (get_device_by_user E (v_user_id req)) (\<lambda>ds.
         bindP (Done (check_signature E ds req nonce)) (\<lambda>_.
         user_topics E (v_user_id req)))))))"

lemma bindP_distribs:
  "bindP (if b then errP e else m) f = (if b then errP e else bindP m f)"
  "bindP (case p of (x, y) \<Rightarrow> h x y) f = (case p of (x, y) \<Rightarrow> bindP (h x y) f)"
  by (simp_all split: prod.splits)

lemma verify_split:
  "verify E A req = bindP (verify_prefix E req) (\<lambda>(pub_topics, sub_topics).
     bindP (Done (notify_topic E A (v_user_id req))) (\<lambda>ntopic.
     issue E (st_jwt_keys A) (v_user_id req) (v_device_id req) (ttl_seconds (jwt (st_config A)))
       pub_topics (sub_topics @ [ntopic]) ntopic))"
  unfolding verify_def verify_prefix_def by (simp only: bindP_assoc bindP_distribs)

lemma run_verify_prefix:
  assumes "no_faults E" and "clock_ok E" and "challenges w (v_user_id req) = Some (nonce, expires)"
    and "time_at E (time_reads w) \<le> expires" and "find_user w (v_user_id req) = Some u" and "\<not> u_suspended u"
    and "check_signature E (devices_of w (v_user_id req)) req nonce = Ok ()"
  shows "run (verify_prefix E req) w =
     (Ok (concat (map (topics_of_json E \<circ> r_publish_topics) (relationships_of w (v_user_id req))),
          concat (map (topics_of_json E \<circ> r_subscribe_topics) (relationships_of w (v_user_id req)))),
      (tick_sql (tick_sql (tick_sql (tick_time w))))
        \<lparr>challenges := (challenges w)(v_user_id req := None)\<rparr>)"
  using assms by (simp add: verify_prefix_def exec not_less)

lemma kick_both_time:
  assumes "no_faults E" and "clock_ok E"
    and "w' = snd (run (bindP (kick_user E A a) (\<lambda>_. kick_user E A b)) w)"
  shows "time_reads w' = Suc (Suc (time_reads w))"
  unfolding assms(3) by (simp add: run_kick_user [OF assms(1,2)])

lemma revoke_own:
  assumes "no_faults E" and "clock_ok E" and "caller E A h w = Some cl" and "pk r_relationship_id (relationships w)"
    and "rel \<in> set (relationships w)" and "r_user_id rel = c_sub cl" and "find_user w (c_sub cl) = Some u"
  shows "\<exists>w' n. run (revoke E A h (r_relationship_id rel)) w = (Ok (), w') \<and>
     row_map r_relationship_id (relationships w') (r_relationship_id rel) = None \<and>
     time_reads w' = time_reads w + 3 \<and> n \<in> {Suc (time_reads w), Suc (Suc (time_reads w))} \<and>
     find_user w' (c_sub cl) = Some (u\<lparr>u_tokens_valid_from := as_i64 (time_at E n)\<rparr>)"
proof -
  let ?P = "\<lambda>r. r_relationship_id r = r_relationship_id rel \<and> r_user_id r = c_sub cl"
  have "select_one ?P (relationships w) = Some rel"
  proof (cases "select_one ?P (relationships w)")
    case None
    with assms(5,6) show ?thesis by (auto simp: select_one_None)
  next
    case (Some y)
    with select_one_SomeD [OF Some] show ?thesis using pk_inj [OF assms(4) _ assms(5)] by simp
  qed
  then obtain w' where r: "run (revoke E A h (r_relationship_id rel)) w = (Ok (), w')"
    and w': "w' = snd (run (bindP (kick_user E A (c_sub cl)) (\<lambda>_. kick_user E A (r_peer_id rel)))
      ((tick_sql (tick_sql (tick_time w)))\<lparr>relationships := delete_rows ?P (relationships w)\<rparr>))"
    by (simp add: revoke_endpoint.accepted [OF assms(2,3)] run_revoke_body [OF assms(1,2)] del: run_bindP)
  have "row_map r_relationship_id (delete_rows ?P (relationships w)) (r_relationship_id rel) = None"
    using pk_inj [OF assms(4) _ assms(5)] assms(6) by (auto simp: row_map_None)
  moreover have "find_user w' (c_sub cl) = Some (u\<lparr>u_tokens_valid_from := as_i64 (time_at E
      (if r_peer_id rel = c_sub cl then Suc (Suc (time_reads w)) else Suc (time_reads w)))\<rparr>)"
    using assms(7) kick_both(1) [OF assms(1,2) w'] by (simp add: find_user_revalidated)
  ultimately show ?thesis
    using r kick_both(3) [OF assms(1,2) w'] kick_both_time [OF assms(1,2) w']
    by (intro exI [of _ w'] exI [of _ "if r_peer_id rel = c_sub cl then Suc (Suc (time_reads w)) else Suc (time_reads w)"])
      simp
qed

text \<open>Property C37. A login gathers the granted topics and reads the clock for the token in separate
  actions: a relationship revoked in between is gone, with the tokens issued so far invalidated,
  but the token of the login still lists its topics and, issued later than the kick, is admitted
  by the broker.\<close>

theorem revocation_race:
  assumes "no_faults E" and "clock_ok E" and "jwt_law E"
    and "decoding (st_jwt_keys A) = encoding (st_jwt_keys A)"
    and "\<And>m n. m \<le> n \<Longrightarrow> time_at E m \<le> time_at E n" and "\<And>n. unat (time_at E n) < 2 ^ 62"
    and "unat (ttl_seconds (jwt (st_config A))) < 2 ^ 62"
    and "challenges w (v_user_id req) = Some (nonce, expires)" and "time_at E (time_reads w) \<le> expires"
    and "find_user w (v_user_id req) = Some u" and "\<not> u_suspended u"
    and "check_signature E (devices_of w (v_user_id req)) req nonce = Ok ()"
    and "\<And>w. caller E A h w = Some cl" and "c_sub cl = v_user_id req"
    and "pk r_relationship_id (relationships w)" and "rel \<in> set (relationships w)"
    and "r_user_id rel = v_user_id req" and "topic \<in> set (topics_of_json E (r_subscribe_topics rel))"
    and "jwt_encode E (encoding (st_jwt_keys A))
        (login_claims E A w (v_user_id req) (v_device_id req) ntopic (time_at E (time_reads w + 4))) = Inr token"
    and "from_utf8 (as_bytes token) = Some token"
    and "unat (time_at E (time_reads w + 5)) \<le>
        unat (time_at E (time_reads w + 4)) + unat (ttl_seconds (jwt (st_config A))) + 60"
    and "notify_topic E A (v_user_id req) = Ok ntopic"
  shows "\<exists>w' cl'. reaches (tasks E A) ([], w)
       ([Done (Ok (HttpDone (TokenResp token))), Done (Ok (HttpDone UnitResp))], w') \<and>
     row_map r_relationship_id (relationships w') (r_relationship_id rel) = None \<and>
     admitted E A w' \<lparr>ci_client_id = v_device_id req, ci_password = Some (as_bytes token)\<rparr> = Some cl' \<and>
     fst (run (authenticate E A \<lparr>ci_client_id = v_device_id req, ci_password = Some (as_bytes token)\<rparr> acc) w') =
       Ok (False, Some (AuthResult (Allow False None))) \<and>
     topic \<in> set (c_sub_topics cl')"
proof -
  let ?uid = "v_user_id req" and ?rid = "r_relationship_id rel" and ?ttl = "ttl_seconds (jwt (st_config A))"
  let ?t1 = "mapP HttpDone (route E A (Verify req))" and ?t2 = "mapP HttpDone (route E A (Revoke h ?rid))"
  let ?now = "time_at E (time_reads w + 4)"
  let ?cl = "login_claims E A w ?uid (v_device_id req) ntopic ?now"
  let ?iss = "\<lambda>(pub_topics, sub_topics). bindP (Done (notify_topic E A ?uid)) (\<lambda>ntopic.
       issue E (st_jwt_keys A) ?uid (v_device_id req) ?ttl pub_topics (sub_topics @ [ntopic]) ntopic)"
  let ?f = "\<lambda>x. bindP (bindP (?iss x) (\<lambda>x. okP (TokenResp x))) (\<lambda>x. okP (HttpDone x))"
  let ?x = "(c_pub_topics ?cl, concat (map (topics_of_json E \<circ> r_subscribe_topics) (relationships_of w ?uid)))"
  let ?v = "(tick_sql (tick_sql (tick_sql (tick_time w))))\<lparr>challenges := (challenges w)(?uid := None)\<rparr>"
  have "?t1 \<in> tasks E A" "?t2 \<in> tasks E A" unfolding tasks_def by blast+
  then have "reaches (tasks E A) ([], w) (([] @ [?t1]) @ [?t2], w)" by (intro reaches_spawn reaches.Refl)
  moreover have t1: "?t1 = bindP (verify_prefix E req) ?f"
    by (simp only: route.simps mapP_def verify_split bindP_assoc)
  have "run (verify_prefix E req) w = (Ok ?x, ?v)"
    using run_verify_prefix [OF assms(1,2,8-12)] by (simp add: login_claims_def)
  from reaches_prefix [OF this, of 0 "[?t1, ?t2]" "tasks E A" ?f]
  have "reaches (tasks E A) ([?t1, ?t2], w) ([?f ?x, ?t2], ?v)" by (simp only: t1 list_update.simps) simp
  ultimately have a: "reaches (tasks E A) ([], w) ([?f ?x, ?t2], ?v)" using reaches_trans by fastforce
  have "pk r_relationship_id (relationships ?v)" "rel \<in> set (relationships ?v)" "r_user_id rel = c_sub cl"
    "find_user ?v (c_sub cl) = Some u"
    using assms(10,14-17) by simp_all
  from revoke_own [OF assms(1,2,13) this] obtain w1 n where
    r: "run (revoke E A h ?rid) ?v = (Ok (), w1)"
    and w0: "row_map r_relationship_id (relationships w1) ?rid = None" "time_reads w1 = time_reads ?v + 3"
      "n \<in> {Suc (time_reads ?v), Suc (Suc (time_reads ?v))}"
      "find_user w1 (c_sub cl) = Some (u\<lparr>u_tokens_valid_from := as_i64 (time_at E n)\<rparr>)"
    by blast
  from w0 have w1: "row_map r_relationship_id (relationships w1) ?rid = None" "time_reads w1 = time_reads w + 4"
    "n \<le> time_reads w + 4" "find_user w1 ?uid = Some (u\<lparr>u_tokens_valid_from := as_i64 (time_at E n)\<rparr>)"
    unfolding assms(14) by auto
  have "run ?t2 ?v = (Ok (HttpDone UnitResp), w1)" using r by (simp add: run_mapP)
  from reaches_finish [OF this, of 1 "[?f ?x, ?t2]" "tasks E A"]
  have b: "reaches (tasks E A) ([?f ?x, ?t2], ?v) ([?f ?x, okP (HttpDone UnitResp)], w1)" by simp
  have fits: "add_fits (overflow_checks E) ?now ?ttl"
    using assms(6) [of "time_reads w + 4"] assms(7) by (intro add_fits_small) simp
  have "run (?f ?x) w1 = (Ok (HttpDone (TokenResp token)), tick_time w1)"
    using assms(2,19,22) fits w1(2) by (simp add: run_issue login_claims_def)
  from reaches_finish [OF this, of 0 "[?f ?x, okP (HttpDone UnitResp)]" "tasks E A"]
  have c: "reaches (tasks E A) ([?f ?x, okP (HttpDone UnitResp)], w1)
      ([okP (HttpDone (TokenResp token)), okP (HttpDone UnitResp)], tick_time w1)" by simp
  have t5: "time_reads (tick_time w1) = time_reads w + 5" using w1(2) by simp
  have "jwt_live (time_at E (time_reads w + 5)) ?cl"
    using assms(21) assms(6) [of "time_reads w + 4"] assms(7) by (simp add: jwt_live_def login_claims_def unat_add_less)
  then have "jwt_decode E (decoding (st_jwt_keys A)) (time_at E (time_reads w + 5)) token = Some ?cl"
    using assms(3,4,19) unfolding jwt_law_def by simp
  moreover have "as_i64 (time_at E n) \<le> as_i64 ?now"
    using assms(5) [of n "time_reads w + 4"] w1(3) as_i64_less_iff_small [of ?now "time_at E n"] assms(6) [of n] assms(6) [of "time_reads w + 4"]
    by auto
  ultimately have ad: "admitted E A (tick_time w1) \<lparr>ci_client_id = v_device_id req, ci_password = Some (as_bytes token)\<rparr> = Some ?cl"
    using assms(11,20) w1(4) unfolding admitted_def t5 by (simp add: login_claims_def)
  moreover have "fst (run (authenticate E A \<lparr>ci_client_id = v_device_id req, ci_password = Some (as_bytes token)\<rparr> acc) (tick_time w1)) =
      Ok (False, Some (AuthResult (Allow False None)))"
    using run_authenticate(1) [OF assms(1,2) surjective_pairing] ad by simp
  moreover have "topic \<in> set (c_sub_topics ?cl)"
    using assms(16-18) by (auto simp: login_claims_def)
  ultimately show ?thesis
    using reaches_trans [OF a reaches_trans [OF b c]] w1(1) by (auto simp: okP_def)
qed

definition ex_racing :: world where
  "ex_racing = ex_challenged\<lparr>relationships :=
     [\<lparr>r_relationship_id = ''r'', r_user_id = ''alice'', r_peer_id = ''bob'',
       r_publish_topics = ex_json [], r_subscribe_topics = ex_json [''private''], r_created_at = 900\<rparr>]\<rparr>"

theorem revocation_race_witness:
  "\<exists>w' token cl'. reaches (tasks ex_ext ex_app) ([], ex_racing)
       ([Done (Ok (HttpDone (TokenResp token))), Done (Ok (HttpDone UnitResp))], w') \<and>
     row_map r_relationship_id (relationships w') ''r'' = None \<and>
     admitted ex_ext ex_app w' \<lparr>ci_client_id = ''phone'', ci_password = Some (as_bytes token)\<rparr> = Some cl' \<and>
     ''private'' \<in> set (c_sub_topics cl')"
proof -
  obtain rel where rel: "relationships ex_racing = [rel]" "r_relationship_id rel = ''r''"
    "r_user_id rel = v_user_id ex_verify" "r_publish_topics rel = ex_json []" "r_subscribe_topics rel = ex_json [''private'']"
    by (simp add: ex_racing_def ex_verify_def)
  let ?cl = "login_claims ex_ext ex_app ex_racing (v_user_id ex_verify) (v_device_id ex_verify)
      ''test-notify-secretnotify:alice'' (time_at ex_ext (time_reads ex_racing + 4))"
  obtain token where t: "jwt_encode ex_ext (encoding (st_jwt_keys ex_app)) ?cl = Inr token"
    by (simp add: ex_jwt_encode_def)
  have utf: "from_utf8 (as_bytes token) = Some token"
    using t rel by (intro ex_jwt_ascii)
      (auto simp: login_claims_def select_rows_def topics_of_json_def ex_verify_def)
  have ch: "challenges ex_racing (v_user_id ex_verify) = Some (replicate 32 9, 1060)"
    and u: "find_user ex_racing (v_user_id ex_verify) = Some ex_user" and ns: "\<not> u_suspended ex_user"
    by (simp_all add: ex_racing_def ex_challenged_def ex_verify_def) (simp_all add: ex_user_def)
  have cs: "check_signature ex_ext (devices_of ex_racing (v_user_id ex_verify)) ex_verify (replicate 32 9) = Ok ()"
  proof -
    have "find (\<lambda>d. d_device_id d = ''phone'') (devices_of ex_racing ''alice'') = Some ex_device"
      by (simp add: ex_racing_def ex_challenged_def ex_defs select_rows_def)
    moreover have "b64_decode ex_ext (v_signature ex_verify) = Ok (ex_key @ replicate 32 9)"
      using b64_decode_encode [OF ex_laws(1)] by (simp add: b64_encode_def ex_verify_def)
    ultimately show ?thesis
      unfolding check_signature_Ok by (simp add: ex_verify_def ex_device_def)
  qed
  note R = revocation_race [OF ex_laws(5,4,3) _ _ _ _ ch _ u ns cs caller_ex_users(1) _ _ _ rel(3) _ t utf,
      of "''private''"]
  show ?thesis
    using R rel ex_notify_topic by (simp add: ex_verify_def pk_def topics_of_json_def ex_app_def ex_config_def) blast
qed

end
