(* ===== verification/Exchange_Spec.thy ===== *)
theory Exchange_Spec
  imports Api_Router
begin

text \<open>
  The contract of the key exchange as a small state machine for one exchange, and the proof that
  the handlers of \<open>Api_Exchange\<close> implement it.  \<open>phase_of\<close> is the abstraction function from the
  shared state; every request of the server is a step of the abstract protocol or stutters.
\<close>

section \<open>The abstract protocol\<close>

datatype phase =
    Absent
  | Offered string string bytes
  | Answered string string bytes bytes

text \<open>What the caller of a request may do to one exchange.\<close>

inductive phase_step :: "string \<Rightarrow> phase \<Rightarrow> phase \<Rightarrow> bool" where
  Offer: "length k = 32 \<Longrightarrow> phase_step a Absent (Offered a b k)"
| Answer: "length k' = 32 \<Longrightarrow> phase_step b (Offered a b k) (Answered a b k k')"
| Deliver: "phase_step a (Answered a b k k') Absent"

definition phase_of :: "world \<Rightarrow> string \<Rightarrow> phase" where
  "phase_of w xid =
     (case find_exchange w xid of
        None \<Rightarrow> Absent
      | Some x \<Rightarrow>
         (case x_responder_pubkey x of
            None \<Rightarrow> Offered (x_initiator_id x) (x_responder_id x) (x_initiator_pubkey x)
          | Some k \<Rightarrow> Answered (x_initiator_id x) (x_responder_id x) (x_initiator_pubkey x) k))"

section \<open>Requests that do not concern exchanges\<close>

lemma leaves_exchanges_state: "leaves state_of p \<Longrightarrow> leaves (pending_exchanges :: world \<Rightarrow> _) p"
proof -
  have "pending_exchanges w = pending_exchanges w'" if "state_of w = state_of (w' :: world)" for w w' :: world
    using that by (cases w; cases w') simp
  then show "leaves state_of p \<Longrightarrow> leaves (pending_exchanges :: world \<Rightarrow> _) p"
    unfolding leaves_def by blast
qed

lemmas leaves_exchanges_reads = frame [THEN leaves_exchanges_state]

lemma leaves_exchanges_writes:
  "leaves pending_exchanges (create_user E :: (world, error, user) prog)"
  "leaves pending_exchanges (create_device E uid key :: (world, error, device) prog)"
  "leaves pending_exchanges (invalidate_tokens E uid :: (world, error, unit) prog)"
  "leaves pending_exchanges (set_suspended E uid b reason :: (world, error, unit) prog)"
  "leaves pending_exchanges (create_relationship E uid pid ps ss :: (world, error, relationship) prog)"
  "leaves pending_exchanges (delete_relationship E uid rid :: (world, error, unit) prog)"
  "leaves pending_exchanges (create_registration_token E h secs m :: (world, error, string) prog)"
  "leaves pending_exchanges (consume_registration_token E h :: (world, error, unit) prog)"
  unfolding create_user_def create_device_def invalidate_tokens_def set_suspended_def create_relationship_def
    delete_relationship_def create_registration_token_def consume_registration_token_def Let_def
  by (auto intro!: leaves_bindP leaves_sql leaves_outcome leaves_exchanges_reads
      simp: references_user_def bindS_def split: if_splits sum.splits)

lemma leaves_exchanges_maps:
  "leaves pending_exchanges (challenges_insert uid c)" "leaves pending_exchanges (challenges_remove uid)"
  "leaves pending_exchanges (kick_device A d)"
  unfolding dm_insert_def dm_remove_def kick_device_def by (auto intro!: leaves_act)

lemma leaves_exchanges_kick: "leaves pending_exchanges (kick_user E A uid)"
  unfolding kick_user_def
  by (auto intro!: leaves_bindP leaves_attempt leaves_foreach leaves_exchanges_writes leaves_exchanges_reads
      leaves_exchanges_maps split: sum.splits)

lemmas leaves_exchanges = leaves_exchanges_reads leaves_exchanges_writes leaves_exchanges_maps leaves_exchanges_kick

lemma leaves_exchanges_handlers:
  "leaves pending_exchanges (register E A rreq)" "leaves pending_exchanges (challenge E uid)"
  "leaves pending_exchanges (verify E A vreq)" "leaves pending_exchanges (create E A h creq)"
  "leaves pending_exchanges (list_handler E A h)" "leaves pending_exchanges (revoke E A h rid)"
  "leaves pending_exchanges (admin_create_token E A h treq)"
  "leaves pending_exchanges (suspend_user E A h uid reason)" "leaves pending_exchanges (unsuspend_user E A h uid)"
proof -
  show "leaves pending_exchanges (register E A rreq)"
    unfolding register_def
    by (auto intro!: leaves_bindP leaves_outcome leaves_exchanges leaves_check_policy)
  show "leaves pending_exchanges (challenge E uid)"
    unfolding challenge_def by (auto intro!: leaves_bindP leaves_outcome leaves_exchanges)
  show "leaves pending_exchanges (verify E A vreq)"
    unfolding verify_def Let_def by (auto intro!: leaves_bindP leaves_outcome leaves_exchanges split: prod.splits)
  show "leaves pending_exchanges (create E A h creq)" "leaves pending_exchanges (list_handler E A h)"
    "leaves pending_exchanges (revoke E A h rid)"
    unfolding create_def create_body_def list_handler_def list_body_def revoke_def revoke_body_def
    by (auto intro!: leaves_bindP leaves_exchanges)
  show "leaves pending_exchanges (admin_create_token E A h treq)"
    "leaves pending_exchanges (suspend_user E A h uid reason)" "leaves pending_exchanges (unsuspend_user E A h uid)"
    unfolding admin_create_token_def create_token_body_def suspend_user_def suspend_body_def
      unsuspend_user_def unsuspend_body_def Let_def
    by (auto intro!: leaves_bindP leaves_outcome leaves_exchanges)
qed

lemmas leaves_exchangesD = leaves_exchanges_handlers [THEN leavesD]

section \<open>The three handlers\<close>

lemma phase_of_cong: "find_exchange w' xid = find_exchange w xid \<Longrightarrow> phase_of w' xid = phase_of w xid"
  by (simp add: phase_of_def)

lemma create_exchange_fails:
  assumes "run (create_exchange E a b k) w = (q, w')" and "\<nexists>x. q = Ok x"
  shows "pending_exchanges w' = pending_exchanges w"
  using assms
  by (auto simp: create_exchange_def exec Let_def add_u64_def references_user_def insert_row_def
      split: option.splits if_splits)

text \<open>However \<open>initiate\<close> ends, its effect on the exchanges is that of the insertion, if it came to that.\<close>

lemma initiate_body_exchanges:
  assumes "run (initiate_body E A req uid) w = (r, w')"
  shows "pending_exchanges w' = pending_exchanges w \<or>
     (\<exists>k q w1. length k = 32 \<and> run (create_exchange E uid (i_peer_id req) k) (tick_sql w) = (q, w1) \<and>
        pending_exchanges w' = pending_exchanges w1)"
  using assms
  by (cases "notify_topic E A (i_peer_id req)")
    (auto simp: initiate_body_def run_get_user run_publish_system
      split: option.splits outcome.splits if_splits prod.splits)

lemma initiate_phase:
  assumes "no_faults E" and "clock_ok E" and "run (initiate_body E A req uid) w = (r, w')"
  shows "phase_of w' xid = phase_of w xid \<or> phase_step uid (phase_of w xid) (phase_of w' xid)"
proof (cases "pending_exchanges w' = pending_exchanges w")
  case False
  with initiate_body_exchanges [OF assms(3)] obtain k q w1 where k: "length k = 32"
    and c: "run (create_exchange E uid (i_peer_id req) k) (tick_sql w) = (q, w1)"
    and w': "pending_exchanges w' = pending_exchanges w1" by blast
  with False create_exchange_fails [OF c] obtain x where "q = Ok x" by auto
  note x = run_create_exchange_Ok [OF assms(1,2) c [unfolded this]]
  from x w' have "find_exchange w' = (find_exchange w)(x_exchange_id x \<mapsto> x)" "find_exchange w (x_exchange_id x) = None"
    by (auto simp: row_map_insert row_map_None)
  with x(3) k show ?thesis
    by (cases "xid = x_exchange_id x") (auto simp: phase_of_def intro: phase_step.Offer)
qed (simp add: phase_of_def)

lemma respond_phase:
  assumes "no_faults E" and "run (respond_body E A yid key uid) w = (r, w')"
  shows "phase_of w' xid = phase_of w xid \<or> phase_step uid (phase_of w xid) (phase_of w' xid)"
proof (cases "find_exchange w yid")
  case (Some x)
  show ?thesis
    using assms(2) Some
    by (cases "b64_decode E key"; cases "xid = yid"; cases "notify_topic E A (x_initiator_id x)")
      (auto simp: run_respond_body [OF assms(1)] run_publish_system phase_of_def row_map_update Let_def
        intro: phase_step.Answer split: if_splits)
qed (use assms(2) in \<open>auto simp: run_respond_body [OF assms(1)] phase_of_def\<close>)

lemma exchange_get_phase:
  assumes "no_faults E" and "run (exchange_get_body E yid uid) w = (r, w')"
  shows "phase_of w' xid = phase_of w xid \<or> phase_step uid (phase_of w xid) (phase_of w' xid)"
proof (cases "find_exchange w yid")
  case (Some x)
  show ?thesis
    using assms(2) Some
    by (cases "xid = yid")
      (auto simp: run_exchange_get_body [OF assms(1)] phase_of_def row_map_delete
        intro: phase_step.Deliver split: if_splits)
qed (use assms(2) in \<open>auto simp: run_exchange_get_body [OF assms(1)] phase_of_def\<close>)

lemma phase_of_tick [simp]: "phase_of (tick_time w) xid = phase_of w xid"
  by (simp add: phase_of_def)

lemma run_mapP_D: "run (mapP f m) w = (r, w') \<Longrightarrow> \<exists>r0. run m w = (r0, w')"
  by (cases "run m w"; cases "fst (run m w)") (auto simp: run_mapP)

lemma guarded_phase:
  assumes "jwt_guarded E A handler body" and "clock_ok E" and "run (handler h) w = (r, w')"
    and "\<And>uid w r w'. run (body uid) w = (r, w') \<Longrightarrow>
      phase_of w' xid = phase_of w xid \<or> phase_step uid (phase_of w xid) (phase_of w' xid)"
  shows "phase_of w' xid = phase_of w xid \<or>
     (\<exists>cl. caller E A h w = Some cl \<and> phase_step (c_sub cl) (phase_of w xid) (phase_of w' xid))"
proof (cases "caller E A h w")
  case None
  with jwt_guarded.rejected [OF assms(1,2) None assms(3)] have "state_of w' = state_of w" by simp
  then have "pending_exchanges w' = pending_exchanges w" by (cases w; cases w') simp
  then show ?thesis by (simp add: phase_of_def)
next
  case (Some cl)
  with assms(3) have "run (body (c_sub cl)) (tick_time w) = (r, w')"
    by (simp add: jwt_guarded.accepted [OF assms(1,2)])
  from assms(4) [OF this] Some show ?thesis by simp
qed

section \<open>Refinement\<close>

text \<open>Property C6. The key exchange handlers implement the abstract protocol: whatever request the
  server handles, each exchange either keeps its phase or makes one step of the protocol in the
  name of the authenticated caller, that is an offer by its initiator, an answer to it by its
  responder, or the delivery of a complete exchange to its initiator, which forgets it.\<close>

theorem exchange_refines_protocol:
  assumes "no_faults E" and "clock_ok E" and "run (route E A req) w = (r, w')"
  shows "phase_of w' xid = phase_of w xid \<or>
     (\<exists>h cl. jwt_headers req = Some h \<and> caller E A h w = Some cl \<and>
        phase_step (c_sub cl) (phase_of w xid) (phase_of w' xid))"
proof -
  show ?thesis
  proof (cases req)
    case (Initiate h q)
    with assms(3) run_mapP_D obtain r0 where "run (initiate E A h q) w = (r0, w')" by fastforce
    from guarded_phase [OF initiate_endpoint.jwt_guarded_axioms assms(2) this initiate_phase [OF assms(1,2)]] Initiate
    show ?thesis by simp
  next
    case (ExchangeGet h yid)
    with assms(3) run_mapP_D obtain r0 where "run (exchange_get E A h yid) w = (r0, w')" by fastforce
    from guarded_phase [OF exchange_get_endpoint.jwt_guarded_axioms assms(2) this exchange_get_phase [OF assms(1)]] ExchangeGet
    show ?thesis by simp
  next
    case (Respond h yid key)
    with assms(3) run_mapP_D obtain r0 where "run (respond E A h yid key) w = (r0, w')" by fastforce
    from guarded_phase [OF respond_endpoint.jwt_guarded_axioms assms(2) this respond_phase [OF assms(1)]] Respond
    show ?thesis by simp
  qed (use assms(3) in \<open>auto dest!: run_mapP_D leaves_exchangesD simp: phase_of_def\<close>)
qed

theorem exchange_refines_protocol_witness:
  "\<exists>r w'. run (route ex_ext ex_app (Respond (ex_headers ex_claims) ''x'' (ex_b64 ex_key))) ex_exchanging = (r, w') \<and>
     phase_step ''alice'' (phase_of ex_exchanging ''x'') (phase_of w' ''x'')"
proof -
  let ?q = "Respond (ex_headers ex_claims) ''x'' (ex_b64 ex_key)"
  obtain r w' where p: "run (route ex_ext ex_app ?q) ex_exchanging = (r, w')" by fastforce
  have "run (respond ex_ext ex_app (ex_headers ex_claims) ''x'' (ex_b64 ex_key)) ex_exchanging =
      run (respond_body ex_ext ex_app ''x'' (ex_b64 ex_key) ''alice'') (tick_time ex_exchanging)"
    by (simp add: respond_endpoint.accepted [OF ex_laws(4) caller_ex_users(1)])
  moreover obtain t where "notify_topic ex_ext ex_app (x_initiator_id ex_exchange) = Ok t"
    using notify_topic_total [OF ex_laws(6)] by blast
  ultimately have "phase_of w' ''x'' \<noteq> phase_of ex_exchanging ''x''"
    using p
    by (auto simp: run_mapP run_respond_body [OF ex_laws(5)] run_publish_system phase_of_def row_map_update
        ex_exchange_def Let_def)
  with exchange_refines_protocol [OF ex_laws(5,4) p, of "''x''"] p show ?thesis
    by (auto simp: caller_ex_users(1))
qed

end
