(* ===== verification/Sessions.thy ===== *)
theory Sessions
  imports System
begin

text \<open>
  The life of a broker session among all other tasks.  The only tasks that touch the session of a
  client are the authentication and the disconnection of that client id; every other request,
  broker event and purge tick leaves it alone at each of its atomic actions (\<open>steady\<close>), so that
  what the client may subscribe to is fixed between the two, whatever happens meanwhile.
\<close>

text \<open>The events that concern the session of a client id, and the tasks of all others.\<close>

definition concerns :: "string \<Rightarrow> parameter \<Rightarrow> bool" where
  "concerns cid param =
     (case param of
        ClientAuthenticate info \<Rightarrow> ci_client_id info = cid
      | ClientDisconnected c _ \<Rightarrow> c = cid
      | _ \<Rightarrow> False)"

definition other_tasks :: "ext \<Rightarrow> app_state \<Rightarrow> string \<Rightarrow> (world, error, task_result) prog set" where
  "other_tasks E A cid =
     {mapP HttpDone (route E A req) | req. True} \<union>
     {mapP HookDone (hook E A param acc) | param acc. \<not> concerns cid param} \<union>
     {mapP (\<lambda>_. PurgeDone) (purge_tick E)}"

lemma other_tasks_subset: "other_tasks E A cid \<subseteq> tasks E A"
  unfolding other_tasks_def tasks_def by blast

section \<open>Who leaves a session alone\<close>

abbreviation session_of :: "string \<Rightarrow> world \<Rightarrow> claims option" where
  "session_of cid w \<equiv> sessions w cid"

lemma steady_sql:
  assumes "\<And>w x w'. stmt w = Inr (x, w') \<Longrightarrow> sessions w' = sessions w"
  shows "steady (session_of cid) (sql E stmt)"
  unfolding sql_def Let_def
  by (rule steady_act) (auto dest!: assms split: option.splits sum.splits)

lemma steady_oracles:
  "steady (session_of cid) (clock_read E)" "steady (session_of cid) (new_uuid E)"
  "steady (session_of cid) (random_bytes E n)" "steady (session_of cid) (new_client E)"
  "steady (session_of cid) (post_json E url b)" "steady (session_of cid) (publish_system A t pl)"
  "steady (session_of cid) (kick_device A d)" "steady (session_of cid) (sessions_get c)"
  "steady (session_of cid) (challenges_insert k v)" "steady (session_of cid) (challenges_remove k)"
  unfolding clock_read_def new_uuid_def random_bytes_def new_client_def post_json_def
    publish_system_def kick_device_def dm_get_def dm_insert_def dm_remove_def Let_def
  by (rule steady_act; auto)+

lemma steady_other_client:
  "c \<noteq> cid \<Longrightarrow> steady (session_of cid) (sessions_insert c cl)"
  "c \<noteq> cid \<Longrightarrow> steady (session_of cid) (sessions_remove c)"
  unfolding dm_insert_def dm_remove_def by (rule steady_act; auto)+

lemma steady_unix_now: "steady (session_of cid) (unix_now E)"
  unfolding unix_now_def by (auto intro!: steady_bindP steady_oracles split: option.splits)

lemmas steady_rules = steady_bindP steady_attempt steady_foreach steady_outcome steady_prod
  steady_final steady_oracles steady_unix_now

lemma steady_db:
  "steady (session_of cid) (create_user E)" "steady (session_of cid) (get_user E uid)"
  "steady (session_of cid) (invalidate_tokens E uid)" "steady (session_of cid) (set_suspended E uid b reason)"
  "steady (session_of cid) (create_device E uid key)" "steady (session_of cid) (get_device_by_user E uid)"
  "steady (session_of cid) (create_relationship E uid pid ps ss)"
  "steady (session_of cid) (list_relationships E uid)" "steady (session_of cid) (get_relationship E uid rid)"
  "steady (session_of cid) (delete_relationship E uid rid)" "steady (session_of cid) (user_topics E uid)"
  "steady (session_of cid) (create_exchange E iid rid key)" "steady (session_of cid) (get_exchange E xid)"
  "steady (session_of cid) (set_responder_pubkey E xid key)" "steady (session_of cid) (delete_exchange E xid)"
  "steady (session_of cid) (purge_expired_exchanges E)"
  "steady (session_of cid) (create_registration_token E h n m)"
  "steady (session_of cid) (consume_registration_token E h)"
  unfolding create_user_def get_user_def invalidate_tokens_def set_suspended_def create_device_def
    get_device_by_user_def create_relationship_def list_relationships_def get_relationship_def
    delete_relationship_def user_topics_def create_exchange_def get_exchange_def
    set_responder_pubkey_def delete_exchange_def purge_expired_exchanges_def
    create_registration_token_def consume_registration_token_def Let_def
  by (auto intro!: steady_rules steady_sql simp: bindS_Inr_iff)

lemma steady_jwt:
  "steady (session_of cid) (jwt_verify E keys token)" "steady (session_of cid) (issue E keys u d ttl ps ss n)"
  "steady (session_of cid) (auth_user E A h)" "steady (session_of cid) (kick_user E A uid)"
  unfolding jwt_verify_def issue_def auth_user_def kick_user_def Let_def
  by (auto intro!: steady_rules steady_db simp del: str_from_prefix split: sum.splits)

lemma steady_public:
  "steady (session_of cid) (register E A req)" "steady (session_of cid) (challenge E uid)"
  "steady (session_of cid) (verify E A vreq)"
  unfolding register_def check_policy_def validate_via_hook_def challenge_def verify_def Let_def
  by (auto intro!: steady_rules steady_db steady_jwt
      split: registration_mode.splits option.splits policy_kind.splits sum.splits bool.splits)

lemma steady_guarded:
  "steady (session_of cid) (initiate E A h ireq)" "steady (session_of cid) (exchange_get E A h xid)"
  "steady (session_of cid) (respond E A h xid key)" "steady (session_of cid) (create E A h creq)"
  "steady (session_of cid) (list_handler E A h)" "steady (session_of cid) (revoke E A h rid)"
  "steady (session_of cid) (admin_create_token E A h treq)"
  "steady (session_of cid) (suspend_user E A h uid reason)" "steady (session_of cid) (unsuspend_user E A h uid)"
  unfolding initiate_def initiate_body_def exchange_get_def exchange_get_body_def respond_def
    respond_body_def create_def create_body_def list_handler_def list_body_def revoke_def
    revoke_body_def admin_create_token_def create_token_body_def suspend_user_def suspend_body_def
    unsuspend_user_def unsuspend_body_def Let_def
  by (auto intro!: steady_rules steady_db steady_jwt)

lemma steady_hook: "\<not> concerns cid param \<Longrightarrow> steady (session_of cid) (hook E A param acc)"
  unfolding hook_def authenticate_def check_subscribe_acl_def concerns_def Let_def
  by (auto intro!: steady_rules steady_db steady_jwt steady_other_client
      split: parameter.splits option.splits sum.splits)

lemma steady_other_tasks:
  assumes "p \<in> other_tasks E A cid"
  shows "steady (session_of cid) p"
proof -
  have m: "steady (session_of cid) (mapP f q)" if "steady (session_of cid) q"
    for f and q :: "(world, error, 'x) prog"
    unfolding mapP_def by (intro steady_bindP that steady_final)
  have "steady (session_of cid) (route E A req)" for req
    by (cases req) (simp_all add: m steady_public steady_guarded)
  moreover have "steady (session_of cid) (purge_tick E)"
    unfolding purge_tick_def by (intro steady_bindP steady_attempt steady_db steady_final)
  ultimately show ?thesis
    using assms by (auto simp: other_tasks_def intro!: m steady_hook)
qed

lemma session_kept:
  assumes "reaches (other_tasks E A cid) (ts, w) (ts', w')" and "\<forall>p \<in> set ts. steady (session_of cid) p"
  shows "session_of cid w' = session_of cid w" and "\<forall>p \<in> set ts'. steady (session_of cid) p"
  using steady_reaches [OF assms(1) steady_other_tasks] assms(2) by simp_all

lemma run_admitting:
  assumes "no_faults E" and "clock_ok E"
    and "run (hook E A (ClientAuthenticate info) acc) w = (Ok (False, Some (AuthResult (Allow False None))), w')"
    and "ci_password info = Some pw" and "from_utf8 pw = Some token"
    and "jwt_decode E (decoding (st_jwt_keys A)) (time_at E (time_reads w)) token = Some cl"
  shows "sessions w' = (sessions w)(ci_client_id info \<mapsto> cl)"
proof -
  from assms(3) have r: "run (authenticate E A info acc) w = (Ok (False, Some (AuthResult (Allow False None))), w')"
    by (simp add: hook_def)
  note a = run_authenticate [OF assms(1,2) r]
  then have "admitted E A w info \<noteq> None" by (cases "admitted E A w info") (simp_all add: deny_def)
  then have "admitted E A w info = Some cl"
    using assms(4-6) by (auto simp: admitted_def bind_eq_Some_conv split: if_splits)
  with a(2) have "state_of w' = state_of (w\<lparr>sessions := (sessions w)(ci_client_id info \<mapsto> cl)\<rparr>)" by simp
  from sessions_state_of [OF this] show ?thesis by simp
qed

lemma run_disconnecting:
  "run (hook E A (ClientDisconnected cid reason) acc) w = (r, w') \<Longrightarrow> sessions w' = (sessions w)(cid := None)"
  by (auto simp: hook_def exec)

section \<open>Properties\<close>

text \<open>Property C8. From the moment a connection is admitted until the disconnection of that client id,
  whatever other requests, broker events and purge ticks run meanwhile, in any interleaving and
  also those already under way, exactly the filters of the presented token's subscription list
  are allowed to the client: not even a suspension, a revocation or another client's login
  changes that.  From the disconnection until the client id is authenticated again no filter is
  allowed.\<close>

theorem session_lifecycle:
  assumes "no_faults E" and "clock_ok E" and "cid = ci_client_id info"
    and "reaches (other_tasks E A cid) ([], w0) (ts, w)"
    and "run (hook E A (ClientAuthenticate info) acc) w = (Ok (False, Some (AuthResult (Allow False None))), w1)"
    and "ci_password info = Some pw" and "from_utf8 pw = Some token"
    and "jwt_decode E (decoding (st_jwt_keys A)) (time_at E (time_reads w)) token = Some cl"
    and "reaches (other_tasks E A cid) (ts, w1) (ts', w2)"
    and "run (hook E A (ClientDisconnected cid reason) acc') w2 = (r, w3)"
    and "reaches (other_tasks E A cid) (ts', w3) (ts'', w4)"
  shows "fst (run (hook E A (ClientSubscribeCheckAcl cid sub) acc'') w2) =
       Ok (if s_topic_filter sub \<in> set (c_sub_topics cl)
           then (True, Some (SubscribeAclResult (AclSuccess (s_qos sub) None)))
           else (False, Some (SubscribeAclResult (AclFailure ''NotAuthorized'')))) \<and>
     fst (run (hook E A (ClientSubscribeCheckAcl cid sub) acc'') w4) =
       Ok (False, Some (SubscribeAclResult (AclFailure ''NotAuthorized'')))"
proof -
  note t = session_kept(2) [OF assms(4), simplified]
  have "sessions w1 cid = Some cl" using run_admitting [OF assms(1,2,5-8)] assms(3) by simp
  with session_kept(1) [OF assms(9) t] have "sessions w2 cid = Some cl" by simp
  moreover have "sessions w3 cid = None" using run_disconnecting [OF assms(10)] by simp
  with session_kept(1) [OF assms(11) session_kept(2) [OF assms(9) t]] have "sessions w4 cid = None" by simp
  ultimately show ?thesis by (simp add: hook_def run_check_subscribe_acl)
qed

theorem session_lifecycle_witness:
  "\<exists>r w1 ts w2 w3. run (hook ex_ext ex_app (ClientAuthenticate ex_connect) None) ex_world = (r, w1) \<and>
     reaches (other_tasks ex_ext ex_app ''phone'') ([], w1) (ts, w2) \<and>
     find_user w2 ''alice'' = Some (ex_user\<lparr>u_suspended := True, u_tokens_valid_from := 1000\<rparr>) \<and>
     fst (run (hook ex_ext ex_app (ClientSubscribeCheckAcl ''phone'' \<lparr>s_topic_filter = ''down'', s_qos = AtLeastOnce\<rparr>) None) w2)
       = Ok (True, Some (SubscribeAclResult (AclSuccess AtLeastOnce None)))"
proof -
  let ?Q = "other_tasks ex_ext ex_app ''phone''"
  obtain w1 where a: "run (hook ex_ext ex_app (ClientAuthenticate ex_connect) None) ex_world =
      (Ok (False, Some (AuthResult (Allow False None))), w1)" and u1: "users w1 = users ex_world"
    using admitted_ex run_authenticate [OF ex_laws(5,4) surjective_pairing, of ex_app ex_connect None ex_world]
    by (cases "run (authenticate ex_ext ex_app ex_connect None) ex_world"; cases "snd (run (authenticate ex_ext ex_app ex_connect None) ex_world)")
      (auto simp: hook_def ex_defs)
  let ?p = "mapP HttpDone (route ex_ext ex_app (Suspend ex_admin_headers ''alice'' None))"
  have e: "user_exists ''alice'' w1" by (simp add: user_exists_find u1)
  obtain w2 where p: "run ?p w1 = (Ok (HttpDone (StatusResp NO_CONTENT)), w2)"
    and u2: "find_user w2 ''alice'' = Some (ex_user\<lparr>u_suspended := True, u_tokens_valid_from := 1000\<rparr>)"
    by (simp add: run_mapP suspend_endpoint.accepted [OF admin_ok_ex] run_suspend_body [OF ex_laws(5,4) e]
        row_map_update u1) (simp add: ex_user_def)
  have "?p \<in> ?Q" unfolding other_tasks_def by blast
  note q = reaches_task [OF this p, of "[]"]
  obtain r w3 where d: "run (hook ex_ext ex_app (ClientDisconnected ''phone'' ''bye'') None) w2 = (r, w3)" by fastforce
  have "ci_client_id ex_connect = ''phone''" "ci_password ex_connect = Some (as_bytes ex_bearer)"
    by (simp_all add: ex_connect_def)
  moreover have "jwt_decode ex_ext (decoding (st_jwt_keys ex_app)) (time_at ex_ext (time_reads ex_world)) ex_bearer = Some ex_claims"
    using ex_bearer_decodes [OF ex_claims_live(1)] by (simp add: ex_app_def del: ex_ext_simps)
  ultimately have "fst (run (hook ex_ext ex_app (ClientSubscribeCheckAcl ''phone'' \<lparr>s_topic_filter = ''down'', s_qos = AtLeastOnce\<rparr>) None) w2)
       = Ok (True, Some (SubscribeAclResult (AclSuccess AtLeastOnce None)))"
    using session_lifecycle [OF ex_laws(5,4) _ reaches.Refl a _ ex_bearer_utf8 _ q d reaches.Refl]
    by (simp add: ex_claims_def)
  with a q u2 show ?thesis by blast
qed

end
