(* ===== verification/Spec2Isabelle.thy ===== *)
theory Spec2Isabelle
  imports Races Exchange_Spec Sessions
begin

text \<open>
  SMQTT: a verification development of the server under \<open>src/src\<close>.

  \<^bold>\<open>The program.\<close>  SMQTT is an MQTT broker (the library rmqtt, embedded) behind a layer of accounts:
  a REST interface registers users and devices, logs devices in by a signed challenge, brokers
  the exchange of ephemeral public keys between two users and manages relationships, which are
  grants of topics; a login yields a JWT that lists the granted topics.  A hook in the broker
  admits a connection by its JWT and checks each subscription against it.  An administrator can
  issue registration tokens and suspend users.  All parts share one state: an SQLite database, a
  map of pending challenges, a map of the sessions' claims, and the handle of the broker.

  \<^bold>\<open>Foundations.\<close>  \<open>Prelude\<close> has the machine integers (\<open>u64\<close> as a 64-bit word, the casts to \<open>i64\<close>,
  checked and unchecked addition), outcomes (success, error, panic), UTF-8 and string operations.
  \<open>Async\<close> has the execution model: a handler is a \<open>prog\<close>, a tree of atomic actions on the shared
  state; \<open>run\<close> executes one alone, \<open>sys_step\<close> and \<open>reaches\<close> interleave any number of them.  It also
  has the frame predicates \<open>leaves\<close> (of a whole run) and \<open>steady\<close> (of every atomic action), the
  rely/guarantee logic \<open>rg\<close> with the locale \<open>rg_system\<close>, and \<open>calm\<close>, the absence of panics.  \<open>Tables\<close> has the SQL statements on lists of rows and the locale
  \<open>keyed_table\<close>, the view of a table as a finite map, interpreted for each of the five tables.
  \<open>Externals\<close> collects all code outside the repository in the parameter record \<open>ext\<close> (HMAC,
  base64, JSON, JWT, Ed25519, HTTP client, clock, random generator, UUIDs, database faults) with
  the laws that theorems assume of it as named predicates.  Where the code unwraps the result of
  a library function, or the library documents a panic, the parameter can fail and the panic is
  an outcome of the model (the HMAC key, JSON serialisation, the HTTP client, the random source); \<open>Instance\<close> is a concrete instance that
  satisfies all of them, and \<open>Examples\<close> a concrete state, for the witnesses.

  \<^bold>\<open>Components.\<close>  Each theory models one source file, with the names of the source.
  \<^item> \<open>Errors\<close>: \<open>error.rs\<close>, the error type and its HTTP responses.
  \<^item> \<open>Config\<close>: \<open>config.rs\<close>, merging, deserialising and validating the settings.
  \<^item> \<open>Crypto\<close>: \<open>crypto.rs\<close>, issuing and verifying JWTs, notification topics, the clock.
  \<^item> \<open>Database\<close>: \<open>db/mod.rs\<close> and the migrations; one definition for each function.
  \<^item> \<open>State\<close>: \<open>state.rs\<close>; \<open>app_state\<close> is the immutable part, \<open>world\<close> the shared mutable state with
    the calls handed to the broker; the locale \<open>dash_map\<close> is the contract of the concurrent maps.
  \<^item> \<open>Broker\<close>: \<open>broker/auth_hook.rs\<close> and \<open>broker/mod.rs\<close>, the hook, system messages, kicks.
  \<^item> \<open>Api_Extractors\<close>: \<open>api/extractors.rs\<close> and the guard of \<open>api/admin.rs\<close>; the locales \<open>jwt_guarded\<close>
    and \<open>admin_guarded\<close> are the contracts of guarded endpoints, interpreted for all nine.
  \<^item> \<open>Api_Register\<close>, \<open>Api_Auth\<close>, \<open>Api_Exchange\<close>, \<open>Api_Relationships\<close>, \<open>Api_Admin\<close>: the handlers of
    the files of the same names; \<open>Api_Router\<close>: \<open>api/mod.rs\<close>, the route table and the dispatch.
  \<^item> \<open>Main_Program\<close>: \<open>main.rs\<close>, the command line, the start, the purge task.
  \<^item> \<open>Exchange_Spec\<close>: the key exchange as an abstract protocol and the refinement proof.
  \<^item> \<open>Invariant\<close> and \<open>System\<close>: the invariant of the shared state, the guarantee of each atomic action,
    and the whole server as the interleaving of all its tasks; \<open>Sessions\<close>: the life of one broker
    session among all other tasks; \<open>Races\<close>: interleavings that break what each handler alone
    ensures.

  \<^bold>\<open>What is proved.\<close>  Each component theory ends with its properties: the exact behaviour of the
  handlers on every branch, errors included; round trips (tokens, relationships); bounds (uses of
  a registration token, expiry arithmetic); refinement of the user table to a map and of the
  exchange handlers to their protocol; equivalence of the argument parser with a declarative
  reading.  \<open>System\<close> shows, for every interleaving of any number of handlers and any pattern of
  database faults, the invariant, what no step undoes and, under the documented behaviour of the
  libraries, the absence of panics; \<open>Sessions\<close> shows that what a client may subscribe to is fixed by
  its token from admission to disconnection, whatever else runs; \<open>Races\<close> exhibits
  three interleavings in which a check has become stale when the code acts on it (two answers to
  one exchange, a suspension during a connection, a revocation during a login).  The properties
  below combine components: a login from challenge to subscription, a registration token from
  its creation to its refusal, and how far a suspension reaches.  Properties that hold only without
  faults assume \<open>no_faults\<close> (no failing statement, a working random source); those that read the
  clock assume \<open>clock_ok\<close>, a clock past the epoch; those that need the notification topic of a user
  to exist assume \<open>hmac_law\<close>, or name the topic.

  \<^bold>\<open>Bounds.\<close>  No definition uses fuel: handlers are well-founded trees and every loop of the code
  runs over a list.  The endless purge loop is modelled by its tick and by \<open>purge_loop\<close>, the loop
  cut after any number of ticks.

  \<^bold>\<open>Approximation.\<close>  \<open>jwt_verify\<close> reads the clock before the token is decoded; the JWT library reads it
  during the expiry check.  The two differ only for a clock before the epoch, where the model
  panics also for tokens the library refuses earlier.

  \<^bold>\<open>Not modelled.\<close>  The libraries (rmqtt, axum, sqlx, tokio, jsonwebtoken and the other crates)
  except as parameters; matching of paths and deserialisation of request bodies, which axum does
  before a handler runs; sockets, logging and the help text; the table \<open>recovery_codes\<close>, which no
  code uses; the repository's tests, its Python example clients and its shell scripts.
\<close>

section \<open>Properties that span components\<close>

text \<open>Property C2. Logging in works end to end: a user that is not suspended asks for a challenge, one
  of the user's devices signs the nonce and sends the signature within the minute, and receives a
  token.  Presented by that device to the broker during its lifetime, with no kick in between,
  the token is admitted, and then exactly the user's notification topic and the subscription
  topics of the user's relationships at the time of the login are allowed to the device.\<close>

theorem login_end_to_end:
  assumes "no_faults E" and "clock_ok E" and "b64_law E" and "jwt_law E"
    and "decoding (st_jwt_keys A) = encoding (st_jwt_keys A)"
    and "\<And>n. unat (time_at E n) < 2 ^ 62" and "unat (ttl_seconds (jwt (st_config A))) < 2 ^ 62"
    and "find_user w uid = Some u" and "\<not> u_suspended u"
    and "pk d_device_id (devices w)" and "d \<in> set (devices w)" and "d_user_id d = uid"
    and "length (d_pubkey d) = 32" and "ed25519_key E (d_pubkey d)"
    and "run (challenge E uid) w = (r1, w1)"
    and "length sig = 64" and "\<And>nonce. r1 = Ok (b64_encode E nonce) \<Longrightarrow> ed25519_verify E (d_pubkey d) nonce sig"
    and "unat (time_at E (time_reads w1)) \<le> unat (time_at E (time_reads w)) + 60"
    and "u_tokens_valid_from u \<le> as_i64 (time_at E (Suc (time_reads w1)))"
    and "run (verify E A \<lparr>v_user_id = uid, v_device_id = d_device_id d, v_signature = b64_encode E sig\<rparr>) w1 = (r2, w2)"
    and "jwt_encode E (encoding (st_jwt_keys A)) (login_claims E A w uid (d_device_id d) ntopic
          (time_at E (Suc (time_reads w1)))) = Inr token" and "from_utf8 (as_bytes token) = Some token"
    and "find_user wc uid = Some u"
    and "unat (time_at E (time_reads wc)) \<le>
          unat (time_at E (Suc (time_reads w1))) + unat (ttl_seconds (jwt (st_config A))) + 60"
    and "notify_topic E A uid = Ok ntopic"
  shows "r2 = Ok token \<and>
     (\<forall>r w4. run (authenticate E A \<lparr>ci_client_id = d_device_id d, ci_password = Some (as_bytes token)\<rparr> acc) wc = (r, w4) \<longrightarrow>
        r = Ok (False, Some (AuthResult (Allow False None))) \<and>
        (\<forall>sub. fst (run (check_subscribe_acl (d_device_id d) sub acc) w4) =
           Ok (if s_topic_filter sub = ntopic \<or>
                  (\<exists>rel \<in> set (relationships_of w uid). s_topic_filter sub \<in> set (topics_of_json E (r_subscribe_topics rel)))
               then (True, Some (SubscribeAclResult (AclSuccess (s_qos sub) None)))
               else (False, Some (SubscribeAclResult (AclFailure ''NotAuthorized''))))))"
proof -
  let ?nonce = "map (rand_byte E (rng_draws w)) [0..<32]" and ?now = "time_at E (Suc (time_reads w1))"
  let ?req = "\<lparr>v_user_id = uid, v_device_id = d_device_id d, v_signature = b64_encode E sig\<rparr>"
  let ?ttl = "ttl_seconds (jwt (st_config A))" and ?cl = "login_claims E A w uid (d_device_id d) ntopic (time_at E (Suc (time_reads w1)))"
  have c60: "unat CHALLENGE_TTL_SECS = 60" by (simp add: CHALLENGE_TTL_SECS_def)
  have "add_fits (overflow_checks E) (time_at E (time_reads w)) CHALLENGE_TTL_SECS"
    using assms(6) [of "time_reads w"] by (intro add_fits_small) (simp add: c60)
  from assms(15) run_challenge [OF assms(1,2,8) this]
  have r1: "r1 = Ok (b64_encode E ?nonce)"
    and w1: "challenges w1 uid = Some (?nonce, time_at E (time_reads w) + CHALLENGE_TTL_SECS)"
      "users w1 = users w" "devices w1 = devices w" "relationships w1 = relationships w"
    by (auto simp: Let_def)
  have fits: "add_fits (overflow_checks E) ?now ?ttl"
    using assms(6) [of "Suc (time_reads w1)"] assms(7) by (intro add_fits_small) simp
  have live: "time_at E (time_reads w1) \<le> time_at E (time_reads w) + CHALLENGE_TTL_SECS"
    using assms(18) assms(6) [of "time_reads w"] by (simp add: word_le_nat_alt unat_add_less c60)
  note tok = assms(21,22)
  have cl: "login_claims E A w1 uid (d_device_id d) ntopic ?now = ?cl"
    by (simp add: login_claims_def w1)
  have "r2 = Ok token"
    using verify_Ok [OF assms(1,2) _ fits assms(20), of token] w1 assms(8-14,16) live tok(1) cl
      b64_decode_encode [OF assms(3)] assms(17) [OF r1] assms(25)
    by auto
  moreover have "jwt_live (time_at E (time_reads wc)) ?cl"
    using assms(24) assms(6) [of "Suc (time_reads w1)"] assms(7) by (simp add: jwt_live_def login_claims_def unat_add_less)
  then have "jwt_decode E (decoding (st_jwt_keys A)) (time_at E (time_reads wc)) token = Some ?cl"
    using assms(4,5) tok(1) unfolding jwt_law_def by simp
  then have adm: "admitted E A wc \<lparr>ci_client_id = d_device_id d, ci_password = Some (as_bytes token)\<rparr> = Some ?cl"
    using tok(2) assms(9,19,23) by (simp add: admitted_def login_claims_def)
  have "r = Ok (False, Some (AuthResult (Allow False None))) \<and> sessions w4 (d_device_id d) = Some ?cl"
    if "run (authenticate E A \<lparr>ci_client_id = d_device_id d, ci_password = Some (as_bytes token)\<rparr> acc) wc = (r, w4)" for r w4
    using run_authenticate [OF assms(1,2) that] adm sessions_state_of [of w4 "wc\<lparr>sessions := (sessions wc)(d_device_id d \<mapsto> ?cl)\<rparr>"]
    by simp
  ultimately show ?thesis
    by (auto simp: run_check_subscribe_acl login_claims_def)
qed

theorem login_end_to_end_witness:
  "\<exists>r1 w1 r2 w2 w4 token. run (challenge ex_ext ''alice'') ex_world = (r1, w1) \<and>
     run (verify ex_ext ex_app \<lparr>v_user_id = ''alice'', v_device_id = ''phone'',
         v_signature = b64_encode ex_ext (ex_key @ replicate 32 7)\<rparr>) w1 = (Ok token, w2) \<and>
     run (authenticate ex_ext ex_app \<lparr>ci_client_id = ''phone'', ci_password = Some (as_bytes token)\<rparr> None) w2 =
       (Ok (False, Some (AuthResult (Allow False None))), w4)"
proof -
  let ?rq = "\<lparr>v_user_id = ''alice'', v_device_id = ''phone'', v_signature = b64_encode ex_ext (ex_key @ replicate 32 7)\<rparr>"
  obtain r1 w1 where c: "run (challenge ex_ext ''alice'') ex_world = (r1, w1)" by fastforce
  obtain r2 w2 where v: "run (verify ex_ext ex_app ?rq) w1 = (r2, w2)" by fastforce
  have n: "replicate 32 7 = map (rand_byte ex_ext (rng_draws ex_world)) [0..<32]"
    using map_replicate_const [of "7 :: u8" "[0..<32]"] by (simp add: fun_eq_iff cong: map_cong)
  have r1: "r1 = Ok (b64_encode ex_ext (replicate 32 7))" and u1: "users w1 = users ex_world"
    using c run_challenge [OF ex_laws(5,4) find_user_ex(1)] unfolding n by (auto simp: Let_def add_fits_def)
  have "users w2 = users w1"
    using verify_state [of ex_ext ex_app ?rq w1] v by (cases w1; cases w2) simp
  with u1 have u2: "find_user w2 ''alice'' = Some ex_user" by simp
  let ?cl = "login_claims ex_ext ex_app ex_world ''alice'' ''phone'' ''test-notify-secretnotify:alice'' (time_at ex_ext (Suc (time_reads w1)))"
  obtain token where t: "jwt_encode ex_ext (encoding (st_jwt_keys ex_app)) ?cl = Inr token"
    by (simp add: ex_jwt_encode_def)
  have utf: "from_utf8 (as_bytes token) = Some token"
    using t by (intro ex_jwt_ascii) (auto simp: login_claims_def ex_defs select_rows_def)
  have d: "ex_device \<in> set (devices ex_world)" "pk d_device_id (devices ex_world)" by (simp_all add: ex_world_def pk_def)
  have sig: "ed25519_verify ex_ext (d_pubkey ex_device) nonce (ex_key @ replicate 32 7)"
    if "r1 = Ok (b64_encode ex_ext nonce)" for nonce
    using that r1 b64_encode_inj [OF ex_laws(1)] by (simp add: ex_device_def)
  obtain r3 w4 where a: "run (authenticate ex_ext ex_app
      \<lparr>ci_client_id = ''phone'', ci_password = Some (as_bytes token)\<rparr> None) w2 = (r3, w4)" by fastforce
  have dev: "d_device_id ex_device = ''phone''" by (simp add: ex_device_def)
  note L = login_end_to_end [where A = ex_app and d = ex_device and uid = "''alice''" and sig = "ex_key @ replicate 32 7"
      and acc = None and u = ex_user and wc = w2 and token = token, OF ex_laws(5,4,1,3) _ _ _ find_user_ex(1) _ d(2,1) _ _ _ c _ sig]
  have "r2 = Ok token \<and> r3 = Ok (False, Some (AuthResult (Allow False None)))"
    using L [of r2 w2] v t a utf u2 ex_notify_topic unfolding dev
    by (simp add: ex_user_def ex_device_def) (simp add: ex_app_def ex_config_def)
  with c v a show ?thesis by blast
qed

text \<open>Property C16. A registration token that an administrator creates for one use admits one
  registration: presented within its lifetime with a valid key it registers a user, also after
  the two halves of the program hashed it separately, and a second registration with it is
  forbidden and creates nothing.\<close>

theorem admin_token_registers:
  assumes "no_faults E" and "clock_ok E" and "admin_ok E A h" and "push_mode A"
    and "run (admin_create_token E A h treq) w = (Ok token, w1)" and "max_uses treq = 1"
    and "\<forall>t \<in> set (registration_tokens w). Ok (t_token_hash t) \<noteq> admin_token_hash E token"
    and "\<And>n. unat (time_at E n) < 2 ^ 62" and "unat (expires_in treq) < 2 ^ 62"
    and "unat (time_at E (time_reads w1)) < unat (time_at E (Suc (time_reads w))) + unat (expires_in treq)"
    and "rq_registration_token req = Some token"
    and "b64_decode E (rq_pubkey req) = Ok key" and "length key = 32" and "ed25519_key E key"
    and "find_user w1 (uuid_v4 E (uuid_draws w1)) = None"
    and "uuid_v4 E (Suc (uuid_draws w1)) \<notin> d_device_id ` set (devices w1)"
    and "run (register E A req) w1 = (r, w2)"
    and "rq_registration_token req2 = Some token" and "run (register E A req2) w2 = (r2, w3)"
  shows "(\<exists>v. r = Ok v) \<and> r2 = Err Forbidden \<and> users w3 = users w2"
proof -
  from assms(5) obtain tid h where ah: "admin_token_hash E token = Ok h"
    and c: "run (create_registration_token E h (expires_in treq) (max_uses treq)) (tick_rng w) = (Ok tid, w1)"
    using assms(1)
    by (auto simp: create_token_endpoint.accepted [OF assms(3)] create_token_body_def run_random_bytes Let_def
        split: outcome.splits prod.splits)
  let ?h = h
  have hh: "register_token_hash E token = Ok ?h"
    using ah by (simp add: admin_token_hash_def register_token_hash_def)
  from run_create_registration_token [OF assms(1,2) c] obtain row where
    row: "registration_tokens w1 = registration_tokens w @ [row]" "t_token_hash row = ?h" "t_uses row = 0"
      "t_max_uses row = 1" "t_expires_at row = as_i64 (time_at E (Suc (time_reads w)) + expires_in treq)"
    by (auto simp: assms(6))
  have "as_i64 (time_at E (time_reads w1)) < t_expires_at row"
    unfolding row(5) by (rule as_i64_less_add) (use assms(8,9,10) in simp_all)
  then have us: "token_usable ?h (as_i64 (time_at E (time_reads w1))) t \<longleftrightarrow> t = row" if "t \<in> set (registration_tokens w1)" for t
    using that row assms(7) by (auto simp: token_usable_def ah)
  note e = check_policy_push [OF assms(4) _ hh]
  obtain w1' where p: "run (check_policy E A req) w1 = (Ok (), w1')"
    and t1: "registration_tokens w1' = update_rows (token_usable ?h (as_i64 (time_at E (time_reads w1))))
        (\<lambda>t. t\<lparr>t_uses := t_uses t + 1\<rparr>) (registration_tokens w1)"
    using us row(1) assms(1,2) by (auto simp: e [OF assms(11)] run_consume_registration_token)
  have ok: "\<exists>v. r = Ok v"
    using run_register_admitted [OF assms(1,2) p assms(15,16,12-14)] assms(17) by auto
  have t2: "registration_tokens w2 = registration_tokens w1'" by (rule register_tokens(1) [OF p assms(17)])
  have un: "\<not> token_usable ?h n t" if "t \<in> set (registration_tokens w2)" for t n
    using that us row assms(7) unfolding t2 t1 set_update_rows by (auto simp: token_usable_def ah split: if_splits)
  obtain q w2' where q: "run (check_policy E A req2) w2 = (q, w2')" by fastforce
  with un assms(1,2) have "q = Err Forbidden"
    by (auto simp: e [OF assms(18)] run_consume_registration_token split: if_splits)
  with register_tokens(2) [OF q assms(19)] check_policy_frame(1) [OF q] ok show ?thesis by auto
qed

theorem admin_token_registers_witness:
  "\<exists>token w1 v w2 w3. run (admin_create_token ex_ext ex_invite_app ex_admin_headers \<lparr>ct_expires_in = None, ct_max_uses = None\<rparr>) ex_world = (Ok token, w1) \<and>
     run (register ex_ext ex_invite_app (ex_register\<lparr>rq_registration_token := Some token\<rparr>)) w1 = (Ok v, w2) \<and>
     run (register ex_ext ex_invite_app (ex_register\<lparr>rq_registration_token := Some token\<rparr>)) w2 = (Err Forbidden, w3)"
proof -
  let ?t = "\<lparr>ct_expires_in = None, ct_max_uses = None\<rparr>"
  have adm: "admin_ok ex_ext ex_invite_app ex_admin_headers"
    using admin_ok_ex by (simp add: admin_ok_def ex_invite_app_def ex_app_def)
  have z: "registration_tokens ex_world = []" by (simp add: ex_defs)
  obtain token w1 where c: "run (admin_create_token ex_ext ex_invite_app ex_admin_headers ?t) ex_world = (Ok token, w1)"
    and w1: "users w1 = users ex_world" "devices w1 = devices ex_world" "uuid_draws w1 = 1"
    by (simp add: create_token_endpoint.accepted [OF adm] create_token_body_def exec Let_def admin_token_hash_def
        create_registration_token_def z insert_row_def) (simp add: ex_defs)
  let ?rq = "ex_register\<lparr>rq_registration_token := Some token\<rparr>"
  obtain r w2 where r: "run (register ex_ext ex_invite_app ?rq) w1 = (r, w2)" by fastforce
  obtain r2 w3 where r2: "run (register ex_ext ex_invite_app ?rq) w2 = (r2, w3)" by fastforce
  have f: "find_user w1 (uuid_v4 ex_ext (uuid_draws w1)) = None"
    "uuid_v4 ex_ext (Suc (uuid_draws w1)) \<notin> d_device_id ` set (devices w1)"
    by (simp_all add: w1 ex_defs ex_id_def row_map_None)
  have "(\<exists>v. r = Ok v) \<and> r2 = Err Forbidden"
    using admin_token_registers [OF ex_laws(5,4) adm _ c _ _ _ _ _ _ _ _ _ f r _ r2, of ex_key] register_ex_key
    by (simp add: ex_invite_app_def z max_uses_def expires_in_def default_max_uses_def default_expires_in_def)
  with c r r2 show ?thesis by auto
qed

text \<open>Property C17. The scope of a suspension: in every later state in which the user's record is as
  the suspension left it, every login of the user is refused and every token of the user is
  denied by the broker, without effect; the REST interface, however, looks only at the token, so
  a token issued before still authenticates there, for example to list relationships.\<close>

theorem suspension_scope:
  assumes "no_faults E" and "clock_ok E" and "admin_ok E A h"
    and "run (suspend_user E A h uid reason) w = (Ok s, w1)" and "find_user w2 uid = find_user w1 uid"
    and "run (verify E A req) w2 = (r, w3)" and "v_user_id req = uid"
    and "ci_password info = Some pw" and "from_utf8 pw = Some token"
    and "jwt_decode E (decoding (st_jwt_keys A)) (time_at E (time_reads w2)) token = Some cl"
    and "c_sub cl = uid" and "run (authenticate E A info acc) w2 = (r', w4)"
    and "header_text E h' ''authorization'' = ''Bearer '' @ token"
    and "run (list_handler E A h') w2 = (r'', w5)"
  shows "r \<in> {Err Forbidden, Err Unauthorized} \<and> r' = Ok deny \<and> state_of w4 = state_of w2 \<and>
     r'' = Ok (map (to_response E) (relationships_of w2 uid))"
proof -
  have "user_exists uid w"
    using assms(4) suspend_unknown(1) [OF assms(1), of uid w A reason]
    by (cases "user_exists uid w") (auto simp: suspend_endpoint.accepted [OF assms(3)])
  then obtain u where u: "find_user w uid = Some u" by (auto simp: user_exists_find)
  with \<open>user_exists uid w\<close> assms(4) obtain u' where "find_user w1 uid = Some u'" and s: "u_suspended u'"
    by (auto simp: suspend_endpoint.accepted [OF assms(3)] run_suspend_body [OF assms(1,2)] row_map_update)
  with assms(5) have u2: "find_user w2 uid = Some u'" by simp
  from u2 s assms(6,7) have "r \<in> {Err Forbidden, Err Unauthorized}"
    using verify_suspended [OF assms(1,2), of w2 req u' A] by (auto split: if_splits)
  moreover from u2 s assms(8-11) have "admitted E A w2 info = None" by (simp add: admitted_def)
  moreover have "caller E A h' w2 = Some cl"
    using assms(10,13) by (simp add: caller_def Let_def starts_with_def)
  then have "r'' = Ok (map (to_response E) (relationships_of w2 uid))"
    using assms(14,11) by (auto simp: list_endpoint.accepted [OF assms(2)] run_list_body [OF assms(1)])
  ultimately show ?thesis using run_authenticate [OF assms(1,2,12)] by simp
qed

theorem suspension_scope_witness:
  "\<exists>w1 w3 w4 w5. run (suspend_user ex_ext ex_app ex_admin_headers ''alice'' None) ex_world = (Ok NO_CONTENT, w1) \<and>
     run (authenticate ex_ext ex_app ex_connect None) w1 = (Ok deny, w4) \<and>
     run (list_handler ex_ext ex_app (ex_headers ex_claims)) w1 = (Ok [], w5)"
proof -
  have "user_exists ''alice'' ex_world" by (simp add: user_exists_find)
  then obtain w1 where s: "run (suspend_user ex_ext ex_app ex_admin_headers ''alice'' None) ex_world = (Ok NO_CONTENT, w1)"
    and rel: "relationships w1 = []"
    by (simp add: suspend_endpoint.accepted [OF admin_ok_ex] run_suspend_body [OF ex_laws(5,4)]) (simp add: ex_defs)
  obtain r w3 where v: "run (verify ex_ext ex_app ex_verify) w1 = (r, w3)" by fastforce
  obtain r' w4 where a: "run (authenticate ex_ext ex_app ex_connect None) w1 = (r', w4)" by fastforce
  obtain r'' w5 where l: "run (list_handler ex_ext ex_app (ex_headers ex_claims)) w1 = (r'', w5)" by fastforce
  have pw: "ci_password ex_connect = Some (as_bytes ex_bearer)" by (simp add: ex_connect_def)
  have jd: "jwt_decode ex_ext (decoding (st_jwt_keys ex_app)) (time_at ex_ext (time_reads w1)) ex_bearer = Some ex_claims"
    using ex_bearer_decodes [OF ex_claims_live(1)] by (simp add: ex_app_def del: ex_ext_simps)
  have h: "header_text ex_ext (ex_headers ex_claims) ''authorization'' = ''Bearer '' @ ex_bearer"
    by (simp add: header_text_def ex_headers_def ex_bearer_def ex_claims_def ex_jwt_encode_def del: as_bytes_append)
  from suspension_scope [OF ex_laws(5,4) admin_ok_ex s refl v _ pw ex_bearer_utf8 jd _ a h l]
  have "r' = Ok deny \<and> r'' = Ok []" by (simp add: ex_verify_def rel select_rows_def)
  with s a l show ?thesis by blast
qed

end
